(* ===== verification/Prelude.thy ===== *)
theory Prelude
  imports Main
begin

text \<open>
  Shared vocabulary of the development.

  Part 1: relational tables.  The program keeps all state in SQLite tables; a table is a list
  of rows in rowid order.  \<open>find_row\<close> is \<open>SELECT ... WHERE id = ?\<close>, \<open>update_rows\<close> is
  \<open>UPDATE ... WHERE p\<close> and \<open>row_count\<close> is the cursor's \<open>rowcount\<close> of that statement.

  Part 2: fallible stateful actions.  An action maps a state to an error or a value, and the
  state it leaves behind.  As in Python, a raised exception keeps the writes made so far;
  only a transaction (defined with the stores) takes them back.

  Part 3: \<open>steps R m\<close>, the one-step relational specification of an action, with its rules in
  the collection \<open>steps_rules\<close>, which the component proofs share.  \<open>keeps f m\<close> is the frame
  case: \<open>m\<close> leaves the part \<open>f\<close> of the state alone.

  Part 4: \<open>wp m Q E s\<close>, the weakest precondition of an action with a postcondition for each
  outcome.  Its rules are equations in the collection \<open>wp_simps\<close>: rewriting with them runs an
  action symbolically, and what is left is a statement about the tables.
\<close>

named_theorems steps_rules \<open>introduction rules for steps\<close>
named_theorems keeps_rules \<open>introduction rules for keeps\<close>
named_theorems wp_simps \<open>equations that run an action symbolically\<close>

section \<open>Tables\<close>

definition find_row :: "('r \<Rightarrow> 'k) \<Rightarrow> 'k \<Rightarrow> 'r list \<Rightarrow> 'r option" where
  "find_row key k rs = find (\<lambda>r. key r = k) rs"

definition update_rows :: "('r \<Rightarrow> bool) \<Rightarrow> ('r \<Rightarrow> 'r) \<Rightarrow> 'r list \<Rightarrow> 'r list" where
  "update_rows p f rs = map (\<lambda>r. if p r then f r else r) rs"

definition row_count :: "('r \<Rightarrow> bool) \<Rightarrow> 'r list \<Rightarrow> nat" where
  "row_count p rs = length (filter p rs)"

definition last_row :: "('r \<Rightarrow> bool) \<Rightarrow> 'r list \<Rightarrow> 'r option" where
  "last_row p rs = find p (rev rs)"

definition unique_keys :: "('r \<Rightarrow> 'k) \<Rightarrow> 'r list \<Rightarrow> bool" where
  "unique_keys key rs = distinct (map key rs)"

lemma find_row_Nil [simp]: "find_row key k [] = None"
  by (simp add: find_row_def)

lemma find_row_Cons: "find_row key k (r # rs) = (if key r = k then Some r else find_row key k rs)"
  by (simp add: find_row_def)

lemma find_row_SomeD: "find_row key k rs = Some r \<Longrightarrow> r \<in> set rs \<and> key r = k"
  by (auto simp: find_row_def find_Some_iff)

lemma find_row_None_iff: "find_row key k rs = None \<longleftrightarrow> k \<notin> key ` set rs"
  by (auto simp: find_row_def find_None_iff)

lemma find_row_append:
  "find_row key k (rs @ qs) = (case find_row key k rs of None \<Rightarrow> find_row key k qs | Some r \<Rightarrow> Some r)"
  by (induction rs) (auto simp: find_row_Cons)

lemma find_row_unique:
  "unique_keys key rs \<Longrightarrow> r \<in> set rs \<Longrightarrow> find_row key (key r) rs = Some r"
  by (induction rs) (auto simp: find_row_Cons unique_keys_def)

lemma find_row_unique_iff:
  "unique_keys key rs \<Longrightarrow> find_row key k rs = Some r \<longleftrightarrow> r \<in> set rs \<and> key r = k"
  using find_row_unique find_row_SomeD by metis

lemma set_update_rows: "set (update_rows p f rs) = (\<lambda>r. if p r then f r else r) ` set rs"
  by (simp add: update_rows_def)

lemma in_update_rowsE:
  assumes "r \<in> set (update_rows p f rs)"
  obtains r0 where "r0 \<in> set rs" "r = (if p r0 then f r0 else r0)"
  using assms by (auto simp: set_update_rows)

lemma length_update_rows [simp]: "length (update_rows p f rs) = length rs"
  by (simp add: update_rows_def)

lemma update_rows_Nil [simp]: "update_rows p f [] = []"
  by (simp add: update_rows_def)

lemma update_rows_Cons:
  "update_rows p f (r # rs) = (if p r then f r else r) # update_rows p f rs"
  by (simp add: update_rows_def)

lemma map_key_update_rows:
  "(\<And>r. key (f r) = key r) \<Longrightarrow> map key (update_rows p f rs) = map key rs"
  by (simp add: update_rows_def)

lemma unique_keys_update_rows [simp]:
  "(\<And>r. key (f r) = key r) \<Longrightarrow> unique_keys key (update_rows p f rs) = unique_keys key rs"
  by (simp add: unique_keys_def map_key_update_rows)

lemma unique_keys_Nil [simp]: "unique_keys key []"
  by (simp add: unique_keys_def)

lemma unique_keys_snoc:
  "unique_keys key (rs @ [r]) \<longleftrightarrow> unique_keys key rs \<and> find_row key (key r) rs = None"
  by (auto simp: unique_keys_def find_row_None_iff)

lemma find_row_update_rows:
  "(\<And>r. key (f r) = key r) \<Longrightarrow>
   find_row key k (update_rows p f rs) =
     map_option (\<lambda>r. if p r then f r else r) (find_row key k rs)"
  by (induction rs) (auto simp: find_row_Cons update_rows_Cons)

lemma find_row_update_same:
  "(\<And>r. key (f r) = key r) \<Longrightarrow>
   find_row key k (update_rows (\<lambda>r. key r = k) f rs) = map_option f (find_row key k rs)"
  by (induction rs) (auto simp: find_row_Cons update_rows_Cons)

lemma find_row_update_other:
  "(\<And>r. key (f r) = key r) \<Longrightarrow> k' \<noteq> k \<Longrightarrow>
   find_row key k' (update_rows (\<lambda>r. key r = k) f rs) = find_row key k' rs"
  by (induction rs) (auto simp: find_row_Cons update_rows_Cons)

lemma update_rows_cong_id: "(\<And>r. r \<in> set rs \<Longrightarrow> \<not> p r) \<Longrightarrow> update_rows p f rs = rs"
  by (induction rs) (auto simp: update_rows_Cons)

lemma row_count_0_iff: "row_count p rs = 0 \<longleftrightarrow> (\<forall>r \<in> set rs. \<not> p r)"
  by (auto simp: row_count_def filter_empty_conv)

lemma row_count_pos: "r \<in> set rs \<Longrightarrow> p r \<Longrightarrow> 0 < row_count p rs"
  by (auto simp: row_count_def length_greater_0_conv filter_empty_conv)

lemma row_count_key_eq_1:
  assumes "unique_keys key rs" "find_row key k rs = Some r" "p r"
  shows "row_count (\<lambda>x. key x = k \<and> p x) rs = 1"
  using assms
proof (induction rs)
  case (Cons a rs)
  show ?case
  proof (cases "key a = k")
    case True
    with Cons.prems have "k \<notin> key ` set rs" "p a"
      by (auto simp: unique_keys_def find_row_Cons)
    then have "filter (\<lambda>x. key x = k \<and> p x) rs = []" "p a"
      by (force simp: filter_empty_conv)+
    with True show ?thesis by (simp add: row_count_def)
  next
    case False
    with Cons show ?thesis by (simp add: row_count_def find_row_Cons unique_keys_def)
  qed
qed simp

lemma row_count_key_le_1:
  "unique_keys key rs \<Longrightarrow> row_count (\<lambda>x. key x = k \<and> p x) rs \<le> 1"
proof (induction rs)
  case (Cons a rs)
  show ?case
  proof (cases "key a = k")
    case True
    with Cons.prems have "k \<notin> key ` set rs"
      by (auto simp: unique_keys_def)
    then have "filter (\<lambda>x. key x = k \<and> p x) rs = []"
      by (force simp: filter_empty_conv)
    then show ?thesis by (simp add: row_count_def)
  next
    case False
    with Cons show ?thesis by (simp add: row_count_def unique_keys_def)
  qed
qed (simp add: row_count_def)

lemma last_row_SomeD: "last_row p rs = Some r \<Longrightarrow> r \<in> set rs \<and> p r"
  by (auto simp: last_row_def find_Some_iff) (metis length_rev nth_mem set_rev)

lemma last_row_None_iff: "last_row p rs = None \<longleftrightarrow> (\<forall>r \<in> set rs. \<not> p r)"
  by (auto simp: last_row_def find_None_iff)

lemma last_row_snoc: "last_row p (rs @ [r]) = (if p r then Some r else last_row p rs)"
  by (simp add: last_row_def)

section \<open>Actions\<close>

type_synonym ('s, 'e, 'a) act = "'s \<Rightarrow> ('e + 'a) \<times> 's"

definition ret :: "'a \<Rightarrow> ('s, 'e, 'a) act" where
  "ret a s = (Inr a, s)"

definition raise :: "'e \<Rightarrow> ('s, 'e, 'a) act" where
  "raise e s = (Inl e, s)"

definition bindA :: "('s, 'e, 'a) act \<Rightarrow> ('a \<Rightarrow> ('s, 'e, 'b) act) \<Rightarrow> ('s, 'e, 'b) act" where
  "bindA m k s = (case m s of (Inl e, s') \<Rightarrow> (Inl e, s') | (Inr a, s') \<Rightarrow> k a s')"

definition andThen :: "('s, 'e, 'a) act \<Rightarrow> ('s, 'e, 'b) act \<Rightarrow> ('s, 'e, 'b) act" where
  "andThen m k = bindA m (\<lambda>_. k)"

definition require :: "bool \<Rightarrow> 'e \<Rightarrow> ('s, 'e, 'a) act \<Rightarrow> ('s, 'e, 'a) act" where
  "require b e k s = (if b then k s else (Inl e, s))"

definition look :: "('s \<Rightarrow> 'a) \<Rightarrow> ('a \<Rightarrow> ('s, 'e, 'b) act) \<Rightarrow> ('s, 'e, 'b) act" where
  "look f k s = k (f s) s"

definition whenA :: "bool \<Rightarrow> ('s, 'e, unit) act \<Rightarrow> ('s, 'e, unit) act" where
  "whenA b m s = (if b then m s else (Inr (), s))"

fun forA :: "'a list \<Rightarrow> ('a \<Rightarrow> ('s, 'e, unit) act) \<Rightarrow> ('s, 'e, unit) act" where
  "forA [] f = ret ()"
| "forA (x # xs) f = andThen (f x) (forA xs f)"

text \<open>\<open>fetch f e k\<close> reads an optional value and raises \<open>e\<close> where there is none.
  \<open>transact keep m\<close> is \<open>with store._transaction()\<close>: an exception undoes the writes, except for
  the part of the new state that no rollback reaches (\<open>keep old new\<close>).  \<open>liftR\<close> runs a pure
  check whose failure is the exception.\<close>

definition fetch :: "('s \<Rightarrow> 'a option) \<Rightarrow> 'e \<Rightarrow> ('a \<Rightarrow> ('s, 'e, 'b) act) \<Rightarrow> ('s, 'e, 'b) act" where
  "fetch f e k s = (case f s of None \<Rightarrow> (Inl e, s) | Some a \<Rightarrow> k a s)"

definition transact :: "('s \<Rightarrow> 's \<Rightarrow> 's) \<Rightarrow> ('s, 'e, 'a) act \<Rightarrow> ('s, 'e, 'a) act" where
  "transact keep m s = (case m s of (Inl e, s') \<Rightarrow> (Inl e, keep s s') | (Inr a, s') \<Rightarrow> (Inr a, s'))"

definition liftR :: "'e + 'a \<Rightarrow> ('a \<Rightarrow> ('s, 'e, 'b) act) \<Rightarrow> ('s, 'e, 'b) act" where
  "liftR r k s = (case r of Inl e \<Rightarrow> (Inl e, s) | Inr a \<Rightarrow> k a s)"

text \<open>\<open>catch m h\<close>: \<open>try: m except e: h e\<close>, where the handler sees the state the failed block
  left and answers \<open>None\<close> for an exception it does not name.\<close>

definition catch :: "('s, 'e, 'a) act \<Rightarrow> ('e \<Rightarrow> ('s, 'e, 'a) act option) \<Rightarrow> ('s, 'e, 'a) act" where
  "catch m h s = (case m s of
     (Inl e, s') \<Rightarrow> (case h e of None \<Rightarrow> (Inl e, s') | Some k \<Rightarrow> k s')
   | (Inr a, s') \<Rightarrow> (Inr a, s'))"

lemma ret_apply: "ret a s = (Inr a, s)"
  by (simp add: ret_def)

lemma raise_apply: "raise e s = (Inl e, s)"
  by (simp add: raise_def)

lemma bindA_ret [simp]: "bindA (ret a) k = k a"
  by (rule ext) (simp add: bindA_def ret_def)

lemma bindA_raise [simp]: "bindA (raise e) k = raise e"
  by (rule ext) (simp add: bindA_def raise_def)

lemma bindA_assoc: "bindA (bindA m k) h = bindA m (\<lambda>a. bindA (k a) h)"
  by (rule ext) (simp add: bindA_def split: prod.splits sum.splits)

section \<open>One-step relational specifications\<close>

definition steps :: "('s \<Rightarrow> 's \<Rightarrow> bool) \<Rightarrow> ('s, 'e, 'a) act \<Rightarrow> bool" where
  "steps R m \<longleftrightarrow> (\<forall>s. R s (snd (m s)))"

lemma stepsI: "(\<And>s. R s (snd (m s))) \<Longrightarrow> steps R m"
  by (simp add: steps_def)

lemma stepsD: "steps R m \<Longrightarrow> R s (snd (m s))"
  by (simp add: steps_def)

lemma stepsE: "steps R m \<Longrightarrow> m s = (r, s') \<Longrightarrow> R s s'"
  by (metis snd_conv steps_def)

lemma steps_mono: "steps R m \<Longrightarrow> (\<And>s t. R s t \<Longrightarrow> Q s t) \<Longrightarrow> steps Q m"
  by (simp add: steps_def)

lemma steps_ret [steps_rules]: "reflp R \<Longrightarrow> steps R (ret a)"
  by (simp add: steps_def ret_def reflpD)

lemma steps_raise [steps_rules]: "reflp R \<Longrightarrow> steps R (raise e)"
  by (simp add: steps_def raise_def reflpD)

lemma steps_bindA [steps_rules]:
  assumes "transp R" and "steps R m" and "\<And>a. steps R (k a)"
  shows "steps R (bindA m k)"
proof (rule stepsI)
  fix s
  obtain r s1 where m: "m s = (r, s1)" by (cases "m s")
  have R1: "R s s1" using assms(2) m by (rule stepsE)
  show "R s (snd (bindA m k s))"
  proof (cases r)
    case (Inl e)
    with m R1 show ?thesis by (simp add: bindA_def)
  next
    case (Inr a)
    have "R s1 (snd (k a s1))" using assms(3) by (rule stepsD)
    with R1 assms(1) have "R s (snd (k a s1))" by (blast dest: transpD)
    with m Inr show ?thesis by (simp add: bindA_def)
  qed
qed

lemma steps_andThen [steps_rules]:
  "transp R \<Longrightarrow> steps R m \<Longrightarrow> steps R k \<Longrightarrow> steps R (andThen m k)"
  by (simp add: andThen_def steps_bindA)

lemma steps_require [steps_rules]:
  "reflp R \<Longrightarrow> (b \<Longrightarrow> steps R k) \<Longrightarrow> steps R (require b e k)"
  by (auto simp: steps_def require_def reflpD)

lemma steps_look [steps_rules]: "(\<And>x. steps R (k x)) \<Longrightarrow> steps R (look f k)"
  by (simp add: steps_def look_def)

lemma steps_whenA [steps_rules]: "reflp R \<Longrightarrow> (b \<Longrightarrow> steps R m) \<Longrightarrow> steps R (whenA b m)"
  by (auto simp: steps_def whenA_def reflpD)

lemma steps_forA [steps_rules]:
  "reflp R \<Longrightarrow> transp R \<Longrightarrow> (\<And>x. x \<in> set xs \<Longrightarrow> steps R (f x)) \<Longrightarrow> steps R (forA xs f)"
  by (induction xs) (auto intro!: steps_rules)

lemma steps_if [steps_rules]:
  "(b \<Longrightarrow> steps R m) \<Longrightarrow> (\<not> b \<Longrightarrow> steps R n) \<Longrightarrow> steps R (if b then m else n)"
  by simp

lemma steps_option [steps_rules]:
  "(x = None \<Longrightarrow> steps R m) \<Longrightarrow> (\<And>a. x = Some a \<Longrightarrow> steps R (n a)) \<Longrightarrow>
   steps R (case x of None \<Rightarrow> m | Some a \<Rightarrow> n a)"
  by (cases x) auto

lemma steps_fetch [steps_rules]:
  "reflp R \<Longrightarrow> (\<And>a. steps R (k a)) \<Longrightarrow> steps R (fetch f e k)"
  by (auto simp: steps_def fetch_def reflpD split: option.splits)

lemma steps_liftR [steps_rules]:
  "reflp R \<Longrightarrow> (\<And>a. r = Inr a \<Longrightarrow> steps R (k a)) \<Longrightarrow> steps R (liftR r k)"
  by (auto simp: steps_def liftR_def reflpD split: sum.splits)

lemma steps_catch [steps_rules]:
  "transp R \<Longrightarrow> steps R m \<Longrightarrow> (\<And>e k. h e = Some k \<Longrightarrow> steps R k) \<Longrightarrow> steps R (catch m h)"
  by (auto simp: steps_def catch_def split: prod.splits sum.splits option.splits)
     (metis snd_conv transpE)+

lemma steps_transact:
  "steps R m \<Longrightarrow> (\<And>s s'. R s s' \<Longrightarrow> R s (keep s s')) \<Longrightarrow> steps R (transact keep m)"
  by (auto simp: steps_def transact_def split: prod.splits sum.splits) (metis snd_conv)+

section \<open>Frames\<close>

definition keeps :: "('s \<Rightarrow> 'p) \<Rightarrow> ('s, 'e, 'a) act \<Rightarrow> bool" where
  "keeps f m \<longleftrightarrow> (\<forall>s. f (snd (m s)) = f s)"

lemma keeps_steps: "keeps f m = steps (\<lambda>s s'. f s' = f s) m"
  by (simp add: keeps_def steps_def)

lemma keepsD: "keeps f m \<Longrightarrow> f (snd (m s)) = f s"
  by (simp add: keeps_def)

lemma reflp_kernel: "reflp (\<lambda>s s'. f s' = f s)"
  by (simp add: reflp_def)

lemma transp_kernel: "transp (\<lambda>s s'. f s' = f s)"
  by (simp add: transp_def)

lemma keeps_intros [keeps_rules]:
  "keeps f (ret a)"
  "keeps f (raise e)"
  "keeps f m \<Longrightarrow> (\<And>a. keeps f (k a)) \<Longrightarrow> keeps f (bindA m k)"
  "keeps f m \<Longrightarrow> keeps f n \<Longrightarrow> keeps f (andThen m n)"
  "keeps f n \<Longrightarrow> keeps f (require b e n)"
  "(\<And>x. keeps f (k' x)) \<Longrightarrow> keeps f (look g k')"
  "keeps f u \<Longrightarrow> keeps f (whenA b u)"
  "(\<And>x. keeps f (w x)) \<Longrightarrow> keeps f (forA xs w)"
  "(\<And>a. keeps f (k2 a)) \<Longrightarrow> keeps f (fetch g2 e k2)"
  "(\<And>a. keeps f (k3 a)) \<Longrightarrow> keeps f (liftR r k3)"
  unfolding keeps_steps
  by (auto intro!: steps_rules reflp_kernel transp_kernel)

lemma keeps_if [keeps_rules]: "keeps f m \<Longrightarrow> keeps f n \<Longrightarrow> keeps f (if b then m else n)"
  by simp

lemma keeps_option [keeps_rules]:
  "keeps f m \<Longrightarrow> (\<And>a. keeps f (n a)) \<Longrightarrow> keeps f (case x of None \<Rightarrow> m | Some a \<Rightarrow> n a)"
  by (cases x) auto

lemma keeps_sum [keeps_rules]:
  "(\<And>a. keeps f (m a)) \<Longrightarrow> (\<And>a. keeps f (n a)) \<Longrightarrow>
   keeps f (case x of Inl a \<Rightarrow> m a | Inr a \<Rightarrow> n a)"
  by (cases x) auto

lemma keeps_prod [keeps_rules]:
  "(\<And>a b. keeps f (m a b)) \<Longrightarrow> keeps f (case x of (a, b) \<Rightarrow> m a b)"
  by (cases x) auto

lemma keeps_catch [keeps_rules]:
  "keeps f m \<Longrightarrow> (\<And>e k. h e = Some k \<Longrightarrow> keeps f k) \<Longrightarrow> keeps f (catch m h)"
  unfolding keeps_steps by (auto intro!: steps_catch transp_kernel)

lemma keeps_transact:
  "keeps f m \<Longrightarrow> (\<And>s s'. f s' = f s \<Longrightarrow> f (keep s s') = f s) \<Longrightarrow> keeps f (transact keep m)"
  unfolding keeps_steps by (rule steps_transact)

lemma keeps_comp: "keeps f m \<Longrightarrow> keeps (\<lambda>s. g (f s)) m"
  by (simp add: keeps_def)

section \<open>Weakest preconditions\<close>

definition wp ::
  "('s, 'e, 'a) act \<Rightarrow> ('a \<Rightarrow> 's \<Rightarrow> bool) \<Rightarrow> ('e \<Rightarrow> 's \<Rightarrow> bool) \<Rightarrow> 's \<Rightarrow> bool" where
  "wp m Q E s = (case m s of (Inl e, s') \<Rightarrow> E e s' | (Inr a, s') \<Rightarrow> Q a s')"

abbreviation any_error :: "'e \<Rightarrow> 's \<Rightarrow> bool" where
  "any_error \<equiv> (\<lambda>_ _. True)"

lemma wp_Inr: "wp m Q E s \<Longrightarrow> m s = (Inr a, s') \<Longrightarrow> Q a s'"
  by (simp add: wp_def)

lemma wp_Inl: "wp m Q E s \<Longrightarrow> m s = (Inl e, s') \<Longrightarrow> E e s'"
  by (simp add: wp_def)

lemma wp_snd: "wp m (\<lambda>_. P) (\<lambda>_. P) s \<longleftrightarrow> P (snd (m s))"
  by (auto simp: wp_def split: prod.splits sum.splits)

lemma wp_mono:
  "wp m Q E s \<Longrightarrow> (\<And>a s'. Q a s' \<Longrightarrow> Q' a s') \<Longrightarrow> (\<And>e s'. E e s' \<Longrightarrow> E' e s') \<Longrightarrow> wp m Q' E' s"
  by (auto simp: wp_def split: prod.splits sum.splits)

lemma wp_conj: "wp m (\<lambda>a s. P a s \<and> Q a s) any_error s \<longleftrightarrow> wp m P any_error s \<and> wp m Q any_error s"
  by (auto simp: wp_def split: prod.splits sum.splits)

lemma wp_keeps:
  "keeps f m \<Longrightarrow> (\<And>a s'. f s' = f s \<Longrightarrow> Q a s') \<Longrightarrow> (\<And>e s'. f s' = f s \<Longrightarrow> E e s') \<Longrightarrow> wp m Q E s"
  by (auto simp: wp_def keeps_def split: prod.splits sum.splits) (metis snd_conv)+

lemma wp_ret [wp_simps]: "wp (ret a) Q E s = Q a s"
  by (simp add: wp_def ret_def)

lemma wp_ret_fun [wp_simps]: "wp (ret a) Q E = Q a"
  by (rule ext) (rule wp_ret)

lemma wp_raise [wp_simps]: "wp (raise e) Q E s = E e s"
  by (simp add: wp_def raise_def)

lemma wp_bindA [wp_simps]: "wp (bindA m k) Q E s = wp m (\<lambda>a. wp (k a) Q E) E s"
  by (auto simp: wp_def bindA_def split: prod.splits sum.splits)

lemma wp_andThen [wp_simps]: "wp (andThen m k) Q E s = wp m (\<lambda>_. wp k Q E) E s"
  by (simp add: andThen_def wp_bindA)

lemma wp_require [wp_simps]: "wp (require b e k) Q E s = (if b then wp k Q E s else E e s)"
  by (simp add: wp_def require_def)

lemma wp_look [wp_simps]: "wp (look f k) Q E s = wp (k (f s)) Q E s"
  by (simp add: wp_def look_def)

lemma wp_whenA [wp_simps]: "wp (whenA b m) Q E s = (if b then wp m Q E s else Q () s)"
  by (simp add: wp_def whenA_def)

lemma wp_fetch [wp_simps]:
  "wp (fetch f e k) Q E s = (case f s of None \<Rightarrow> E e s | Some a \<Rightarrow> wp (k a) Q E s)"
  by (simp add: wp_def fetch_def split: option.splits)

lemma wp_liftR [wp_simps]:
  "wp (liftR r k) Q E s = (case r of Inl e \<Rightarrow> E e s | Inr a \<Rightarrow> wp (k a) Q E s)"
  by (simp add: wp_def liftR_def split: sum.splits)

lemma wp_transact [wp_simps]: "wp (transact keep m) Q E s = wp m Q (\<lambda>e s'. E e (keep s s')) s"
  by (auto simp: wp_def transact_def split: prod.splits sum.splits)

lemma wp_catch [wp_simps]:
  "wp (catch m h) Q E s =
     wp m Q (\<lambda>e s'. case h e of None \<Rightarrow> E e s' | Some k \<Rightarrow> wp k Q E s') s"
  by (auto simp: wp_def catch_def split: prod.splits sum.splits option.splits)

lemma wp_if [wp_simps]: "wp (if b then m else n) Q E s = (if b then wp m Q E s else wp n Q E s)"
  by simp

lemma wp_option [wp_simps]:
  "wp (case x of None \<Rightarrow> m | Some a \<Rightarrow> n a) Q E s =
     (case x of None \<Rightarrow> wp m Q E s | Some a \<Rightarrow> wp (n a) Q E s)"
  by (simp split: option.splits)

lemma wp_prod [wp_simps]:
  "wp (case x of (a, b) \<Rightarrow> m a b) Q E s = (case x of (a, b) \<Rightarrow> wp (m a b) Q E s)"
  by (simp split: prod.splits)

text \<open>A loop keeps an invariant that each of its rounds keeps.\<close>

lemma wp_forA:
  assumes "I s" and "\<And>x s. x \<in> set xs \<Longrightarrow> I s \<Longrightarrow> wp (f x) (\<lambda>_. I) E s"
    and "\<And>s. I s \<Longrightarrow> Q () s"
  shows "wp (forA xs f) Q E s"
  using assms
proof (induction xs arbitrary: s)
  case Nil
  then show ?case by (simp add: wp_simps)
next
  case (Cons x xs)
  have "wp (f x) (\<lambda>_. I) E s" using Cons.prems by simp
  then show ?case unfolding forA.simps wp_andThen
    by (rule wp_mono) (use Cons in auto)
qed

end
