(* ===== verification/Models.thy ===== *)
theory Models
  imports Complex_Main Prelude
begin

text \<open>
  The data model of \<open>argent_core/models.py\<close>: the enumerations with their persisted string
  values, the typed exceptions, and the dataclasses as records.  A dataclass field \<open>f\<close> of
  \<open>Task\<close> is the record field \<open>t_f\<close>, and likewise with the prefixes \<open>p_\<close> (Project),
  \<open>tr_\<close> (TaskRun), \<open>rr_\<close> (RoleRun), \<open>h_\<close> (Handoff), \<open>f_\<close> (Finding), \<open>te_\<close> (TestRun),
  \<open>rv_\<close> (Review), \<open>dc_\<close> (Decision), \<open>ap_\<close> (OwnerApproval), \<open>ex_\<close> (ActionExecution),
  \<open>ev_\<close> (Event), \<open>d_\<close> (AgentDispatch), \<open>q_\<close> (AgentResultQuarantine) and \<open>cs_\<close>
  (AgentContextSnapshot).  The message texts of the exceptions are not modelled.

  A timestamp is an \<open>int\<close>, microseconds on the UTC time line.  The program stores
  \<open>datetime.isoformat()\<close> in UTC and compares the texts; for years of four digits that order
  is the chronological one, also where \<open>isoformat\<close> leaves out a zero fraction (the
  \<open>+\<close> that then follows the seconds sorts before the \<open>.\<close> of a fraction).

  Python strings are \<open>string\<close> (lists of \<open>char\<close>).
\<close>

type_synonym timestamp = int

section \<open>Values: what crosses the API as JSON\<close>

datatype py_float = FFinite rat | FPosInf | FNegInf | FNaN

datatype py =
    PNone
  | PBool bool
  | PInt int
  | PFloat py_float
  | PStr string
  | PList "py list"
  | PDict "(string \<times> py) list"

section \<open>Enumerations\<close>

datatype risk_class = RISK_LOW | RISK_NORMAL | RISK_HIGH

primrec risk_class_value :: "risk_class \<Rightarrow> string" where
  "risk_class_value RISK_LOW = ''LOW''"
| "risk_class_value RISK_NORMAL = ''NORMAL''"
| "risk_class_value RISK_HIGH = ''HIGH''"

datatype external_actions_policy = ALLOWED_WITH_GATE | EXT_FORBIDDEN

primrec external_actions_policy_value :: "external_actions_policy \<Rightarrow> string" where
  "external_actions_policy_value ALLOWED_WITH_GATE = ''ALLOWED_WITH_GATE''"
| "external_actions_policy_value EXT_FORBIDDEN = ''FORBIDDEN''"

datatype dispatch_status =
  DS_PENDING | DS_RUNNING | DS_CONSUMED | DS_FAILED | DS_REJECTED | DS_QUARANTINED
| DS_RECOVERY_PENDING

datatype sequence_kind = SEQ_STANDARD | SEQ_REWORK

primrec sequence_kind_value :: "sequence_kind \<Rightarrow> string" where
  "sequence_kind_value SEQ_STANDARD = ''STANDARD''"
| "sequence_kind_value SEQ_REWORK = ''REWORK''"

datatype task_state =
  NEW | PLANNING | ANALYZING | LEAD_DECISION | IMPLEMENTING | TESTING | REVIEWING
| FINAL_DECISION | DONE
| REWORK | BLOCKED | OWNER_APPROVAL_REQUIRED | PAUSED | FAILED | RECOVERING | CANCELLED

primrec task_state_value :: "task_state \<Rightarrow> string" where
  "task_state_value NEW = ''NEW''"
| "task_state_value PLANNING = ''PLANNING''"
| "task_state_value ANALYZING = ''ANALYZING''"
| "task_state_value LEAD_DECISION = ''LEAD_DECISION''"
| "task_state_value IMPLEMENTING = ''IMPLEMENTING''"
| "task_state_value TESTING = ''TESTING''"
| "task_state_value REVIEWING = ''REVIEWING''"
| "task_state_value FINAL_DECISION = ''FINAL_DECISION''"
| "task_state_value DONE = ''DONE''"
| "task_state_value REWORK = ''REWORK''"
| "task_state_value BLOCKED = ''BLOCKED''"
| "task_state_value OWNER_APPROVAL_REQUIRED = ''OWNER_APPROVAL_REQUIRED''"
| "task_state_value PAUSED = ''PAUSED''"
| "task_state_value FAILED = ''FAILED''"
| "task_state_value RECOVERING = ''RECOVERING''"
| "task_state_value CANCELLED = ''CANCELLED''"

datatype role = LEAD | ANALYST | IMPLEMENTER | QA | REVIEWER

primrec role_value :: "role \<Rightarrow> string" where
  "role_value LEAD = ''lead''"
| "role_value ANALYST = ''analyst''"
| "role_value IMPLEMENTER = ''implementer''"
| "role_value QA = ''qa''"
| "role_value REVIEWER = ''reviewer''"

datatype source_class = TRUSTED | UNTRUSTED

datatype artifact_category = PRODUCT_CODE | TEST_CODE | OTHER

datatype permission = READ | WRITE

datatype role_run_status = RR_STARTED | RR_COMPLETED | RR_FAILED

datatype task_run_status = TR_STARTED | TR_COMPLETED | TR_FAILED

datatype approval_status = AP_PENDING | AP_APPROVED | AP_REJECTED | AP_CONSUMED | AP_EXPIRED

datatype action_execution_status = EX_EXECUTED | EX_BLOCKED

datatype action_class = AUTONOMOUS | OWNER_APPROVAL | FORBIDDEN

datatype finding_status = FI_OPEN | FI_RESOLVED

datatype test_result = TE_PASSED | TE_FAILED

primrec test_result_value :: "test_result \<Rightarrow> string" where
  "test_result_value TE_PASSED = ''passed''"
| "test_result_value TE_FAILED = ''failed''"

text \<open>Every enumeration a statement quantifies over is an instance of \<open>enum\<close>, so that
  the library decides bounded statements about it by evaluation.\<close>

instantiation task_state :: enum
begin
definition enum_task_state :: "task_state list" where
  "enum_task_state = [NEW, PLANNING, ANALYZING, LEAD_DECISION, IMPLEMENTING, TESTING, REVIEWING,
     FINAL_DECISION, DONE, REWORK, BLOCKED, OWNER_APPROVAL_REQUIRED, PAUSED, FAILED, RECOVERING,
     CANCELLED]"
definition enum_all_task_state :: "(task_state \<Rightarrow> bool) \<Rightarrow> bool" where
  "enum_all_task_state P \<longleftrightarrow> list_all P enum_class.enum"
definition enum_ex_task_state :: "(task_state \<Rightarrow> bool) \<Rightarrow> bool" where
  "enum_ex_task_state P \<longleftrightarrow> list_ex P enum_class.enum"
instance
proof
  show UN: "(UNIV :: task_state set) = set enum_class.enum"
    unfolding enum_task_state_def by (auto intro: task_state.exhaust)
  show "distinct (enum_class.enum :: task_state list)"
    unfolding enum_task_state_def by simp
  show "enum_class.enum_all P \<longleftrightarrow> Ball UNIV P" for P :: "task_state \<Rightarrow> bool"
    unfolding enum_all_task_state_def UN by (simp add: list_all_iff)
  show "enum_class.enum_ex P \<longleftrightarrow> Bex UNIV P" for P :: "task_state \<Rightarrow> bool"
    unfolding enum_ex_task_state_def UN by (simp add: list_ex_iff)
qed
end

instantiation role :: enum
begin
definition enum_role :: "role list" where
  "enum_role = [LEAD, ANALYST, IMPLEMENTER, QA, REVIEWER]"
definition enum_all_role :: "(role \<Rightarrow> bool) \<Rightarrow> bool" where
  "enum_all_role P \<longleftrightarrow> list_all P enum_class.enum"
definition enum_ex_role :: "(role \<Rightarrow> bool) \<Rightarrow> bool" where
  "enum_ex_role P \<longleftrightarrow> list_ex P enum_class.enum"
instance
proof
  show UN: "(UNIV :: role set) = set enum_class.enum"
    unfolding enum_role_def by (auto intro: role.exhaust)
  show "distinct (enum_class.enum :: role list)"
    unfolding enum_role_def by simp
  show "enum_class.enum_all P \<longleftrightarrow> Ball UNIV P" for P :: "role \<Rightarrow> bool"
    unfolding enum_all_role_def UN by (simp add: list_all_iff)
  show "enum_class.enum_ex P \<longleftrightarrow> Bex UNIV P" for P :: "role \<Rightarrow> bool"
    unfolding enum_ex_role_def UN by (simp add: list_ex_iff)
qed
end

text \<open>\<open>Enum(value)\<close>: the member with that value; no member is a \<open>ValueError\<close>.\<close>

definition member_of_value :: "('a::enum \<Rightarrow> string) \<Rightarrow> string \<Rightarrow> 'a option" where
  "member_of_value val v = find (\<lambda>m. val m = v) enum_class.enum"

definition task_state_of_value :: "string \<Rightarrow> task_state option" where
  "task_state_of_value = member_of_value task_state_value"

definition role_of_value :: "string \<Rightarrow> role option" where
  "role_of_value = member_of_value role_value"

lemma member_of_value_inj:
  "inj val \<Longrightarrow> member_of_value val (val m) = Some m"
proof -
  assume inj: "inj val"
  have "find (\<lambda>x. val x = val m) xs = (if m \<in> set xs then Some m else None)" for xs
    using inj by (induction xs) (auto dest: injD)
  then show ?thesis
    by (simp add: member_of_value_def UNIV_enum[symmetric])
qed

lemma member_of_value_SomeD: "member_of_value val v = Some m \<Longrightarrow> val m = v"
  by (auto simp: member_of_value_def find_Some_iff)

lemma inj_task_state_value: "inj task_state_value"
proof (rule injI)
  fix x y assume "task_state_value x = task_state_value y"
  then show "x = y" by (cases x; cases y; simp)
qed

lemma inj_role_value: "inj role_value"
proof (rule injI)
  fix x y assume "role_value x = role_value y"
  then show "x = y" by (cases x; cases y; simp)
qed

lemma role_value_inject [simp]: "role_value x = role_value y \<longleftrightarrow> x = y"
  using inj_role_value by (simp add: inj_eq)

section \<open>Exceptions\<close>

datatype argent_error =
    InvalidTransition
  | RoleConflict
  | PermissionDenied
  | ForbiddenAction
  | ApprovalError
  | UntrustedSource
  | OwnerAuthorityRequired
  | PrivacyViolation
  | IdempotencyError
  | NotFound
  | RolePolicyViolation
  | OutputValidationError
  | DispatchError
  | LeaseError
  | LeaseFencedError
  | WorktreeConflictError
  | ApprovalExpired string \<comment> \<open>\<open>core._ApprovalExpired\<close>, internal to the approval commands\<close>
  | CandidateRevisionError
  | RequestRevisionError
  | IllegalRequestTransition
  | IdempotencyConflictError
  | ModelRegistryError
  | ValueError \<comment> \<open>Python's own\<close>
  | KeyError \<comment> \<open>Python's own: a dict subscript without an entry\<close>
  | TypeError \<comment> \<open>Python's own: an unhashable value was looked up in a set\<close>
  | AttributeError \<comment> \<open>Python's own\<close>
  | OverflowError \<comment> \<open>Python's own: a number beyond the range of floats\<close>
  | BindingError \<comment> \<open>\<open>sqlite3\<close> cannot bind a value (its \<open>ProgrammingError\<close> or an \<open>OverflowError\<close>)\<close>
  | IntegrityError \<comment> \<open>\<open>sqlite3.IntegrityError\<close>: a table constraint refused a write\<close>

section \<open>Dataclasses\<close>

record project =
  p_id :: string
  p_name :: string
  p_created_at :: timestamp
  p_idempotency_key :: "string option"

record task =
  t_id :: string
  t_project_id :: string
  t_title :: string
  t_state :: task_state
  t_resume_state :: "task_state option"
  t_source :: string
  t_source_class :: source_class
  t_created_at :: timestamp
  t_updated_at :: timestamp
  t_idempotency_key :: "string option"
  t_description :: "string option"
  t_risk_class :: risk_class
  t_external_actions_policy :: external_actions_policy

record task_run =
  tr_id :: string
  tr_task_id :: string
  tr_status :: task_run_status
  tr_started_at :: timestamp
  tr_finished_at :: "timestamp option"

record role_run =
  rr_id :: string
  rr_task_id :: string
  rr_role :: role
  rr_status :: role_run_status
  rr_started_at :: timestamp
  rr_finished_at :: "timestamp option"

record handoff =
  h_id :: string
  h_task_id :: string
  h_from_role :: role
  h_to_role :: role
  h_created_at :: timestamp

record finding =
  f_id :: string
  f_task_id :: string
  f_severity :: string
  f_description :: string
  f_status :: finding_status
  f_created_at :: timestamp
  f_resolved_at :: "timestamp option"
  f_source_class :: "string option"

record test_run =
  te_id :: string
  te_task_id :: string
  te_result :: test_result
  te_detail :: "string option"
  te_created_at :: timestamp
  te_source_class :: "string option"

record review =
  rv_id :: string
  rv_task_id :: string
  rv_verdict :: string
  rv_detail :: "string option"
  rv_created_at :: timestamp
  rv_source_class :: "string option"

record decision =
  dc_id :: string
  dc_task_id :: string
  dc_decision :: string
  dc_detail :: "string option"
  dc_created_at :: timestamp

record owner_approval =
  ap_id :: string
  ap_task_id :: string
  ap_action :: string
  ap_scope :: string
  ap_status :: approval_status
  ap_requested_by :: string
  ap_source_class :: source_class
  ap_created_at :: timestamp
  ap_decided_at :: "timestamp option"
  ap_consumed_at :: "timestamp option"
  ap_expires_at :: timestamp
  ap_binding_hash :: "string option"
  ap_approved_at :: "timestamp option"
  ap_execution_id :: "string option"
  ap_executed_at :: "timestamp option"
  ap_closed_at :: "timestamp option"

record action_execution =
  ex_id :: string
  ex_task_id :: string
  ex_approval_id :: "string option"
  ex_action :: string
  ex_scope :: string
  ex_actor_role :: string
  ex_status :: action_execution_status
  ex_created_at :: timestamp

record event =
  ev_id :: string
  ev_type :: string
  ev_task_id :: "string option"
  ev_role :: "string option"
  ev_state :: "string option"
  ev_payload :: "(string \<times> py) list"
  ev_created_at :: timestamp

record agent_dispatch =
  d_id :: string
  d_task_id :: string
  d_task_run_id :: string
  d_role :: role
  d_parent_dispatch_id :: "string option"
  d_expected_agent_class :: string
  d_expected_model_class :: string
  d_expected_thinking_tier :: string
  d_child_session_id :: "string option"
  d_openclaw_run_id :: "string option"
  d_actual_provider :: "string option"
  d_actual_model :: "string option"
  d_thinking_tier :: "string option"
  d_status :: dispatch_status
  d_cycle_no :: int
  d_position :: int
  d_sequence_kind :: sequence_kind
  d_attempt_no :: int
  d_handoff_id :: "string option"
  d_result :: "py option" \<comment> \<open>\<open>result_json\<close>, kept as the value it encodes\<close>
  d_created_at :: timestamp
  d_started_at :: "timestamp option"
  d_consumed_at :: "timestamp option"
  d_routing_decision_id :: "string option"
  d_escalation_level :: int
  d_routing_reason_code :: "string option"
  d_attempt_outcome :: "string option"

record agent_result_quarantine =
  q_id :: string
  q_task_id :: "string option"
  q_dispatch_id :: "string option"
  q_reason :: string
  q_event_meta :: "(string \<times> string) list"
  q_created_at :: timestamp

text \<open>the persisted spelling of a task state or role names exactly one member.\<close>

theorem enum_values_roundtrip:
  "task_state_of_value (task_state_value st) = Some st \<and>
   role_of_value (role_value r) = Some r \<and>
   (task_state_of_value v = Some st' \<longleftrightarrow> v = task_state_value st')"
  unfolding task_state_of_value_def role_of_value_def
  using member_of_value_inj[OF inj_task_state_value] member_of_value_inj[OF inj_role_value]
    member_of_value_SomeD by metis

end
