(* ===== verification/Runtime.thy ===== *)
theory Runtime
  imports Models
begin

text \<open>
  What the program takes from its surroundings.  The record \<open>env\<close> holds the clock passed to
  \<open>Core\<close> and \<open>Store\<close>, \<open>uuid4\<close>, SHA-256, the \<open>json\<close> codec, Python's \<open>str\<close> of a value that
  is not a string, and the injected provider/model registry (\<open>model_registry.ModelRegistry\<close>,
  of which \<open>validate_identity\<close> is modelled here).  The clock and \<open>uuid4\<close> answer the n-th call
  with the n-th element of a stream, so that an operation that asks twice may get two answers.

  The string functions are Python's on Latin-1 letters; the letters they map are the ASCII ones.
\<close>

section \<open>String methods\<close>

definition UPPER_LETTERS :: string where
  "UPPER_LETTERS = ''ABCDEFGHIJKLMNOPQRSTUVWXYZ''"

definition LOWER_LETTERS :: string where
  "LOWER_LETTERS = ''abcdefghijklmnopqrstuvwxyz''"

definition lower_char :: "char \<Rightarrow> char" where
  "lower_char c = (case map_of (zip UPPER_LETTERS LOWER_LETTERS) c of None \<Rightarrow> c | Some d \<Rightarrow> d)"

definition str_lower :: "string \<Rightarrow> string" where
  "str_lower s = map lower_char s"

definition upper_char :: "char \<Rightarrow> char" where
  "upper_char c = (case map_of (zip LOWER_LETTERS UPPER_LETTERS) c of None \<Rightarrow> c | Some d \<Rightarrow> d)"

definition str_upper :: "string \<Rightarrow> string" where
  "str_upper s = map upper_char s"

definition SPACES :: string where
  "SPACES = [CHR 0x09, CHR 0x0A, CHR 0x0B, CHR 0x0C, CHR 0x0D, CHR 0x1C, CHR 0x1D, CHR 0x1E,
     CHR 0x1F, CHR 0x20, CHR 0x85, CHR 0xA0]"

definition is_space :: "char \<Rightarrow> bool" where
  "is_space c \<longleftrightarrow> c \<in> set SPACES"

definition str_strip :: "string \<Rightarrow> string" where
  "str_strip s = rev (dropWhile is_space (rev (dropWhile is_space s)))"

lemma str_lower_append [simp]: "str_lower (a @ b) = str_lower a @ str_lower b"
  by (simp add: str_lower_def)

text \<open>\<open>x or default\<close> on an optional string: \<open>None\<close> and the empty string are falsy.\<close>

definition or_empty :: "string option \<Rightarrow> string" where
  "or_empty s = (case s of None \<Rightarrow> [] | Some t \<Rightarrow> t)"

section \<open>The registry\<close>

record provider_entry =
  pe_enabled :: bool
  pe_availability_state :: string

record model_entry =
  me_provider_id :: string
  me_enabled :: bool
  me_lifecycle_state :: string

record model_registry =
  mr_providers :: "(string \<times> provider_entry) list"
  mr_models :: "(string \<times> model_entry) list"

text \<open>\<open>ModelRegistry.validate_identity\<close>; the error codes are not modelled.\<close>

definition validate_identity ::
  "model_registry \<Rightarrow> string option \<Rightarrow> string option \<Rightarrow> argent_error + model_entry" where
  "validate_identity mr provider_id model_id =
     (case provider_id of None \<Rightarrow> Inl ModelRegistryError | Some pid \<Rightarrow>
      (case map_of (mr_providers mr) pid of None \<Rightarrow> Inl ModelRegistryError | Some provider \<Rightarrow>
       if \<not> pe_enabled provider then Inl ModelRegistryError
       else if pe_availability_state provider \<notin> {''AVAILABLE'', ''DEGRADED''}
       then Inl ModelRegistryError
       else (case model_id of None \<Rightarrow> Inl ModelRegistryError | Some mid \<Rightarrow>
        (case map_of (mr_models mr) mid of None \<Rightarrow> Inl ModelRegistryError | Some model \<Rightarrow>
         if me_provider_id model \<noteq> pid then Inl ModelRegistryError
         else if \<not> me_enabled model then Inl ModelRegistryError
         else if me_lifecycle_state model = ''RETIRED'' then Inl ModelRegistryError
         else Inr model))))"

lemma validate_identity_InrD:
  "validate_identity mr p m = Inr e \<Longrightarrow>
   \<exists>pid mid pr. p = Some pid \<and> m = Some mid \<and> map_of (mr_providers mr) pid = Some pr \<and>
     pe_enabled pr \<and> pe_availability_state pr \<in> {''AVAILABLE'', ''DEGRADED''} \<and>
     map_of (mr_models mr) mid = Some e \<and> me_provider_id e = pid \<and> me_enabled e \<and>
     me_lifecycle_state e \<noteq> ''RETIRED''"
  by (simp add: validate_identity_def split: option.splits if_splits)

section \<open>The environment\<close>

record env =
  env_clock :: "nat \<Rightarrow> timestamp"
  env_uuid :: "nat \<Rightarrow> string"
  env_sha256 :: "string \<Rightarrow> string"
  env_dumps :: "py \<Rightarrow> string" \<comment> \<open>\<open>json.dumps(v, sort_keys=True)\<close>\<close>
  env_loads :: "string \<Rightarrow> py option" \<comment> \<open>\<open>json.loads\<close>, \<open>None\<close> for a malformed text\<close>
  env_str :: "py \<Rightarrow> string" \<comment> \<open>\<open>str(v)\<close> for a \<open>v\<close> that is not a string\<close>
  env_sql_text :: "py \<Rightarrow> string" \<comment> \<open>how SQLite stores a number in a TEXT column\<close>
  env_registry :: model_registry

text \<open>Reading a JSON object: \<open>d.get(k)\<close>.\<close>

definition py_get :: "(string \<times> py) list \<Rightarrow> string \<Rightarrow> py" where
  "py_get kvs k = (case map_of kvs k of None \<Rightarrow> PNone | Some v \<Rightarrow> v)"

definition py_str :: "env \<Rightarrow> py \<Rightarrow> string" where
  "py_str E v = (case v of PStr s \<Rightarrow> s | _ \<Rightarrow> env_str E v)"

definition py_opt_str :: "string option \<Rightarrow> py" where
  "py_opt_str s = (case s of None \<Rightarrow> PNone | Some t \<Rightarrow> PStr t)"

text \<open>Binding a Python value to a TEXT parameter of an SQL statement: a list or dict is not
  bindable, an integer must fit SQLite's 64 bits, and NaN is stored as NULL.\<close>

definition bind_text :: "env \<Rightarrow> py \<Rightarrow> argent_error + string option" where
  "bind_text E v = (case v of
     PNone \<Rightarrow> Inr None
   | PStr s \<Rightarrow> Inr (Some s)
   | PBool b \<Rightarrow> Inr (Some (if b then ''1'' else ''0''))
   | PInt i \<Rightarrow> (if - (2 ^ 63) \<le> i \<and> i < 2 ^ 63 then Inr (Some (env_sql_text E v))
                else Inl BindingError)
   | PFloat f \<Rightarrow> (if f = FNaN then Inr None else Inr (Some (env_sql_text E v)))
   | PList xs \<Rightarrow> Inl BindingError
   | PDict kvs \<Rightarrow> Inl BindingError)"

end
