(* ===== verification/Text.thy ===== *)
theory Text
  imports Runtime
begin

text \<open>
  Python's string methods and float arithmetic, as the policy modules use them: \<open>split\<close>, \<open>join\<close>,
  \<open>replace\<close> of one character by another, \<open>rstrip\<close>, \<open>partition\<close>, and the rounding of a product or a
  quotient of floats to the nearest double (53 bits, ties to even).  Characters are those of
  Latin-1.
\<close>

section \<open>Splitting and joining\<close>

fun split_at_char :: "char \<Rightarrow> string \<Rightarrow> string list" where
  "split_at_char c [] = [[]]"
| "split_at_char c (x # xs) =
     (if x = c then [] # split_at_char c xs
      else (case split_at_char c xs of [] \<Rightarrow> [[x]] | w # ws \<Rightarrow> (x # w) # ws))"

fun join_with :: "string \<Rightarrow> string list \<Rightarrow> string" where
  "join_with sep [] = []"
| "join_with sep [w] = w"
| "join_with sep (w # v # ws) = w @ sep @ join_with sep (v # ws)"

text \<open>\<open>s.split()\<close>: the maximal runs of characters that are not white space.\<close>

fun split_spaces_aux :: "string \<Rightarrow> string \<Rightarrow> string list" where
  "split_spaces_aux [] w = (if w = [] then [] else [rev w])"
| "split_spaces_aux (x # xs) w =
     (if is_space x then (if w = [] then split_spaces_aux xs [] else rev w # split_spaces_aux xs [])
      else split_spaces_aux xs (x # w))"

definition split_spaces :: "string \<Rightarrow> string list" where
  "split_spaces s = split_spaces_aux s []"

definition replace_char :: "char \<Rightarrow> char \<Rightarrow> string \<Rightarrow> string" where
  "replace_char a b s = map (\<lambda>c. if c = a then b else c) s"

definition rstrip_char :: "char \<Rightarrow> string \<Rightarrow> string" where
  "rstrip_char c s = rev (dropWhile (\<lambda>x. x = c) (rev s))"

text \<open>\<open>s.partition(c)\<close>: the text before the first \<open>c\<close> and the text after it, if there is one.\<close>

fun partition_char :: "char \<Rightarrow> string \<Rightarrow> (string \<times> string) option" where
  "partition_char c [] = None"
| "partition_char c (x # xs) =
     (if x = c then Some ([], xs)
      else map_option (\<lambda>p. (x # fst p, snd p)) (partition_char c xs))"

fun is_prefix_of :: "'a list \<Rightarrow> 'a list \<Rightarrow> bool" where
  "is_prefix_of [] ys \<longleftrightarrow> True"
| "is_prefix_of (x # xs) [] \<longleftrightarrow> False"
| "is_prefix_of (x # xs) (y # ys) \<longleftrightarrow> x = y \<and> is_prefix_of xs ys"

definition is_alpha :: "char \<Rightarrow> bool" where
  "is_alpha c \<longleftrightarrow> (let n = (of_char c :: nat) in 65 \<le> n \<and> n \<le> 90 \<or> 97 \<le> n \<and> n \<le> 122 \<or> n = 170 \<or>
     n = 181 \<or> n = 186 \<or> 192 \<le> n \<and> n \<le> 214 \<or> 216 \<le> n \<and> n \<le> 246 \<or> 248 \<le> n)"

lemma is_prefix_of_iff: "is_prefix_of xs ys \<longleftrightarrow> (\<exists>zs. ys = xs @ zs)"
  by (induction xs ys rule: is_prefix_of.induct) auto

lemma split_not_Nil [simp]: "split_at_char c s \<noteq> []"
  by (induction s) (auto split: list.splits)

lemma split_append:
  "split_at_char c (a @ c # b) = split_at_char c a @ split_at_char c b"
  by (induction a) (auto split: list.splits)

lemma split_no_sep: "c \<notin> set w \<Longrightarrow> split_at_char c w = [w]"
  by (induction w) auto

lemma split_parts_no_sep: "w \<in> set (split_at_char c s) \<Longrightarrow> c \<notin> set w"
  by (induction s arbitrary: w) (auto split: list.splits if_splits)

lemma join_Cons: "ws \<noteq> [] \<Longrightarrow> join_with sep (w # ws) = w @ sep @ join_with sep ws"
  by (cases ws) auto

lemma split_join:
  assumes "ws \<noteq> []" "\<forall>w \<in> set ws. c \<notin> set w"
  shows "split_at_char c (join_with [c] ws) = ws"
  using assms
proof (induction ws)
  case (Cons w ws)
  then show ?case by (cases ws) (auto simp: split_no_sep split_append)
qed simp

lemma join_eq_Nil: "[] \<notin> set ws \<Longrightarrow> join_with sep ws = [] \<longleftrightarrow> ws = []"
  by (cases "(sep, ws)" rule: join_with.cases) auto

lemma split_parts_subset: "w \<in> set (split_at_char c s) \<Longrightarrow> set w \<subseteq> set s"
  by (induction s arbitrary: w) (fastforce split: list.splits if_splits)+

lemma join_append:
  "as \<noteq> [] \<Longrightarrow> bs \<noteq> [] \<Longrightarrow> join_with sep (as @ bs) = join_with sep as @ sep @ join_with sep bs"
proof (induction as)
  case (Cons a as)
  then show ?case by (cases as) (auto simp: join_Cons)
qed simp

lemma last_join:
  assumes "ws \<noteq> []" "[] \<notin> set ws" shows "last (join_with sep ws) = last (last ws)"
  using assms
proof (induction ws)
  case (Cons w ws)
  then show ?case
    by (cases ws) (auto simp: join_eq_Nil)
qed simp

lemma rstrip_char_id: "s = [] \<or> last s \<noteq> c \<Longrightarrow> rstrip_char c s = s"
  by (cases s rule: rev_cases) (auto simp: rstrip_char_def)

lemma replace_char_id: "a \<notin> set s \<Longrightarrow> replace_char a b s = s"
  by (induction s) (auto simp: replace_char_def)

section \<open>Floats\<close>

text \<open>The integer nearest to a quotient, ties to even.\<close>

definition round_quotient :: "int \<Rightarrow> int \<Rightarrow> int" where
  "round_quotient p q = (let n = p div q; r = 2 * (p mod q) in
     if r < q then n else if r > q then n + 1 else if even n then n else n + 1)"

function bit_length :: "int \<Rightarrow> int" where
  "bit_length n = (if n \<le> 0 then 0 else 1 + bit_length (n div 2))"
  by auto
termination by (relation "measure nat") auto

declare bit_length.simps [simp del]

text \<open>The exponent \<open>k\<close> with \<open>2 ^ k \<le> p / q < 2 ^ (k + 1)\<close>.\<close>

definition binary_exponent :: "int \<Rightarrow> int \<Rightarrow> int" where
  "binary_exponent p q = (let k = bit_length p - bit_length q in
     if q * 2 ^ nat k \<le> p * 2 ^ nat (- k) then k else k - 1)"

text \<open>The double nearest to a rational within the range of normal doubles.\<close>

definition double_abs :: "int \<Rightarrow> int \<Rightarrow> rat" where
  "double_abs p q = (let s = 52 - binary_exponent p q in
     of_int (round_quotient (p * 2 ^ nat s) (q * 2 ^ nat (- s))) * 2 ^ nat (- s) / 2 ^ nat s)"

definition double_of :: "rat \<Rightarrow> rat" where
  "double_of x = (case quotient_of x of (p, q) \<Rightarrow>
     if p = 0 then 0 else if p < 0 then - double_abs (- p) q else double_abs p q)"

definition float_mult :: "rat \<Rightarrow> rat \<Rightarrow> rat" where
  "float_mult a b = double_of (a * b)"

definition float_div :: "rat \<Rightarrow> rat \<Rightarrow> rat" where
  "float_div a b = double_of (a / b)"

text \<open>\<open>int(x)\<close> of a float truncates towards zero.\<close>

definition float_int :: "rat \<Rightarrow> int" where
  "float_int x = (if x \<ge> 0 then \<lfloor>x\<rfloor> else \<lceil>x\<rceil>)"

lemma double_of_0 [simp]: "double_of 0 = 0"
  by (simp add: double_of_def)

end
