(* ===== verification/Events.thy ===== *)
theory Events
  imports Runtime
begin

text \<open>
  \<open>argent_core/events.py\<close>: the event vocabulary and the fail-closed privacy filter every event
  passes before it is written.  \<open>str.lower\<close> is the ASCII one: the model's strings are byte
  strings, and the deny list is ASCII.

  \<open>hex_not_denylisted\<close>: a text over letters that cannot spell any deny-listed word is never
  refused, which keeps identifiers (hexadecimal uuids) out of the filter's way;
  \<open>event_types_pass\<close> and its neighbours say the same of the core's fixed vocabulary.
\<close>

definition V1_EVENT_TYPES :: "string list" where
  "V1_EVENT_TYPES = [''task.created'', ''task.state_changed'', ''role.started'',
     ''role.completed'', ''role.failed'', ''handoff.created'', ''finding.created'',
     ''finding.resolved'', ''test.started'', ''test.completed'', ''review.started'',
     ''review.completed'', ''lead.decision'', ''gate.owner_required'', ''gate.owner_approved'',
     ''gate.owner_rejected'', ''system.recovery_started'', ''system.recovery_completed'',
     ''task.completed'']"

definition AGENT_EVENT_TYPES :: "string list" where
  "AGENT_EVENT_TYPES = [''agent.dispatch_created'', ''agent.started'', ''agent.result_received'',
     ''agent.result_accepted'', ''agent.result_rejected'', ''agent.result_duplicate'',
     ''agent.completed'', ''agent.failed'', ''agent.recovery_pending'', ''handoff.expected'',
     ''handoff.accepted'', ''policy.role_violation'']"

definition EVENT_TYPES :: "string list" where
  "EVENT_TYPES = V1_EVENT_TYPES @ AGENT_EVENT_TYPES"

definition PRIVACY_DENYLIST :: "string list" where
  "PRIVACY_DENYLIST = [''prompt'', ''chain_of_thought'', ''cot'', ''reasoning'', ''secret'',
     ''password'', ''api_key'', ''token'', ''credential'', ''mail_content'', ''mail_address'',
     ''email_address'', ''source_code'', ''code'', ''diff'', ''body'', ''subject'', ''content'',
     ''recipient'']"

fun starts_with :: "string \<Rightarrow> string \<Rightarrow> bool" where
  "starts_with [] s = True"
| "starts_with (w # ws) [] = False"
| "starts_with (w # ws) (c # cs) = (if w = c then starts_with ws cs else False)"

text \<open>\<open>word in text\<close>\<close>

fun contains_str :: "string \<Rightarrow> string \<Rightarrow> bool" where
  "contains_str w [] = (w = [])"
| "contains_str w (c # cs) = (if starts_with w (c # cs) then True else contains_str w cs)"

definition LOWER_DENYLIST :: "string list" where
  "LOWER_DENYLIST = map str_lower PRIVACY_DENYLIST"

lemma LOWER_DENYLIST_code [code]: "LOWER_DENYLIST = [''prompt'', ''chain_of_thought'', ''cot'',
     ''reasoning'', ''secret'', ''password'', ''api_key'', ''token'', ''credential'', ''mail_content'',
     ''mail_address'', ''email_address'', ''source_code'', ''code'', ''diff'', ''body'', ''subject'',
     ''content'', ''recipient'']"
  by code_simp

definition contains_denylisted :: "string \<Rightarrow> string option" where
  "contains_denylisted text =
     (let low = str_lower text in find (\<lambda>w. contains_str w low) LOWER_DENYLIST)"

text \<open>\<open>_scan_value\<close> and \<open>_scan_payload\<close>, mutually recursive as in the code; the loops over a
  list and over the items of a dict stop at the first hit.\<close>

fun scan_value :: "py \<Rightarrow> string option"
  and scan_items :: "py list \<Rightarrow> string option"
  and scan_payload :: "(string \<times> py) list \<Rightarrow> string option" where
  "scan_value (PStr s) = contains_denylisted s"
| "scan_value (PDict kvs) = scan_payload kvs"
| "scan_value (PList xs) = scan_items xs"
| "scan_value PNone = None"
| "scan_value (PBool b) = None"
| "scan_value (PInt i) = None"
| "scan_value (PFloat f) = None"
| "scan_items [] = None"
| "scan_items (x # xs) = (case scan_value x of Some w \<Rightarrow> Some w | None \<Rightarrow> scan_items xs)"
| "scan_payload [] = None"
| "scan_payload ((k, v) # kvs) =
     (case contains_denylisted k of Some w \<Rightarrow> Some w
      | None \<Rightarrow> (case scan_value v of Some w \<Rightarrow> Some w | None \<Rightarrow> scan_payload kvs))"

definition check_privacy :: "(string \<times> py) list \<Rightarrow> argent_error + unit" where
  "check_privacy payload = (case scan_payload payload of
     Some w \<Rightarrow> Inl PrivacyViolation | None \<Rightarrow> Inr ())"

definition scan_field :: "string option \<Rightarrow> string option" where
  "scan_field f = (case f of None \<Rightarrow> None | Some s \<Rightarrow> contains_denylisted s)"

definition check_event :: "event \<Rightarrow> argent_error + unit" where
  "check_event ev =
     (if scan_field (Some (ev_type ev)) \<noteq> None \<or> scan_field (ev_task_id ev) \<noteq> None \<or>
         scan_field (ev_role ev) \<noteq> None \<or> scan_field (ev_state ev) \<noteq> None
      then Inl PrivacyViolation
      else check_privacy (ev_payload ev))"

section \<open>Substrings\<close>

lemma starts_with_iff: "starts_with w s \<longleftrightarrow> (\<exists>r. s = w @ r)"
  by (induction w s rule: starts_with.induct) auto

lemma contains_str_iff: "contains_str w s \<longleftrightarrow> (\<exists>l r. s = l @ w @ r)"
proof (induction s)
  case Nil
  then show ?case by auto
next
  case (Cons c cs)
  have "(\<exists>l r. c # cs = l @ w @ r) \<longleftrightarrow>
      (\<exists>r. c # cs = w @ r) \<or> (\<exists>l r. cs = l @ w @ r)" (is "?lhs \<longleftrightarrow> ?rhs")
  proof
    assume ?lhs
    then obtain l r where "c # cs = l @ w @ r" by blast
    then show ?rhs by (cases l) auto
  next
    assume ?rhs
    then show ?lhs by (metis append_Cons append_Nil)
  qed
  then show ?case using Cons by (simp add: starts_with_iff)
qed

lemma contains_str_set: "contains_str w s \<Longrightarrow> set w \<subseteq> set s"
  by (auto simp: contains_str_iff)

lemma contains_str_append: "contains_str w s \<Longrightarrow> contains_str w (l @ s @ r)"
  by (metis append.assoc contains_str_iff)

lemma contains_denylisted_None_iff:
  "contains_denylisted s = None \<longleftrightarrow> (\<forall>w \<in> set LOWER_DENYLIST. \<not> contains_str w (str_lower s))"
  by (auto simp: contains_denylisted_def Let_def find_None_iff)

text \<open>Every deny-listed word has a letter outside \<open>hex_alphabet\<close>.\<close>

definition hex_alphabet :: "string" where
  "hex_alphabet = ''0123456789abcdef-''"

lemma denylist_not_hex: "\<forall>w \<in> set LOWER_DENYLIST. \<not> set w \<subseteq> set hex_alphabet"
  by code_simp

lemma hex_lower: "set s \<subseteq> set hex_alphabet \<Longrightarrow> str_lower s = s"
proof -
  have "\<forall>c \<in> set hex_alphabet. lower_char c = c" by code_simp
  then show "set s \<subseteq> set hex_alphabet \<Longrightarrow> str_lower s = s"
    unfolding str_lower_def by (intro map_idI) blast
qed

lemma hex_not_denylisted:
  assumes "set s \<subseteq> set hex_alphabet"
  shows "contains_denylisted s = None"
  unfolding contains_denylisted_None_iff hex_lower[OF assms]
  using denylist_not_hex assms contains_str_set by (meson subset_trans)

section \<open>What the filter finds\<close>

text \<open>The texts of a payload: every key and every string value, at any depth.\<close>

fun value_texts :: "py \<Rightarrow> string list"
  and item_texts :: "py list \<Rightarrow> string list"
  and payload_texts :: "(string \<times> py) list \<Rightarrow> string list" where
  "value_texts (PStr s) = [s]"
| "value_texts (PDict kvs) = payload_texts kvs"
| "value_texts (PList xs) = item_texts xs"
| "value_texts PNone = []"
| "value_texts (PBool b) = []"
| "value_texts (PInt i) = []"
| "value_texts (PFloat f) = []"
| "item_texts [] = []"
| "item_texts (x # xs) = value_texts x @ item_texts xs"
| "payload_texts [] = []"
| "payload_texts ((k, v) # kvs) = k # value_texts v @ payload_texts kvs"

lemma scan_None_iff:
  "scan_value v = None \<longleftrightarrow> (\<forall>t \<in> set (value_texts v). contains_denylisted t = None)"
  "scan_items xs = None \<longleftrightarrow> (\<forall>t \<in> set (item_texts xs). contains_denylisted t = None)"
  "scan_payload kvs = None \<longleftrightarrow> (\<forall>t \<in> set (payload_texts kvs). contains_denylisted t = None)"
  by (induction v and xs and kvs rule: value_texts_item_texts_payload_texts.induct)
     (auto split: option.splits)

definition event_texts :: "event \<Rightarrow> string list" where
  "event_texts ev = ev_type ev # concat (map (\<lambda>f. case f of None \<Rightarrow> [] | Some s \<Rightarrow> [s])
     [ev_task_id ev, ev_role ev, ev_state ev]) @ payload_texts (ev_payload ev)"

lemma check_event_iff:
  "check_event ev = Inr () \<longleftrightarrow> (\<forall>t \<in> set (event_texts ev). contains_denylisted t = None)"
proof -
  have "check_event ev = Inr () \<longleftrightarrow> scan_field (Some (ev_type ev)) = None \<and>
      scan_field (ev_task_id ev) = None \<and> scan_field (ev_role ev) = None \<and>
      scan_field (ev_state ev) = None \<and> scan_payload (ev_payload ev) = None"
    by (auto simp: check_event_def check_privacy_def split: option.splits)
  moreover have "scan_field f = None \<longleftrightarrow>
      (\<forall>t \<in> set (case f of None \<Rightarrow> [] | Some s \<Rightarrow> [s]). contains_denylisted t = None)" for f
    by (simp add: scan_field_def split: option.splits)
  ultimately show ?thesis
    by (auto simp: event_texts_def scan_None_iff(3))
qed

text \<open>C37: the filter is exact.  An event passes iff no text of it, envelope or payload key or
  payload string at any depth, contains a deny-listed word in any letter case; otherwise it is a
  \<open>PrivacyViolation\<close>.  Embedding a refused text in a longer one keeps it refused.\<close>

theorem privacy_filter_exact:
  "(check_event ev = Inr () \<longleftrightarrow>
     (\<forall>t \<in> set (event_texts ev). \<forall>w \<in> set PRIVACY_DENYLIST.
        \<not> (\<exists>l r. str_lower t = l @ str_lower w @ r))) \<and>
   (check_event ev \<noteq> Inr () \<longrightarrow> check_event ev = Inl PrivacyViolation) \<and>
   (contains_denylisted t \<noteq> None \<longrightarrow> contains_denylisted (l @ t @ r) \<noteq> None)"
proof (intro conjI impI)
  show "check_event ev = Inr () \<longleftrightarrow>
     (\<forall>t \<in> set (event_texts ev). \<forall>w \<in> set PRIVACY_DENYLIST.
        \<not> (\<exists>l r. str_lower t = l @ str_lower w @ r))"
    by (simp add: check_event_iff contains_denylisted_None_iff LOWER_DENYLIST_def contains_str_iff)
  show "check_event ev \<noteq> Inr () \<Longrightarrow> check_event ev = Inl PrivacyViolation"
    by (auto simp: check_event_def check_privacy_def split: if_splits option.splits)
  show "contains_denylisted t \<noteq> None \<Longrightarrow> contains_denylisted (l @ t @ r) \<noteq> None"
    unfolding contains_denylisted_None_iff using contains_str_append by fastforce
qed

theorem privacy_filter_exact_witness:
  "contains_denylisted ''My Pass-TOKEN'' \<noteq> None \<and> contains_denylisted ''a My Pass-TOKEN z'' \<noteq> None"
proof -
  have h: "contains_denylisted ''My Pass-TOKEN'' \<noteq> None" by code_simp
  show ?thesis
    using h privacy_filter_exact[of "undefined" "''My Pass-TOKEN''" "''a ''" "'' z''"] by simp
qed

lemma event_types_pass: "\<forall>t \<in> set EVENT_TYPES. contains_denylisted t = None"
  by code_simp

lemma role_values_pass [simp]: "contains_denylisted (role_value r) = None"
proof -
  have "\<forall>x. contains_denylisted (role_value x) = None" by code_simp
  then show ?thesis by blast
qed

lemma task_state_values_pass [simp]: "contains_denylisted (task_state_value st) = None"
proof -
  have "\<forall>x. contains_denylisted (task_state_value x) = None" by code_simp
  then show ?thesis by blast
qed

end
