(* ===== verification/Model_Registry.thy ===== *)
theory Model_Registry
  imports Text Events "HOL-Library.List_Lexorder" "HOL-Library.Char_ord"
begin

text \<open>
  \<open>argent_core/model_registry.py\<close>: the registry of providers and models.  A registry is built from
  JSON values (\<open>from_payload\<close>, \<open>load_files\<close>), every entry checked field by field in the order of the
  code, then cross-checked; afterwards it is only read: lookups, the capability floor, the
  candidates of a set of requirements.

  The vocabularies are the values of the code's string enums, a descriptor holds the values.  A
  dict keyed by id is an association list.  SHA-256 comes from the environment; the compact form
  of \<open>json.dumps\<close> and the URL parser of the standard library are the fields of \<open>codec\<close>.  Error
  texts are not modelled; the codes of \<open>ModelRegistryError\<close> and \<open>RoutingError\<close> are.
\<close>

section \<open>Errors and checks\<close>

datatype policy_error =
    RegistryError string
  | RoutingError string
  | RawValueError \<comment> \<open>Python's own \<open>ValueError\<close>\<close>
  | RawKeyError \<comment> \<open>Python's own \<open>KeyError\<close>\<close>

definition PROVIDER_UNAVAILABLE :: string where "PROVIDER_UNAVAILABLE = ''PROVIDER_UNAVAILABLE''"
definition MODEL_UNAVAILABLE :: string where "MODEL_UNAVAILABLE = ''MODEL_UNAVAILABLE''"
definition MODEL_NOT_ALLOWED :: string where "MODEL_NOT_ALLOWED = ''MODEL_NOT_ALLOWED''"
definition MODEL_CONFIG_INVALID :: string where "MODEL_CONFIG_INVALID = ''MODEL_CONFIG_INVALID''"

definition config_invalid :: policy_error where
  "config_invalid = RegistryError MODEL_CONFIG_INVALID"

definition thenE :: "'e + 'a \<Rightarrow> ('a \<Rightarrow> 'e + 'b) \<Rightarrow> 'e + 'b" where
  "thenE m f = (case m of Inl e \<Rightarrow> Inl e | Inr x \<Rightarrow> f x)"

definition ensure :: "bool \<Rightarrow> 'e \<Rightarrow> 'e + 'b \<Rightarrow> 'e + 'b" where
  "ensure b e r = (if b then r else Inl e)"

fun mapE :: "('a \<Rightarrow> 'e + 'b) \<Rightarrow> 'a list \<Rightarrow> 'e + 'b list" where
  "mapE f [] = Inr []"
| "mapE f (x # xs) = thenE (f x) (\<lambda>y. thenE (mapE f xs) (\<lambda>ys. Inr (y # ys)))"

lemma thenE_simps [simp]: "thenE (Inr x) f = f x" "thenE (Inl e) f = Inl e"
  by (simp_all add: thenE_def)

lemma thenE_Inr [simp]: "thenE m f = Inr y \<longleftrightarrow> (\<exists>x. m = Inr x \<and> f x = Inr y)"
  by (cases m) (simp_all add: thenE_def)

lemma ensure_Inr [simp]: "ensure b e r = Inr y \<longleftrightarrow> b \<and> r = Inr y"
  by (simp add: ensure_def)

lemma mapE_Inr: "mapE f xs = Inr ys \<longleftrightarrow> list_all2 (\<lambda>x y. f x = Inr y) xs ys"
  by (induction xs arbitrary: ys) (auto simp: list_all2_Cons1)

lemma mapE_Inr_set: "mapE f xs = Inr ys \<Longrightarrow> y \<in> set ys \<Longrightarrow> \<exists>x \<in> set xs. f x = Inr y"
  by (induction xs arbitrary: ys) auto

section \<open>Vocabularies\<close>

definition PROVIDER_TYPES :: "string list" where
  "PROVIDER_TYPES = [''openai-completions'', ''oauth-plugin'']"

definition AVAILABILITY_STATES :: "string list" where
  "AVAILABILITY_STATES = [''AVAILABLE'', ''DEGRADED'', ''UNAVAILABLE'', ''DISABLED'', ''UNKNOWN'']"

definition LIFECYCLE_STATES :: "string list" where
  "LIFECYCLE_STATES = [''ACTIVE'', ''DEPRECATED'', ''RETIRED'']"

definition REASONING_LEVELS :: "string list" where
  "REASONING_LEVELS = [''LOW'', ''MEDIUM'', ''HIGH'']"

definition reasoning_rank :: "string \<Rightarrow> int option" where
  "reasoning_rank l = map_of [(''LOW'', 0), (''MEDIUM'', 1), (''HIGH'', 2)] l"

definition CAPABILITIES :: "string list" where
  "CAPABILITIES = [''COORDINATION'', ''SIMPLE_ANALYSIS'', ''CODE_IMPLEMENTATION'',
     ''COMPLEX_CODE_IMPLEMENTATION'', ''DEBUGGING'', ''REPOSITORY_REASONING'', ''ARCHITECTURE'',
     ''SECURITY_REVIEW'', ''CODE_REVIEW'', ''ROOT_CAUSE_ANALYSIS'', ''TOOL_USE'', ''LONG_CONTEXT'',
     ''VISION'', ''STRUCTURED_OUTPUT'']"

definition COST_CLASSES :: "string list" where
  "COST_CLASSES = [''LOW'', ''MEDIUM'', ''HIGH'', ''UNKNOWN'']"

definition LATENCY_CLASSES :: "string list" where
  "LATENCY_CLASSES = [''LOW'', ''MEDIUM'', ''HIGH'', ''UNKNOWN'']"

definition RELIABILITY_CLASSES :: "string list" where
  "RELIABILITY_CLASSES = [''LOW'', ''MEDIUM'', ''HIGH'', ''UNKNOWN'']"

definition INDEPENDENCES :: "string list" where
  "INDEPENDENCES = [''SAME_MODEL_ALLOWED'', ''DIFFERENT_MODEL_REQUIRED'',
     ''DIFFERENT_PROVIDER_PREFERRED'', ''DIFFERENT_PROVIDER_REQUIRED'']"

definition TOOL_CAPABILITIES :: "string list" where
  "TOOL_CAPABILITIES = [''code_edit'', ''shell_exec'', ''web_search'', ''file_access'']"

definition CODING_MODES :: "string list" where
  "CODING_MODES = [''none'', ''implementation'', ''review'']"

definition REGISTRY_VERSION :: string where "REGISTRY_VERSION = ''1''"
definition POLICY_VERSION :: string where "POLICY_VERSION = ''1''"

section \<open>Fields\<close>

text \<open>\<open>d.get(k, default)\<close> of a JSON object.\<close>

definition py_get_default :: "(string \<times> py) list \<Rightarrow> string \<Rightarrow> py \<Rightarrow> py" where
  "py_get_default kvs k d = (case map_of kvs k of None \<Rightarrow> d | Some v \<Rightarrow> v)"

definition enum_member :: "'e \<Rightarrow> string list \<Rightarrow> py \<Rightarrow> 'e + string" where
  "enum_member e vs v =
     (case v of PStr s \<Rightarrow> (if s \<in> set vs then Inr s else Inl e) | _ \<Rightarrow> Inl e)"

definition require_enum :: "string list \<Rightarrow> py \<Rightarrow> policy_error + string" where
  "require_enum vs v = enum_member config_invalid vs v"

definition reject_unknown_keys ::
  "(string \<times> py) list \<Rightarrow> string list \<Rightarrow> policy_error + unit" where
  "reject_unknown_keys raw allowed =
     ensure (list_all (\<lambda>kv. fst kv \<in> set allowed) raw) config_invalid (Inr ())"

definition require_bool :: "py \<Rightarrow> policy_error + bool" where
  "require_bool v = (case v of PBool b \<Rightarrow> Inr b | _ \<Rightarrow> Inl config_invalid)"

definition nonempty_str :: "'e \<Rightarrow> py \<Rightarrow> 'e + string" where
  "nonempty_str e v = (case v of PStr s \<Rightarrow> (if s = [] then Inl e else Inr s) | _ \<Rightarrow> Inl e)"

text \<open>\<open>re.match\<close> with a pattern that ends in \<open>$\<close>: the end, or before a final line feed.\<close>

definition re_dollar :: "(string \<Rightarrow> bool) \<Rightarrow> string \<Rightarrow> bool" where
  "re_dollar p s \<longleftrightarrow> p s \<or> s \<noteq> [] \<and> last s = CHR 0x0A \<and> p (butlast s)"

definition ID_LETTERS :: string where
  "ID_LETTERS = LOWER_LETTERS @ ''0123456789''"

definition id_text :: "string \<Rightarrow> bool" where
  "id_text s \<longleftrightarrow> (case s of [] \<Rightarrow> False
     | c # cs \<Rightarrow> c \<in> set ID_LETTERS \<and> list_all (\<lambda>d. d \<in> set (ID_LETTERS @ ''.-'')) cs)"

definition require_id :: "py \<Rightarrow> policy_error + string" where
  "require_id v =
     thenE (nonempty_str config_invalid v) (\<lambda>s.
     ensure (length s \<le> 128) config_invalid
     (ensure (re_dollar id_text s) config_invalid (Inr s)))"

definition SECRET_MARKERS :: "string list" where
  "SECRET_MARKERS = [''sk-'', ''ghp_'', ''gho_'', ''ghs_'', ''github_pat_'', ''AKIA'', ''xoxb-'',
     ''xoxp-'', ''Bearer '', ''AIza'']"

definition opaque_text :: "string \<Rightarrow> bool" where
  "opaque_text s \<longleftrightarrow> s \<noteq> [] \<and>
     list_all (\<lambda>c. c \<in> set (UPPER_LETTERS @ LOWER_LETTERS @ ''0123456789:._/-'')) s"

definition require_opaque_ref :: "py \<Rightarrow> policy_error + string option" where
  "require_opaque_ref v = (case v of PNone \<Rightarrow> Inr None | _ \<Rightarrow>
     thenE (nonempty_str config_invalid v) (\<lambda>s.
     ensure (length s \<le> 256) config_invalid
     (ensure (\<not> contains_str ''://'' s \<and> \<not> contains_str ''@'' s) config_invalid
     (ensure (re_dollar opaque_text s) config_invalid
     (ensure (list_all (\<lambda>m. \<not> contains_str (str_lower m) (str_lower s)) SECRET_MARKERS)
        config_invalid (Inr (Some s)))))))"

record url_parts =
  url_scheme :: string
  url_username :: "string option"
  url_password :: "string option"
  url_hostname :: "string option"

record codec =
  co_compact :: "py \<Rightarrow> string" \<comment> \<open>\<open>json.dumps(v, sort_keys=True, separators=(",", ":"))\<close>\<close>
  co_urlparse :: "string \<Rightarrow> url_parts option" \<comment> \<open>\<open>None\<close> where \<open>urlparse\<close> raises \<open>ValueError\<close>\<close>

definition require_endpoint_ref :: "codec \<Rightarrow> py \<Rightarrow> policy_error + string option" where
  "require_endpoint_ref J v = (case v of PNone \<Rightarrow> Inr None | _ \<Rightarrow>
     thenE (nonempty_str config_invalid v) (\<lambda>s.
     (case co_urlparse J s of None \<Rightarrow> Inl RawValueError | Some u \<Rightarrow>
       ensure (url_scheme u \<in> {''http'', ''https''}) config_invalid
       (ensure (url_username u = None \<and> url_password u = None) config_invalid
       (ensure (or_empty (url_hostname u) \<noteq> []) config_invalid (Inr (Some s)))))))"

definition require_bounded_int :: "int \<Rightarrow> py \<Rightarrow> policy_error + int option" where
  "require_bounded_int maximum v = (case v of PNone \<Rightarrow> Inr None
     | PInt i \<Rightarrow> ensure (0 \<le> i \<and> i \<le> maximum) config_invalid (Inr (Some i))
     | _ \<Rightarrow> Inl config_invalid)"

definition parse_enum_list :: "string list \<Rightarrow> py \<Rightarrow> policy_error + string list" where
  "parse_enum_list vs v = (case v of PNone \<Rightarrow> Inr []
     | PList items \<Rightarrow> mapE (require_enum vs) items
     | _ \<Rightarrow> Inl config_invalid)"

definition AGENT_ORIGIN_MARKERS :: "string list" where
  "AGENT_ORIGIN_MARKERS = [''agent-output'', ''model-self-report'', ''self-report'',
     ''model-output'', ''prompt'', ''handoff'']"

definition TRUSTED_SOURCE_AUTHORITIES :: "string list" where
  "TRUSTED_SOURCE_AUTHORITIES = [''openclaw.json'', ''routing.py'', ''docs-'', ''architecture'',
     ''local-config'', ''test'']"

definition validate_source :: "string \<Rightarrow> policy_error + string" where
  "validate_source s =
     ensure (list_all (\<lambda>m. \<not> contains_str m (str_lower s)) AGENT_ORIGIN_MARKERS) config_invalid
     (ensure (list_ex (\<lambda>a. starts_with a (str_lower s)) TRUSTED_SOURCE_AUTHORITIES) config_invalid
     (Inr s))"

section \<open>Descriptors\<close>

record claim_provenance =
  cp_source :: string
  cp_benchmarked :: bool

record model_abilities =
  mab_vision :: "bool option"
  mab_coding :: "string option"
  mab_review :: "bool option"

record provider_descriptor =
  pd_provider_id :: string
  pd_provider_type :: string
  pd_display_name :: string
  pd_enabled :: bool
  pd_availability_state :: string
  pd_capabilities_supported :: "string list"
  pd_credential_ref :: "string option"
  pd_auth_mode :: "string option"
  pd_endpoint_ref :: "string option"
  pd_profile_ref :: "string option"
  pd_policy_version :: string

record model_descriptor =
  md_model_id :: string
  md_provider_id :: string
  md_canonical_model_name :: string
  md_enabled :: bool
  md_lifecycle_state :: string
  md_context_window :: "int option"
  md_output_limit :: "int option"
  md_reasoning_levels :: "string list"
  md_tool_capabilities :: "string list"
  md_abilities :: model_abilities
  md_latency_class :: string
  md_cost_class :: string
  md_reliability_class :: string
  md_capability_tags :: "string list"
  md_policy_version :: string
  md_provenance :: claim_provenance

section \<open>Parsing\<close>

definition PROVIDER_KEYS :: "string list" where
  "PROVIDER_KEYS = [''provider_id'', ''provider_type'', ''display_name'', ''enabled'',
     ''availability_state'', ''capabilities_supported'', ''credential_ref'', ''auth_mode'',
     ''endpoint_ref'', ''profile_ref'', ''policy_version'']"

definition MODEL_KEYS :: "string list" where
  "MODEL_KEYS = [''model_id'', ''provider_id'', ''canonical_model_name'', ''enabled'',
     ''lifecycle_state'', ''context_window_metadata'', ''output_limit_metadata'',
     ''reasoning_levels_supported'', ''tool_capabilities'', ''abilities'', ''latency_class'',
     ''cost_class'', ''reliability_class'', ''capability_tags'', ''policy_version'', ''provenance'']"

definition as_object :: "'e \<Rightarrow> py \<Rightarrow> 'e + (string \<times> py) list" where
  "as_object e v = (case v of PDict kvs \<Rightarrow> Inr kvs | _ \<Rightarrow> Inl e)"

definition parse_provider :: "codec \<Rightarrow> string \<Rightarrow> py \<Rightarrow> policy_error + provider_descriptor" where
  "parse_provider J policy_version v =
     thenE (as_object config_invalid v) (\<lambda>raw.
     thenE (reject_unknown_keys raw PROVIDER_KEYS) (\<lambda>_.
     thenE (require_id (py_get raw ''provider_id'')) (\<lambda>provider_id.
     thenE (require_enum PROVIDER_TYPES (py_get raw ''provider_type'')) (\<lambda>provider_type.
     thenE (nonempty_str config_invalid (py_get raw ''display_name'')) (\<lambda>display_name.
     thenE (require_bool (py_get raw ''enabled'')) (\<lambda>enabled.
     thenE (require_enum AVAILABILITY_STATES (py_get raw ''availability_state'')) (\<lambda>availability.
     thenE (parse_enum_list CAPABILITIES (py_get raw ''capabilities_supported'')) (\<lambda>caps.
     thenE (require_opaque_ref (py_get raw ''credential_ref'')) (\<lambda>credential_ref.
     thenE (require_opaque_ref (py_get raw ''auth_mode'')) (\<lambda>auth_mode.
     thenE (require_endpoint_ref J (py_get raw ''endpoint_ref'')) (\<lambda>endpoint_ref.
     thenE (require_opaque_ref (py_get raw ''profile_ref'')) (\<lambda>profile_ref.
     thenE (require_id (py_get_default raw ''policy_version'' (PStr policy_version))) (\<lambda>entry_policy.
     ensure (entry_policy = policy_version) config_invalid
     (Inr \<lparr>pd_provider_id = provider_id, pd_provider_type = provider_type,
        pd_display_name = display_name, pd_enabled = enabled,
        pd_availability_state = availability, pd_capabilities_supported = caps,
        pd_credential_ref = credential_ref, pd_auth_mode = auth_mode,
        pd_endpoint_ref = endpoint_ref, pd_profile_ref = profile_ref,
        pd_policy_version = entry_policy\<rparr>))))))))))))))"

text \<open>A field that is \<open>null\<close> or a bool.\<close>

definition optional_bool :: "py \<Rightarrow> policy_error + bool option" where
  "optional_bool v = (case v of PNone \<Rightarrow> Inr None | PBool b \<Rightarrow> Inr (Some b) | _ \<Rightarrow> Inl config_invalid)"

definition parse_abilities :: "py \<Rightarrow> policy_error + model_abilities" where
  "parse_abilities v = (case v of
     PNone \<Rightarrow> Inr \<lparr>mab_vision = None, mab_coding = None, mab_review = None\<rparr>
   | PDict raw \<Rightarrow>
       thenE (reject_unknown_keys raw [''vision'', ''coding'', ''review'']) (\<lambda>_.
       thenE (optional_bool (py_get raw ''vision'')) (\<lambda>vision.
       thenE (if py_get raw ''coding'' = PNone then Inr None
              else thenE (require_enum CODING_MODES (py_get raw ''coding'')) (\<lambda>c. Inr (Some c))) (\<lambda>coding.
       thenE (optional_bool (py_get raw ''review'')) (\<lambda>review.
       Inr \<lparr>mab_vision = vision, mab_coding = coding, mab_review = review\<rparr>))))
   | _ \<Rightarrow> Inl config_invalid)"

definition parse_provenance :: "py \<Rightarrow> policy_error + claim_provenance" where
  "parse_provenance v = (case v of
     PNone \<Rightarrow> Inr \<lparr>cp_source = [], cp_benchmarked = False\<rparr>
   | PDict raw \<Rightarrow>
       thenE (reject_unknown_keys raw [''source'', ''benchmarked'']) (\<lambda>_.
       thenE (nonempty_str config_invalid (py_get raw ''source'')) (\<lambda>source.
       thenE (validate_source source) (\<lambda>_.
       thenE (require_bool (py_get_default raw ''benchmarked'' (PBool False))) (\<lambda>benchmarked.
       ensure (\<not> benchmarked) config_invalid
       (Inr \<lparr>cp_source = source, cp_benchmarked = benchmarked\<rparr>)))))
   | _ \<Rightarrow> Inl config_invalid)"

definition parse_model :: "string \<Rightarrow> py \<Rightarrow> policy_error + model_descriptor" where
  "parse_model policy_version v =
     thenE (as_object config_invalid v) (\<lambda>raw.
     thenE (reject_unknown_keys raw MODEL_KEYS) (\<lambda>_.
     thenE (require_id (py_get raw ''model_id'')) (\<lambda>model_id.
     thenE (require_id (py_get raw ''provider_id'')) (\<lambda>provider_id.
     thenE (nonempty_str config_invalid (py_get raw ''canonical_model_name'')) (\<lambda>name.
     thenE (require_bool (py_get raw ''enabled'')) (\<lambda>enabled.
     thenE (require_enum LIFECYCLE_STATES (py_get raw ''lifecycle_state'')) (\<lambda>lifecycle.
     thenE (require_bounded_int 10000000 (py_get raw ''context_window_metadata'')) (\<lambda>ctx.
     thenE (require_bounded_int 1000000 (py_get raw ''output_limit_metadata'')) (\<lambda>out.
     thenE (parse_enum_list REASONING_LEVELS (py_get raw ''reasoning_levels_supported'')) (\<lambda>reasoning.
     thenE (parse_enum_list TOOL_CAPABILITIES (py_get raw ''tool_capabilities'')) (\<lambda>tools.
     thenE (require_enum LATENCY_CLASSES (py_get_default raw ''latency_class'' (PStr ''UNKNOWN''))) (\<lambda>latency.
     thenE (require_enum COST_CLASSES (py_get_default raw ''cost_class'' (PStr ''UNKNOWN''))) (\<lambda>cost.
     thenE (require_enum RELIABILITY_CLASSES
              (py_get_default raw ''reliability_class'' (PStr ''UNKNOWN''))) (\<lambda>reliability.
     thenE (parse_enum_list CAPABILITIES (py_get raw ''capability_tags'')) (\<lambda>tags.
     thenE (require_id (py_get_default raw ''policy_version'' (PStr policy_version))) (\<lambda>entry_policy.
     ensure (entry_policy = policy_version) config_invalid
     (thenE (parse_abilities (py_get raw ''abilities'')) (\<lambda>abilities.
     thenE (parse_provenance (py_get raw ''provenance'')) (\<lambda>provenance.
     Inr \<lparr>md_model_id = model_id, md_provider_id = provider_id,
        md_canonical_model_name = name, md_enabled = enabled, md_lifecycle_state = lifecycle,
        md_context_window = ctx, md_output_limit = out, md_reasoning_levels = reasoning,
        md_tool_capabilities = tools, md_abilities = abilities, md_latency_class = latency,
        md_cost_class = cost, md_reliability_class = reliability, md_capability_tags = tags,
        md_policy_version = entry_policy, md_provenance = provenance\<rparr>)))))))))))))))))))"

section \<open>The registry\<close>

record registry =
  rg_version :: string
  rg_providers :: "(string \<times> provider_descriptor) list"
  rg_models :: "(string \<times> model_descriptor) list"
  rg_content_hash :: string

definition get_provider :: "registry \<Rightarrow> string \<Rightarrow> provider_descriptor option" where
  "get_provider r pid = map_of (rg_providers r) pid"

definition get_model :: "registry \<Rightarrow> string \<Rightarrow> model_descriptor option" where
  "get_model r mid = map_of (rg_models r) mid"

definition list_models :: "registry \<Rightarrow> model_descriptor list" where
  "list_models r = List.map_filter (get_model r) (sort (map fst (rg_models r)))"

definition list_providers :: "registry \<Rightarrow> provider_descriptor list" where
  "list_providers r = List.map_filter (get_provider r) (sort (map fst (rg_providers r)))"

definition cross_reference_ok :: "registry \<Rightarrow> model_descriptor \<Rightarrow> bool" where
  "cross_reference_ok r md = (case get_provider r (md_provider_id md) of None \<Rightarrow> False
     | Some p \<Rightarrow> set (md_capability_tags md) \<subseteq> set (pd_capabilities_supported p))"

definition validate_cross_references :: "registry \<Rightarrow> policy_error + unit" where
  "validate_cross_references r =
     ensure (list_all (\<lambda>m. cross_reference_ok r (snd m)) (rg_models r)) config_invalid (Inr ())"

definition new_registry ::
  "(string \<times> provider_descriptor) list \<Rightarrow> (string \<times> model_descriptor) list \<Rightarrow> string \<Rightarrow> string \<Rightarrow>
   policy_error + registry" where
  "new_registry providers models version content_hash =
     ensure (version = REGISTRY_VERSION) config_invalid
     (ensure (list_all (\<lambda>(key, pd). key = pd_provider_id pd \<and> pd_policy_version pd = POLICY_VERSION) providers)
        config_invalid
     (ensure (list_all (\<lambda>(key, md). key = md_model_id md \<and> md_policy_version md = POLICY_VERSION) models)
        config_invalid
     (let r = \<lparr>rg_version = version, rg_providers = providers, rg_models = models,
                rg_content_hash = content_hash\<rparr> in
      thenE (validate_cross_references r) (\<lambda>_. Inr r))))"

definition registry_content_hash :: "env \<Rightarrow> codec \<Rightarrow> py list \<Rightarrow> py list \<Rightarrow> string" where
  "registry_content_hash E J providers models =
     env_sha256 E (co_compact J (PDict [(''providers'', PList providers), (''models'', PList models)]))"

text \<open>A list of objects, or \<open>null\<close> for none.\<close>

definition objects_of :: "py \<Rightarrow> policy_error + py list" where
  "objects_of v = (case v of PNone \<Rightarrow> Inr [] | PList xs \<Rightarrow> Inr xs | _ \<Rightarrow> Inl config_invalid)"

text \<open>The loop that parses the entries into a dict keyed by their id, refusing a second one.\<close>

fun parse_keyed ::
  "(py \<Rightarrow> policy_error + 'd) \<Rightarrow> ('d \<Rightarrow> string) \<Rightarrow> py list \<Rightarrow> (string \<times> 'd) list \<Rightarrow>
   policy_error + (string \<times> 'd) list" where
  "parse_keyed parse key [] parsed = Inr parsed"
| "parse_keyed parse key (raw # rest) parsed =
     thenE (parse raw) (\<lambda>d.
     ensure (key d \<notin> fst ` set parsed) config_invalid
     (parse_keyed parse key rest (parsed @ [(key d, d)])))"

definition from_payload ::
  "env \<Rightarrow> codec \<Rightarrow> py \<Rightarrow> py \<Rightarrow> string \<Rightarrow> string \<Rightarrow> policy_error + registry" where
  "from_payload E J providers models version policy_version =
     thenE (objects_of providers) (\<lambda>ps.
     thenE (objects_of models) (\<lambda>ms.
     thenE (parse_keyed (parse_provider J policy_version) pd_provider_id ps []) (\<lambda>parsed_providers.
     thenE (parse_keyed (parse_model policy_version) md_model_id ms []) (\<lambda>parsed_models.
     new_registry parsed_providers parsed_models version (registry_content_hash E J ps ms)))))"

text \<open>\<open>load_files\<close>: a file is what \<open>json.loads\<close> made of it, \<open>None\<close> if it could not be read or
  parsed.  The version fields are compared with \<open>!=\<close>.\<close>

definition DOC_KEYS :: "string list" where
  "DOC_KEYS = [''registry_version'', ''policy_version'', ''providers'', ''models'']"

definition load_registry :: "env \<Rightarrow> codec \<Rightarrow> py option \<Rightarrow> py option \<Rightarrow> policy_error + registry" where
  "load_registry E J providers_file models_file =
     (case (providers_file, models_file) of
        (Some providers_doc, Some models_doc) \<Rightarrow>
          thenE (as_object config_invalid providers_doc) (\<lambda>pd.
          thenE (as_object config_invalid models_doc) (\<lambda>md.
          thenE (reject_unknown_keys pd DOC_KEYS) (\<lambda>_.
          thenE (reject_unknown_keys md DOC_KEYS) (\<lambda>_.
          ensure (list_all (\<lambda>doc. py_get doc ''registry_version'' = PStr REGISTRY_VERSION \<and>
                                  py_get doc ''policy_version'' = PStr POLICY_VERSION) [pd, md])
            config_invalid
          (ensure ((case (py_get pd ''providers'', py_get md ''models'') of
                      (PList _, PList _) \<Rightarrow> True | _ \<Rightarrow> False)) config_invalid
          (from_payload E J (py_get pd ''providers'') (py_get md ''models'')
             REGISTRY_VERSION POLICY_VERSION))))))
      | _ \<Rightarrow> Inl config_invalid)"

section \<open>Requirements and the capability floor\<close>

record requirements =
  rq_required_capabilities :: "string list"
  rq_optional_capabilities :: "string list"
  rq_minimum_reasoning_level :: string
  rq_tool_requirements :: "string list"
  rq_context_requirement :: "int option"
  rq_independence_requirement :: string
  rq_quality_floor :: string

definition distinct_members :: "string list \<Rightarrow> string list \<Rightarrow> bool" where
  "distinct_members vs xs \<longleftrightarrow> set xs \<subseteq> set vs \<and> distinct xs"

text \<open>\<open>CapabilityRequirements.__post_init__\<close>: the fields are values of their enums already, or the
  construction fails; canonicalizing leaves them as they are.\<close>

definition capability_requirements :: "requirements \<Rightarrow> policy_error + requirements" where
  "capability_requirements q =
     ensure (distinct_members CAPABILITIES (rq_required_capabilities q)) config_invalid
     (ensure (distinct_members CAPABILITIES (rq_optional_capabilities q)) config_invalid
     (ensure (distinct_members TOOL_CAPABILITIES (rq_tool_requirements q)) config_invalid
     (ensure (rq_minimum_reasoning_level q \<in> set REASONING_LEVELS) config_invalid
     (ensure (rq_independence_requirement q \<in> set INDEPENDENCES) config_invalid
     (ensure (rq_quality_floor q \<in> set RELIABILITY_CLASSES) config_invalid
     (ensure (case rq_context_requirement q of None \<Rightarrow> True | Some c \<Rightarrow> 0 \<le> c) config_invalid
     (Inr q)))))))"

definition validate_requirements :: "requirements \<Rightarrow> policy_error + unit" where
  "validate_requirements q =
     ensure (set (rq_required_capabilities q @ rq_optional_capabilities q) \<subseteq> set CAPABILITIES \<and>
             rq_minimum_reasoning_level q \<in> set REASONING_LEVELS \<and>
             set (rq_tool_requirements q) \<subseteq> set TOOL_CAPABILITIES \<and>
             rq_independence_requirement q \<in> set INDEPENDENCES \<and>
             rq_quality_floor q \<in> set RELIABILITY_CLASSES \<and>
             (case rq_context_requirement q of None \<Rightarrow> True | Some c \<Rightarrow> 0 \<le> c))
       config_invalid (Inr ())"

text \<open>The loop over the supported levels: true at the first that reaches the floor; a level that
  the rank table does not know raises.\<close>

fun any_rank :: "'e \<Rightarrow> int \<Rightarrow> string list \<Rightarrow> 'e + bool" where
  "any_rank e floor_rank [] = Inr False"
| "any_rank e floor_rank (l # ls) = (case reasoning_rank l of None \<Rightarrow> Inl e
     | Some r \<Rightarrow> if r \<ge> floor_rank then Inr True else any_rank e floor_rank ls)"

definition reasoning_satisfies :: "string list \<Rightarrow> string \<Rightarrow> policy_error + bool" where
  "reasoning_satisfies supported minimum = (case reasoning_rank minimum of
     None \<Rightarrow> Inl RawValueError | Some floor_rank \<Rightarrow> any_rank RawValueError floor_rank supported)"

definition class_rank :: "string \<Rightarrow> int option" where
  "class_rank c = map_of [(''LOW'', 0), (''MEDIUM'', 1), (''HIGH'', 2)] c"

definition class_satisfies :: "string \<Rightarrow> string \<Rightarrow> policy_error + bool" where
  "class_satisfies actual minimum =
     (if minimum = ''UNKNOWN'' then Inr True
      else if actual = ''UNKNOWN'' then Inr False
      else (case (class_rank actual, class_rank minimum) of
              (Some a, Some m) \<Rightarrow> Inr (a \<ge> m) | _ \<Rightarrow> Inl RawKeyError))"

definition context_satisfies :: "int option \<Rightarrow> int option \<Rightarrow> bool" where
  "context_satisfies window requirement = (case requirement of None \<Rightarrow> True
     | Some c \<Rightarrow> (case window of None \<Rightarrow> False | Some w \<Rightarrow> w \<ge> c))"

definition satisfies_floor :: "model_descriptor \<Rightarrow> requirements \<Rightarrow> policy_error + bool" where
  "satisfies_floor model q =
     thenE (validate_requirements q) (\<lambda>_.
     if \<not> set (rq_required_capabilities q) \<subseteq> set (md_capability_tags model) then Inr False
     else thenE (reasoning_satisfies (md_reasoning_levels model) (rq_minimum_reasoning_level q)) (\<lambda>reasons.
     if \<not> reasons then Inr False
     else if \<not> set (rq_tool_requirements q) \<subseteq> set (md_tool_capabilities model) then Inr False
     else if \<not> context_satisfies (md_context_window model) (rq_context_requirement q) then Inr False
     else class_satisfies (md_reliability_class model) (rq_quality_floor q)))"

section \<open>Candidates\<close>

definition registry_independence_ok ::
  "model_descriptor \<Rightarrow> model_descriptor option \<Rightarrow> requirements \<Rightarrow> bool" where
  "registry_independence_ok model reference q =
     (let c = rq_independence_requirement q in
      if c = ''SAME_MODEL_ALLOWED'' then True
      else (case reference of
          None \<Rightarrow> c = ''DIFFERENT_PROVIDER_PREFERRED''
        | Some ref \<Rightarrow>
            if c = ''DIFFERENT_MODEL_REQUIRED'' then md_model_id model \<noteq> md_model_id ref
            else if c = ''DIFFERENT_PROVIDER_PREFERRED'' then True
            else if c = ''DIFFERENT_PROVIDER_REQUIRED'' then md_provider_id model \<noteq> md_provider_id ref
            else True))"

definition usable_provider :: "registry \<Rightarrow> model_descriptor \<Rightarrow> bool" where
  "usable_provider r model = (case get_provider r (md_provider_id model) of None \<Rightarrow> False
     | Some p \<Rightarrow> pd_enabled p \<and> pd_availability_state p \<in> {''AVAILABLE'', ''DEGRADED''})"

definition candidate_eligibility ::
  "registry \<Rightarrow> model_descriptor \<Rightarrow> requirements \<Rightarrow> model_descriptor option \<Rightarrow> bool \<Rightarrow>
   policy_error + bool" where
  "candidate_eligibility r model q reference policy_allows_fallback =
     (if \<not> policy_allows_fallback then Inr False
      else if \<not> md_enabled model then Inr False
      else if md_lifecycle_state model \<noteq> ''ACTIVE'' then Inr False
      else if \<not> usable_provider r model then Inr False
      else thenE (satisfies_floor model q) (\<lambda>capable.
        Inr (capable \<and> registry_independence_ok model reference q)))"

definition resolve_reference ::
  "registry \<Rightarrow> string option \<Rightarrow> policy_error + model_descriptor option" where
  "resolve_reference r reference_model_id = (case reference_model_id of None \<Rightarrow> Inr None
     | Some mid \<Rightarrow> (case get_model r mid of None \<Rightarrow> Inl config_invalid | Some md \<Rightarrow> Inr (Some md)))"

fun filterE :: "('a \<Rightarrow> 'e + bool) \<Rightarrow> 'a list \<Rightarrow> 'e + 'a list" where
  "filterE f [] = Inr []"
| "filterE f (x # xs) =
     thenE (f x) (\<lambda>b. thenE (filterE f xs) (\<lambda>ys. Inr (if b then x # ys else ys)))"

definition eligible_models ::
  "registry \<Rightarrow> requirements \<Rightarrow> string option \<Rightarrow> policy_error + model_descriptor list" where
  "eligible_models r q reference_model_id =
     thenE (validate_requirements q) (\<lambda>_.
     thenE (resolve_reference r reference_model_id) (\<lambda>reference.
     thenE (filterE (\<lambda>m. candidate_eligibility r m q reference True) (list_models r)) (\<lambda>candidates.
     Inr (sort_key md_model_id candidates))))"

definition is_fallback_eligible ::
  "registry \<Rightarrow> string \<Rightarrow> requirements \<Rightarrow> string option \<Rightarrow> bool \<Rightarrow> policy_error + bool" where
  "is_fallback_eligible r model_id q reference_model_id policy_allows_fallback =
     thenE (validate_requirements q) (\<lambda>_.
     (case get_model r model_id of None \<Rightarrow> Inr False | Some model \<Rightarrow>
       thenE (resolve_reference r reference_model_id) (\<lambda>reference.
       candidate_eligibility r model q reference policy_allows_fallback)))"

text \<open>What \<open>Core.create_dispatch\<close> asks of the registry: its entries as \<open>validate_identity\<close> reads
  them.\<close>

definition identity_view :: "registry \<Rightarrow> model_registry" where
  "identity_view r =
     \<lparr>mr_providers = map (\<lambda>(k, p). (k, \<lparr>pe_enabled = pd_enabled p,
        pe_availability_state = pd_availability_state p\<rparr>)) (rg_providers r),
      mr_models = map (\<lambda>(k, m). (k, \<lparr>me_provider_id = md_provider_id m, me_enabled = md_enabled m,
        me_lifecycle_state = md_lifecycle_state m\<rparr>)) (rg_models r)\<rparr>"

end
