(* ===== verification/Evidence_Registry.thy ===== *)
theory Evidence_Registry
  imports Model_Registry
begin

text \<open>
  \<open>argent_core/evidence_registry.py\<close>: the versioned evidence of what a model has shown, per model
  and category, and the gate that asks for a minimum status in the category of every required
  capability.  A registry is built from a JSON value, fail-closed, and only read afterwards.

  \<open>json_keys_unique\<close> is the object hook of the loader, which refuses a repeated key in any object;
  a JSON value that has not passed it keeps every pair of an object.
\<close>

section \<open>Vocabularies and ranks\<close>

definition EVIDENCE_REGISTRY_VERSION :: string where "EVIDENCE_REGISTRY_VERSION = ''1''"

definition EVIDENCE_STATUSES :: "string list" where
  "EVIDENCE_STATUSES = [''VERIFIED'', ''PROVISIONAL'', ''UNKNOWN'', ''REJECTED'']"

definition EVIDENCE_CATEGORIES :: "string list" where
  "EVIDENCE_CATEGORIES = [''coordination_basic_reasoning'', ''repository_coding'',
     ''debugging_root_cause'', ''architecture'', ''security_review'', ''tool_agent'',
     ''long_context'']"

definition evidence_status_rank :: "string \<Rightarrow> int" where
  "evidence_status_rank st =
     (case map_of [(''REJECTED'', - 1), (''UNKNOWN'', 0), (''PROVISIONAL'', 1), (''VERIFIED'', 2)] st
      of None \<Rightarrow> 0 | Some n \<Rightarrow> n)"

definition CAPABILITY_TO_CATEGORY :: "(string \<times> string) list" where
  "CAPABILITY_TO_CATEGORY = [
     (''COORDINATION'', ''coordination_basic_reasoning''),
     (''SIMPLE_ANALYSIS'', ''coordination_basic_reasoning''),
     (''CODE_IMPLEMENTATION'', ''repository_coding''),
     (''COMPLEX_CODE_IMPLEMENTATION'', ''repository_coding''),
     (''DEBUGGING'', ''debugging_root_cause''),
     (''REPOSITORY_REASONING'', ''repository_coding''),
     (''ARCHITECTURE'', ''architecture''),
     (''SECURITY_REVIEW'', ''security_review''),
     (''CODE_REVIEW'', ''security_review''),
     (''ROOT_CAUSE_ANALYSIS'', ''debugging_root_cause''),
     (''TOOL_USE'', ''tool_agent''),
     (''LONG_CONTEXT'', ''long_context''),
     (''VISION'', ''tool_agent''),
     (''STRUCTURED_OUTPUT'', ''tool_agent'')]"

definition capability_category :: "string \<Rightarrow> string" where
  "capability_category c = (case map_of CAPABILITY_TO_CATEGORY c of None \<Rightarrow> ''tool_agent'' | Some k \<Rightarrow> k)"

section \<open>Loading\<close>

record evidence_entry =
  ee_model_id :: string
  ee_category :: string
  ee_status :: string
  ee_evidence_ref :: string
  ee_version :: string
  ee_benchmarked :: bool

record evidence_registry =
  evr_version :: string
  evr_entries :: "((string \<times> string) \<times> evidence_entry) list"
  evr_content_hash :: string

fun json_keys_unique :: "py \<Rightarrow> bool"
  and json_items_unique :: "py list \<Rightarrow> bool"
  and json_pairs_unique :: "(string \<times> py) list \<Rightarrow> bool" where
  "json_keys_unique (PDict kvs) \<longleftrightarrow> distinct (map fst kvs) \<and> json_pairs_unique kvs"
| "json_keys_unique (PList xs) \<longleftrightarrow> json_items_unique xs"
| "json_keys_unique PNone \<longleftrightarrow> True"
| "json_keys_unique (PBool b) \<longleftrightarrow> True"
| "json_keys_unique (PInt i) \<longleftrightarrow> True"
| "json_keys_unique (PFloat f) \<longleftrightarrow> True"
| "json_keys_unique (PStr s) \<longleftrightarrow> True"
| "json_items_unique [] \<longleftrightarrow> True"
| "json_items_unique (x # xs) \<longleftrightarrow> json_keys_unique x \<and> json_items_unique xs"
| "json_pairs_unique [] \<longleftrightarrow> True"
| "json_pairs_unique (kv # kvs) \<longleftrightarrow> json_keys_unique (snd kv) \<and> json_pairs_unique kvs"

definition validate_evidence_ref :: "py \<Rightarrow> policy_error + string" where
  "validate_evidence_ref v =
     thenE (nonempty_str config_invalid v) (\<lambda>ref.
     ensure (list_all (\<lambda>m. \<not> contains_str m (str_lower ref)) AGENT_ORIGIN_MARKERS) config_invalid
     (ensure (list_ex (\<lambda>a. starts_with a (str_lower ref)) TRUSTED_SOURCE_AUTHORITIES) config_invalid
     (Inr ref)))"

definition parse_evidence_entry ::
  "string \<Rightarrow> string \<Rightarrow> string \<Rightarrow> py \<Rightarrow> policy_error + evidence_entry" where
  "parse_evidence_entry version model_id cat v =
     thenE (require_enum EVIDENCE_CATEGORIES (PStr cat)) (\<lambda>_.
     thenE (as_object config_invalid v) (\<lambda>entry.
     thenE (reject_unknown_keys entry [''status'', ''evidence_ref'', ''version'', ''benchmarked'']) (\<lambda>_.
     thenE (require_enum EVIDENCE_STATUSES (py_get entry ''status'')) (\<lambda>status.
     ensure (status \<noteq> ''VERIFIED'') config_invalid
     (thenE (validate_evidence_ref (py_get entry ''evidence_ref'')) (\<lambda>ref.
     thenE (nonempty_str config_invalid (py_get entry ''version'')) (\<lambda>ver.
     ensure (ver = version) config_invalid
     (thenE (require_bool (py_get_default entry ''benchmarked'' (PBool False))) (\<lambda>benchmarked.
     ensure (\<not> benchmarked) config_invalid
     (Inr \<lparr>ee_model_id = model_id, ee_category = cat, ee_status = status, ee_evidence_ref = ref,
        ee_version = ver, ee_benchmarked = benchmarked\<rparr>))))))))))"

fun parse_categories ::
  "string \<Rightarrow> string \<Rightarrow> (string \<times> py) list \<Rightarrow> ((string \<times> string) \<times> evidence_entry) list \<Rightarrow>
   policy_error + ((string \<times> string) \<times> evidence_entry) list" where
  "parse_categories version model_id [] entries = Inr entries"
| "parse_categories version model_id ((cat, v) # cats) entries =
     thenE (parse_evidence_entry version model_id cat v) (\<lambda>e.
     ensure ((model_id, cat) \<notin> fst ` set entries) config_invalid
     (parse_categories version model_id cats (entries @ [((model_id, cat), e)])))"

fun parse_evidence ::
  "string \<Rightarrow> py list \<Rightarrow> string list \<Rightarrow> ((string \<times> string) \<times> evidence_entry) list \<Rightarrow>
   policy_error + ((string \<times> string) \<times> evidence_entry) list" where
  "parse_evidence version [] seen entries = Inr entries"
| "parse_evidence version (v # rest) seen entries =
     thenE (as_object config_invalid v) (\<lambda>raw.
     thenE (reject_unknown_keys raw [''model_id'', ''categories'']) (\<lambda>_.
     thenE (nonempty_str config_invalid (py_get raw ''model_id'')) (\<lambda>model_id.
     ensure (model_id \<notin> set seen) config_invalid
     (thenE (as_object config_invalid (py_get raw ''categories'')) (\<lambda>cats.
     ensure (cats \<noteq> []) config_invalid
     (thenE (parse_categories version model_id cats entries) (\<lambda>entries'.
      parse_evidence version rest (model_id # seen) entries')))))))"

definition evidence_content_hash :: "env \<Rightarrow> codec \<Rightarrow> py list \<Rightarrow> string \<Rightarrow> string" where
  "evidence_content_hash E J models version =
     env_sha256 E (co_compact J
       (PDict [(''evidence_version'', PStr version), (''models'', PList models)]))"

definition evidence_from_payload ::
  "env \<Rightarrow> codec \<Rightarrow> py \<Rightarrow> string \<Rightarrow> policy_error + evidence_registry" where
  "evidence_from_payload E J models version =
     thenE (objects_of models) (\<lambda>ms.
     thenE (parse_evidence version ms [] []) (\<lambda>entries.
     ensure (version = EVIDENCE_REGISTRY_VERSION) config_invalid
     (Inr \<lparr>evr_version = version, evr_entries = entries,
        evr_content_hash = evidence_content_hash E J ms version\<rparr>)))"

definition load_evidence :: "env \<Rightarrow> codec \<Rightarrow> py option \<Rightarrow> policy_error + evidence_registry" where
  "load_evidence E J file = (case file of None \<Rightarrow> Inl config_invalid | Some doc \<Rightarrow>
     ensure (json_keys_unique doc) config_invalid
     (thenE (as_object config_invalid doc) (\<lambda>d.
      thenE (reject_unknown_keys d [''evidence_version'', ''models'']) (\<lambda>_.
      ensure (py_get d ''evidence_version'' = PStr EVIDENCE_REGISTRY_VERSION) config_invalid
      (case py_get d ''models'' of
         PList ms \<Rightarrow> evidence_from_payload E J (PList ms) EVIDENCE_REGISTRY_VERSION
       | _ \<Rightarrow> Inl config_invalid)))))"

section \<open>Reading\<close>

definition get_status :: "evidence_registry \<Rightarrow> string \<Rightarrow> string \<Rightarrow> string" where
  "get_status ev model_id category = (case map_of (evr_entries ev) (model_id, category) of
     None \<Rightarrow> ''UNKNOWN'' | Some e \<Rightarrow> ee_status e)"

definition evidence_models :: "evidence_registry \<Rightarrow> string list" where
  "evidence_models ev = sort (remdups (map (\<lambda>e. fst (fst e)) (evr_entries ev)))"

fun validate_model_refs :: "registry \<Rightarrow> string list \<Rightarrow> policy_error + unit" where
  "validate_model_refs r [] = Inr ()"
| "validate_model_refs r (mid # mids) = (case get_model r mid of None \<Rightarrow> Inl config_invalid
     | Some md \<Rightarrow> ensure (md_enabled md) config_invalid (validate_model_refs r mids))"

definition default_evidence ::
  "env \<Rightarrow> codec \<Rightarrow> py option \<Rightarrow> registry \<Rightarrow> policy_error + evidence_registry" where
  "default_evidence E J file r =
     thenE (load_evidence E J file) (\<lambda>ev.
     thenE (validate_model_refs r (evidence_models ev)) (\<lambda>_. Inr ev))"

definition evidence_status_for_capabilities ::
  "evidence_registry \<Rightarrow> string \<Rightarrow> string list \<Rightarrow> string list" where
  "evidence_status_for_capabilities ev model_id caps =
     map (get_status ev model_id) (sort (remdups (map capability_category caps)))"

definition satisfies_evidence :: "evidence_registry \<Rightarrow> string \<Rightarrow> string list \<Rightarrow> string \<Rightarrow> bool" where
  "satisfies_evidence ev model_id caps minimum_status =
     (let minimum_rank = evidence_status_rank minimum_status in
      if minimum_rank \<le> 0 then True
      else list_all (\<lambda>st. evidence_status_rank st \<ge> minimum_rank)
             (evidence_status_for_capabilities ev model_id caps))"

lemma satisfies_evidence_iff:
  assumes "0 < evidence_status_rank minimum"
  shows "satisfies_evidence ev mid caps minimum \<longleftrightarrow>
    (\<forall>c \<in> set caps. evidence_status_rank minimum \<le>
       evidence_status_rank (get_status ev mid (capability_category c)))"
  using assms
  by (auto simp: satisfies_evidence_def evidence_status_for_capabilities_def list_all_iff)

end
