(* ===== verification/Workflow.thy ===== *)
theory Workflow
  imports Models
begin

text \<open>
  \<open>argent_core/workflow.py\<close>: the role sequences of a task and the position arithmetic.
  Positions are Python ints, so negative ones are representable and answered with \<open>None\<close>.
  The lead decision's detail is the parsed JSON object; only its key
  \<open>rework_include_reviewer\<close> is read here.
\<close>

definition STANDARD_SEQUENCE :: "role list" where
  "STANDARD_SEQUENCE = [LEAD, ANALYST, LEAD, IMPLEMENTER, QA, REVIEWER, LEAD]"

definition REWORK_SEQUENCE :: "role list" where
  "REWORK_SEQUENCE = [LEAD, IMPLEMENTER, QA, REVIEWER, LEAD]"

definition rework_sequence :: "bool \<Rightarrow> role list" where
  "rework_sequence include_reviewer =
     (if include_reviewer then REWORK_SEQUENCE else [LEAD, IMPLEMENTER, QA, LEAD])"

definition effective_sequence :: "sequence_kind \<Rightarrow> bool \<Rightarrow> role list" where
  "effective_sequence k include_reviewer =
     (if k = SEQ_REWORK then rework_sequence include_reviewer else STANDARD_SEQUENCE)"

definition next_role :: "sequence_kind \<Rightarrow> int \<Rightarrow> bool \<Rightarrow> role option" where
  "next_role k pos include_reviewer =
     (let sq = effective_sequence k include_reviewer in
      if pos < 0 \<or> pos \<ge> int (length sq) then None else Some (sq ! nat pos))"

text \<open>Python truth of a JSON value: \<open>bool(v)\<close>.\<close>

fun py_truth :: "py \<Rightarrow> bool" where
  "py_truth PNone = False"
| "py_truth (PBool b) = b"
| "py_truth (PInt i) = (i \<noteq> 0)"
| "py_truth (PFloat f) = (f \<noteq> FFinite 0)"
| "py_truth (PStr s) = (s \<noteq> [])"
| "py_truth (PList xs) = (xs \<noteq> [])"
| "py_truth (PDict kvs) = (kvs \<noteq> [])"

definition rework_include_reviewer :: "(string \<times> py) list option \<Rightarrow> bool \<Rightarrow> bool" where
  "rework_include_reviewer detail open_findings_exist =
     (case detail of
        None \<Rightarrow> open_findings_exist
      | Some kvs \<Rightarrow>
          (case map_of kvs ''rework_include_reviewer'' of
             None \<Rightarrow> open_findings_exist
           | Some v \<Rightarrow> (if v = PNone then open_findings_exist else py_truth v)))"

record workflow_frontier =
  wf_cycle_no :: int
  wf_position :: int
  wf_sequence_kind :: sequence_kind
  wf_include_reviewer :: bool
  wf_expected_role :: "role option"

lemma effective_sequence_unfold:
  "effective_sequence SEQ_STANDARD b = [LEAD, ANALYST, LEAD, IMPLEMENTER, QA, REVIEWER, LEAD]"
  "effective_sequence SEQ_REWORK True = [LEAD, IMPLEMENTER, QA, REVIEWER, LEAD]"
  "effective_sequence SEQ_REWORK False = [LEAD, IMPLEMENTER, QA, LEAD]"
  by (simp_all add: effective_sequence_def STANDARD_SEQUENCE_def rework_sequence_def
      REWORK_SEQUENCE_def)

lemma effective_sequence_nonempty [simp]: "effective_sequence k b \<noteq> []"
  by (simp add: effective_sequence_def STANDARD_SEQUENCE_def rework_sequence_def
      REWORK_SEQUENCE_def)

lemma effective_sequence_ends:
  "hd (effective_sequence k b) = LEAD \<and> last (effective_sequence k b) = LEAD"
  by (cases k; cases b) (simp_all add: effective_sequence_unfold)

text \<open>The segregation of duties in a sequence: whatever the implementer writes is seen by QA
  and then decided by the lead, later in the same sequence.\<close>

definition later_in :: "'a list \<Rightarrow> 'a \<Rightarrow> 'a \<Rightarrow> bool" where
  "later_in xs x y \<longleftrightarrow> (\<forall>i < length xs. xs ! i = x \<longrightarrow> (\<exists>j < length xs. i < j \<and> xs ! j = y))"

lemma later_in_code: "later_in xs x y \<longleftrightarrow>
    list_all (\<lambda>i. xs ! i = x \<longrightarrow> list_ex (\<lambda>j. i < j \<and> xs ! j = y) [0..<length xs]) [0..<length xs]"
  by (simp add: later_in_def list_all_iff list_ex_iff Ball_def Bex_def conj_assoc)

text \<open>every sequence starts and ends with the lead, puts QA and a lead decision after every
  implementer step (and, unless the reviewer was switched off for a rework cycle, a review),
  and \<open>next_role\<close> answers exactly its positions.\<close>

theorem sequence_segregation:
  "hd (effective_sequence k b) = LEAD \<and> last (effective_sequence k b) = LEAD \<and>
   later_in (effective_sequence k b) IMPLEMENTER QA \<and>
   later_in (effective_sequence k b) IMPLEMENTER LEAD \<and>
   (later_in (effective_sequence k b) IMPLEMENTER REVIEWER \<longleftrightarrow> k = SEQ_STANDARD \<or> b) \<and>
   (next_role k pos b = None \<longleftrightarrow> pos < 0 \<or> int (length (effective_sequence k b)) \<le> pos)"
proof -
  have "later_in (effective_sequence k b) IMPLEMENTER QA \<and>
   later_in (effective_sequence k b) IMPLEMENTER LEAD \<and>
   (later_in (effective_sequence k b) IMPLEMENTER REVIEWER \<longleftrightarrow> k = SEQ_STANDARD \<or> b)"
    unfolding later_in_code
    by (cases k; cases b) (simp_all add: effective_sequence_unfold upt_rec nth_Cons')
  then show ?thesis
    using effective_sequence_ends by (auto simp: next_role_def Let_def)
qed

end
