(* ===== verification/Job_State.thy ===== *)
theory Job_State
  imports Runtime
begin

text \<open>
  \<open>argent_core/job_state.py\<close>: the eight-state projection of a supervisor job and its
  mapping from and to the older columns \<open>status\<close>, \<open>terminal\<close> and \<open>wait_kind\<close>, which
  are strings in the code and here; and \<open>classify_attempt\<close> of \<open>model_router.py\<close>, which
  decides from the same failure taxonomy whether an attempt counts as a capability gap.
\<close>

section \<open>Enumerations\<close>

datatype primary_state =
  QUEUED | RUNNING | WAITING_EXTERNAL | OWNER_GATE | PS_BLOCKED | PS_FAILED | LOST | PS_DONE

primrec primary_state_value :: "primary_state \<Rightarrow> string" where
  "primary_state_value QUEUED = ''QUEUED''"
| "primary_state_value RUNNING = ''RUNNING''"
| "primary_state_value WAITING_EXTERNAL = ''WAITING_EXTERNAL''"
| "primary_state_value OWNER_GATE = ''OWNER_GATE''"
| "primary_state_value PS_BLOCKED = ''BLOCKED''"
| "primary_state_value PS_FAILED = ''FAILED''"
| "primary_state_value LOST = ''LOST''"
| "primary_state_value PS_DONE = ''DONE''"

definition QUEUE_REASONS :: "string list" where
  "QUEUE_REASONS = [''NEW'', ''RETRY_BACKOFF'', ''WAIT_EVENT'', ''WAIT_DEADLINE'',
     ''GATE_APPROVED'', ''RECOVERY'', ''RESOURCE_DEFERRED'', ''RESOURCE_DENIED'',
     ''CONCURRENCY_SERIALIZED'']"

definition ERROR_CLASSES :: "string list" where
  "ERROR_CLASSES = [''NONE'', ''TRANSIENT'', ''DETERMINISTIC'', ''RESOURCE'', ''EXTERNAL'',
     ''SECURITY'', ''OWNER_REQUIRED'', ''CONTEXT'', ''PROVIDER'']"

definition WAIT_KINDS :: "string list" where
  "WAIT_KINDS = [''NONE'', ''CI'', ''UPSTREAM'', ''RATE_LIMIT'', ''NETWORK'', ''TIMER'']"

section \<open>The projection\<close>

definition STATUS_TO_PRIMARY :: "(string \<times> primary_state option) list" where
  "STATUS_TO_PRIMARY = [(''ACTIVE'', Some RUNNING), (''WAITING_RUN'', Some QUEUED),
     (''WAITING_GATE'', Some OWNER_GATE), (''BACKOFF'', Some QUEUED), (''RECOVERING'', Some LOST),
     (''ERROR'', Some PS_BLOCKED), (''TERMINAL'', None)]"

definition TERMINAL_TO_PRIMARY :: "(string \<times> primary_state) list" where
  "TERMINAL_TO_PRIMARY = [(''DONE'', PS_DONE), (''FAILED'', PS_FAILED), (''BLOCKED'', PS_BLOCKED)]"

definition derive_primary_state ::
  "string \<Rightarrow> string option \<Rightarrow> string option \<Rightarrow> primary_state" where
  "derive_primary_state status terminal wait_kind =
     (case Option.bind terminal (map_of TERMINAL_TO_PRIMARY) of
        Some ps \<Rightarrow> ps
      | None \<Rightarrow>
          if status = ''TERMINAL'' then PS_BLOCKED
          else if status = ''WAITING_RUN'' then
            (if or_empty wait_kind \<noteq> [] \<and> wait_kind \<noteq> Some ''NONE'' then WAITING_EXTERNAL
             else QUEUED)
          else (case map_of STATUS_TO_PRIMARY status of
                  Some (Some ps) \<Rightarrow> ps
                | _ \<Rightarrow> PS_BLOCKED))"

primrec primary_state_to_status :: "primary_state \<Rightarrow> string" where
  "primary_state_to_status QUEUED = ''WAITING_RUN''"
| "primary_state_to_status RUNNING = ''ACTIVE''"
| "primary_state_to_status WAITING_EXTERNAL = ''WAITING_RUN''"
| "primary_state_to_status OWNER_GATE = ''WAITING_GATE''"
| "primary_state_to_status PS_BLOCKED = ''TERMINAL''"
| "primary_state_to_status PS_FAILED = ''TERMINAL''"
| "primary_state_to_status PS_DONE = ''TERMINAL''"
| "primary_state_to_status LOST = ''RECOVERING''"

definition status_for_enqueue :: "string \<Rightarrow> string" where
  "status_for_enqueue queue_reason =
     (if queue_reason = ''RETRY_BACKOFF'' then ''BACKOFF'' else ''WAITING_RUN'')"

text \<open>The terminal column a job of that primary state carries, and a wait kind that fits it.\<close>

definition terminal_column :: "primary_state \<Rightarrow> string option" where
  "terminal_column ps =
     (if ps \<in> {PS_DONE, PS_FAILED, PS_BLOCKED} then Some (primary_state_value ps) else None)"

definition wait_fits :: "primary_state \<Rightarrow> string option \<Rightarrow> bool" where
  "wait_fits ps wk \<longleftrightarrow>
     (ps = WAITING_EXTERNAL \<longrightarrow> wk \<in> Some ` {''CI'', ''UPSTREAM'', ''RATE_LIMIT'', ''NETWORK'', ''TIMER''}) \<and>
     (ps = QUEUED \<longrightarrow> wk \<in> {None, Some ''NONE''})"

lemma terminal_not_queued: "Option.bind tm (map_of TERMINAL_TO_PRIMARY) \<noteq> Some QUEUED"
proof
  assume "Option.bind tm (map_of TERMINAL_TO_PRIMARY) = Some QUEUED"
  then obtain t where "map_of TERMINAL_TO_PRIMARY t = Some QUEUED" by (cases tm) auto
  then have "(t, QUEUED) \<in> set TERMINAL_TO_PRIMARY" by (rule map_of_SomeD)
  then show False by (simp add: TERMINAL_TO_PRIMARY_def)
qed

lemma status_queued: "map_of STATUS_TO_PRIMARY st = Some (Some QUEUED) \<Longrightarrow> st = ''WAITING_RUN'' \<or> st = ''BACKOFF''"
  by (drule map_of_SomeD) (simp add: STATUS_TO_PRIMARY_def)

text \<open>C38: projecting a primary state to the older columns and back is the identity, and the
  derivation fails closed: a job is claimable (\<open>QUEUED\<close>) only through the two queue statuses
  with no terminal mark, and an unknown status is \<open>BLOCKED\<close>.\<close>

theorem primary_state_roundtrip:
  "(wait_fits ps wk \<longrightarrow>
      derive_primary_state (primary_state_to_status ps) (terminal_column ps) wk = ps) \<and>
   (derive_primary_state st tm wk' = QUEUED \<longrightarrow>
      (st = ''WAITING_RUN'' \<or> st = ''BACKOFF'') \<and>
      tm \<notin> Some ` {''DONE'', ''FAILED'', ''BLOCKED''}) \<and>
   (st \<notin> set (map fst STATUS_TO_PRIMARY) \<and> tm = None \<longrightarrow>
      derive_primary_state st tm wk' = PS_BLOCKED)"
proof (intro conjI impI)
  assume "wait_fits ps wk"
  then show "derive_primary_state (primary_state_to_status ps) (terminal_column ps) wk = ps"
    by (cases ps) (auto simp: wait_fits_def derive_primary_state_def terminal_column_def
        TERMINAL_TO_PRIMARY_def STATUS_TO_PRIMARY_def or_empty_def)
next
  assume q: "derive_primary_state st tm wk' = QUEUED"
  show "st = ''WAITING_RUN'' \<or> st = ''BACKOFF''"
    using q terminal_not_queued[of tm]
    by (auto simp: derive_primary_state_def dest: status_queued split: option.splits if_splits)
  show "tm \<notin> Some ` {''DONE'', ''FAILED'', ''BLOCKED''}"
    using q by (auto simp: derive_primary_state_def TERMINAL_TO_PRIMARY_def)
next
  assume a: "st \<notin> set (map fst STATUS_TO_PRIMARY) \<and> tm = None"
  then have "map_of STATUS_TO_PRIMARY st = None"
    by (simp add: map_of_eq_None_iff)
  moreover have "st \<noteq> ''TERMINAL''" "st \<noteq> ''WAITING_RUN''"
    using a by (auto simp: STATUS_TO_PRIMARY_def)
  ultimately show "derive_primary_state st tm wk' = PS_BLOCKED"
    using a by (simp add: derive_primary_state_def)
qed

theorem primary_state_roundtrip_witness:
  "derive_primary_state ''WAITING_RUN'' None (Some ''CI'') = WAITING_EXTERNAL"
  using primary_state_roundtrip[of WAITING_EXTERNAL "Some ''CI''" "''''" None None]
  by (simp add: wait_fits_def terminal_column_def)

section \<open>Attempt outcomes\<close>

definition ATTEMPT_OUTCOMES :: "string list" where
  "ATTEMPT_OUTCOMES = [''CAPABILITY'', ''TRANSIENT'', ''EXTERNAL'', ''PROVIDER'', ''RESOURCE'',
     ''CONTEXT'', ''SECURITY'', ''OWNER_REQUIRED'', ''SUCCESS'', ''OTHER'']"

definition classify_attempt ::
  "string option \<Rightarrow> string option \<Rightarrow> bool \<Rightarrow> bool \<Rightarrow> string option \<Rightarrow> string" where
  "classify_attempt dispatch_status error_class tests_red reviewer_rejected error_code =
     (let code = str_upper (str_strip (or_empty error_code));
          ec = str_upper (str_strip (or_empty error_class));
          status = str_upper (str_strip (or_empty dispatch_status)) in
      if code \<in> {''PROVIDER_UNAVAILABLE'', ''MODEL_UNAVAILABLE''} then ''PROVIDER''
      else if code \<in> {''RATE_LIMIT'', ''REQUEST_TIMEOUT''} then ''TRANSIENT''
      else if ec = ''TRANSIENT'' then ''TRANSIENT''
      else if ec = ''EXTERNAL'' then ''EXTERNAL''
      else if ec = ''PROVIDER'' then ''PROVIDER''
      else if ec = ''RESOURCE'' then ''RESOURCE''
      else if ec = ''CONTEXT'' then ''CONTEXT''
      else if ec = ''SECURITY'' then ''SECURITY''
      else if ec = ''OWNER_REQUIRED'' then ''OWNER_REQUIRED''
      else if ec = ''DETERMINISTIC'' then ''CAPABILITY''
      else if status = ''CONSUMED'' then
        (if tests_red \<or> reviewer_rejected then ''CAPABILITY'' else ''SUCCESS'')
      else if status \<in> {''FAILED'', ''REJECTED''} then ''CAPABILITY''
      else ''OTHER'')"

lemma classify_attempt_bounded:
  "classify_attempt st ec tr rv code \<in> set ATTEMPT_OUTCOMES"
  by (simp add: classify_attempt_def ATTEMPT_OUTCOMES_def Let_def)

definition transport_signal :: "string option \<Rightarrow> string option \<Rightarrow> bool" where
  "transport_signal ec code \<longleftrightarrow>
     str_upper (str_strip (or_empty ec)) \<in> {''TRANSIENT'', ''EXTERNAL'', ''PROVIDER'', ''RESOURCE'',
       ''CONTEXT'', ''SECURITY'', ''OWNER_REQUIRED''} \<or>
     str_upper (str_strip (or_empty code)) \<in> {''PROVIDER_UNAVAILABLE'', ''MODEL_UNAVAILABLE'',
       ''RATE_LIMIT'', ''REQUEST_TIMEOUT''}"

text \<open>an attempt's outcome is always of the bounded vocabulary, and a provider, transport,
  resource, context, security or owner signal is never counted as a capability gap, nor does
  it make an attempt a success; without one, a failed attempt is a capability gap.\<close>

theorem transport_never_capability:
  "classify_attempt st ec tr rv code \<in> set ATTEMPT_OUTCOMES \<and>
   (transport_signal ec code \<longrightarrow>
      classify_attempt st ec tr rv code \<noteq> ''CAPABILITY'' \<and>
      classify_attempt st ec tr rv code \<noteq> ''SUCCESS'') \<and>
   (\<not> transport_signal ec code \<and> st = Some ''FAILED'' \<longrightarrow>
      classify_attempt st ec tr rv code = ''CAPABILITY'')"
proof (intro conjI impI)
  show "classify_attempt st ec tr rv code \<in> set ATTEMPT_OUTCOMES"
    by (rule classify_attempt_bounded)
next
  assume "transport_signal ec code"
  then show "classify_attempt st ec tr rv code \<noteq> ''CAPABILITY''"
    and "classify_attempt st ec tr rv code \<noteq> ''SUCCESS''"
    unfolding transport_signal_def classify_attempt_def Let_def by auto
next
  assume a: "\<not> transport_signal ec code \<and> st = Some ''FAILED''"
  have "str_upper (str_strip (or_empty (Some ''FAILED''))) = ''FAILED''" by code_simp
  with a show "classify_attempt st ec tr rv code = ''CAPABILITY''"
    unfolding transport_signal_def classify_attempt_def Let_def by simp
qed

theorem transport_never_capability_witness:
  "transport_signal (Some ''network'') (Some '' rate_limit '') \<and>
   classify_attempt (Some ''FAILED'') (Some ''network'') True True (Some '' rate_limit '')
     \<noteq> ''CAPABILITY'' \<and>
   classify_attempt (Some ''FAILED'') None False False None = ''CAPABILITY''"
proof -
  have t: "transport_signal (Some ''network'') (Some '' rate_limit '')" by code_simp
  have n: "\<not> transport_signal None None" by code_simp
  show ?thesis
    using t n transport_never_capability[of "Some ''FAILED''" "Some ''network''" True True "Some '' rate_limit ''"]
      transport_never_capability[of "Some ''FAILED''" None False False None]
    by simp
qed

end
