(* ===== verification/Core_Store.thy ===== *)
theory Core_Store
  imports Events Workflow Job_State "HOL-Library.Product_Lexorder"
begin

text \<open>
  The part of \<open>argent_core/store.py\<close> that \<open>core.py\<close> writes: the tables with the constraints
  of their DDL, one definition per statement, and the transaction.

  \<open>core\<close> is the database (the fields \<open>db_...\<close>, one list of rows per table, in rowid order)
  together with the two counters of the environment: \<open>ticks\<close> readings of the clock and
  \<open>fresh\<close> uuids drawn so far.  A rollback restores the database, not the counters.

  A write that a PRIMARY KEY, UNIQUE, FOREIGN KEY or NOT NULL constraint refuses is
  \<open>IntegrityError\<close>; CHECK constraints over enumerations are the types of the rows.  Nothing
  here deletes a row.  The action fence of \<open>_transaction\<close> is the subject of the lease store;
  the core runs unfenced unless the supervisor arms it.
\<close>

section \<open>Tables\<close>

record command_idempotency =
  ci_key :: string
  ci_command :: string
  ci_result_id :: string
  ci_args_hash :: string
  ci_created_at :: timestamp

record routing_decision_row =
  rd_decision_id :: string
  rd_job_id :: string
  rd_provider :: "string option"
  rd_model :: "string option"
  rd_reasoning_level :: "string option"
  rd_escalation_level :: int
  rd_reason_code :: string
  rd_policy_version :: string
  rd_requirements_hash :: string
  rd_evidence_refs_json :: string
  rd_sha256 :: string
  rd_registry_version :: string
  rd_evidence_version :: string
  rd_policy_hash :: string
  rd_registry_hash :: string
  rd_evidence_hash :: string
  rd_inputs_hash :: string
  rd_created_at :: timestamp

record core =
  db_projects :: "project list"
  db_tasks :: "task list"
  db_task_runs :: "task_run list"
  db_role_runs :: "role_run list"
  db_handoffs :: "handoff list"
  db_findings :: "finding list"
  db_test_runs :: "test_run list"
  db_reviews :: "review list"
  db_decisions :: "decision list"
  db_approvals :: "owner_approval list"
  db_executions :: "action_execution list"
  db_events :: "event list"
  db_idempotency :: "command_idempotency list"
  db_dispatches :: "agent_dispatch list"
  db_quarantine :: "agent_result_quarantine list"
  db_routing :: "routing_decision_row list"
  ticks :: nat
  fresh :: nat

definition empty_core :: core where
  "empty_core = \<lparr> db_projects = [], db_tasks = [], db_task_runs = [], db_role_runs = [],
     db_handoffs = [], db_findings = [], db_test_runs = [], db_reviews = [], db_decisions = [],
     db_approvals = [], db_executions = [], db_events = [], db_idempotency = [],
     db_dispatches = [], db_quarantine = [], db_routing = [], ticks = 0, fresh = 0 \<rparr>"

type_synonym 'a cact = "(core, argent_error, 'a) act"

section \<open>Constraints of the DDL\<close>

text \<open>A UNIQUE column that may be NULL: the values that are there are distinct.\<close>

definition unique_some :: "('r \<Rightarrow> 'k option) \<Rightarrow> 'r list \<Rightarrow> bool" where
  "unique_some key rs \<longleftrightarrow> unique_keys key (filter (\<lambda>r. key r \<noteq> None) rs)"

definition project_rows_ok :: "project list \<Rightarrow> bool" where
  "project_rows_ok ps \<longleftrightarrow> unique_keys p_id ps \<and> unique_some p_idempotency_key ps"

definition task_rows_ok :: "task list \<Rightarrow> bool" where
  "task_rows_ok ts \<longleftrightarrow> unique_keys t_id ts \<and> unique_some t_idempotency_key ts"

definition role_run_rows_ok :: "role_run list \<Rightarrow> bool" where
  "role_run_rows_ok rs \<longleftrightarrow> unique_keys rr_id rs \<and>
     unique_keys rr_task_id (filter (\<lambda>r. rr_status r = RR_STARTED) rs)"

definition approval_active :: "owner_approval \<Rightarrow> bool" where
  "approval_active a \<longleftrightarrow> ap_status a = AP_PENDING \<or> ap_status a = AP_APPROVED"

definition approval_rows_ok :: "owner_approval list \<Rightarrow> bool" where
  "approval_rows_ok as \<longleftrightarrow> unique_keys ap_id as \<and>
     unique_keys (\<lambda>a. (ap_task_id a, ap_action a, ap_scope a)) (filter approval_active as) \<and>
     unique_some ap_execution_id as"

definition execution_rows_ok :: "action_execution list \<Rightarrow> bool" where
  "execution_rows_ok exs \<longleftrightarrow> unique_keys ex_id exs \<and> unique_some ex_approval_id exs"

definition dispatch_active :: "agent_dispatch \<Rightarrow> bool" where
  "dispatch_active d \<longleftrightarrow>
     d_status d = DS_PENDING \<or> d_status d = DS_RUNNING \<or> d_status d = DS_RECOVERY_PENDING"

definition dispatch_rows_ok :: "agent_dispatch list \<Rightarrow> bool" where
  "dispatch_rows_ok ds \<longleftrightarrow> unique_keys d_id ds \<and>
     unique_keys (\<lambda>d. (d_task_id d, d_cycle_no d, d_position d, d_attempt_no d)) ds \<and>
     unique_keys d_task_id (filter dispatch_active ds) \<and>
     unique_some d_child_session_id ds \<and> unique_some d_openclaw_run_id ds"

definition has_task :: "core \<Rightarrow> string \<Rightarrow> bool" where
  "has_task s tid \<longleftrightarrow> find_row t_id tid (db_tasks s) \<noteq> None"

section \<open>Statements\<close>

definition store_write :: "(core \<Rightarrow> bool) \<Rightarrow> (core \<Rightarrow> core) \<Rightarrow> unit cact" where
  "store_write ok f s = (if ok s then (Inr (), f s) else (Inl IntegrityError, s))"

definition cas_write :: "(core \<Rightarrow> nat) \<Rightarrow> (core \<Rightarrow> core) \<Rightarrow> nat cact" where
  "cas_write n f s = (Inr (n s), f s)"

lemma wp_store_write [wp_simps]:
  "wp (store_write ok f) Q E s = (if ok s then Q () (f s) else E IntegrityError s)"
  by (simp add: wp_def store_write_def)

lemma wp_cas_write [wp_simps]: "wp (cas_write n f) Q E s = Q (n s) (f s)"
  by (simp add: wp_def cas_write_def)

lemma keeps_store_write [keeps_rules]: "(\<And>s. p (f s) = p s) \<Longrightarrow> keeps p (store_write ok f)"
  by (simp add: keeps_def store_write_def)

lemma keeps_cas_write [keeps_rules]: "(\<And>s. p (f s) = p s) \<Longrightarrow> keeps p (cas_write n f)"
  by (simp add: keeps_def cas_write_def)

subsection \<open>Clock and uuids\<close>

definition now_iso :: "env \<Rightarrow> timestamp cact" where
  "now_iso E s = (Inr (env_clock E (ticks s)), s\<lparr>ticks := Suc (ticks s)\<rparr>)"

definition expiry_iso :: "env \<Rightarrow> int \<Rightarrow> timestamp cact" where
  "expiry_iso E ttl_seconds s =
     (Inr (env_clock E (ticks s) + ttl_seconds * 1000000), s\<lparr>ticks := Suc (ticks s)\<rparr>)"

definition new_uuid :: "env \<Rightarrow> string cact" where
  "new_uuid E s = (Inr (env_uuid E (fresh s)), s\<lparr>fresh := Suc (fresh s)\<rparr>)"

lemma wp_world [wp_simps]:
  "wp (now_iso E) Q X s = Q (env_clock E (ticks s)) (s\<lparr>ticks := Suc (ticks s)\<rparr>)"
  "wp (expiry_iso E ttl) Q X s =
     Q (env_clock E (ticks s) + ttl * 1000000) (s\<lparr>ticks := Suc (ticks s)\<rparr>)"
  "wp (new_uuid E) R X s = R (env_uuid E (fresh s)) (s\<lparr>fresh := Suc (fresh s)\<rparr>)"
  by (simp_all add: wp_def now_iso_def expiry_iso_def new_uuid_def)

lemma keeps_world [keeps_rules]:
  "(\<And>s n. p (s\<lparr>ticks := n\<rparr>) = p s) \<Longrightarrow> keeps p (now_iso E)"
  "(\<And>s n. p (s\<lparr>ticks := n\<rparr>) = p s) \<Longrightarrow> keeps p (expiry_iso E ttl)"
  "(\<And>s n. p (s\<lparr>fresh := n\<rparr>) = p s) \<Longrightarrow> keeps p (new_uuid E)"
  by (simp_all add: keeps_def now_iso_def expiry_iso_def new_uuid_def)

subsection \<open>The transaction\<close>

definition rolled_back :: "core \<Rightarrow> core \<Rightarrow> core" where
  "rolled_back s s' = s\<lparr>ticks := ticks s', fresh := fresh s'\<rparr>"

definition atomically :: "'a cact \<Rightarrow> 'a cact" where
  "atomically m = transact rolled_back m"

lemma wp_atomically [wp_simps]:
  "wp (atomically m) Q E s = wp m Q (\<lambda>e s'. E e (s\<lparr>ticks := ticks s', fresh := fresh s'\<rparr>)) s"
  by (simp add: atomically_def wp_transact rolled_back_def)

lemma keeps_atomically [keeps_rules]:
  "keeps p m \<Longrightarrow> (\<And>s n k. p (s\<lparr>ticks := n, fresh := k\<rparr>) = p s) \<Longrightarrow> keeps p (atomically m)"
  unfolding atomically_def by (rule keeps_transact) (auto simp: rolled_back_def)

text \<open>The invariant principle of a transaction: what its body establishes on success holds
  after it, whatever happens, if the counters do not matter.\<close>

lemma wp_atomically_inv:
  assumes "I s" and "wp m (\<lambda>_. I) any_error s" and "\<And>s n k. I (s\<lparr>ticks := n, fresh := k\<rparr>) = I s"
  shows "wp (atomically m) (\<lambda>_. I) (\<lambda>_. I) s"
  using assms by (auto simp: wp_atomically elim: wp_mono)

subsection \<open>Projects and tasks\<close>

definition insert_project :: "project \<Rightarrow> unit cact" where
  "insert_project p = store_write (\<lambda>s. project_rows_ok (db_projects s @ [p]))
     (\<lambda>s. s\<lparr>db_projects := db_projects s @ [p]\<rparr>)"

definition get_project :: "string \<Rightarrow> core \<Rightarrow> project option" where
  "get_project pid s = find_row p_id pid (db_projects s)"

definition insert_task :: "task \<Rightarrow> unit cact" where
  "insert_task t = store_write
     (\<lambda>s. task_rows_ok (db_tasks s @ [t]) \<and> get_project (t_project_id t) s \<noteq> None)
     (\<lambda>s. s\<lparr>db_tasks := db_tasks s @ [t]\<rparr>)"

definition get_task :: "string \<Rightarrow> core \<Rightarrow> task option" where
  "get_task tid s = find_row t_id tid (db_tasks s)"

definition update_task_state ::
  "string \<Rightarrow> task_state \<Rightarrow> task_state option \<Rightarrow> timestamp \<Rightarrow> unit cact" where
  "update_task_state tid st rs now = store_write (\<lambda>_. True)
     (\<lambda>s. s\<lparr>db_tasks := update_rows (\<lambda>t. t_id t = tid)
        (\<lambda>t. t\<lparr>t_state := st, t_resume_state := rs, t_updated_at := now\<rparr>) (db_tasks s)\<rparr>)"

subsection \<open>Task runs, role runs, handoffs\<close>

definition insert_task_run :: "task_run \<Rightarrow> unit cact" where
  "insert_task_run tr = store_write
     (\<lambda>s. unique_keys tr_id (db_task_runs s @ [tr]) \<and> has_task s (tr_task_id tr))
     (\<lambda>s. s\<lparr>db_task_runs := db_task_runs s @ [tr]\<rparr>)"

definition get_task_run :: "string \<Rightarrow> core \<Rightarrow> task_run option" where
  "get_task_run rid s = find_row tr_id rid (db_task_runs s)"

definition update_task_run_status :: "string \<Rightarrow> task_run_status \<Rightarrow> timestamp \<Rightarrow> unit cact" where
  "update_task_run_status rid st now = store_write (\<lambda>_. True)
     (\<lambda>s. s\<lparr>db_task_runs := update_rows (\<lambda>r. tr_id r = rid)
        (\<lambda>r. r\<lparr>tr_status := st, tr_finished_at := Some now\<rparr>) (db_task_runs s)\<rparr>)"

definition get_latest_task_run :: "string \<Rightarrow> core \<Rightarrow> task_run option" where
  "get_latest_task_run tid s = last_row (\<lambda>r. tr_task_id r = tid) (db_task_runs s)"

definition insert_role_run :: "role_run \<Rightarrow> unit cact" where
  "insert_role_run rr = store_write
     (\<lambda>s. role_run_rows_ok (db_role_runs s @ [rr]) \<and> has_task s (rr_task_id rr))
     (\<lambda>s. s\<lparr>db_role_runs := db_role_runs s @ [rr]\<rparr>)"

definition get_role_run :: "string \<Rightarrow> core \<Rightarrow> role_run option" where
  "get_role_run rid s = find_row rr_id rid (db_role_runs s)"

definition with_role_run_status ::
  "string \<Rightarrow> role_run_status \<Rightarrow> timestamp \<Rightarrow> role_run list \<Rightarrow> role_run list" where
  "with_role_run_status rid st now rs = update_rows (\<lambda>r. rr_id r = rid)
     (\<lambda>r. r\<lparr>rr_status := st, rr_finished_at := Some now\<rparr>) rs"

definition update_role_run_status :: "string \<Rightarrow> role_run_status \<Rightarrow> timestamp \<Rightarrow> unit cact" where
  "update_role_run_status rid st now = store_write
     (\<lambda>s. role_run_rows_ok (with_role_run_status rid st now (db_role_runs s)))
     (\<lambda>s. s\<lparr>db_role_runs := with_role_run_status rid st now (db_role_runs s)\<rparr>)"

definition get_active_role_run :: "string \<Rightarrow> core \<Rightarrow> role_run option" where
  "get_active_role_run tid s =
     find (\<lambda>r. rr_task_id r = tid \<and> rr_status r = RR_STARTED) (db_role_runs s)"

definition insert_handoff :: "handoff \<Rightarrow> unit cact" where
  "insert_handoff h = store_write
     (\<lambda>s. unique_keys h_id (db_handoffs s @ [h]) \<and> has_task s (h_task_id h))
     (\<lambda>s. s\<lparr>db_handoffs := db_handoffs s @ [h]\<rparr>)"

definition get_latest_handoff :: "string \<Rightarrow> core \<Rightarrow> handoff option" where
  "get_latest_handoff tid s = last_row (\<lambda>h. h_task_id h = tid) (db_handoffs s)"

subsection \<open>Findings, test runs, reviews, decisions\<close>

definition insert_finding :: "finding \<Rightarrow> unit cact" where
  "insert_finding f = store_write
     (\<lambda>s. unique_keys f_id (db_findings s @ [f]) \<and> has_task s (f_task_id f))
     (\<lambda>s. s\<lparr>db_findings := db_findings s @ [f]\<rparr>)"

definition get_finding :: "string \<Rightarrow> core \<Rightarrow> finding option" where
  "get_finding fid s = find_row f_id fid (db_findings s)"

definition update_finding_status :: "string \<Rightarrow> finding_status \<Rightarrow> timestamp \<Rightarrow> unit cact" where
  "update_finding_status fid st now = store_write (\<lambda>_. True)
     (\<lambda>s. s\<lparr>db_findings := update_rows (\<lambda>f. f_id f = fid)
        (\<lambda>f. f\<lparr>f_status := st, f_resolved_at := Some now\<rparr>) (db_findings s)\<rparr>)"

definition list_findings :: "string \<Rightarrow> core \<Rightarrow> finding list" where
  "list_findings tid s = filter (\<lambda>f. f_task_id f = tid) (db_findings s)"

definition insert_test_run :: "test_run \<Rightarrow> unit cact" where
  "insert_test_run r = store_write
     (\<lambda>s. unique_keys te_id (db_test_runs s @ [r]) \<and> has_task s (te_task_id r))
     (\<lambda>s. s\<lparr>db_test_runs := db_test_runs s @ [r]\<rparr>)"

definition get_test_run :: "string \<Rightarrow> core \<Rightarrow> test_run option" where
  "get_test_run rid s = find_row te_id rid (db_test_runs s)"

definition insert_review :: "review \<Rightarrow> unit cact" where
  "insert_review r = store_write
     (\<lambda>s. unique_keys rv_id (db_reviews s @ [r]) \<and> has_task s (rv_task_id r))
     (\<lambda>s. s\<lparr>db_reviews := db_reviews s @ [r]\<rparr>)"

definition get_review :: "string \<Rightarrow> core \<Rightarrow> review option" where
  "get_review rid s = find_row rv_id rid (db_reviews s)"

definition insert_decision :: "decision \<Rightarrow> unit cact" where
  "insert_decision d = store_write
     (\<lambda>s. unique_keys dc_id (db_decisions s @ [d]) \<and> has_task s (dc_task_id d))
     (\<lambda>s. s\<lparr>db_decisions := db_decisions s @ [d]\<rparr>)"

definition get_decision :: "string \<Rightarrow> core \<Rightarrow> decision option" where
  "get_decision did s = find_row dc_id did (db_decisions s)"

definition list_decisions :: "string \<Rightarrow> core \<Rightarrow> decision list" where
  "list_decisions tid s = filter (\<lambda>d. dc_task_id d = tid) (db_decisions s)"

subsection \<open>Approvals and executions\<close>

definition binding_hash :: "env \<Rightarrow> string \<Rightarrow> string \<Rightarrow> string \<Rightarrow> string" where
  "binding_hash E task_id action scope = env_sha256 E
     (env_dumps E (PList [PStr ''argent-gate-v1'', PStr task_id, PStr action, PStr scope]))"

text \<open>The row stores the recomputed hash, not the one of the object.\<close>

definition insert_approval :: "env \<Rightarrow> owner_approval \<Rightarrow> unit cact" where
  "insert_approval E a =
     (let row = a\<lparr>ap_binding_hash := Some (binding_hash E (ap_task_id a) (ap_action a) (ap_scope a))\<rparr> in
      store_write
        (\<lambda>s. approval_rows_ok (db_approvals s @ [row]) \<and> has_task s (ap_task_id row))
        (\<lambda>s. s\<lparr>db_approvals := db_approvals s @ [row]\<rparr>))"

definition get_approval :: "string \<Rightarrow> core \<Rightarrow> owner_approval option" where
  "get_approval aid s = find_row ap_id aid (db_approvals s)"

definition list_approvals :: "string \<Rightarrow> core \<Rightarrow> owner_approval list" where
  "list_approvals tid s = filter (\<lambda>a. ap_task_id a = tid) (db_approvals s)"

definition update_approvals ::
  "(owner_approval \<Rightarrow> bool) \<Rightarrow> (owner_approval \<Rightarrow> owner_approval) \<Rightarrow> nat cact" where
  "update_approvals p f = cas_write (\<lambda>s. row_count p (db_approvals s))
     (\<lambda>s. s\<lparr>db_approvals := update_rows p f (db_approvals s)\<rparr>)"

definition mark_approved :: "string \<Rightarrow> timestamp \<Rightarrow> nat cact" where
  "mark_approved aid now = update_approvals
     (\<lambda>a. ap_id a = aid \<and> ap_status a = AP_PENDING \<and> ap_expires_at a > now)
     (\<lambda>a. a\<lparr>ap_status := AP_APPROVED, ap_decided_at := Some now, ap_approved_at := Some now\<rparr>)"

definition mark_rejected :: "string \<Rightarrow> timestamp \<Rightarrow> nat cact" where
  "mark_rejected aid now = update_approvals
     (\<lambda>a. ap_id a = aid \<and> ap_status a = AP_PENDING)
     (\<lambda>a. a\<lparr>ap_status := AP_REJECTED, ap_decided_at := Some now, ap_closed_at := Some now\<rparr>)"

definition with_consumed ::
  "string \<Rightarrow> timestamp \<Rightarrow> string \<Rightarrow> owner_approval list \<Rightarrow> owner_approval list" where
  "with_consumed aid now eid = update_rows
     (\<lambda>a. ap_id a = aid \<and> ap_status a = AP_APPROVED \<and> ap_expires_at a > now)
     (\<lambda>a. a\<lparr>ap_status := AP_CONSUMED, ap_consumed_at := Some now, ap_execution_id := Some eid,
        ap_executed_at := Some now, ap_closed_at := Some now\<rparr>)"

text \<open>This UPDATE alone sets an indexed column, so the index on \<open>execution_id\<close> may refuse it.\<close>

definition consume_approval_with_execution :: "string \<Rightarrow> timestamp \<Rightarrow> string \<Rightarrow> nat cact" where
  "consume_approval_with_execution aid now eid =
     andThen (store_write
        (\<lambda>s. unique_some ap_execution_id (with_consumed aid now eid (db_approvals s))) id)
     (update_approvals
        (\<lambda>a. ap_id a = aid \<and> ap_status a = AP_APPROVED \<and> ap_expires_at a > now)
        (\<lambda>a. a\<lparr>ap_status := AP_CONSUMED, ap_consumed_at := Some now, ap_execution_id := Some eid,
           ap_executed_at := Some now, ap_closed_at := Some now\<rparr>))"

definition mark_expired :: "string \<Rightarrow> timestamp \<Rightarrow> nat cact" where
  "mark_expired aid now = update_approvals
     (\<lambda>a. ap_id a = aid \<and> ap_status a \<in> {AP_PENDING, AP_APPROVED} \<and> ap_expires_at a \<le> now)
     (\<lambda>a. a\<lparr>ap_status := AP_EXPIRED, ap_closed_at := Some (ap_expires_at a)\<rparr>)"

definition insert_action_execution :: "action_execution \<Rightarrow> unit cact" where
  "insert_action_execution ex = store_write
     (\<lambda>s. execution_rows_ok (db_executions s @ [ex]) \<and> has_task s (ex_task_id ex) \<and>
        (case ex_approval_id ex of None \<Rightarrow> True | Some aid \<Rightarrow> get_approval aid s \<noteq> None))
     (\<lambda>s. s\<lparr>db_executions := db_executions s @ [ex]\<rparr>)"

definition get_action_execution :: "string \<Rightarrow> core \<Rightarrow> action_execution option" where
  "get_action_execution eid s = find_row ex_id eid (db_executions s)"

subsection \<open>Events and idempotency\<close>

text \<open>\<open>_insert_event\<close>: the privacy filter, then \<open>INSERT OR IGNORE\<close>.\<close>

definition insert_event :: "event \<Rightarrow> unit cact" where
  "insert_event ev = liftR (check_event ev) (\<lambda>_. store_write (\<lambda>_. True)
     (\<lambda>s. if find_row ev_id (ev_id ev) (db_events s) = None
          then s\<lparr>db_events := db_events s @ [ev]\<rparr> else s))"

definition get_command_idempotency :: "string \<Rightarrow> string \<Rightarrow> core \<Rightarrow> (string \<times> string) option" where
  "get_command_idempotency key command s =
     map_option (\<lambda>r. (ci_result_id r, ci_args_hash r))
       (find_row (\<lambda>r. (ci_key r, ci_command r)) (key, command) (db_idempotency s))"

definition set_command_idempotency ::
  "string \<Rightarrow> string \<Rightarrow> string \<Rightarrow> string \<Rightarrow> timestamp \<Rightarrow> unit cact" where
  "set_command_idempotency key command rid h now = store_write (\<lambda>_. True)
     (\<lambda>s. if get_command_idempotency key command s = None
          then s\<lparr>db_idempotency := db_idempotency s @ [\<lparr>ci_key = key, ci_command = command,
                 ci_result_id = rid, ci_args_hash = h, ci_created_at = now\<rparr>]\<rparr>
          else s)"

subsection \<open>Dispatches\<close>

text \<open>\<open>ORDER BY cycle_no, position, attempt_no\<close>\<close>

definition dispatch_order :: "agent_dispatch \<Rightarrow> int \<times> int \<times> int" where
  "dispatch_order d = (d_cycle_no d, d_position d, d_attempt_no d)"

definition list_dispatches :: "string \<Rightarrow> core \<Rightarrow> agent_dispatch list" where
  "list_dispatches tid s =
     sort_key dispatch_order (filter (\<lambda>d. d_task_id d = tid) (db_dispatches s))"

definition list_all_dispatches :: "core \<Rightarrow> agent_dispatch list" where
  "list_all_dispatches s = sort_key dispatch_order (db_dispatches s)"

definition get_dispatch :: "string \<Rightarrow> core \<Rightarrow> agent_dispatch option" where
  "get_dispatch did s = find_row d_id did (db_dispatches s)"

definition insert_dispatch :: "agent_dispatch \<Rightarrow> unit cact" where
  "insert_dispatch d = store_write
     (\<lambda>s. dispatch_rows_ok (db_dispatches s @ [d]) \<and> has_task s (d_task_id d) \<and>
        get_task_run (d_task_run_id d) s \<noteq> None \<and>
        (case d_parent_dispatch_id d of None \<Rightarrow> True
         | Some p \<Rightarrow> p = d_id d \<or> get_dispatch p s \<noteq> None) \<and>
        0 \<le> d_escalation_level d \<and> d_escalation_level d \<le> 4)
     (\<lambda>s. s\<lparr>db_dispatches := db_dispatches s @ [d]\<rparr>)"

text \<open>An UPDATE that the indexes refuse leaves the table as it was.\<close>

definition update_dispatches ::
  "(agent_dispatch \<Rightarrow> bool) \<Rightarrow> (agent_dispatch \<Rightarrow> agent_dispatch) \<Rightarrow> nat cact" where
  "update_dispatches p f = andThen
     (store_write (\<lambda>s. dispatch_rows_ok (update_rows p f (db_dispatches s))) id)
     (cas_write (\<lambda>s. row_count p (db_dispatches s))
        (\<lambda>s. s\<lparr>db_dispatches := update_rows p f (db_dispatches s)\<rparr>))"

definition update_dispatch_bind ::
  "string \<Rightarrow> string \<Rightarrow> string \<Rightarrow> string \<Rightarrow> string \<Rightarrow> string \<Rightarrow> timestamp \<Rightarrow> nat cact" where
  "update_dispatch_bind did session run provider model thinking now = update_dispatches
     (\<lambda>d. d_id d = did \<and> d_status d \<in> {DS_PENDING, DS_RECOVERY_PENDING})
     (\<lambda>d. d\<lparr>d_status := DS_RUNNING, d_child_session_id := Some session,
        d_openclaw_run_id := Some run, d_actual_provider := Some provider,
        d_actual_model := Some model, d_thinking_tier := Some thinking,
        d_started_at := Some now\<rparr>)"

definition reject_dispatch_cas :: "string \<Rightarrow> nat cact" where
  "reject_dispatch_cas did = update_dispatches
     (\<lambda>d. d_id d = did \<and> d_status d \<in> {DS_PENDING, DS_RECOVERY_PENDING})
     (\<lambda>d. d\<lparr>d_status := DS_REJECTED\<rparr>)"

definition update_dispatch_status :: "string \<Rightarrow> dispatch_status \<Rightarrow> nat cact" where
  "update_dispatch_status did st = update_dispatches (\<lambda>d. d_id d = did)
     (\<lambda>d. d\<lparr>d_status := st\<rparr>)"

definition set_dispatch_attempt_outcome :: "string \<Rightarrow> string \<Rightarrow> nat cact" where
  "set_dispatch_attempt_outcome did outcome =
     require (outcome \<in> set ATTEMPT_OUTCOMES) ValueError
     (update_dispatches (\<lambda>d. d_id d = did) (\<lambda>d. d\<lparr>d_attempt_outcome := Some outcome\<rparr>))"

definition consume_dispatch :: "string \<Rightarrow> py \<Rightarrow> timestamp \<Rightarrow> nat cact" where
  "consume_dispatch did result now = update_dispatches
     (\<lambda>d. d_id d = did \<and> d_status d \<in> {DS_RUNNING, DS_RECOVERY_PENDING})
     (\<lambda>d. d\<lparr>d_status := DS_CONSUMED, d_result := Some result, d_consumed_at := Some now\<rparr>)"

definition insert_quarantine :: "agent_result_quarantine \<Rightarrow> unit cact" where
  "insert_quarantine q = store_write (\<lambda>s. unique_keys q_id (db_quarantine s @ [q]))
     (\<lambda>s. s\<lparr>db_quarantine := db_quarantine s @ [q]\<rparr>)"

text \<open>\<open>_insert_routing_decision\<close>: the same decision again is a no-op; the same id with other
  content is a \<open>DispatchError\<close>.\<close>

definition insert_routing_decision :: "routing_decision_row \<Rightarrow> unit cact" where
  "insert_routing_decision r = look (\<lambda>s. find_row rd_decision_id (rd_decision_id r) (db_routing s))
     (\<lambda>existing. case existing of
        Some old \<Rightarrow> require (old\<lparr>rd_created_at := rd_created_at r\<rparr> = r) DispatchError (ret ())
      | None \<Rightarrow> store_write (\<lambda>_. True) (\<lambda>s. s\<lparr>db_routing := db_routing s @ [r]\<rparr>))"

end
