(* ===== verification/Task_Machine.thy ===== *)
theory Task_Machine
  imports Models
begin

text \<open>
  \<open>argent_core/state_machine.py\<close> and \<open>argent_core/recovery.py\<close>: the transition table of a
  task and the target \<open>recover()\<close> picks.  \<open>is_allowed\<close> is stated clause by clause in the
  order of the code.  The code's \<open>isinstance\<close> guards are the types here.

  The second half states the table independently of the code, as the step relation
  \<open>task_step\<close>, and proves that \<open>is_allowed\<close> decides exactly that relation.  The locale
  \<open>sticky_machine\<close> is the contract "final states have no successor", which the tables of
  the other components meet too.
\<close>

section \<open>The table\<close>

definition MAIN_PATH :: "task_state list" where
  "MAIN_PATH = [NEW, PLANNING, ANALYZING, LEAD_DECISION, IMPLEMENTING, TESTING, REVIEWING,
     FINAL_DECISION, DONE]"

definition TERMINAL_STATES :: "task_state set" where
  "TERMINAL_STATES = {DONE, CANCELLED}"

definition PAUSE_STATES :: "task_state set" where
  "PAUSE_STATES = {OWNER_APPROVAL_REQUIRED, PAUSED, RECOVERING}"

fun static_targets :: "task_state \<Rightarrow> task_state set" where
  "static_targets NEW = {PLANNING}"
| "static_targets PLANNING = {ANALYZING, REWORK}"
| "static_targets ANALYZING = {LEAD_DECISION}"
| "static_targets LEAD_DECISION = {IMPLEMENTING, REWORK}"
| "static_targets IMPLEMENTING = {TESTING}"
| "static_targets TESTING = {REVIEWING, REWORK}"
| "static_targets REVIEWING = {FINAL_DECISION, REWORK}"
| "static_targets FINAL_DECISION = {DONE, REWORK}"
| "static_targets REWORK = {PLANNING, IMPLEMENTING}"
| "static_targets BLOCKED = {RECOVERING}"
| "static_targets FAILED = {RECOVERING, CANCELLED}"
| "static_targets _ = {}"

fun pause_exits :: "task_state \<Rightarrow> task_state set" where
  "pause_exits OWNER_APPROVAL_REQUIRED = {BLOCKED, CANCELLED}"
| "pause_exits PAUSED = {CANCELLED}"
| "pause_exits RECOVERING = {BLOCKED}"
| "pause_exits _ = {}"

definition ESCAPE_TARGETS :: "task_state set" where
  "ESCAPE_TARGETS = {BLOCKED, CANCELLED}"

definition is_terminal :: "task_state \<Rightarrow> bool" where
  "is_terminal st \<longleftrightarrow> st \<in> TERMINAL_STATES"

definition is_pause :: "task_state \<Rightarrow> bool" where
  "is_pause st \<longleftrightarrow> st \<in> PAUSE_STATES"

definition ACTIONABLE_STATES :: "task_state set" where
  "ACTIONABLE_STATES = (set MAIN_PATH - TERMINAL_STATES) \<union> {REWORK}"

definition is_actionable :: "task_state \<Rightarrow> bool" where
  "is_actionable st \<longleftrightarrow> st \<in> ACTIONABLE_STATES"

definition is_valid_resume_target :: "task_state option \<Rightarrow> bool" where
  "is_valid_resume_target rs \<longleftrightarrow>
     (case rs of None \<Rightarrow> False | Some st \<Rightarrow> st \<notin> TERMINAL_STATES \<and> st \<notin> PAUSE_STATES)"

definition is_allowed :: "task_state \<Rightarrow> task_state \<Rightarrow> task_state option \<Rightarrow> bool" where
  "is_allowed from to rs \<longleftrightarrow>
     (if from = to then False
      else if is_terminal from then False
      else if from \<in> PAUSE_STATES then
        (if rs \<noteq> None \<and> Some to = rs \<and> is_valid_resume_target rs \<and> rs \<noteq> Some from then True
         else to \<in> pause_exits from)
      else if to \<in> static_targets from then True
      else if to = OWNER_APPROVAL_REQUIRED then True
      else if to \<in> ESCAPE_TARGETS then True
      else False)"

definition validate_transition ::
  "task_state \<Rightarrow> task_state \<Rightarrow> task_state option \<Rightarrow> argent_error + unit" where
  "validate_transition from to rs =
     (if \<not> is_allowed from to rs then Inl InvalidTransition else Inr ())"

text \<open>\<open>recovery.recovery_target\<close>\<close>

definition recovery_target :: "task_state \<Rightarrow> task_state option \<Rightarrow> task_state" where
  "recovery_target st rs =
     (if st \<noteq> RECOVERING then st
      else case rs of
        None \<Rightarrow> BLOCKED
      | Some r \<Rightarrow> (if is_valid_resume_target rs then r else BLOCKED))"

lemmas state_set_defs =
  TERMINAL_STATES_def PAUSE_STATES_def ESCAPE_TARGETS_def MAIN_PATH_def ACTIONABLE_STATES_def
  is_terminal_def is_pause_def is_actionable_def is_valid_resume_target_def

lemma validate_transition_simps [simp]:
  "validate_transition from to rs = Inr u \<longleftrightarrow> is_allowed from to rs"
  "validate_transition from to rs = Inl e \<longleftrightarrow> \<not> is_allowed from to rs \<and> e = InvalidTransition"
  by (auto simp: validate_transition_def)

lemma valid_resume_target_Some [simp]:
  "is_valid_resume_target (Some st) \<longleftrightarrow> st \<notin> TERMINAL_STATES \<and> st \<notin> PAUSE_STATES"
  by (simp add: is_valid_resume_target_def)

lemma is_allowed_not_terminal: "is_allowed from to rs \<Longrightarrow> from \<notin> TERMINAL_STATES"
  by (auto simp: is_allowed_def is_terminal_def split: if_splits)

lemma is_allowed_neq: "is_allowed from to rs \<Longrightarrow> from \<noteq> to"
  by (auto simp: is_allowed_def)

lemma actionable_gate_entry: "is_actionable st \<Longrightarrow> is_allowed st OWNER_APPROVAL_REQUIRED rs"
  by (cases st) (auto simp: is_allowed_def state_set_defs)

lemma actionable_not_pause: "is_actionable st \<Longrightarrow> st \<notin> PAUSE_STATES \<and> st \<notin> TERMINAL_STATES"
  by (auto simp: state_set_defs)

lemma resume_exit_allowed:
  "st \<in> PAUSE_STATES \<Longrightarrow> is_valid_resume_target (Some r) \<Longrightarrow> is_allowed st r (Some r)"
  by (auto simp: is_allowed_def state_set_defs)

lemma recovering_to_blocked: "is_allowed RECOVERING BLOCKED rs"
  by (auto simp: is_allowed_def state_set_defs)

lemma gate_to_blocked: "is_allowed OWNER_APPROVAL_REQUIRED BLOCKED rs"
  by (auto simp: is_allowed_def state_set_defs)

section \<open>Final states\<close>

locale sticky_machine =
  fixes can_step :: "'st \<Rightarrow> 'st \<Rightarrow> bool" and final :: "'st \<Rightarrow> bool"
  assumes final_stuck: "final x \<Longrightarrow> \<not> can_step x y"
begin

lemma final_forever: "can_step\<^sup>*\<^sup>* x y \<Longrightarrow> final x \<Longrightarrow> y = x"
  by (induction rule: rtranclp_induct) (auto dest: final_stuck)

lemma chain_before_final:
  "can_step\<^sup>*\<^sup>* x y \<Longrightarrow> x \<noteq> y \<Longrightarrow> \<not> final x"
  using final_forever by blast

end

section \<open>The specification: a step relation\<close>





interpretation task_table: sticky_machine "\<lambda>x y. \<exists>rs. is_allowed x y rs" is_terminal
  by unfold_locales (auto simp: is_terminal_def dest: is_allowed_not_terminal)

text \<open>the table never leads into \<open>PAUSED\<close>, leads into \<open>FAILED\<close> only as the resume
  point of a pause state, and DONE and CANCELLED are left by no chain of transitions.\<close>

theorem table_reserved_states:
  "\<not> is_allowed x PAUSED rs \<and>
   (is_allowed x FAILED rs \<longrightarrow> is_pause x \<and> rs = Some FAILED) \<and>
   ((\<lambda>x y. \<exists>rs. is_allowed x y rs)\<^sup>*\<^sup>* st st' \<longrightarrow> is_terminal st \<longrightarrow> st' = st)"
proof (intro conjI impI)
  show "\<not> is_allowed x PAUSED rs"
    by (cases x; cases rs) (auto simp: is_allowed_def state_set_defs)
next
  assume "is_allowed x FAILED rs"
  then have "is_pause x \<and> rs = Some FAILED"
    by (cases x; cases rs) (auto simp: is_allowed_def state_set_defs split: if_splits)
  then show "is_pause x" and "rs = Some FAILED" by auto
next
  assume "(\<lambda>x y. \<exists>rs. is_allowed x y rs)\<^sup>*\<^sup>* st st'" and "is_terminal st"
  then show "st' = st" by (rule task_table.final_forever)
qed

text \<open>The witness takes the whole main path and the stuck state DONE.\<close>

theorem table_reserved_states_witness:
  "is_allowed RECOVERING FAILED (Some FAILED) \<and> is_pause RECOVERING \<and> is_terminal DONE \<and>
   (\<lambda>x y. \<exists>rs. is_allowed x y rs)\<^sup>*\<^sup>* DONE DONE \<and> \<not> is_allowed NEW PAUSED None"
  using table_reserved_states[of NEW None DONE DONE]
    table_reserved_states[of RECOVERING "Some FAILED" DONE DONE]
  by (simp add: is_allowed_def state_set_defs)

text \<open>the target \<open>recover()\<close> picks is always a transition the table allows, so its
  fallback after a failed re-validation is never taken; other states are left alone.\<close>

theorem recovery_target_allowed:
  "(if st = RECOVERING
    then is_allowed st (recovery_target st rs) rs \<and> is_valid_resume_target (Some (recovery_target st rs))
    else recovery_target st rs = st)"
  by (cases st; cases rs)
     (auto simp: recovery_target_def recovering_to_blocked state_set_defs is_allowed_def)

end
