(* ===== verification/Policy.thy ===== *)
theory Policy
  imports Models
begin

text \<open>
  The four pure policy modules: \<open>trust.py\<close> (who speaks), \<open>roles.py\<close> (what a role may
  touch), \<open>routing.py\<close> (which model a role runs on) and \<open>gates.py\<close> (what an action
  needs).  Every one is a total decision with a fail-closed default, and the properties say
  what the default closes.
\<close>

section \<open>trust.py\<close>

definition OWNER_SOURCE :: string where
  "OWNER_SOURCE = ''owner:authenticated''"

definition UNTRUSTED_SOURCES :: "string set" where
  "UNTRUSTED_SOURCES = {''email'', ''website'', ''download'', ''document'', ''repo_content'',
     ''tool_output'', ''network''}"

definition ROLE_VALUES :: "string set" where
  "ROLE_VALUES = set (map role_value [LEAD, ANALYST, IMPLEMENTER, QA, REVIEWER])"

definition role_source :: "role \<Rightarrow> string" where
  "role_source r = ''role:'' @ role_value r"

definition classify_source :: "string \<Rightarrow> source_class" where
  "classify_source src =
     (if src = OWNER_SOURCE then TRUSTED
      else if take 5 src = ''role:'' then
        (if drop 5 src \<in> ROLE_VALUES then TRUSTED else UNTRUSTED)
      else UNTRUSTED)"

definition is_trusted :: "string \<Rightarrow> bool" where
  "is_trusted src \<longleftrightarrow> classify_source src = TRUSTED"

definition require_trusted :: "string \<Rightarrow> argent_error + source_class" where
  "require_trusted src =
     (if classify_source src \<noteq> TRUSTED then Inl UntrustedSource else Inr (classify_source src))"

definition require_owner :: "string \<Rightarrow> argent_error + unit" where
  "require_owner src =
     (if classify_source src \<noteq> TRUSTED then Inl UntrustedSource
      else if src \<noteq> OWNER_SOURCE then Inl OwnerAuthorityRequired
      else Inr ())"

lemma role_source_inject [simp]: "role_source r = role_source r' \<longleftrightarrow> r = r'"
  by (simp add: role_source_def)

lemma role_source_not_owner [simp]: "role_source r \<noteq> OWNER_SOURCE" "OWNER_SOURCE \<noteq> role_source r"
  by (simp_all add: role_source_def OWNER_SOURCE_def)

lemma trusted_iff: "is_trusted src \<longleftrightarrow> src = OWNER_SOURCE \<or> (\<exists>r. src = role_source r)"
proof
  assume tr: "is_trusted src"
  show "src = OWNER_SOURCE \<or> (\<exists>r. src = role_source r)"
  proof (cases "src = OWNER_SOURCE")
    case False
    with tr have pre: "take 5 src = ''role:''" and val: "drop 5 src \<in> ROLE_VALUES"
      by (auto simp: is_trusted_def classify_source_def split: if_splits)
    from val obtain r where r: "drop 5 src = role_value r"
      by (auto simp: ROLE_VALUES_def simp del: role_value.simps)
    have "src = take 5 src @ drop 5 src" by simp
    also have "\<dots> = role_source r" by (simp only: pre r role_source_def)
    finally show ?thesis by blast
  qed simp
next
  assume "src = OWNER_SOURCE \<or> (\<exists>r. src = role_source r)"
  then show "is_trusted src"
  proof
    assume "\<exists>r. src = role_source r"
    then obtain r where "src = role_source r" by blast
    then show ?thesis
      by (cases r) (simp_all add: is_trusted_def classify_source_def role_source_def
          ROLE_VALUES_def OWNER_SOURCE_def)
  qed (simp add: is_trusted_def classify_source_def)
qed

lemma require_owner_Inr [simp]: "require_owner src = Inr u \<longleftrightarrow> src = OWNER_SOURCE"
  by (auto simp: require_owner_def classify_source_def split: if_splits)

text \<open>exactly the owner string and the five role strings are trusted, none of the named
  untrusted channels is, and owner authority is granted to the owner string only: a role
  source is refused with \<open>OwnerAuthorityRequired\<close>, any other string with \<open>UntrustedSource\<close>.\<close>

theorem trust_boundary:
  "(is_trusted src \<longleftrightarrow> src = OWNER_SOURCE \<or> (\<exists>r. src = role_source r)) \<and>
   (\<forall>u \<in> UNTRUSTED_SOURCES. \<not> is_trusted u) \<and>
   require_owner src =
     (if src = OWNER_SOURCE then Inr ()
      else if \<exists>r. src = role_source r then Inl OwnerAuthorityRequired
      else Inl UntrustedSource)"
proof (intro conjI)
  show "is_trusted src \<longleftrightarrow> src = OWNER_SOURCE \<or> (\<exists>r. src = role_source r)"
    by (rule trusted_iff)
  show "\<forall>u \<in> UNTRUSTED_SOURCES. \<not> is_trusted u"
    by (simp add: UNTRUSTED_SOURCES_def is_trusted_def classify_source_def OWNER_SOURCE_def)
  show "require_owner src =
     (if src = OWNER_SOURCE then Inr ()
      else if \<exists>r. src = role_source r then Inl OwnerAuthorityRequired
      else Inl UntrustedSource)"
    using trusted_iff[of src] by (auto simp: require_owner_def is_trusted_def)
qed

theorem trust_boundary_witness:
  "\<not> is_trusted ''email'' \<and> require_owner ''role:lead'' = Inl OwnerAuthorityRequired"
  using trust_boundary[of "''role:lead''"]
  by (auto simp: UNTRUSTED_SOURCES_def role_source_def OWNER_SOURCE_def intro: exI[of _ LEAD])

section \<open>roles.py\<close>

definition PERMISSIONS :: "role \<Rightarrow> artifact_category \<Rightarrow> permission option" where
  "PERMISSIONS r c = Some (case r of
     LEAD \<Rightarrow> (case c of PRODUCT_CODE \<Rightarrow> READ | TEST_CODE \<Rightarrow> READ | OTHER \<Rightarrow> WRITE)
   | ANALYST \<Rightarrow> (case c of PRODUCT_CODE \<Rightarrow> READ | TEST_CODE \<Rightarrow> READ | OTHER \<Rightarrow> WRITE)
   | IMPLEMENTER \<Rightarrow> (case c of PRODUCT_CODE \<Rightarrow> WRITE | TEST_CODE \<Rightarrow> WRITE | OTHER \<Rightarrow> WRITE)
   | QA \<Rightarrow> (case c of PRODUCT_CODE \<Rightarrow> READ | TEST_CODE \<Rightarrow> WRITE | OTHER \<Rightarrow> WRITE)
   | REVIEWER \<Rightarrow> (case c of PRODUCT_CODE \<Rightarrow> READ | TEST_CODE \<Rightarrow> READ | OTHER \<Rightarrow> READ))"

definition DEFAULT_NEXT_ROLE :: "role \<Rightarrow> role" where
  "DEFAULT_NEXT_ROLE r = (case r of
     LEAD \<Rightarrow> ANALYST | ANALYST \<Rightarrow> IMPLEMENTER | IMPLEMENTER \<Rightarrow> QA | QA \<Rightarrow> REVIEWER | REVIEWER \<Rightarrow> LEAD)"

definition can_read :: "role \<Rightarrow> artifact_category \<Rightarrow> bool" where
  "can_read r c \<longleftrightarrow> PERMISSIONS r c \<noteq> None"

definition can_write :: "role \<Rightarrow> artifact_category \<Rightarrow> bool" where
  "can_write r c \<longleftrightarrow> (case PERMISSIONS r c of None \<Rightarrow> False | Some p \<Rightarrow> p = WRITE)"

definition check_permission ::
  "role \<Rightarrow> artifact_category \<Rightarrow> permission \<Rightarrow> argent_error + unit" where
  "check_permission r c m =
     (if m = WRITE then (if \<not> can_write r c then Inl PermissionDenied else Inr ())
      else (if \<not> can_read r c then Inl PermissionDenied else Inr ()))"

section \<open>gates.py\<close>

definition AUTONOMOUS_ACTIONS :: "string set" where
  "AUTONOMOUS_ACTIONS = {''analyze'', ''implement'', ''run_tests'', ''review'', ''rework'',
     ''create_local_artifact'', ''git_local_commit'', ''create_handoff''}"

definition OWNER_APPROVAL_ACTIONS :: "string set" where
  "OWNER_APPROVAL_ACTIONS = {''deploy_production'', ''change_secrets'', ''expose_gateway'',
     ''modify_allowlist'', ''promote_stable'', ''modify_policy'', ''external_send'',
     ''install_software'', ''raise_privileges'', ''enable_self_improvement'',
     ''production_write''}"

definition FORBIDDEN_ACTIONS :: "string set" where
  "FORBIDDEN_ACTIONS = {''bypass_owner_approval'', ''forge_owner_approval'',
     ''treat_untrusted_as_owner_approval'', ''disclose_secrets'', ''disable_security_boundary'',
     ''exfiltrate_data''}"

definition EXTERNAL_ACTIONS :: "string set" where
  "EXTERNAL_ACTIONS = {''install_software'', ''download_dependency'', ''system_install'',
     ''network_fetch'', ''external_send'', ''deploy_production'', ''change_secrets'',
     ''expose_gateway'', ''modify_allowlist'', ''promote_stable'', ''modify_policy'',
     ''raise_privileges'', ''enable_self_improvement'', ''production_write''}"

definition ACTION_PERMISSIONS :: "string \<rightharpoonup> artifact_category \<times> permission" where
  "ACTION_PERMISSIONS = map_of
     [(''analyze'', (OTHER, WRITE)), (''implement'', (PRODUCT_CODE, WRITE)),
      (''run_tests'', (TEST_CODE, WRITE)), (''review'', (PRODUCT_CODE, READ)),
      (''rework'', (PRODUCT_CODE, WRITE)), (''create_local_artifact'', (OTHER, WRITE)),
      (''git_local_commit'', (PRODUCT_CODE, WRITE)), (''create_handoff'', (OTHER, WRITE))]"

definition classify_action :: "string \<Rightarrow> external_actions_policy \<Rightarrow> action_class" where
  "classify_action a pol =
     (if pol = EXT_FORBIDDEN \<and> a \<in> EXTERNAL_ACTIONS then FORBIDDEN
      else if a \<in> AUTONOMOUS_ACTIONS then AUTONOMOUS
      else if a \<in> OWNER_APPROVAL_ACTIONS then OWNER_APPROVAL
      else if a \<in> EXTERNAL_ACTIONS then OWNER_APPROVAL
      else FORBIDDEN)"

text \<open>\<open>permission_for\<close> is a dict subscript: \<open>None\<close> is the \<open>KeyError\<close>.\<close>

definition permission_for :: "string \<Rightarrow> (artifact_category \<times> permission) option" where
  "permission_for a = ACTION_PERMISSIONS a"

lemmas action_set_defs =
  AUTONOMOUS_ACTIONS_def OWNER_APPROVAL_ACTIONS_def FORBIDDEN_ACTIONS_def EXTERNAL_ACTIONS_def

lemma dom_ACTION_PERMISSIONS: "dom ACTION_PERMISSIONS = AUTONOMOUS_ACTIONS"
  by (auto simp: ACTION_PERMISSIONS_def AUTONOMOUS_ACTIONS_def dom_map_of_conv_image_fst)

lemma autonomous_not_external: "AUTONOMOUS_ACTIONS \<inter> EXTERNAL_ACTIONS = {}"
  by (simp add: action_set_defs)

lemma owner_subset_external: "OWNER_APPROVAL_ACTIONS \<subseteq> EXTERNAL_ACTIONS"
  by (simp add: action_set_defs)

lemma classify_autonomous_iff: "classify_action a pol = AUTONOMOUS \<longleftrightarrow> a \<in> AUTONOMOUS_ACTIONS"
  using autonomous_not_external by (auto simp: classify_action_def)

lemma permission_for_autonomous:
  "classify_action a pol = AUTONOMOUS \<Longrightarrow> \<exists>cm. permission_for a = Some cm"
  unfolding classify_autonomous_iff permission_for_def dom_ACTION_PERMISSIONS[symmetric]
  by (rule domD)

text \<open>the three classes are decided fail-closed.  An action is autonomous iff it is one of
  the eight listed ones, whatever the task's policy; it needs an approval iff it is external
  and the policy admits a gate; everything else, the six named forbidden actions included, is
  forbidden.  \<open>permission_for\<close> is defined on exactly the autonomous actions.\<close>

theorem classify_action_exact:
  "(classify_action a pol = AUTONOMOUS \<longleftrightarrow> a \<in> AUTONOMOUS_ACTIONS) \<and>
   (classify_action a pol = OWNER_APPROVAL \<longleftrightarrow> a \<in> EXTERNAL_ACTIONS \<and> pol = ALLOWED_WITH_GATE) \<and>
   (classify_action a pol = FORBIDDEN \<longleftrightarrow>
      a \<notin> AUTONOMOUS_ACTIONS \<and> (a \<in> EXTERNAL_ACTIONS \<longrightarrow> pol = EXT_FORBIDDEN)) \<and>
   (a \<in> FORBIDDEN_ACTIONS \<longrightarrow> classify_action a pol = FORBIDDEN) \<and>
   (permission_for a \<noteq> None \<longleftrightarrow> a \<in> AUTONOMOUS_ACTIONS)"
proof (intro conjI)
  show "a \<in> FORBIDDEN_ACTIONS \<longrightarrow> classify_action a pol = FORBIDDEN"
    by (auto simp: classify_action_def action_set_defs)
  show "permission_for a \<noteq> None \<longleftrightarrow> a \<in> AUTONOMOUS_ACTIONS"
    unfolding permission_for_def dom_ACTION_PERMISSIONS[symmetric] by (rule domIff[symmetric])
  show "classify_action a pol = OWNER_APPROVAL \<longleftrightarrow> a \<in> EXTERNAL_ACTIONS \<and> pol = ALLOWED_WITH_GATE"
    using autonomous_not_external owner_subset_external
    by (cases pol) (auto simp: classify_action_def)
  show "classify_action a pol = FORBIDDEN \<longleftrightarrow>
      a \<notin> AUTONOMOUS_ACTIONS \<and> (a \<in> EXTERNAL_ACTIONS \<longrightarrow> pol = EXT_FORBIDDEN)"
    using autonomous_not_external owner_subset_external
    by (cases pol) (auto simp: classify_action_def)
qed (rule classify_autonomous_iff)

theorem classify_action_exact_witness:
  "classify_action ''disclose_secrets'' ALLOWED_WITH_GATE = FORBIDDEN \<and>
   classify_action ''network_fetch'' EXT_FORBIDDEN = FORBIDDEN"
  using classify_action_exact[of "''disclose_secrets''" ALLOWED_WITH_GATE]
    classify_action_exact[of "''network_fetch''" EXT_FORBIDDEN]
  by (simp add: action_set_defs)

section \<open>routing.py\<close>

definition canonical_model :: "role \<Rightarrow> string \<times> string \<times> string" where
  "canonical_model r = (case r of
     LEAD \<Rightarrow> (''openai'', ''gpt-5.6-sol'', ''high'')
   | ANALYST \<Rightarrow> (''deepseek'', ''deepseek-v4-pro'', ''medium'')
   | IMPLEMENTER \<Rightarrow> (''deepseek'', ''deepseek-v4-pro'', ''medium'')
   | QA \<Rightarrow> (''deepseek'', ''deepseek-v4-pro'', ''medium'')
   | REVIEWER \<Rightarrow> (''openai'', ''gpt-5.6-sol'', ''high''))"

definition resolve_model :: "role \<Rightarrow> risk_class \<Rightarrow> string \<times> string \<times> string" where
  "resolve_model r rc = (case canonical_model r of (provider, model, thinking) \<Rightarrow>
     (if r \<in> {IMPLEMENTER, QA} \<and> rc = RISK_LOW then (provider, ''deepseek-v4-flash'', thinking)
      else (provider, model, thinking)))"

definition validate_model_choice ::
  "role \<Rightarrow> string option \<Rightarrow> string option \<Rightarrow> string option \<Rightarrow> risk_class \<Rightarrow> bool" where
  "validate_model_choice r provider model thinking rc =
     (if r \<in> {LEAD, REVIEWER} then
        (if provider \<noteq> Some ''openai'' \<or> model \<noteq> Some ''gpt-5.6-sol'' then False
         else if thinking \<noteq> Some ''high'' then False
         else True)
      else if provider \<noteq> Some ''deepseek'' then False
      else if r = ANALYST then model = Some ''deepseek-v4-pro''
      else if model = Some ''deepseek-v4-pro'' then True
      else if model = Some ''deepseek-v4-flash'' then rc = RISK_LOW
      else False)"

lemma flash_choice:
  "validate_model_choice r p (Some ''deepseek-v4-flash'') t rc \<Longrightarrow>
   r \<in> {IMPLEMENTER, QA} \<and> rc = RISK_LOW"
  by (cases r) (simp_all add: validate_model_choice_def split: if_splits)

text \<open>the router's own choice always passes the policy check, no accepted choice puts a
  lead or reviewer on anything but the high tier, and the cheap model is accepted only for an
  implementer or QA run of low risk.  For the other roles the thinking tier is not checked.\<close>

theorem model_policy_sound:
  "(case resolve_model r rc of (p, m, t) \<Rightarrow>
      validate_model_choice r (Some p) (Some m) (Some t) rc) \<and>
   (validate_model_choice r p m t rc \<longrightarrow>
      (r \<in> {LEAD, REVIEWER} \<longrightarrow>
         (case canonical_model r of (p', m', t') \<Rightarrow> (p, m, t) = (Some p', Some m', Some t'))) \<and>
      (m = Some ''deepseek-v4-flash'' \<longrightarrow> r \<in> {IMPLEMENTER, QA} \<and> rc = RISK_LOW)) \<and>
   (r \<notin> {LEAD, REVIEWER} \<longrightarrow>
      validate_model_choice r p m t rc = validate_model_choice r p m t' rc)"
proof (intro conjI impI)
  show "case resolve_model r rc of (p, m, t) \<Rightarrow>
      validate_model_choice r (Some p) (Some m) (Some t) rc"
    by (cases r; cases rc)
       (simp_all add: resolve_model_def canonical_model_def validate_model_choice_def)
next
  assume v: "validate_model_choice r p m t rc" and r: "r \<in> {LEAD, REVIEWER}"
  then have "p = Some ''openai'' \<and> m = Some ''gpt-5.6-sol'' \<and> t = Some ''high''"
    unfolding validate_model_choice_def by presburger
  with r show "case canonical_model r of (p', m', t') \<Rightarrow> (p, m, t) = (Some p', Some m', Some t')"
    by (auto simp: canonical_model_def)
next
  assume v: "validate_model_choice r p m t rc" and m: "m = Some ''deepseek-v4-flash''"
  have "validate_model_choice r p (Some ''deepseek-v4-flash'') t rc" using v m by simp
  then have "r \<in> {IMPLEMENTER, QA} \<and> rc = RISK_LOW" by (rule flash_choice)
  then show "r \<in> {IMPLEMENTER, QA}" and "rc = RISK_LOW" by simp_all
next
  assume "r \<notin> {LEAD, REVIEWER}"
  then show "validate_model_choice r p m t rc = validate_model_choice r p m t' rc"
    by (simp add: validate_model_choice_def)
qed

theorem model_policy_sound_witness:
  "validate_model_choice LEAD (Some ''openai'') (Some ''gpt-5.6-sol'') (Some ''high'') RISK_LOW \<and>
   canonical_model LEAD = (''openai'', ''gpt-5.6-sol'', ''high'')"
proof -
  have v: "validate_model_choice LEAD (Some ''openai'') (Some ''gpt-5.6-sol'') (Some ''high'') RISK_LOW"
    by (simp add: validate_model_choice_def)
  have "case canonical_model LEAD of (p', m', t') \<Rightarrow>
      (Some ''openai'', Some ''gpt-5.6-sol'', Some ''high'') = (Some p', Some m', Some t')"
    using model_policy_sound[THEN conjunct2, THEN conjunct1, rule_format, OF v, THEN conjunct1,
        rule_format] by simp
  with v show ?thesis by (simp split: prod.splits)
qed

end
