(* ===== verification/Core_Base.thy ===== *)
theory Core_Base
  imports Core_Store Task_Machine Policy
begin

text \<open>
  The shared machinery of \<open>argent_core/core.py\<close>: authorization, events, the one function that
  moves a task (\<open>_apply_transition\<close>), idempotent execution, and the workflow frontier, which
  replays the persisted dispatches and decisions to find the next role.

  Commands are actions over \<open>core\<close>.  A guard that may raise takes the rest of the command as
  its last argument.  The value a command returns is an \<open>entity\<close>, since \<open>_idempotent\<close> and
  \<open>_refetch\<close> return whatever row the command is about; \<open>E_none\<close> is Python's \<open>None\<close>.
\<close>

record recovery_report =
  rp_interrupted_role_runs :: nat
  rp_interrupted_task_runs :: nat
  rp_rolled_back :: "(string \<times> task_state \<times> task_state) list"
  rp_recovery_pending :: nat

record action_request_result =
  ar_action :: string
  ar_scope :: string
  ar_class :: action_class
  ar_allowed :: bool
  ar_approval :: "owner_approval option"
  ar_execution_id :: "string option"

record receive_result =
  re_dispatch_id :: string
  re_status :: string
  re_reason :: "string option"

datatype entity =
    E_none
  | E_project project
  | E_task task
  | E_role_run role_run
  | E_task_run task_run
  | E_approval owner_approval
  | E_finding finding
  | E_test_run test_run
  | E_review review
  | E_decision decision
  | E_dispatch agent_dispatch
  | E_action action_request_result
  | E_receive receive_result
  | E_report recovery_report

definition as_entity :: "('a \<Rightarrow> entity) \<Rightarrow> 'a option \<Rightarrow> entity" where
  "as_entity c x = (case x of None \<Rightarrow> E_none | Some a \<Rightarrow> c a)"

section \<open>Guards\<close>

definition check_source :: "string \<Rightarrow> 'a cact \<Rightarrow> 'a cact" where
  "check_source source k = liftR (require_trusted source) (\<lambda>_. k)"

definition with_owner :: "string \<Rightarrow> 'a cact \<Rightarrow> 'a cact" where
  "with_owner source k = liftR (require_owner source) (\<lambda>_. k)"

definition coerce_state :: "string \<Rightarrow> (task_state \<Rightarrow> 'a cact) \<Rightarrow> 'a cact" where
  "coerce_state v k = fetch (\<lambda>_. task_state_of_value v) InvalidTransition k"

definition coerce_role :: "string \<Rightarrow> (role \<Rightarrow> 'a cact) \<Rightarrow> 'a cact" where
  "coerce_role v k = fetch (\<lambda>_. role_of_value v) ValueError k"

definition coerce_result :: "string \<Rightarrow> (test_result \<Rightarrow> 'a cact) \<Rightarrow> 'a cact" where
  "coerce_result v k =
     (if v = test_result_value TE_PASSED then k TE_PASSED
      else if v = test_result_value TE_FAILED then k TE_FAILED
      else raise ValueError)"

definition role_actor_ok :: "string \<Rightarrow> role \<Rightarrow> core \<Rightarrow> bool" where
  "role_actor_ok task_id actor_role s =
     (case get_active_role_run task_id s of None \<Rightarrow> False | Some r \<Rightarrow> rr_role r = actor_role)"

definition require_role_actor :: "string \<Rightarrow> role \<Rightarrow> string \<Rightarrow> 'a cact \<Rightarrow> 'a cact" where
  "require_role_actor task_id actor_role source k =
     require (source = role_source actor_role) PermissionDenied
     (look (role_actor_ok task_id actor_role) (\<lambda>ok. require ok PermissionDenied k))"

definition require_active_role_in :: "string \<Rightarrow> role list \<Rightarrow> string \<Rightarrow> 'a cact \<Rightarrow> 'a cact" where
  "require_active_role_in task_id allowed_roles source k =
     fetch (get_active_role_run task_id) PermissionDenied (\<lambda>active.
     require (rr_role active \<in> set allowed_roles) PermissionDenied
     (require (source = role_source (rr_role active)) PermissionDenied k))"

definition require_controller :: "string \<Rightarrow> 'a cact \<Rightarrow> 'a cact" where
  "require_controller source k =
     check_source source (require (source = role_source LEAD) PermissionDenied k)"

definition require_actionable :: "task \<Rightarrow> 'a cact \<Rightarrow> 'a cact" where
  "require_actionable task k = require (is_actionable (t_state task)) InvalidTransition k"

definition require_allowed ::
  "task_state \<Rightarrow> task_state \<Rightarrow> task_state option \<Rightarrow> 'a cact \<Rightarrow> 'a cact" where
  "require_allowed x y rs k = liftR (validate_transition x y rs) (\<lambda>_. k)"

lemma wp_guards [wp_simps]:
  "wp (check_source source k) Q E s =
     (if is_trusted source then wp k Q E s else E UntrustedSource s)"
  "wp (with_owner source k) Q E s =
     (case require_owner source of Inl e \<Rightarrow> E e s | Inr _ \<Rightarrow> wp k Q E s)"
  "wp (coerce_state v h) Q E s =
     (case task_state_of_value v of None \<Rightarrow> E InvalidTransition s | Some st \<Rightarrow> wp (h st) Q E s)"
  "wp (coerce_role v g) Q E s =
     (case role_of_value v of None \<Rightarrow> E ValueError s | Some r \<Rightarrow> wp (g r) Q E s)"
  "wp (require_role_actor tid r source k) Q E s =
     (if source = role_source r \<and> role_actor_ok tid r s then wp k Q E s else E PermissionDenied s)"
  "wp (require_active_role_in tid ros source k) Q E s =
     (case get_active_role_run tid s of None \<Rightarrow> E PermissionDenied s
      | Some a \<Rightarrow> if rr_role a \<in> set ros \<and> source = role_source (rr_role a) then wp k Q E s
                  else E PermissionDenied s)"
  "wp (require_controller source k) Q E s =
     (if source = role_source LEAD then wp k Q E s
      else if is_trusted source then E PermissionDenied s else E UntrustedSource s)"
  "wp (require_actionable task k) Q E s =
     (if is_actionable (t_state task) then wp k Q E s else E InvalidTransition s)"
  "wp (require_allowed x y rs k) Q E s =
     (if is_allowed x y rs then wp k Q E s else E InvalidTransition s)"
proof -
  have tr: "require_trusted src = (if is_trusted src then Inr TRUSTED else Inl UntrustedSource)" for src
    by (cases "classify_source src") (simp_all add: require_trusted_def is_trusted_def)
  show "wp (check_source source k) Q E s =
     (if is_trusted source then wp k Q E s else E UntrustedSource s)"
    by (simp add: check_source_def tr wp_simps)
  then show "wp (require_controller source k) Q E s =
     (if source = role_source LEAD then wp k Q E s
      else if is_trusted source then E PermissionDenied s else E UntrustedSource s)"
    using trusted_iff[of source]
    by (auto simp: require_controller_def check_source_def tr wp_simps)
qed (auto simp: with_owner_def coerce_state_def coerce_role_def require_role_actor_def
    require_active_role_in_def require_actionable_def require_allowed_def validate_transition_def
    wp_simps split: option.splits)

lemma wp_coerce_result [wp_simps]:
  "wp (coerce_result v k) Q E s =
     (if v = ''passed'' then wp (k TE_PASSED) Q E s
      else if v = ''failed'' then wp (k TE_FAILED) Q E s else E ValueError s)"
  by (simp add: coerce_result_def wp_simps)

lemma keeps_guards [keeps_rules]:
  "keeps p k \<Longrightarrow> keeps p (check_source source k)"
  "keeps p k \<Longrightarrow> keeps p (with_owner source k)"
  "(\<And>st. keeps p (h st)) \<Longrightarrow> keeps p (coerce_state v h)"
  "(\<And>r. keeps p (g r)) \<Longrightarrow> keeps p (coerce_role v g)"
  "(\<And>r. keeps p (q r)) \<Longrightarrow> keeps p (coerce_result v q)"
  "keeps p k \<Longrightarrow> keeps p (require_role_actor tid ro source k)"
  "keeps p k \<Longrightarrow> keeps p (require_active_role_in tid ros source k)"
  "keeps p k \<Longrightarrow> keeps p (require_controller source k)"
  "keeps p k \<Longrightarrow> keeps p (require_actionable task k)"
  "keeps p k \<Longrightarrow> keeps p (require_allowed x y rs k)"
  by (auto simp: check_source_def with_owner_def coerce_state_def coerce_role_def coerce_result_def
      require_role_actor_def require_active_role_in_def require_controller_def
      require_actionable_def require_allowed_def intro!: keeps_rules)

lemma steps_guards [steps_rules]:
  assumes "reflp R"
  shows "steps R k \<Longrightarrow> steps R (check_source source k)"
  "steps R k \<Longrightarrow> steps R (with_owner source k)"
  "(\<And>st. steps R (h st)) \<Longrightarrow> steps R (coerce_state v h)"
  "(\<And>r. steps R (g r)) \<Longrightarrow> steps R (coerce_role v g)"
  "(\<And>r. steps R (q r)) \<Longrightarrow> steps R (coerce_result v q)"
  "steps R k \<Longrightarrow> steps R (require_role_actor tid ro source k)"
  "steps R k \<Longrightarrow> steps R (require_active_role_in tid ros source k)"
  "steps R k \<Longrightarrow> steps R (require_controller source k)"
  "steps R k \<Longrightarrow> steps R (require_actionable task k)"
  "steps R k \<Longrightarrow> steps R (require_allowed x y rs k)"
  unfolding check_source_def with_owner_def coerce_state_def coerce_role_def coerce_result_def
    require_role_actor_def require_active_role_in_def require_controller_def
    require_actionable_def require_allowed_def
  by (intro steps_rules assms; assumption)+

section \<open>Events\<close>

definition emit ::
  "env \<Rightarrow> string \<Rightarrow> string option \<Rightarrow> string option \<Rightarrow> string option \<Rightarrow> (string \<times> py) list \<Rightarrow> unit cact" where
  "emit E typ task_id role state payload =
     bindA (new_uuid E) (\<lambda>i. bindA (now_iso E) (\<lambda>now.
     insert_event \<lparr>ev_id = i, ev_type = typ, ev_task_id = task_id, ev_role = role,
       ev_state = state, ev_payload = payload, ev_created_at = now\<rparr>))"

text \<open>The event \<open>emit\<close> writes in a state, and the state after it.\<close>

definition next_event ::
  "env \<Rightarrow> core \<Rightarrow> string \<Rightarrow> string option \<Rightarrow> string option \<Rightarrow> string option \<Rightarrow> (string \<times> py) list \<Rightarrow> event" where
  "next_event E s typ task_id role state payload =
     \<lparr>ev_id = env_uuid E (fresh s), ev_type = typ, ev_task_id = task_id, ev_role = role,
      ev_state = state, ev_payload = payload, ev_created_at = env_clock E (ticks s)\<rparr>"

definition logged :: "event \<Rightarrow> core \<Rightarrow> core" where
  "logged ev s = (let s' = s\<lparr>fresh := Suc (fresh s), ticks := Suc (ticks s)\<rparr> in
     if find_row ev_id (ev_id ev) (db_events s) = None
     then s'\<lparr>db_events := db_events s @ [ev]\<rparr> else s')"

lemma logged_simps [simp]:
  "db_projects (logged ev s) = db_projects s" "db_tasks (logged ev s) = db_tasks s"
  "db_task_runs (logged ev s) = db_task_runs s" "db_role_runs (logged ev s) = db_role_runs s"
  "db_handoffs (logged ev s) = db_handoffs s" "db_findings (logged ev s) = db_findings s"
  "db_test_runs (logged ev s) = db_test_runs s" "db_reviews (logged ev s) = db_reviews s"
  "db_decisions (logged ev s) = db_decisions s" "db_approvals (logged ev s) = db_approvals s"
  "db_executions (logged ev s) = db_executions s" "db_idempotency (logged ev s) = db_idempotency s"
  "db_dispatches (logged ev s) = db_dispatches s" "db_quarantine (logged ev s) = db_quarantine s"
  "db_routing (logged ev s) = db_routing s"
  by (simp_all add: logged_def Let_def)

lemma wp_emit [wp_simps]:
  "wp (emit E typ ti ro st pl) Q X s =
     (case check_event (next_event E s typ ti ro st pl) of
        Inl e \<Rightarrow> X e (s\<lparr>fresh := Suc (fresh s), ticks := Suc (ticks s)\<rparr>)
      | Inr _ \<Rightarrow> Q () (logged (next_event E s typ ti ro st pl) s))"
  by (auto simp: emit_def insert_event_def wp_simps next_event_def logged_def split: sum.splits)

lemma keeps_emit [keeps_rules]:
  assumes "\<And>s evs. p (s\<lparr>db_events := evs\<rparr>) = p s" "\<And>s n. p (s\<lparr>ticks := n\<rparr>) = p s"
    and "\<And>s n. p (s\<lparr>fresh := n\<rparr>) = p s"
  shows "keeps p (emit E typ ti ro st pl)"
  unfolding emit_def insert_event_def
  by (intro keeps_rules) (auto simp: assms)

section \<open>Moving a task\<close>

definition apply_transition ::
  "env \<Rightarrow> task \<Rightarrow> task_state \<Rightarrow> task_state option \<Rightarrow> unit cact" where
  "apply_transition E task to_state new_resume =
     bindA (now_iso E) (\<lambda>now.
     andThen (update_task_state (t_id task) to_state new_resume now)
     (andThen (emit E ''task.state_changed'' (Some (t_id task)) None (Some (task_state_value to_state))
        [(''from_state'', PStr (task_state_value (t_state task))),
         (''to_state'', PStr (task_state_value to_state))])
     (whenA (to_state = DONE)
        (emit E ''task.completed'' (Some (t_id task)) None (Some (task_state_value DONE)) []))))"

section \<open>Idempotent execution\<close>

definition hash_args :: "env \<Rightarrow> (string \<times> py) list \<Rightarrow> string" where
  "hash_args E args = env_sha256 E (env_dumps E (PDict args))"

text \<open>\<open>work\<close> returns the entity and the id stored for the replay; \<open>refetch\<close> reads it back.\<close>

definition idempotent ::
  "env \<Rightarrow> string option \<Rightarrow> string \<Rightarrow> (string \<times> py) list \<Rightarrow> (entity \<times> string) cact \<Rightarrow>
   (string \<Rightarrow> entity cact) \<Rightarrow> entity cact" where
  "idempotent E key command args work refetch =
     (case key of
        None \<Rightarrow> atomically (bindA work (\<lambda>r. ret (fst r)))
      | Some k \<Rightarrow> atomically (look (get_command_idempotency k command) (\<lambda>existing.
          case existing of
            Some r \<Rightarrow> require (snd r = hash_args E args) IdempotencyError (refetch (fst r))
          | None \<Rightarrow> bindA work (\<lambda>r. bindA (now_iso E) (\<lambda>now.
              andThen (set_command_idempotency k command (snd r) (hash_args E args) now)
              (ret (fst r)))))))"

definition REPLAY_KIND :: "(string \<times> string) list" where
  "REPLAY_KIND = [(''create_project'', ''project''), (''create_task'', ''task''),
     (''transition'', ''task''), (''resume'', ''task''), (''start_role'', ''role_run''),
     (''complete_role'', ''role_run''), (''fail_role'', ''role_run''),
     (''start_task_run'', ''task_run''), (''complete_task_run'', ''task_run''),
     (''fail_task_run'', ''task_run''), (''approve'', ''approval''), (''reject'', ''approval''),
     (''execute_approved'', ''approval''), (''add_finding'', ''finding''),
     (''resolve_finding'', ''finding''), (''record_test_run'', ''test_run''),
     (''record_review'', ''review''), (''record_decision'', ''decision''),
     (''create_dispatch'', ''dispatch''), (''bind_spawn_result'', ''dispatch''),
     (''mark_agent_failed'', ''dispatch''), (''receive_agent_result'', ''dispatch'')]"

definition refetch_row :: "string \<Rightarrow> string \<Rightarrow> core \<Rightarrow> entity" where
  "refetch_row kind rid s =
     (if kind = ''project'' then as_entity E_project (get_project rid s)
      else if kind = ''task'' then as_entity E_task (get_task rid s)
      else if kind = ''role_run'' then as_entity E_role_run (get_role_run rid s)
      else if kind = ''task_run'' then as_entity E_task_run (get_task_run rid s)
      else if kind = ''approval'' then as_entity E_approval (get_approval rid s)
      else if kind = ''finding'' then as_entity E_finding (get_finding rid s)
      else if kind = ''test_run'' then as_entity E_test_run (get_test_run rid s)
      else if kind = ''review'' then as_entity E_review (get_review rid s)
      else if kind = ''decision'' then as_entity E_decision (get_decision rid s)
      else if kind = ''dispatch'' then as_entity E_dispatch (get_dispatch rid s)
      else E_none)"

definition refetch :: "string \<Rightarrow> string \<Rightarrow> entity cact" where
  "refetch command rid =
     fetch (\<lambda>_. map_of REPLAY_KIND command) IdempotencyError (\<lambda>kind.
     look (refetch_row kind rid) (\<lambda>obj.
     require (obj \<noteq> E_none) IdempotencyError (ret obj)))"

lemma keeps_refetch [keeps_rules]: "keeps p (refetch command rid)"
  unfolding refetch_def by (intro keeps_rules)

lemma keeps_idempotent:
  assumes "keeps p work" "\<And>rid. keeps p (refet rid)"
    and "\<And>s n k. p (s\<lparr>ticks := n, fresh := k\<rparr>) = p s" "\<And>s n. p (s\<lparr>ticks := n\<rparr>) = p s"
    and "\<And>s r. p (s\<lparr>db_idempotency := r\<rparr>) = p s"
  shows "keeps p (idempotent E key command args work refet)"
  unfolding idempotent_def set_command_idempotency_def
  by (intro keeps_rules assms) (auto simp: assms)

text \<open>Invariants go through \<open>idempotent\<close>: the body establishes them on success, the replay
  reads, a failure rolls back.\<close>

lemma wp_idempotent_inv:
  assumes "I s" and "wp work (\<lambda>_. I) any_error s"
    and "\<And>rid s. I s \<Longrightarrow> wp (refet rid) (\<lambda>_. I) any_error s"
    and "\<And>s n k. I (s\<lparr>ticks := n, fresh := k\<rparr>) = I s" "\<And>s n. I (s\<lparr>ticks := n\<rparr>) = I s"
    and "\<And>s r. I (s\<lparr>db_idempotency := r\<rparr>) = I s"
  shows "wp (idempotent E key command args work refet) (\<lambda>_. I) (\<lambda>_. I) s"
proof -
  have set: "wp (set_command_idempotency k c r h now) (\<lambda>_. I) any_error s'" if "I s'" for k c r h now s'
    using that by (simp add: set_command_idempotency_def wp_simps assms)
  show ?thesis
  proof (cases key)
    case None
    show ?thesis unfolding idempotent_def None option.simps
      by (rule wp_atomically_inv[OF assms(1) _ assms(4)])
         (use assms(2) in \<open>auto simp: wp_bindA wp_ret elim!: wp_mono\<close>)
  next
    case (Some k)
    show ?thesis
      unfolding idempotent_def Some option.simps
    proof (rule wp_atomically_inv[OF assms(1) _ assms(4)])
      show "wp (look (get_command_idempotency k command) (\<lambda>existing. case existing of
            Some r \<Rightarrow> require (snd r = hash_args E args) IdempotencyError (refet (fst r))
          | None \<Rightarrow> bindA work (\<lambda>r. bindA (now_iso E) (\<lambda>now.
              andThen (set_command_idempotency k command (snd r) (hash_args E args) now)
              (ret (fst r)))))) (\<lambda>_. I) any_error s"
        using assms(2) by (auto simp: wp_simps assms(4-6) split: option.splits
            intro!: assms(3)[OF assms(1)] set elim!: wp_mono)
    qed
  qed
qed

section \<open>The workflow frontier\<close>

definition parse_decision_detail :: "env \<Rightarrow> string option \<Rightarrow> (string \<times> py) list" where
  "parse_decision_detail E detail =
     (if or_empty detail = [] then []
      else (case env_loads E (or_empty detail) of Some (PDict kvs) \<Rightarrow> kvs | _ \<Rightarrow> []))"

text \<open>Python's \<open>v == n\<close> for an int \<open>n\<close>: a bool or a float may be equal to it.\<close>

definition py_eq_int :: "py \<Rightarrow> int \<Rightarrow> bool" where
  "py_eq_int v n = (case v of
     PInt i \<Rightarrow> i = n
   | PBool b \<Rightarrow> (if b then 1 else 0) = n
   | PFloat (FFinite q) \<Rightarrow> q = of_int n
   | _ \<Rightarrow> False)"

definition rework_include_for_cycle :: "env \<Rightarrow> int \<Rightarrow> decision list \<Rightarrow> bool \<Rightarrow> bool" where
  "rework_include_for_cycle E cycle_no decisions open_findings =
     (case find (\<lambda>d. dc_decision d = ''rework'' \<and>
          py_eq_int (py_get (parse_decision_detail E (dc_detail d)) ''cycle_no'') (cycle_no - 1))
        (rev decisions) of
        Some d \<Rightarrow> rework_include_reviewer (Some (parse_decision_detail E (dc_detail d))) open_findings
      | None \<Rightarrow> rework_include_reviewer None open_findings)"

definition last_decision_rework :: "env \<Rightarrow> decision list \<Rightarrow> int \<Rightarrow> (string \<times> py) list option" where
  "last_decision_rework E decisions max_cycle =
     (if decisions = [] then None
      else let d = last decisions; detail = parse_decision_detail E (dc_detail d) in
        if dc_decision d = ''rework'' \<and> py_eq_int (py_get detail ''cycle_no'') max_cycle
        then Some detail else None)"

definition frontier_of ::
  "env \<Rightarrow> agent_dispatch list \<Rightarrow> decision list \<Rightarrow> bool \<Rightarrow> workflow_frontier" where
  "frontier_of E dispatches decisions open_findings =
     (if dispatches = [] then
        \<lparr>wf_cycle_no = 1, wf_position = 0, wf_sequence_kind = SEQ_STANDARD,
         wf_include_reviewer = True, wf_expected_role = Some LEAD\<rparr>
      else let max_cycle = fold max (map d_cycle_no (tl dispatches)) (d_cycle_no (hd dispatches));
               in_cycle = filter (\<lambda>d. d_cycle_no d = max_cycle) dispatches;
               kind = d_sequence_kind (last in_cycle) in
        (case last_decision_rework E decisions max_cycle of
           Some detail \<Rightarrow>
             \<lparr>wf_cycle_no = max_cycle + 1, wf_position = 0, wf_sequence_kind = SEQ_REWORK,
              wf_include_reviewer = rework_include_reviewer (Some detail) open_findings,
              wf_expected_role = Some LEAD\<rparr>
         | None \<Rightarrow>
             let include_reviewer = (if kind = SEQ_REWORK
                   then rework_include_for_cycle E max_cycle decisions open_findings else True);
                 consumed = map d_position (filter (\<lambda>d. d_status d = DS_CONSUMED) in_cycle);
                 sq = effective_sequence kind include_reviewer in
             (case find (\<lambda>pos. int pos \<notin> set consumed) [0..<length sq] of
                Some pos \<Rightarrow>
                  \<lparr>wf_cycle_no = max_cycle, wf_position = int pos, wf_sequence_kind = kind,
                   wf_include_reviewer = include_reviewer, wf_expected_role = Some (sq ! pos)\<rparr>
              | None \<Rightarrow>
                  \<lparr>wf_cycle_no = max_cycle, wf_position = int (length sq), wf_sequence_kind = kind,
                   wf_include_reviewer = include_reviewer, wf_expected_role = None\<rparr>)))"

definition workflow_frontier :: "env \<Rightarrow> string \<Rightarrow> core \<Rightarrow> workflow_frontier" where
  "workflow_frontier E task_id s =
     frontier_of E (list_dispatches task_id s) (list_decisions task_id s)
       (\<exists>f \<in> set (list_findings task_id s). f_status f = FI_OPEN)"

definition expected_next_role :: "env \<Rightarrow> string \<Rightarrow> string \<Rightarrow> (core, argent_error, role option) act" where
  "expected_next_role E task_id source =
     require_controller source
     (fetch (get_task task_id) NotFound (\<lambda>_.
      look (workflow_frontier E task_id) (\<lambda>fr. ret (wf_expected_role fr))))"

end
