(* ===== verification/Core_Tasks.thy ===== *)
theory Core_Tasks
  imports Core_Base
begin

text \<open>
  The commands of \<open>core.py\<close> on projects, tasks, role runs, task runs, findings and records.
  Each is the whole handler: the checks in the order of the code, the idempotent transaction,
  every row and event it writes.
\<close>

section \<open>Projects and tasks\<close>

definition create_project :: "env \<Rightarrow> string \<Rightarrow> string \<Rightarrow> string option \<Rightarrow> entity cact" where
  "create_project E name source ikey =
     with_owner source
     (idempotent E ikey ''create_project'' [(''name'', PStr name), (''source'', PStr source)]
       (bindA (new_uuid E) (\<lambda>pid.
        bindA (now_iso E) (\<lambda>now.
        let p = \<lparr>p_id = pid, p_name = name, p_created_at = now, p_idempotency_key = ikey\<rparr> in
        andThen (insert_project p) (ret (E_project p, pid)))))
       (refetch ''create_project''))"

definition create_task ::
  "env \<Rightarrow> string \<Rightarrow> string \<Rightarrow> string \<Rightarrow> string option \<Rightarrow> string option \<Rightarrow> risk_class \<Rightarrow>
   external_actions_policy \<Rightarrow> entity cact" where
  "create_task E project_id title source ikey description risk policy =
     with_owner source
     (idempotent E ikey ''create_task''
       [(''project_id'', PStr project_id), (''title'', PStr title), (''source'', PStr source),
        (''description'', py_opt_str description), (''risk_class'', PStr (risk_class_value risk)),
        (''external_actions_policy'', PStr (external_actions_policy_value policy))]
       (fetch (get_project project_id) NotFound (\<lambda>_.
        bindA (new_uuid E) (\<lambda>tid.
        bindA (now_iso E) (\<lambda>now.
        let t = \<lparr>t_id = tid, t_project_id = project_id, t_title = title, t_state = NEW,
                 t_resume_state = None, t_source = source, t_source_class = TRUSTED,
                 t_created_at = now, t_updated_at = now, t_idempotency_key = ikey,
                 t_description = description, t_risk_class = risk,
                 t_external_actions_policy = policy\<rparr> in
        andThen (insert_task t)
        (andThen (emit E ''task.created'' (Some tid) None (Some (task_state_value NEW))
           [(''project_id'', PStr project_id)])
        (ret (E_task t, tid)))))))
       (refetch ''create_task''))"

definition transition :: "env \<Rightarrow> string \<Rightarrow> string \<Rightarrow> string \<Rightarrow> string option \<Rightarrow> entity cact" where
  "transition E task_id to_state source ikey =
     check_source source
     (coerce_state to_state (\<lambda>to_st.
      idempotent E ikey ''transition''
       [(''task_id'', PStr task_id), (''to_state'', PStr (task_state_value to_st)),
        (''source'', PStr source)]
       (fetch (get_task task_id) NotFound (\<lambda>task.
        require_role_actor task_id LEAD source
        (require (\<not> (t_state task \<in> PAUSE_STATES \<or> to_st \<in> PAUSE_STATES)) InvalidTransition
        (require_allowed (t_state task) to_st (t_resume_state task)
        (andThen (apply_transition E task to_st None)
        (look (get_task task_id) (\<lambda>t. ret (as_entity E_task t, task_id))))))))
       (refetch ''transition'')))"

definition resume :: "env \<Rightarrow> string \<Rightarrow> string \<Rightarrow> string option \<Rightarrow> entity cact" where
  "resume E task_id source ikey =
     check_source source
     (idempotent E ikey ''resume'' [(''task_id'', PStr task_id), (''source'', PStr source)]
       (fetch (get_task task_id) NotFound (\<lambda>task.
        require_role_actor task_id LEAD source
        (require (t_state task = PAUSED) InvalidTransition
        (fetch (\<lambda>_. t_resume_state task) InvalidTransition (\<lambda>rs.
         require_allowed (t_state task) rs (Some rs)
        (andThen (apply_transition E task rs None)
        (look (get_task task_id) (\<lambda>t. ret (as_entity E_task t, task_id)))))))))
       (refetch ''resume''))"

section \<open>Role runs\<close>

definition expected_role_after :: "handoff option \<Rightarrow> role" where
  "expected_role_after latest = (case latest of None \<Rightarrow> LEAD | Some h \<Rightarrow> h_to_role h)"

definition start_role :: "env \<Rightarrow> string \<Rightarrow> string \<Rightarrow> string \<Rightarrow> string option \<Rightarrow> entity cact" where
  "start_role E task_id role source ikey =
     check_source source
     (coerce_role role (\<lambda>r.
      idempotent E ikey ''start_role''
       [(''task_id'', PStr task_id), (''role'', PStr (role_value r)), (''source'', PStr source)]
       (fetch (get_task task_id) NotFound (\<lambda>task.
        require (source = role_source LEAD) PermissionDenied
        (require (\<not> (t_state task \<in> TERMINAL_STATES \<or> t_state task \<in> PAUSE_STATES \<or>
                     t_state task = BLOCKED)) InvalidTransition
        (look (get_active_role_run task_id) (\<lambda>active.
         require (active = None) RoleConflict
        (look (get_latest_handoff task_id) (\<lambda>latest.
         require (r = expected_role_after latest) RoleConflict
        (bindA (new_uuid E) (\<lambda>rid.
         bindA (now_iso E) (\<lambda>now.
         let rr = \<lparr>rr_id = rid, rr_task_id = task_id, rr_role = r, rr_status = RR_STARTED,
                   rr_started_at = now, rr_finished_at = None\<rparr> in
         andThen (insert_role_run rr)
        (andThen (emit E ''role.started'' (Some task_id) (Some (role_value r)) None
            [(''role'', PStr (role_value r))])
        (ret (E_role_run rr, rid)))))))))))))
       (refetch ''start_role'')))"

definition models_handoff :: "env \<Rightarrow> string \<Rightarrow> role \<Rightarrow> role \<Rightarrow> timestamp \<Rightarrow> handoff cact" where
  "models_handoff E task_id x y now = bindA (new_uuid E) (\<lambda>i.
     ret \<lparr>h_id = i, h_task_id = task_id, h_from_role = x, h_to_role = y, h_created_at = now\<rparr>)"

definition handoff_payload :: "role \<Rightarrow> role \<Rightarrow> (string \<times> py) list" where
  "handoff_payload x y = [(''from_role'', PStr (role_value x)), (''to_role'', PStr (role_value y))]"

text \<open>The shared body of \<open>complete_role\<close> and \<open>fail_role\<close>, which differ in the final status,
  the event and its payload.\<close>

definition finish_role ::
  "env \<Rightarrow> string \<Rightarrow> string \<Rightarrow> role_run_status \<Rightarrow> string \<Rightarrow> (string \<times> py) list \<Rightarrow>
   (entity \<times> string) cact" where
  "finish_role E role_run_id source status event_type extra =
     fetch (get_role_run role_run_id) NotFound (\<lambda>rr.
     require (rr_status rr = RR_STARTED) IdempotencyError
     (require (source = role_source (rr_role rr)) PermissionDenied
     (bindA (now_iso E) (\<lambda>now.
      andThen (update_role_run_status role_run_id status now)
     (bindA (models_handoff E (rr_task_id rr) (rr_role rr) (DEFAULT_NEXT_ROLE (rr_role rr)) now) (\<lambda>h.
      andThen (insert_handoff h)
     (andThen (emit E event_type (Some (rr_task_id rr)) (Some (role_value (rr_role rr))) None
        ((''role'', PStr (role_value (rr_role rr))) # extra))
     (andThen (emit E ''handoff.created'' (Some (rr_task_id rr)) None None
        (handoff_payload (rr_role rr) (DEFAULT_NEXT_ROLE (rr_role rr))))
     (look (get_role_run role_run_id) (\<lambda>r. ret (as_entity E_role_run r, role_run_id)))))))))))"

definition complete_role :: "env \<Rightarrow> string \<Rightarrow> string \<Rightarrow> string option \<Rightarrow> entity cact" where
  "complete_role E role_run_id source ikey =
     check_source source
     (idempotent E ikey ''complete_role''
       [(''role_run_id'', PStr role_run_id), (''source'', PStr source)]
       (finish_role E role_run_id source RR_COMPLETED ''role.completed'' [])
       (refetch ''complete_role''))"

definition fail_role ::
  "env \<Rightarrow> string \<Rightarrow> string \<Rightarrow> string option \<Rightarrow> string option \<Rightarrow> entity cact" where
  "fail_role E role_run_id source detail ikey =
     check_source source
     (idempotent E ikey ''fail_role''
       [(''role_run_id'', PStr role_run_id), (''source'', PStr source), (''detail'', py_opt_str detail)]
       (finish_role E role_run_id source RR_FAILED ''role.failed''
          (case detail of None \<Rightarrow> [] | Some d \<Rightarrow> [(''detail'', PStr d)]))
       (refetch ''fail_role''))"

section \<open>Task runs\<close>

definition start_task_run :: "env \<Rightarrow> string \<Rightarrow> string \<Rightarrow> string option \<Rightarrow> entity cact" where
  "start_task_run E task_id source ikey =
     check_source source
     (idempotent E ikey ''start_task_run'' [(''task_id'', PStr task_id), (''source'', PStr source)]
       (fetch (get_task task_id) NotFound (\<lambda>_.
        bindA (new_uuid E) (\<lambda>rid.
        bindA (now_iso E) (\<lambda>now.
        let tr = \<lparr>tr_id = rid, tr_task_id = task_id, tr_status = TR_STARTED, tr_started_at = now,
                  tr_finished_at = None\<rparr> in
        andThen (insert_task_run tr) (ret (E_task_run tr, rid))))))
       (refetch ''start_task_run''))"

definition finish_task_run ::
  "env \<Rightarrow> string \<Rightarrow> task_run_status \<Rightarrow> (entity \<times> string) cact" where
  "finish_task_run E task_run_id status =
     fetch (get_task_run task_run_id) NotFound (\<lambda>tr.
     require (tr_status tr = TR_STARTED) IdempotencyError
     (bindA (now_iso E) (\<lambda>now.
      andThen (update_task_run_status task_run_id status now)
     (look (get_task_run task_run_id) (\<lambda>r. ret (as_entity E_task_run r, task_run_id))))))"

definition complete_task_run :: "env \<Rightarrow> string \<Rightarrow> string \<Rightarrow> string option \<Rightarrow> entity cact" where
  "complete_task_run E task_run_id source ikey =
     check_source source
     (idempotent E ikey ''complete_task_run''
       [(''task_run_id'', PStr task_run_id), (''source'', PStr source)]
       (finish_task_run E task_run_id TR_COMPLETED)
       (refetch ''complete_task_run''))"

definition fail_task_run :: "env \<Rightarrow> string \<Rightarrow> string \<Rightarrow> string option \<Rightarrow> entity cact" where
  "fail_task_run E task_run_id source ikey =
     check_source source
     (idempotent E ikey ''fail_task_run''
       [(''task_run_id'', PStr task_run_id), (''source'', PStr source)]
       (finish_task_run E task_run_id TR_FAILED)
       (refetch ''fail_task_run''))"

section \<open>Findings and records\<close>

definition add_finding ::
  "env \<Rightarrow> string \<Rightarrow> string \<Rightarrow> string \<Rightarrow> string \<Rightarrow> string option \<Rightarrow> entity cact" where
  "add_finding E task_id severity description source ikey =
     check_source source
     (idempotent E ikey ''add_finding''
       [(''task_id'', PStr task_id), (''severity'', PStr severity),
        (''description'', PStr description), (''source'', PStr source)]
       (fetch (get_task task_id) NotFound (\<lambda>_.
        require_active_role_in task_id [REVIEWER, QA] source
        (bindA (new_uuid E) (\<lambda>fid.
         bindA (now_iso E) (\<lambda>now.
         let f = \<lparr>f_id = fid, f_task_id = task_id, f_severity = severity,
                  f_description = description, f_status = FI_OPEN, f_created_at = now,
                  f_resolved_at = None, f_source_class = Some ''controller''\<rparr> in
         andThen (insert_finding f)
        (andThen (emit E ''finding.created'' (Some task_id) None None
            [(''finding_id'', PStr fid), (''severity'', PStr severity)])
        (ret (E_finding f, fid))))))))
       (refetch ''add_finding''))"

definition resolve_finding :: "env \<Rightarrow> string \<Rightarrow> string \<Rightarrow> string option \<Rightarrow> entity cact" where
  "resolve_finding E finding_id source ikey =
     check_source source
     (idempotent E ikey ''resolve_finding''
       [(''finding_id'', PStr finding_id), (''source'', PStr source)]
       (fetch (get_finding finding_id) NotFound (\<lambda>f.
        require_active_role_in (f_task_id f) [REVIEWER, QA] source
        (require (f_status f = FI_OPEN) IdempotencyError
        (bindA (now_iso E) (\<lambda>now.
         andThen (update_finding_status finding_id FI_RESOLVED now)
        (andThen (emit E ''finding.resolved'' (Some (f_task_id f)) None None
            [(''finding_id'', PStr finding_id)])
        (look (get_finding finding_id) (\<lambda>g. ret (as_entity E_finding g, finding_id)))))))))
       (refetch ''resolve_finding''))"

definition record_test_run ::
  "env \<Rightarrow> string \<Rightarrow> string \<Rightarrow> string \<Rightarrow> string option \<Rightarrow> string option \<Rightarrow> entity cact" where
  "record_test_run E task_id result source detail ikey =
     check_source source
     (coerce_result result (\<lambda>res.
      idempotent E ikey ''record_test_run''
       [(''task_id'', PStr task_id), (''result'', PStr (test_result_value res)),
        (''source'', PStr source), (''detail'', py_opt_str detail)]
       (fetch (get_task task_id) NotFound (\<lambda>_.
        require_active_role_in task_id [QA, IMPLEMENTER] source
        (bindA (new_uuid E) (\<lambda>rid.
         bindA (now_iso E) (\<lambda>now.
         let tr = \<lparr>te_id = rid, te_task_id = task_id, te_result = res, te_detail = detail,
                   te_created_at = now, te_source_class = Some ''controller''\<rparr> in
         andThen (insert_test_run tr)
        (andThen (emit E ''test.started'' (Some task_id) None None [(''test_run_id'', PStr rid)])
        (andThen (emit E ''test.completed'' (Some task_id) None None
            [(''test_run_id'', PStr rid), (''result'', PStr (test_result_value res))])
        (ret (E_test_run tr, rid)))))))))
       (refetch ''record_test_run'')))"

definition REVIEWER_REJECT_RECOMMENDATIONS :: "string list" where
  "REVIEWER_REJECT_RECOMMENDATIONS = [''reject'', ''rejected'', ''request_changes'',
     ''changes_requested'', ''fail'', ''failed'', ''revise'', ''rework'', ''no'']"

definition REVIEWER_APPROVE_RECOMMENDATIONS :: "string list" where
  "REVIEWER_APPROVE_RECOMMENDATIONS = [''approve'', ''approved'', ''accept'', ''accepted'',
     ''pass'', ''passed'', ''yes'', ''ok'']"

definition canonical_review_verdict :: "string \<Rightarrow> string" where
  "canonical_review_verdict recommendation =
     (let v = str_lower (str_strip recommendation) in
      if v \<in> set REVIEWER_REJECT_RECOMMENDATIONS then ''reject''
      else if v \<in> set REVIEWER_APPROVE_RECOMMENDATIONS then ''approve''
      else ''reject'')"

definition record_review ::
  "env \<Rightarrow> string \<Rightarrow> string \<Rightarrow> string \<Rightarrow> string option \<Rightarrow> string option \<Rightarrow> entity cact" where
  "record_review E task_id verdict source detail ikey =
     check_source source
     (idempotent E ikey ''record_review''
       [(''task_id'', PStr task_id), (''verdict'', PStr verdict), (''source'', PStr source),
        (''detail'', py_opt_str detail)]
       (fetch (get_task task_id) NotFound (\<lambda>_.
        require_active_role_in task_id [REVIEWER] source
        (bindA (new_uuid E) (\<lambda>rid.
         bindA (now_iso E) (\<lambda>now.
         let rv = \<lparr>rv_id = rid, rv_task_id = task_id, rv_verdict = canonical_review_verdict verdict,
                   rv_detail = detail, rv_created_at = now, rv_source_class = Some ''controller''\<rparr> in
         andThen (insert_review rv)
        (andThen (emit E ''review.started'' (Some task_id) None None [(''review_id'', PStr rid)])
        (andThen (emit E ''review.completed'' (Some task_id) None None
            [(''review_id'', PStr rid), (''verdict'', PStr (canonical_review_verdict verdict))])
        (ret (E_review rv, rid)))))))))
       (refetch ''record_review''))"

definition record_decision ::
  "env \<Rightarrow> string \<Rightarrow> string \<Rightarrow> string \<Rightarrow> string option \<Rightarrow> string option \<Rightarrow> entity cact" where
  "record_decision E task_id decision source detail ikey =
     check_source source
     (idempotent E ikey ''record_decision''
       [(''task_id'', PStr task_id), (''decision'', PStr decision), (''source'', PStr source),
        (''detail'', py_opt_str detail)]
       (fetch (get_task task_id) NotFound (\<lambda>_.
        require_role_actor task_id LEAD source
        (bindA (new_uuid E) (\<lambda>did.
         bindA (now_iso E) (\<lambda>now.
         let d = \<lparr>dc_id = did, dc_task_id = task_id, dc_decision = decision, dc_detail = detail,
                  dc_created_at = now\<rparr> in
         andThen (insert_decision d)
        (andThen (emit E ''lead.decision'' (Some task_id) None None [(''decision_id'', PStr did)])
        (ret (E_decision d, did))))))))
       (refetch ''record_decision''))"

end
