(* ===== verification/Core_Gates.thy ===== *)
theory Core_Gates
  imports Core_Tasks
begin

text \<open>
  The owner gate of \<open>core.py\<close>: \<open>request_action\<close> classifies an action and executes, gates or
  blocks it; \<open>approve\<close>, \<open>reject\<close> and \<open>execute_approved\<close> carry an approval to its end.  An
  expired approval is found inside a transaction, which rolls back; the handler then expires
  it in a second one, with a new reading of the clock.
\<close>

definition APPROVAL_TTL_SECONDS :: int where
  "APPROVAL_TTL_SECONDS = 3600"

section \<open>Requesting an action\<close>

definition request_action_refetch :: "string \<Rightarrow> entity cact" where
  "request_action_refetch result_id =
     (if starts_with ''approval:'' result_id then
        fetch (get_approval (drop 9 result_id)) IdempotencyError (\<lambda>ap.
        ret (E_action \<lparr>ar_action = ap_action ap, ar_scope = ap_scope ap, ar_class = OWNER_APPROVAL,
               ar_allowed = False, ar_approval = Some ap, ar_execution_id = None\<rparr>))
      else if starts_with ''execution:'' result_id then
        fetch (get_action_execution (drop 10 result_id)) IdempotencyError (\<lambda>ex.
        ret (E_action \<lparr>ar_action = ex_action ex, ar_scope = ex_scope ex,
               ar_class = classify_action (ex_action ex) ALLOWED_WITH_GATE,
               ar_allowed = (ex_status ex = EX_EXECUTED), ar_approval = None,
               ar_execution_id = Some (ex_id ex)\<rparr>))
      else if starts_with ''blocked:'' result_id then ret E_none
      else raise IdempotencyError)"

text \<open>The three bodies, one per class.\<close>

definition forbidden_work ::
  "env \<Rightarrow> string \<Rightarrow> string \<Rightarrow> string \<Rightarrow> role \<Rightarrow> string \<Rightarrow> (entity \<times> string) cact" where
  "forbidden_work E task_id action scope actor source =
     fetch (get_task task_id) NotFound (\<lambda>task.
     require_role_actor task_id actor source
     (require_actionable task
     (bindA (new_uuid E) (\<lambda>eid.
      bindA (now_iso E) (\<lambda>now.
      andThen (insert_action_execution
        \<lparr>ex_id = eid, ex_task_id = task_id, ex_approval_id = None, ex_action = action,
         ex_scope = scope, ex_actor_role = role_value actor, ex_status = EX_BLOCKED,
         ex_created_at = now\<rparr>)
     (andThen (emit E ''lead.decision'' (Some task_id) None None [(''blocked'', PBool True)])
     (ret (E_none, ''blocked:'' @ eid))))))))"

definition gated_work ::
  "env \<Rightarrow> string \<Rightarrow> string \<Rightarrow> string \<Rightarrow> role \<Rightarrow> string \<Rightarrow> (entity \<times> string) cact" where
  "gated_work E task_id action scope actor source =
     fetch (get_task task_id) NotFound (\<lambda>task0.
     require_role_actor task_id actor source
     (require_actionable task0
     (look (list_approvals task_id) (\<lambda>as.
      require (\<not> (\<exists>a \<in> set as. ap_action a = action \<and> ap_scope a = scope \<and> approval_active a))
        ApprovalError
     (bindA (new_uuid E) (\<lambda>aid.
      bindA (now_iso E) (\<lambda>now.
      bindA (expiry_iso E APPROVAL_TTL_SECONDS) (\<lambda>expires.
      let ap = \<lparr>ap_id = aid, ap_task_id = task_id, ap_action = action, ap_scope = scope,
                ap_status = AP_PENDING, ap_requested_by = role_value actor,
                ap_source_class = TRUSTED, ap_created_at = now, ap_decided_at = None,
                ap_consumed_at = None, ap_expires_at = expires,
                ap_binding_hash = Some (binding_hash E task_id action scope),
                ap_approved_at = None, ap_execution_id = None, ap_executed_at = None,
                ap_closed_at = None\<rparr> in
      andThen (insert_approval E ap)
     (fetch (get_task task_id) TypeError (\<lambda>task.
      require_allowed (t_state task) OWNER_APPROVAL_REQUIRED (t_resume_state task)
     (andThen (apply_transition E task OWNER_APPROVAL_REQUIRED (Some (t_state task)))
     (andThen (emit E ''gate.owner_required'' (Some task_id) None None [(''approval_id'', PStr aid)])
     (ret (E_action \<lparr>ar_action = action, ar_scope = scope, ar_class = OWNER_APPROVAL,
             ar_allowed = False, ar_approval = Some ap, ar_execution_id = None\<rparr>,
           ''approval:'' @ aid))))))))))))))"

definition autonomous_work ::
  "env \<Rightarrow> string \<Rightarrow> string \<Rightarrow> string \<Rightarrow> role \<Rightarrow> string \<Rightarrow> (entity \<times> string) cact" where
  "autonomous_work E task_id action scope actor source =
     fetch (get_task task_id) NotFound (\<lambda>task.
     require_role_actor task_id actor source
     (require_actionable task
     (fetch (\<lambda>_. permission_for action) KeyError (\<lambda>cm.
      liftR (check_permission actor (fst cm) (snd cm)) (\<lambda>_.
      bindA (new_uuid E) (\<lambda>eid.
      bindA (now_iso E) (\<lambda>now.
      andThen (insert_action_execution
        \<lparr>ex_id = eid, ex_task_id = task_id, ex_approval_id = None, ex_action = action,
         ex_scope = scope, ex_actor_role = role_value actor, ex_status = EX_EXECUTED,
         ex_created_at = now\<rparr>)
     (ret (E_action \<lparr>ar_action = action, ar_scope = scope, ar_class = AUTONOMOUS,
             ar_allowed = True, ar_approval = None, ar_execution_id = Some eid\<rparr>,
           ''execution:'' @ eid)))))))))"

text \<open>A role without the permission is denied before the transaction, and the violation is
  logged by a statement of its own, which stays.\<close>

definition pre_check_permission ::
  "env \<Rightarrow> string \<Rightarrow> string \<Rightarrow> role \<Rightarrow> action_class \<Rightarrow> entity cact \<Rightarrow> entity cact" where
  "pre_check_permission E task_id action actor cls k =
     (if cls = AUTONOMOUS then
        fetch (\<lambda>_. permission_for action) KeyError (\<lambda>cm.
        (case check_permission actor (fst cm) (snd cm) of
           Inr _ \<Rightarrow> k
         | Inl e \<Rightarrow> andThen (emit E ''policy.role_violation'' (Some task_id) (Some (role_value actor))
              None [(''reason'', PStr ''permission_denied''), (''action'', PStr action)])
            (raise e)))
      else k)"

definition request_action ::
  "env \<Rightarrow> string \<Rightarrow> string \<Rightarrow> string \<Rightarrow> string \<Rightarrow> string \<Rightarrow> string option \<Rightarrow> entity cact" where
  "request_action E task_id action scope actor_role source ikey =
     check_source source
     (coerce_role actor_role (\<lambda>actor.
      fetch (get_task task_id) NotFound (\<lambda>task_for_policy.
      let cls = classify_action action (t_external_actions_policy task_for_policy);
          args = [(''task_id'', PStr task_id), (''action'', PStr action), (''scope'', PStr scope),
                  (''actor_role'', PStr (role_value actor)), (''source'', PStr source)] in
      pre_check_permission E task_id action actor cls
      (if cls = FORBIDDEN then
         andThen (idempotent E ikey ''request_action'' args
            (forbidden_work E task_id action scope actor source) (\<lambda>_. ret E_none))
         (raise ForbiddenAction)
       else if cls = OWNER_APPROVAL then
         idempotent E ikey ''request_action'' args
            (gated_work E task_id action scope actor source) request_action_refetch
       else
         idempotent E ikey ''request_action'' args
            (autonomous_work E task_id action scope actor source) request_action_refetch))))"

section \<open>Deciding an approval\<close>

definition check_full_binding ::
  "env \<Rightarrow> owner_approval \<Rightarrow> string \<Rightarrow> string \<Rightarrow> string \<Rightarrow> 'a cact \<Rightarrow> 'a cact" where
  "check_full_binding E ap task_id action scope k =
     require (ap_task_id ap = task_id \<and> ap_action ap = action \<and> ap_scope ap = scope) ApprovalError
     (require (ap_binding_hash ap = Some (binding_hash E task_id action scope)) ApprovalError k)"

definition approval_binding_refetch ::
  "env \<Rightarrow> string \<Rightarrow> string \<Rightarrow> string \<Rightarrow> string \<Rightarrow> entity cact" where
  "approval_binding_refetch E task_id action scope result_id =
     fetch (get_approval result_id) IdempotencyError (\<lambda>ap.
     check_full_binding E ap task_id action scope (ret (E_approval ap)))"

definition approve_work ::
  "env \<Rightarrow> owner_approval \<Rightarrow> string \<Rightarrow> string \<Rightarrow> string \<Rightarrow> entity cact" where
  "approve_work E ap task_id action scope =
     check_full_binding E ap task_id action scope
     (bindA (now_iso E) (\<lambda>now.
      require (ap_status ap = AP_PENDING) ApprovalError
     (require (\<not> ap_expires_at ap \<le> now) (ApprovalExpired (ap_id ap))
     (bindA (mark_approved (ap_id ap) now) (\<lambda>rc.
      require (rc \<noteq> 0) ApprovalError
     (andThen (emit E ''gate.owner_approved'' (Some (ap_task_id ap)) None None
        [(''approval_id'', PStr (ap_id ap))])
     (look (get_approval (ap_id ap)) (\<lambda>a. ret (as_entity E_approval a)))))))))"

definition reject_work ::
  "env \<Rightarrow> owner_approval \<Rightarrow> string \<Rightarrow> string \<Rightarrow> string \<Rightarrow> entity cact" where
  "reject_work E ap task_id action scope =
     check_full_binding E ap task_id action scope
     (bindA (now_iso E) (\<lambda>now.
      require (\<not> ap_expires_at ap \<le> now) (ApprovalExpired (ap_id ap))
     (bindA (mark_rejected (ap_id ap) now) (\<lambda>rc.
      require (rc \<noteq> 0) ApprovalError
     (look (get_task (ap_task_id ap)) (\<lambda>task.
      andThen (case task of
          None \<Rightarrow> ret ()
        | Some t \<Rightarrow> if t_state t = OWNER_APPROVAL_REQUIRED
            then require_allowed (t_state t) BLOCKED (t_resume_state t)
              (apply_transition E t BLOCKED None)
            else ret ())
     (andThen (emit E ''gate.owner_rejected'' (Some (ap_task_id ap)) None None
        [(''approval_id'', PStr (ap_id ap))])
     (look (get_approval (ap_id ap)) (\<lambda>a. ret (as_entity E_approval a))))))))))"

definition expire_and_release :: "env \<Rightarrow> string \<Rightarrow> unit cact" where
  "expire_and_release E approval_id =
     bindA (now_iso E) (\<lambda>now.
     bindA (mark_expired approval_id now) (\<lambda>_.
     look (get_approval approval_id) (\<lambda>ap.
     (case ap of None \<Rightarrow> ret () | Some a \<Rightarrow>
      look (get_task (ap_task_id a)) (\<lambda>task.
      (case task of None \<Rightarrow> ret () | Some t \<Rightarrow>
       if t_state t \<noteq> OWNER_APPROVAL_REQUIRED then ret ()
       else if is_valid_resume_target (t_resume_state t) then
         (case t_resume_state t of None \<Rightarrow> ret () | Some r \<Rightarrow>
          require_allowed (t_state t) r (t_resume_state t) (apply_transition E t r None))
       else require_allowed (t_state t) BLOCKED (t_resume_state t)
              (apply_transition E t BLOCKED None)))))))"

definition on_expired :: "env \<Rightarrow> argent_error \<Rightarrow> entity cact option" where
  "on_expired E e = (case e of
     ApprovalExpired aid \<Rightarrow>
       Some (andThen (atomically (expire_and_release E aid)) (raise ApprovalError))
   | _ \<Rightarrow> None)"

definition approval_args :: "string \<Rightarrow> string \<Rightarrow> string \<Rightarrow> string \<Rightarrow> string \<Rightarrow> (string \<times> py) list" where
  "approval_args approval_id task_id action scope source =
     [(''approval_id'', PStr approval_id), (''task_id'', PStr task_id), (''action'', PStr action),
      (''scope'', PStr scope), (''source'', PStr source)]"

definition approve ::
  "env \<Rightarrow> string \<Rightarrow> string \<Rightarrow> string \<Rightarrow> string \<Rightarrow> string \<Rightarrow> string option \<Rightarrow> entity cact" where
  "approve E approval_id source task_id action scope ikey =
     with_owner source
     (catch (idempotent E ikey ''approve'' (approval_args approval_id task_id action scope source)
        (fetch (get_approval approval_id) ApprovalError (\<lambda>ap.
         bindA (approve_work E ap task_id action scope) (\<lambda>r. ret (r, approval_id))))
        (approval_binding_refetch E task_id action scope))
      (on_expired E))"

definition reject ::
  "env \<Rightarrow> string \<Rightarrow> string \<Rightarrow> string \<Rightarrow> string \<Rightarrow> string \<Rightarrow> string option \<Rightarrow> entity cact" where
  "reject E approval_id source task_id action scope ikey =
     with_owner source
     (catch (idempotent E ikey ''reject'' (approval_args approval_id task_id action scope source)
        (fetch (get_approval approval_id) ApprovalError (\<lambda>ap.
         bindA (reject_work E ap task_id action scope) (\<lambda>r. ret (r, approval_id))))
        (approval_binding_refetch E task_id action scope))
      (on_expired E))"

definition execute_work ::
  "env \<Rightarrow> string \<Rightarrow> string \<Rightarrow> string \<Rightarrow> string \<Rightarrow> (entity \<times> string) cact" where
  "execute_work E approval_id task_id action scope =
     fetch (get_approval approval_id) ApprovalError (\<lambda>ap.
     check_full_binding E ap task_id action scope
     (bindA (now_iso E) (\<lambda>now.
      require (ap_status ap = AP_APPROVED) ApprovalError
     (require (\<not> ap_expires_at ap \<le> now) (ApprovalExpired approval_id)
     (require (classify_action (ap_action ap) ALLOWED_WITH_GATE \<noteq> FORBIDDEN) ForbiddenAction
     (require (ap_source_class ap = TRUSTED) ApprovalError
     (bindA (new_uuid E) (\<lambda>eid.
      bindA (now_iso E) (\<lambda>created.
      andThen (insert_action_execution
        \<lparr>ex_id = eid, ex_task_id = ap_task_id ap, ex_approval_id = Some approval_id,
         ex_action = ap_action ap, ex_scope = ap_scope ap, ex_actor_role = ap_requested_by ap,
         ex_status = EX_EXECUTED, ex_created_at = created\<rparr>)
     (bindA (consume_approval_with_execution approval_id now eid) (\<lambda>rc.
      require (rc \<noteq> 0) ApprovalError
     (look (get_task (ap_task_id ap)) (\<lambda>task.
      andThen (case task of
          None \<Rightarrow> ret ()
        | Some t \<Rightarrow> if t_state t = OWNER_APPROVAL_REQUIRED
            then (case t_resume_state t of None \<Rightarrow> ret () | Some r \<Rightarrow>
                  require_allowed (t_state t) r (t_resume_state t) (apply_transition E t r None))
            else ret ())
     (look (get_approval approval_id) (\<lambda>a. ret (as_entity E_approval a, approval_id))))))))))))))))"

definition execute_approved ::
  "env \<Rightarrow> string \<Rightarrow> string \<Rightarrow> string \<Rightarrow> string \<Rightarrow> string \<Rightarrow> string option \<Rightarrow> entity cact" where
  "execute_approved E approval_id source task_id action scope ikey =
     with_owner source
     (catch (idempotent E ikey ''execute_approved''
        (approval_args approval_id task_id action scope source)
        (execute_work E approval_id task_id action scope)
        (approval_binding_refetch E task_id action scope))
      (on_expired E))"

end
