(* ===== verification/Outputs.thy ===== *)
theory Outputs
  imports Events
begin

text \<open>
  \<open>argent_core/outputs.py\<close>: the fail-closed validation of what an agent returns.  A check that
  fails is \<open>OutputValidationError\<close>.  Looking an unhashable value (a list or dict) up in one of
  the enumeration sets is Python's \<open>TypeError\<close>, which the caller does not catch, so the two
  are kept apart here.  A JSON object is an association list without duplicate keys.
\<close>

definition MAX_RESULT_BYTES :: nat where "MAX_RESULT_BYTES = 256 * 1024"
definition MAX_DEPTH :: nat where "MAX_DEPTH = 12"
definition MAX_STRING_LEN :: nat where "MAX_STRING_LEN = 8192"

definition STATUS_VALUES :: "string list" where
  "STATUS_VALUES = [''ok'', ''findings'', ''blocked'']"

definition DECISION_VALUES :: "string list" where
  "DECISION_VALUES = [''accept'', ''rework'', ''cancel'', ''request_owner_gate'']"

definition SEVERITY_VALUES :: "string list" where
  "SEVERITY_VALUES = [''low'', ''medium'', ''high'', ''critical'']"

definition TEST_RESULT_VALUES :: "string list" where
  "TEST_RESULT_VALUES = [''passed'', ''failed'', ''error'']"

definition STRING_LIST_FIELDS :: "string list" where
  "STRING_LIST_FIELDS = [''accepted_findings'', ''rejected_findings'', ''alternatives'',
     ''concerns'', ''blockers'', ''evidence_refs'', ''failures'', ''regressions'', ''tests_run'']"

datatype field_type = TyStr | TyList | TyNum | TyBool

definition COMMON_FIELDS :: "(string \<times> field_type) list" where
  "COMMON_FIELDS = [(''role'', TyStr), (''task_id'', TyStr), (''dispatch_id'', TyStr),
     (''status'', TyStr), (''findings'', TyList), (''own_assessment'', TyStr),
     (''concerns'', TyList), (''proposal'', TyStr), (''alternatives'', TyList),
     (''confidence'', TyNum), (''blockers'', TyList), (''requested_next_state'', TyStr)]"

fun ROLE_FIELDS :: "role \<Rightarrow> (string \<times> field_type) list" where
  "ROLE_FIELDS LEAD = [(''decision'', TyStr), (''accepted_findings'', TyList),
     (''rejected_findings'', TyList), (''rationale'', TyStr)]"
| "ROLE_FIELDS ANALYST = [(''reproduction'', TyStr), (''root_cause'', TyStr),
     (''evidence_refs'', TyList)]"
| "ROLE_FIELDS IMPLEMENTER = [(''changed_files'', TyList), (''implementation_summary'', TyStr),
     (''tests_run'', TyList)]"
| "ROLE_FIELDS QA = [(''tests'', TyList), (''failures'', TyList), (''regressions'', TyList),
     (''coverage_concerns'', TyList)]"
| "ROLE_FIELDS REVIEWER = [(''severity'', TyStr), (''security_findings'', TyList),
     (''architecture_findings'', TyList), (''recommendation'', TyStr)]"

definition OPTIONAL_FIELDS :: "role \<Rightarrow> (string \<times> field_type) list" where
  "OPTIONAL_FIELDS r = (if r = LEAD then [(''rework_include_reviewer'', TyBool)] else [])"

section \<open>Limits\<close>

fun depth_of :: "py \<Rightarrow> nat \<Rightarrow> nat"
  and items_depth :: "py list \<Rightarrow> nat \<Rightarrow> nat"
  and dict_depth :: "(string \<times> py) list \<Rightarrow> nat \<Rightarrow> nat" where
  "depth_of (PDict kvs) d = (if kvs = [] then d else dict_depth kvs (Suc d))"
| "depth_of (PList xs) d = (if xs = [] then d else items_depth xs (Suc d))"
| "depth_of PNone d = d"
| "depth_of (PBool b) d = d"
| "depth_of (PInt i) d = d"
| "depth_of (PFloat f) d = d"
| "depth_of (PStr s) d = d"
| "items_depth [] d = 0"
| "items_depth (x # xs) d = max (depth_of x d) (items_depth xs d)"
| "dict_depth [] d = 0"
| "dict_depth ((k, v) # kvs) d = max (depth_of v d) (dict_depth kvs d)"

fun max_string_len :: "py \<Rightarrow> nat"
  and max_item_len :: "py list \<Rightarrow> nat"
  and max_dict_len :: "(string \<times> py) list \<Rightarrow> nat" where
  "max_string_len (PStr s) = length s"
| "max_string_len (PDict kvs) = max_dict_len kvs"
| "max_string_len (PList xs) = max_item_len xs"
| "max_string_len PNone = 0"
| "max_string_len (PBool b) = 0"
| "max_string_len (PInt i) = 0"
| "max_string_len (PFloat f) = 0"
| "max_item_len [] = 0"
| "max_item_len (x # xs) = max (max_string_len x) (max_item_len xs)"
| "max_dict_len [] = 0"
| "max_dict_len ((k, v) # kvs) = max (max (length k) (max_string_len v)) (max_dict_len kvs)"

section \<open>Checks\<close>

type_synonym check = "argent_error + unit"

definition chk :: "bool \<Rightarrow> check" where
  "chk b = (if b then Inr () else Inl OutputValidationError)"

definition also_chk :: "check \<Rightarrow> check \<Rightarrow> check" where
  "also_chk c d = (case c of Inl e \<Rightarrow> Inl e | Inr _ \<Rightarrow> d)"

fun chk_all :: "('a \<Rightarrow> check) \<Rightarrow> 'a list \<Rightarrow> check" where
  "chk_all f [] = Inr ()"
| "chk_all f (x # xs) = also_chk (f x) (chk_all f xs)"

lemma chk_simps [simp]:
  "chk b = Inr u \<longleftrightarrow> b"
  "also_chk c d = Inr u \<longleftrightarrow> c = Inr () \<and> d = Inr ()"
  "chk_all f xs = Inr u \<longleftrightarrow> (\<forall>x \<in> set xs. f x = Inr ())"
  by (induction xs) (auto simp: chk_def also_chk_def split: sum.splits)

fun is_instance :: "py \<Rightarrow> field_type \<Rightarrow> bool" where
  "is_instance (PStr s) TyStr = True"
| "is_instance (PList xs) TyList = True"
| "is_instance (PInt i) TyNum = True"
| "is_instance (PFloat f) TyNum = True"
| "is_instance (PBool b) TyNum = True"
| "is_instance (PBool b) TyBool = True"
| "is_instance _ _ = False"

definition is_str :: "py \<Rightarrow> bool" where
  "is_str v \<longleftrightarrow> is_instance v TyStr"

definition check_types :: "(string \<times> py) list \<Rightarrow> (string \<times> field_type) list \<Rightarrow> check" where
  "check_types result spec = chk_all (\<lambda>ft. case map_of result (fst ft) of
     None \<Rightarrow> Inr () | Some v \<Rightarrow> chk (is_instance v (snd ft))) spec"

text \<open>\<open>v in S\<close> for a set of strings.\<close>

definition member_chk :: "py \<Rightarrow> string list \<Rightarrow> check" where
  "member_chk v vals = (case v of
     PStr s \<Rightarrow> chk (s \<in> set vals)
   | PList xs \<Rightarrow> Inl TypeError
   | PDict kvs \<Rightarrow> Inl TypeError
   | _ \<Rightarrow> Inl OutputValidationError)"

lemma member_chk_Inr [simp]: "member_chk v vals = Inr u \<longleftrightarrow> (\<exists>s \<in> set vals. v = PStr s)"
  by (auto simp: member_chk_def split: py.splits)

definition keys_in :: "(string \<times> py) list \<Rightarrow> string list \<Rightarrow> bool" where
  "keys_in kvs allowed \<longleftrightarrow> (\<forall>kv \<in> set kvs. fst kv \<in> set allowed)"

definition list_items :: "py \<Rightarrow> py list" where
  "list_items v = (case v of PList xs \<Rightarrow> xs | _ \<Rightarrow> [])"

text \<open>The loops run over lists: the type checks before them have seen to that.\<close>

definition validate_string_list :: "(string \<times> py) list \<Rightarrow> string \<Rightarrow> check" where
  "validate_string_list result field =
     chk_all (\<lambda>v. chk (is_str v)) (list_items (py_get result field))"

definition validate_finding :: "py \<Rightarrow> check" where
  "validate_finding f = (case f of
     PDict kvs \<Rightarrow>
       also_chk (chk (keys_in kvs [''severity'', ''description'', ''title'', ''id'']))
       (case map_of kvs ''severity'' of
          None \<Rightarrow> Inl OutputValidationError
        | Some sev \<Rightarrow>
            also_chk (member_chk sev SEVERITY_VALUES)
            (also_chk (chk_all (\<lambda>k. case map_of kvs k of None \<Rightarrow> Inr () | Some v \<Rightarrow> chk (is_str v))
               [''description'', ''title'', ''id''])
             (chk (map_of kvs ''description'' \<noteq> None \<or> map_of kvs ''title'' \<noteq> None))))
   | _ \<Rightarrow> Inl OutputValidationError)"

definition validate_test :: "py \<Rightarrow> check" where
  "validate_test t = (case t of
     PStr s \<Rightarrow> Inr ()
   | PDict kvs \<Rightarrow>
       also_chk (chk (keys_in kvs [''name'', ''result'']))
       (also_chk (case map_of kvs ''name'' of
           None \<Rightarrow> Inl OutputValidationError | Some v \<Rightarrow> chk (is_str v))
        (case map_of kvs ''result'' of
           None \<Rightarrow> Inl OutputValidationError | Some v \<Rightarrow> member_chk v TEST_RESULT_VALUES))
   | _ \<Rightarrow> Inl OutputValidationError)"

definition validate_sec_arch_finding :: "py \<Rightarrow> check" where
  "validate_sec_arch_finding v = (case v of
     PStr s \<Rightarrow> Inr ()
   | PDict kvs \<Rightarrow>
       also_chk (chk (kvs \<noteq> []))
       (also_chk (chk (keys_in kvs [''severity'', ''description'']))
       (also_chk (case map_of kvs ''severity'' of
           None \<Rightarrow> Inl OutputValidationError | Some sev \<Rightarrow> member_chk sev SEVERITY_VALUES)
        (case map_of kvs ''description'' of
           None \<Rightarrow> Inl OutputValidationError | Some d \<Rightarrow> chk (is_str d))))
   | _ \<Rightarrow> Inl OutputValidationError)"

definition confidence_ok :: "py \<Rightarrow> bool" where
  "confidence_ok v = (case v of
     PInt i \<Rightarrow> 0 \<le> i \<and> i \<le> 1
   | PFloat (FFinite q) \<Rightarrow> 0 \<le> q \<and> q \<le> 1
   | _ \<Rightarrow> False)"

definition validate_role_output ::
  "env \<Rightarrow> role \<Rightarrow> py \<Rightarrow> argent_error + (string \<times> py) list" where
  "validate_role_output E r result = (case result of
     PDict kvs \<Rightarrow>
       (case
         also_chk (chk (length (env_dumps E result) \<le> MAX_RESULT_BYTES))
        (also_chk (chk (depth_of result 1 \<le> MAX_DEPTH))
        (also_chk (chk (max_string_len result \<le> MAX_STRING_LEN))
        (also_chk (chk (keys_in kvs (map fst (COMMON_FIELDS @ ROLE_FIELDS r @ OPTIONAL_FIELDS r))))
        (also_chk (chk (\<forall>k \<in> set (map fst (COMMON_FIELDS @ ROLE_FIELDS r)). map_of kvs k \<noteq> None))
        (also_chk (check_types kvs COMMON_FIELDS)
        (also_chk (check_types kvs (ROLE_FIELDS r))
        (also_chk (check_types kvs (OPTIONAL_FIELDS r))
        (also_chk (chk (py_get kvs ''role'' = PStr (role_value r)))
        (also_chk (member_chk (py_get kvs ''status'') STATUS_VALUES)
        (also_chk (chk (confidence_ok (py_get kvs ''confidence'')))
        (also_chk (if r = LEAD then member_chk (py_get kvs ''decision'') DECISION_VALUES else Inr ())
        (also_chk (chk_all validate_finding (list_items (py_get kvs ''findings'')))
        (also_chk (chk_all (validate_string_list kvs) STRING_LIST_FIELDS)
        (also_chk (chk_all validate_test (list_items (py_get kvs ''tests'')))
        (also_chk (chk_all validate_sec_arch_finding (list_items (py_get kvs ''security_findings'')))
        (also_chk (chk_all validate_sec_arch_finding (list_items (py_get kvs ''architecture_findings'')))
        (also_chk (if r = REVIEWER then member_chk (py_get kvs ''severity'') SEVERITY_VALUES else Inr ())
                  (chk (scan_value result = None)))))))))))))))))))
        of Inl e \<Rightarrow> Inl e | Inr _ \<Rightarrow> Inr kvs)
   | _ \<Rightarrow> Inl OutputValidationError)"

section \<open>What an accepted output is\<close>

lemma validate_InrI:
  assumes "length (env_dumps E (PDict kvs)) \<le> MAX_RESULT_BYTES"
    "depth_of (PDict kvs) 1 \<le> MAX_DEPTH" "max_string_len (PDict kvs) \<le> MAX_STRING_LEN"
    "keys_in kvs (map fst (COMMON_FIELDS @ ROLE_FIELDS r @ OPTIONAL_FIELDS r))"
    "\<forall>k \<in> set (map fst (COMMON_FIELDS @ ROLE_FIELDS r)). map_of kvs k \<noteq> None"
    "check_types kvs COMMON_FIELDS = Inr ()" "check_types kvs (ROLE_FIELDS r) = Inr ()"
    "check_types kvs (OPTIONAL_FIELDS r) = Inr ()"
    "py_get kvs ''role'' = PStr (role_value r)"
    "member_chk (py_get kvs ''status'') STATUS_VALUES = Inr ()"
    "confidence_ok (py_get kvs ''confidence'')"
    "(if r = LEAD then member_chk (py_get kvs ''decision'') DECISION_VALUES else Inr ()) = Inr ()"
    "chk_all validate_finding (list_items (py_get kvs ''findings'')) = Inr ()"
    "chk_all (validate_string_list kvs) STRING_LIST_FIELDS = Inr ()"
    "chk_all validate_test (list_items (py_get kvs ''tests'')) = Inr ()"
    "chk_all validate_sec_arch_finding (list_items (py_get kvs ''security_findings'')) = Inr ()"
    "chk_all validate_sec_arch_finding (list_items (py_get kvs ''architecture_findings'')) = Inr ()"
    "(if r = REVIEWER then member_chk (py_get kvs ''severity'') SEVERITY_VALUES else Inr ()) = Inr ()"
    "scan_value (PDict kvs) = None"
  shows "validate_role_output E r (PDict kvs) = Inr kvs"
proof -
  have chk: "b \<Longrightarrow> chk b = Inr ()" for b by simp
  show ?thesis
    unfolding validate_role_output_def py.case also_chk_def
    unfolding assms(6-8,10,12-18) chk[OF assms(1)] chk[OF assms(2)] chk[OF assms(3)] chk[OF assms(4)]
      chk[OF assms(5)] chk[OF assms(9)] chk[OF assms(11)] chk[OF assms(19)] sum.case
    by (rule refl)
qed

lemma validate_InrD:
  assumes "validate_role_output E r result = Inr kvs"
  shows "result = PDict kvs" "length (env_dumps E result) \<le> MAX_RESULT_BYTES"
    "depth_of result 1 \<le> MAX_DEPTH" "max_string_len result \<le> MAX_STRING_LEN"
    "keys_in kvs (map fst (COMMON_FIELDS @ ROLE_FIELDS r @ OPTIONAL_FIELDS r))"
    "\<forall>k \<in> set (map fst (COMMON_FIELDS @ ROLE_FIELDS r)). map_of kvs k \<noteq> None"
    "check_types kvs COMMON_FIELDS = Inr ()" "check_types kvs (ROLE_FIELDS r) = Inr ()"
    "py_get kvs ''role'' = PStr (role_value r)" "confidence_ok (py_get kvs ''confidence'')"
    "r = LEAD \<Longrightarrow> \<exists>s \<in> set DECISION_VALUES. py_get kvs ''decision'' = PStr s"
    "\<forall>f \<in> set (list_items (py_get kvs ''findings'')). validate_finding f = Inr ()"
    "\<forall>t \<in> set (list_items (py_get kvs ''tests'')). validate_test t = Inr ()"
    "\<forall>fl \<in> set STRING_LIST_FIELDS. validate_string_list kvs fl = Inr ()"
    "scan_value result = None"
  using assms
  by (simp_all add: validate_role_output_def split: py.splits sum.splits if_splits)

lemma required_field_typed:
  assumes "validate_role_output E r result = Inr kvs"
    and "(k, ty) \<in> set (COMMON_FIELDS @ ROLE_FIELDS r)"
  shows "\<exists>v. map_of kvs k = Some v \<and> is_instance v ty"
proof -
  have "map_of kvs k \<noteq> None"
    using validate_InrD(6)[OF assms(1)] assms(2) by force
  then obtain v where v: "map_of kvs k = Some v" by blast
  have "is_instance v ty" if "check_types kvs spec = Inr ()" "(k, ty) \<in> set spec" for spec
    using that v by (auto simp: check_types_def split: option.splits)
  then have "is_instance v ty"
    using validate_InrD(7,8)[OF assms(1)] assms(2) by auto
  with v show ?thesis by blast
qed

text \<open>What the reader of a finding relies on: a grade of the four, and a text.\<close>

definition finding_graded :: "py \<Rightarrow> bool" where
  "finding_graded f \<longleftrightarrow> (case f of
     PDict fk \<Rightarrow> (\<exists>sev \<in> set SEVERITY_VALUES. map_of fk ''severity'' = Some (PStr sev)) \<and>
       (\<exists>d. map_of fk ''description'' = Some (PStr d) \<or> map_of fk ''title'' = Some (PStr d))
   | _ \<Rightarrow> False)"

text \<open>C36: an accepted output is an object within the size, depth and string limits, with
  exactly the allowed fields, every required field present and of its type, the role's own
  envelope, a confidence in [0, 1], a lead decision of the four values, every finding graded
  and described, and no deny-listed word in any text of it, at any depth.\<close>

theorem accepted_output_sound:
  assumes "validate_role_output E r result = Inr kvs"
  shows "result = PDict kvs \<and> length (env_dumps E result) \<le> 262144 \<and> depth_of result 1 \<le> 12 \<and>
    max_string_len result \<le> 8192 \<and>
    (\<forall>(k, ty) \<in> set (COMMON_FIELDS @ ROLE_FIELDS r).
        \<exists>v. map_of kvs k = Some v \<and> is_instance v ty) \<and>
    (\<forall>kv \<in> set kvs. fst kv \<in> set (map fst (COMMON_FIELDS @ ROLE_FIELDS r @ OPTIONAL_FIELDS r))) \<and>
    py_get kvs ''role'' = PStr (role_value r) \<and> confidence_ok (py_get kvs ''confidence'') \<and>
    (r = LEAD \<longrightarrow> (\<exists>s \<in> set DECISION_VALUES. py_get kvs ''decision'' = PStr s)) \<and>
    (\<forall>f \<in> set (list_items (py_get kvs ''findings'')). finding_graded f) \<and>
    (\<forall>t \<in> set (value_texts result). contains_denylisted t = None)"
proof -
  note D = validate_InrD[OF assms]
  have str: "is_str v \<longleftrightarrow> (\<exists>s. v = PStr s)" for v
    by (cases v) (auto simp: is_str_def)
  have fnd: "finding_graded f"
    if f: "validate_finding f = Inr ()" for f
  proof (cases f)
    case (PDict fk)
    with f obtain sv where sv: "map_of fk ''severity'' = Some sv"
      by (cases "map_of fk ''severity''") (auto simp: validate_finding_def)
    with f PDict have m: "\<exists>sev \<in> set SEVERITY_VALUES. sv = PStr sev"
      and ks: "\<forall>k \<in> {''description'', ''title'', ''id''}. \<forall>v. map_of fk k = Some v \<longrightarrow> is_str v"
      and p: "map_of fk ''description'' \<noteq> None \<or> map_of fk ''title'' \<noteq> None"
      by (simp_all add: validate_finding_def split: option.splits)
    have get: "\<exists>d. map_of fk k = Some (PStr d)" if kin: "k \<in> {''description'', ''title'', ''id''}"
      and kd: "map_of fk k \<noteq> None" for k
    proof -
      obtain v where v: "map_of fk k = Some v" using kd by auto
      then have "is_str v" using ks kin by blast
      then show ?thesis using v str by simp
    qed
    have "\<exists>d. map_of fk ''description'' = Some (PStr d) \<or> map_of fk ''title'' = Some (PStr d)"
      using p
    proof (elim disjE)
      assume "map_of fk ''description'' \<noteq> None"
      then show ?thesis using get[of "''description''"] by auto
    next
      assume "map_of fk ''title'' \<noteq> None"
      then show ?thesis using get[of "''title''"] by auto
    qed
    then show ?thesis unfolding finding_graded_def PDict using m sv by auto
  qed (use f in \<open>simp_all add: validate_finding_def\<close>)
  have req: "\<forall>(k, ty) \<in> set (COMMON_FIELDS @ ROLE_FIELDS r).
      \<exists>v. map_of kvs k = Some v \<and> is_instance v ty"
    using required_field_typed[OF assms] by blast
  show ?thesis
    using D(1-5,9-12,15) req fnd
    unfolding MAX_RESULT_BYTES_def MAX_DEPTH_def MAX_STRING_LEN_def keys_in_def scan_None_iff(1)
    by simp
qed

text \<open>The witness: a minimal analyst output, in an environment of constants.\<close>

definition sample_output :: "role \<Rightarrow> (string \<times> py) list \<Rightarrow> py list \<Rightarrow> (string \<times> py) list" where
  "sample_output r extra findings =
     [(''role'', PStr (role_value r)), (''task_id'', PStr ''t''), (''dispatch_id'', PStr ''d''),
      (''status'', PStr ''ok''), (''findings'', PList findings), (''own_assessment'', PStr ''''),
      (''concerns'', PList []), (''proposal'', PStr ''''), (''alternatives'', PList []),
      (''confidence'', PInt 1), (''blockers'', PList []), (''requested_next_state'', PStr '''')]
     @ extra"

definition analyst_fields :: "(string \<times> py) list" where
  "analyst_fields = [(''reproduction'', PStr ''''), (''root_cause'', PStr ''''),
     (''evidence_refs'', PList [])]"

definition plain_env :: env where
  "plain_env = \<lparr>env_clock = int, env_uuid = (\<lambda>n. replicate n (CHR ''0'')), env_sha256 = id,
     env_dumps = (\<lambda>_. ''''), env_loads = (\<lambda>_. None), env_str = (\<lambda>_. ''''),
     env_sql_text = (\<lambda>_. ''0''),
     env_registry = \<lparr>mr_providers = [], mr_models = []\<rparr>\<rparr>"

theorem accepted_output_sound_witness:
  "depth_of (PDict (sample_output ANALYST analyst_fields
      [PDict [(''severity'', PStr ''low''), (''title'', PStr ''x'')]])) 1 \<le> 12"
proof -
  let ?o = "sample_output ANALYST analyst_fields [PDict [(''severity'', PStr ''low''), (''title'', PStr ''x'')]]"
  have limits: "length (env_dumps plain_env (PDict ?o)) \<le> MAX_RESULT_BYTES"
    "depth_of (PDict ?o) 1 \<le> MAX_DEPTH" "max_string_len (PDict ?o) \<le> MAX_STRING_LEN"
    by (simp_all add: plain_env_def MAX_RESULT_BYTES_def MAX_DEPTH_def MAX_STRING_LEN_def
        sample_output_def analyst_fields_def)
  have fields: "keys_in ?o (map fst (COMMON_FIELDS @ ROLE_FIELDS ANALYST @ OPTIONAL_FIELDS ANALYST))"
    "\<forall>k \<in> set (map fst (COMMON_FIELDS @ ROLE_FIELDS ANALYST)). map_of ?o k \<noteq> None"
    by code_simp+
  have types: "check_types ?o COMMON_FIELDS = Inr ()" "check_types ?o (ROLE_FIELDS ANALYST) = Inr ()"
    "check_types ?o (OPTIONAL_FIELDS ANALYST) = Inr ()"
    "chk_all (validate_string_list ?o) STRING_LIST_FIELDS = Inr ()"
    by code_simp+
  have vals: "py_get ?o ''role'' = PStr (role_value ANALYST)"
    "member_chk (py_get ?o ''status'') STATUS_VALUES = Inr ()"
    "confidence_ok (py_get ?o ''confidence'')"
    "chk_all validate_finding (list_items (py_get ?o ''findings'')) = Inr ()"
    "list_items (py_get ?o ''tests'') = []" "list_items (py_get ?o ''security_findings'') = []"
    "list_items (py_get ?o ''architecture_findings'') = []"
    by code_simp+
  have clean: "scan_value (PDict ?o) = None" by code_simp
  have "validate_role_output plain_env ANALYST (PDict ?o) = Inr ?o"
    by (rule validate_InrI) (use limits fields types vals clean in \<open>simp_all only: chk_all.simps role.distinct if_False\<close>)
  from accepted_output_sound[OF this] show ?thesis by blast
qed

end
