(* ===== verification/Core_Dispatch.thy ===== *)
theory Core_Dispatch
  imports Core_Gates Outputs Job_State "HOL-Library.List_Lexorder" "HOL-Library.Char_ord"
begin

text \<open>
  The orchestration layer of \<open>core.py\<close>: creating a dispatch at the workflow frontier, binding
  the spawned run, receiving the agent's result, marking an agent failed.  Receiving is one
  transaction that consumes the dispatch, applies the role's effects, completes the role,
  hands off and moves the task; every refusal quarantines the message instead.

  Event metadata and results are JSON values as they arrive, unchecked.
\<close>

section \<open>Routing decisions\<close>

record routing_decision =
  ro_decision_id :: string
  ro_job_id :: string
  ro_task_id :: string
  ro_role :: string
  ro_provider :: "string option"
  ro_model :: "string option"
  ro_reasoning_level :: "string option"
  ro_escalation_level :: int
  ro_required_capabilities :: "string list"
  ro_requirements_hash :: string
  ro_reason_code :: string
  ro_policy_version :: string
  ro_registry_version :: string
  ro_evidence_version :: string
  ro_policy_hash :: string
  ro_registry_hash :: string
  ro_evidence_hash :: string
  ro_inputs_hash :: string
  ro_evidence_refs :: "string list"
  ro_reference_model_id :: "string option"
  ro_independence_requirement :: "string option"
  ro_canonical_json :: string
  ro_sha256 :: string

definition thinking_tier :: "routing_decision \<Rightarrow> string option" where
  "thinking_tier ro = map_option str_lower (ro_reasoning_level ro)"

definition is_sha256_hex :: "string \<Rightarrow> bool" where
  "is_sha256_hex v \<longleftrightarrow> length v = 64 \<and> set (str_lower v) \<subseteq> set ''0123456789abcdef''"

definition ROUTING_REASON_CODES :: "string list" where
  "ROUTING_REASON_CODES = [''MINIMUM_SUFFICIENT'', ''REPEATED_FIX_FAILURE'', ''TESTS_STILL_RED'',
     ''ROOT_CAUSE_UNPROVEN'', ''CONTRADICTORY_EVIDENCE'', ''REVIEWER_REJECTED_CANDIDATE'',
     ''UNEXPECTED_SCOPE_GROWTH'', ''SECURITY_COMPLEXITY'', ''CONCURRENCY_COMPLEXITY'',
     ''RECOVERY_COMPLEXITY'', ''PROVIDER_FAILURE'', ''MODEL_FAILURE'', ''CAPABILITY_FLOOR_UNMET'',
     ''MISSING_REQUIRED_EXTERNAL_INFO'', ''OWNER_GATE'', ''NO_ELIGIBLE_CANDIDATE'',
     ''VALIDATED_FALLBACK'', ''NO_VALID_FALLBACK'']"

definition strings :: "string list \<Rightarrow> py" where
  "strings xs = PList (map PStr xs)"

definition canonical_matches :: "(string \<times> py) list \<Rightarrow> routing_decision \<Rightarrow> bool" where
  "canonical_matches c ro \<longleftrightarrow>
     py_get c ''job_id'' = PStr (ro_job_id ro) \<and>
     py_get c ''task_id'' = PStr (ro_task_id ro) \<and>
     py_get c ''role'' = PStr (ro_role ro) \<and>
     py_get c ''reference_model_id'' = py_opt_str (ro_reference_model_id ro) \<and>
     py_get c ''independence_requirement'' = py_opt_str (ro_independence_requirement ro) \<and>
     py_get c ''provider'' = py_opt_str (ro_provider ro) \<and>
     py_get c ''model'' = py_opt_str (ro_model ro) \<and>
     py_get c ''reasoning_level'' = py_opt_str (ro_reasoning_level ro) \<and>
     py_eq_int (py_get c ''escalation_level'') (ro_escalation_level ro) \<and>
     py_get c ''required_capabilities'' = strings (sort (ro_required_capabilities ro)) \<and>
     py_get c ''reason_code'' = PStr (ro_reason_code ro) \<and>
     py_get c ''policy_version'' = PStr (ro_policy_version ro) \<and>
     py_get c ''registry_version'' = PStr (ro_registry_version ro) \<and>
     py_get c ''evidence_version'' = PStr (ro_evidence_version ro) \<and>
     py_get c ''policy_hash'' = PStr (ro_policy_hash ro) \<and>
     py_get c ''registry_hash'' = PStr (ro_registry_hash ro) \<and>
     py_get c ''evidence_hash'' = PStr (ro_evidence_hash ro) \<and>
     py_get c ''inputs_hash'' = PStr (ro_inputs_hash ro) \<and>
     py_get c ''evidence_refs'' = strings (ro_evidence_refs ro)"

definition validate_routing_decision :: "env \<Rightarrow> routing_decision \<Rightarrow> string \<Rightarrow> role \<Rightarrow> bool" where
  "validate_routing_decision E ro task_id r \<longleftrightarrow>
     env_sha256 E (ro_canonical_json ro) = ro_sha256 ro \<and>
     ro_decision_id ro = take 32 (ro_sha256 ro) \<and>
     (case env_loads E (ro_canonical_json ro) of
        Some (PDict c) \<Rightarrow> canonical_matches c ro
      | _ \<Rightarrow> False) \<and>
     is_sha256_hex (ro_inputs_hash ro) \<and> is_sha256_hex (ro_policy_hash ro) \<and>
     is_sha256_hex (ro_registry_hash ro) \<and> is_sha256_hex (ro_evidence_hash ro) \<and>
     ro_task_id ro = task_id \<and> ro_role ro = role_value r \<and> ro_policy_version ro = ''2'' \<and>
     0 \<le> ro_escalation_level ro \<and> ro_escalation_level ro \<le> 4 \<and>
     ro_reason_code ro \<in> set ROUTING_REASON_CODES \<and>
     ro_registry_version ro = ''1'' \<and> ro_evidence_version ro = ''1''"

section \<open>Quarantine\<close>

definition clean_meta :: "env \<Rightarrow> py \<Rightarrow> string" where
  "clean_meta E v =
     (let s = (if v = PNone then ''<none>'' else py_str E v); t = take 512 s in
      if contains_denylisted t \<noteq> None
      then ''<redacted:'' @ take 12 (env_sha256 E t) @ ''>'' else t)"

definition sanitize_event_meta :: "env \<Rightarrow> py \<Rightarrow> (string \<times> string) list" where
  "sanitize_event_meta E event_meta = (case event_meta of
     PDict m \<Rightarrow> [(''session_key'', clean_meta E (py_get m ''child_session_id'')),
                (''run_id'', clean_meta E (py_get m ''run_id'')),
                (''event_type'', clean_meta E (py_get m ''event_type'')),
                (''status'', clean_meta E (py_get m ''status''))]
   | _ \<Rightarrow> [])"

definition quarantine :: "env \<Rightarrow> string option \<Rightarrow> string \<Rightarrow> string \<Rightarrow> py \<Rightarrow> unit cact" where
  "quarantine E task_id dispatch_id reason event_meta =
     bindA (new_uuid E) (\<lambda>qid.
     bindA (now_iso E) (\<lambda>now.
     insert_quarantine \<lparr>q_id = qid, q_task_id = task_id, q_dispatch_id = Some dispatch_id,
       q_reason = reason, q_event_meta = sanitize_event_meta E event_meta, q_created_at = now\<rparr>))"

definition emit_rejected :: "env \<Rightarrow> string option \<Rightarrow> string \<Rightarrow> string \<Rightarrow> unit cact" where
  "emit_rejected E task_id reason dispatch_id =
     emit E ''agent.result_rejected'' task_id None None
       [(''reason'', PStr reason), (''dispatch_id'', PStr dispatch_id)]"

section \<open>Envelope checks\<close>

definition event_meta_mismatch :: "agent_dispatch \<Rightarrow> py \<Rightarrow> string option" where
  "event_meta_mismatch d event_meta = (case event_meta of
     PDict m \<Rightarrow>
       (if \<exists>k \<in> set [''task_id'', ''child_session_id'', ''run_id'', ''parent_dispatch_id'',
                    ''event_type'', ''status'']. map_of m k = None
        then Some ''missing_metadata''
        else if py_get m ''task_id'' \<noteq> PStr (d_task_id d) then Some ''task_mismatch''
        else if py_get m ''child_session_id'' \<noteq> py_opt_str (d_child_session_id d)
        then Some ''session_mismatch''
        else if py_get m ''run_id'' \<noteq> py_opt_str (d_openclaw_run_id d)
        then Some ''run_id_mismatch''
        else if py_get m ''parent_dispatch_id'' \<noteq> py_opt_str (d_parent_dispatch_id d)
        then Some ''parent_mismatch''
        else if py_get m ''status'' \<notin> {PStr ''completed'', PStr ''succeeded''}
        then Some ''invalid_status''
        else None)
   | _ \<Rightarrow> Some ''missing_metadata'')"

definition result_envelope_mismatch :: "agent_dispatch \<Rightarrow> py \<Rightarrow> string option" where
  "result_envelope_mismatch d result = (case result of
     PDict m \<Rightarrow>
       (if py_get m ''task_id'' \<noteq> PStr (d_task_id d) then Some ''task_mismatch''
        else if py_get m ''dispatch_id'' \<noteq> PStr (d_id d) then Some ''dispatch_mismatch''
        else if py_get m ''role'' \<noteq> PStr (role_value (d_role d)) then Some ''role_mismatch''
        else None)
   | _ \<Rightarrow> Some ''malformed_output'')"

definition model_mismatch :: "agent_dispatch \<Rightarrow> string option" where
  "model_mismatch d =
     (if d_actual_provider d \<noteq> Some (d_expected_agent_class d) then Some ''provider_mismatch''
      else if d_actual_model d \<noteq> Some (d_expected_model_class d) then Some ''model_mismatch''
      else if d_thinking_tier d \<noteq> Some (d_expected_thinking_tier d) then Some ''thinking_mismatch''
      else None)"

text \<open>The first of the three that fails.\<close>

definition envelope_mismatch :: "agent_dispatch \<Rightarrow> py \<Rightarrow> py \<Rightarrow> string option" where
  "envelope_mismatch d event_meta result =
     (case event_meta_mismatch d event_meta of Some m \<Rightarrow> Some m
      | None \<Rightarrow> (case result_envelope_mismatch d result of Some m \<Rightarrow> Some m
      | None \<Rightarrow> model_mismatch d))"

section \<open>Effects of an accepted result\<close>

definition string_items :: "py \<Rightarrow> string list" where
  "string_items v = List.map_filter (\<lambda>x. case x of PStr s \<Rightarrow> Some s | _ \<Rightarrow> None) (list_items v)"

definition validate_effect_bindings ::
  "string \<Rightarrow> (string \<times> py) list \<Rightarrow> core \<Rightarrow> bool" where
  "validate_effect_bindings task_id validated s \<longleftrightarrow>
     (\<forall>fid \<in> set (string_items (py_get validated ''accepted_findings'') @
                 string_items (py_get validated ''rejected_findings'')).
        case get_finding fid s of None \<Rightarrow> False | Some f \<Rightarrow> f_task_id f = task_id)"

definition first_truthy :: "py list \<Rightarrow> py" where
  "first_truthy vs = (case find py_truth vs of None \<Rightarrow> PStr '''' | Some v \<Rightarrow> v)"

definition insert_agent_finding ::
  "env \<Rightarrow> string \<Rightarrow> timestamp \<Rightarrow> py \<Rightarrow> unit cact" where
  "insert_agent_finding E task_id now f = (case f of
     PDict kvs \<Rightarrow>
       bindA (new_uuid E) (\<lambda>fid.
       let severity = (case map_of kvs ''severity'' of None \<Rightarrow> ''medium'' | Some v \<Rightarrow> py_str E v);
           description = py_str E (first_truthy [py_get kvs ''description'', py_get kvs ''title'']) in
       andThen (insert_finding \<lparr>f_id = fid, f_task_id = task_id, f_severity = severity,
          f_description = description, f_status = FI_OPEN, f_created_at = now,
          f_resolved_at = None, f_source_class = Some ''agent''\<rparr>)
       (emit E ''finding.created'' (Some task_id) None None
          [(''finding_id'', PStr fid), (''severity'', PStr severity)]))
   | _ \<Rightarrow> ret ())"

definition resolve_accepted :: "env \<Rightarrow> string \<Rightarrow> timestamp \<Rightarrow> string \<Rightarrow> unit cact" where
  "resolve_accepted E task_id now fid =
     look (get_finding fid) (\<lambda>f.
     (case f of
        None \<Rightarrow> ret ()
      | Some g \<Rightarrow>
          whenA (f_status g = FI_OPEN)
            (andThen (update_finding_status fid FI_RESOLVED now)
              (emit E ''finding.resolved'' (Some task_id) None None [(''finding_id'', PStr fid)]))))"

definition lead_effects ::
  "env \<Rightarrow> agent_dispatch \<Rightarrow> timestamp \<Rightarrow> (string \<times> py) list \<Rightarrow> unit cact" where
  "lead_effects E d now validated =
     fetch (\<lambda>_. map_of validated ''decision'') KeyError (\<lambda>dec.
     let decision = py_str E dec;
         detail = env_dumps E (PDict [
           (''rationale'', py_get validated ''rationale''),
           (''rework_include_reviewer'', py_get validated ''rework_include_reviewer''),
           (''accepted_findings'', py_get validated ''accepted_findings''),
           (''rejected_findings'', py_get validated ''rejected_findings''),
           (''cycle_no'', PInt (d_cycle_no d)), (''position'', PInt (d_position d))]) in
     bindA (new_uuid E) (\<lambda>did.
     andThen (insert_decision \<lparr>dc_id = did, dc_task_id = d_task_id d, dc_decision = decision,
        dc_detail = Some detail, dc_created_at = now\<rparr>)
     (andThen (emit E ''lead.decision'' (Some (d_task_id d)) None None
        [(''decision_id'', PStr did), (''decision'', dec)])
     (whenA (decision = ''accept'')
        (forA (string_items (py_get validated ''accepted_findings''))
           (resolve_accepted E (d_task_id d) now))))))"

definition insert_agent_test ::
  "env \<Rightarrow> string \<Rightarrow> timestamp \<Rightarrow> py \<Rightarrow> unit cact" where
  "insert_agent_test E task_id now t =
     (let name = (case t of PDict kvs \<Rightarrow>
            (case map_of kvs ''name'' of None \<Rightarrow> '''' | Some v \<Rightarrow> py_str E v) | _ \<Rightarrow> '''');
          result = (case t of PDict kvs \<Rightarrow>
            (case map_of kvs ''result'' of None \<Rightarrow> ''passed'' | Some v \<Rightarrow> py_str E v)
            | PStr s \<Rightarrow> s | _ \<Rightarrow> ''passed'') in
      bindA (new_uuid E) (\<lambda>rid.
      coerce_result result (\<lambda>res.
      andThen (insert_test_run \<lparr>te_id = rid, te_task_id = task_id, te_result = res,
         te_detail = (if name = '''' then None else Some name), te_created_at = now,
         te_source_class = Some ''agent''\<rparr>)
     (andThen (emit E ''test.started'' (Some task_id) None None [(''test_run_id'', PStr rid)])
     (emit E ''test.completed'' (Some task_id) None None
        [(''test_run_id'', PStr rid), (''result'', PStr (test_result_value res))])))))"

definition reviewer_effects ::
  "env \<Rightarrow> agent_dispatch \<Rightarrow> timestamp \<Rightarrow> (string \<times> py) list \<Rightarrow> unit cact" where
  "reviewer_effects E d now validated =
     bindA (new_uuid E) (\<lambda>rid.
     let recommendation = (case map_of validated ''recommendation'' of
           None \<Rightarrow> '''' | Some v \<Rightarrow> py_str E v);
         verdict = canonical_review_verdict recommendation;
         detail = env_dumps E (PDict [
           (''severity'', py_get validated ''severity''),
           (''security_findings'', py_get validated ''security_findings''),
           (''architecture_findings'', py_get validated ''architecture_findings''),
           (''recommendation'', PStr recommendation)]) in
     andThen (insert_review \<lparr>rv_id = rid, rv_task_id = d_task_id d, rv_verdict = verdict,
        rv_detail = Some detail, rv_created_at = now, rv_source_class = Some ''agent''\<rparr>)
    (andThen (emit E ''review.started'' (Some (d_task_id d)) None None [(''review_id'', PStr rid)])
    (emit E ''review.completed'' (Some (d_task_id d)) None None
       [(''review_id'', PStr rid), (''verdict'', PStr verdict)])))"

definition apply_role_effects ::
  "env \<Rightarrow> agent_dispatch \<Rightarrow> (string \<times> py) list \<Rightarrow> unit cact" where
  "apply_role_effects E d validated =
     bindA (now_iso E) (\<lambda>now.
     andThen (forA (list_items (py_get validated ''findings''))
        (insert_agent_finding E (d_task_id d) now))
     (case d_role d of
        LEAD \<Rightarrow> lead_effects E d now validated
      | QA \<Rightarrow> forA (list_items (py_get validated ''tests'')) (insert_agent_test E (d_task_id d) now)
      | REVIEWER \<Rightarrow> reviewer_effects E d now validated
      | _ \<Rightarrow> ret ()))"

definition complete_active_role :: "env \<Rightarrow> agent_dispatch \<Rightarrow> unit cact" where
  "complete_active_role E d =
     look (get_active_role_run (d_task_id d)) (\<lambda>active.
     (case active of
        None \<Rightarrow> ret ()
      | Some a \<Rightarrow> whenA (rr_role a = d_role d)
          (bindA (now_iso E) (\<lambda>now.
           andThen (update_role_run_status (rr_id a) RR_COMPLETED now)
           (emit E ''role.completed'' (Some (d_task_id d)) (Some (role_value (d_role d))) None
              [(''role'', PStr (role_value (d_role d)))])))))"

definition sequence_handoff :: "env \<Rightarrow> agent_dispatch \<Rightarrow> unit cact" where
  "sequence_handoff E d =
     look (workflow_frontier E (d_task_id d)) (\<lambda>fr.
     (case wf_expected_role fr of
        None \<Rightarrow> ret ()
      | Some nxt \<Rightarrow>
          bindA (now_iso E) (\<lambda>now.
          bindA (models_handoff E (d_task_id d) (d_role d) nxt now) (\<lambda>h.
          andThen (insert_handoff h)
         (andThen (emit E ''handoff.created'' (Some (d_task_id d)) None None
            (handoff_payload (d_role d) nxt))
          (emit E ''handoff.accepted'' (Some (d_task_id d)) None None
            (handoff_payload (d_role d) nxt)))))))"

section \<open>Moving the task with the workflow\<close>

definition standard_plan :: "int \<Rightarrow> (task_state \<times> task_state) list" where
  "standard_plan pos =
     (if pos = 0 then [(NEW, PLANNING)]
      else if pos = 1 then [(PLANNING, ANALYZING)]
      else if pos = 2 then [(ANALYZING, LEAD_DECISION)]
      else if pos = 3 then [(LEAD_DECISION, IMPLEMENTING)]
      else if pos = 4 then [(IMPLEMENTING, TESTING)]
      else if pos = 5 then [(TESTING, REVIEWING)]
      else if pos = 6 then [(REVIEWING, FINAL_DECISION)]
      else [])"

definition rework_plan :: "role \<Rightarrow> int \<Rightarrow> task_state \<Rightarrow> (task_state \<times> task_state) list" where
  "rework_plan r pos current =
     (if r = IMPLEMENTER then [(REWORK, IMPLEMENTING)]
      else if r = QA then [(IMPLEMENTING, TESTING)]
      else if r = REVIEWER then [(TESTING, REVIEWING)]
      else if r = LEAD \<and> pos > 0 then
        (if current = REVIEWING then [(REVIEWING, FINAL_DECISION)]
         else if current = TESTING then [(TESTING, REVIEWING), (REVIEWING, FINAL_DECISION)]
         else [])
      else [])"

definition state_sync_plan ::
  "agent_dispatch \<Rightarrow> py \<Rightarrow> task_state \<Rightarrow> (task_state \<times> task_state) list" where
  "state_sync_plan d decision current =
     (let kind = d_sequence_kind d; pos = d_position d; r = d_role d;
          base = (if kind = SEQ_STANDARD then standard_plan pos else rework_plan r pos current);
          final_lead = (if kind = SEQ_STANDARD then pos = 6 else r = LEAD \<and> pos > 0) in
      if r \<noteq> LEAD then base
      else if kind = SEQ_STANDARD \<and> pos = 0 \<and> decision = PStr ''rework''
      then base @ [(PLANNING, REWORK)]
      else if kind = SEQ_STANDARD \<and> pos = 2 then
        (if decision = PStr ''rework'' then base @ [(LEAD_DECISION, REWORK)]
         else if decision = PStr ''cancel'' then base @ [(LEAD_DECISION, CANCELLED)]
         else base)
      else if final_lead then
        (if decision = PStr ''accept'' then base @ [(FINAL_DECISION, DONE)]
         else if decision = PStr ''rework'' then base @ [(FINAL_DECISION, REWORK)]
         else if decision = PStr ''cancel'' then base @ [(FINAL_DECISION, CANCELLED)]
         else base)
      else if kind = SEQ_REWORK \<and> pos = 0 \<and> decision = PStr ''cancel''
      then base @ [(REWORK, CANCELLED)]
      else base)"

fun run_plan :: "env \<Rightarrow> (task_state \<times> task_state) list \<Rightarrow> task \<Rightarrow> unit cact" where
  "run_plan E [] current = ret ()"
| "run_plan E ((x, y) # plan) current =
     require (t_state current = x) InvalidTransition
     (require_allowed (t_state current) y (t_resume_state current)
     (andThen (apply_transition E current y None)
     (fetch (get_task (t_id current)) TypeError (\<lambda>t. run_plan E plan t))))"

definition apply_state_sync :: "env \<Rightarrow> task \<Rightarrow> agent_dispatch \<Rightarrow> py \<Rightarrow> unit cact" where
  "apply_state_sync E task d decision =
     (if t_state task = RECOVERING then
        fetch (\<lambda>_. t_resume_state task) InvalidTransition (\<lambda>rs.
        require_allowed (t_state task) rs (Some rs)
       (andThen (apply_transition E task rs None)
       (fetch (get_task (d_task_id d)) TypeError (\<lambda>current.
        run_plan E (state_sync_plan d decision (t_state current)) current))))
      else run_plan E (state_sync_plan d decision (t_state task)) task)"

end
