(* ===== verification/Model_Router.thy ===== *)
theory Model_Router
  imports Evidence_Registry Core_Dispatch
begin

text \<open>
  \<open>argent_core/model_router.py\<close>: which model runs the next dispatch.  A routing policy is loaded
  from a JSON document, every field checked in the order of the code (\<open>parse_policy\<close>); a request is
  answered by \<open>route\<close> from the policy, the model registry and the evidence registry: triggers from
  the evidence of earlier attempts, the escalation level, the reasoning level, the eligible
  candidates, the cheapest sufficient one of them or a validated fallback, and the decision with its
  hashes.  A set of reason codes is the list of its members in a fixed order.

  The clock answers the one call that asks for the time.  \<open>classify_attempt\<close> is in \<open>Job_State\<close>, the
  decision record and its validation by the core in \<open>Core_Dispatch\<close>.
\<close>

section \<open>Numbers as text\<close>

definition digit_char :: "nat \<Rightarrow> char" where
  "digit_char n = ''0123456789'' ! n"

function nat_text :: "nat \<Rightarrow> string" where
  "nat_text n = (if n < 10 then [digit_char n] else nat_text (n div 10) @ [digit_char (n mod 10)])"
  by auto
termination by (relation "measure id") auto

declare nat_text.simps [simp del]

definition int_text :: "int \<Rightarrow> string" where
  "int_text i = (if i < 0 then ''-'' @ nat_text (nat (- i)) else nat_text (nat i))"

definition digit_value :: "char \<Rightarrow> int option" where
  "digit_value c = map_of (zip ''0123456789'' [0, 1, 2, 3, 4, 5, 6, 7, 8, 9]) c"

text \<open>The digits of \<open>int(s)\<close>: single underscores may stand between them.\<close>

fun scan_digits :: "string \<Rightarrow> bool \<Rightarrow> int \<Rightarrow> int option" where
  "scan_digits [] after_digit acc = (if after_digit then Some acc else None)"
| "scan_digits (c # cs) after_digit acc = (case digit_value c of
     Some d \<Rightarrow> scan_digits cs True (10 * acc + d)
   | None \<Rightarrow> if c = CHR ''_'' \<and> after_digit then scan_digits cs False acc else None)"

definition int_of_text :: "string \<Rightarrow> int option" where
  "int_of_text s =
     (let t = str_strip s in
      if length (filter (\<lambda>c. digit_value c \<noteq> None) t) > 4300 then None
      else (case t of [] \<Rightarrow> None
        | c # cs \<Rightarrow> if c = CHR ''-'' then map_option uminus (scan_digits cs False 0)
                   else if c = CHR ''+'' then scan_digits cs False 0
                   else scan_digits (c # cs) False 0))"

section \<open>The policy\<close>

definition ROUTING_POLICY_VERSION :: string where "ROUTING_POLICY_VERSION = ''2''"

definition LEVEL_ROUTINE :: int where "LEVEL_ROUTINE = 0"
definition LEVEL_DEEP_REASONING :: int where "LEVEL_DEEP_REASONING = 2"
definition LEVEL_OWNER :: int where "LEVEL_OWNER = 4"

definition policy_invalid :: policy_error where
  "policy_invalid = RoutingError ''ROUTING_POLICY_INVALID''"

definition request_invalid :: policy_error where
  "request_invalid = RoutingError ''ROUTING_REQUEST_INVALID''"

definition routing_error_class :: "string \<Rightarrow> string" where
  "routing_error_class code =
     (if code = ''ROUTING_NO_ELIGIBLE_CANDIDATE'' then ''OWNER_REQUIRED''
      else if code = ''ROUTING_OWNER_GATE'' then ''OWNER_REQUIRED'' else ''PROVIDER'')"

record policy_profile =
  pp_roles :: "string list"
  pp_required_capabilities :: "string list"
  pp_minimum_reasoning_level :: string
  pp_entry_level :: int
  pp_low_risk_entry_level :: "int option"
  pp_allowed_models :: "string list"
  pp_independence :: "string option"

record routing_policy =
  rt_reasoning_defaults :: "(int \<times> string) list"
  rt_reasoning_ceilings :: "(int \<times> string) list"
  rt_level_min_tiers :: "(int \<times> int) list"
  rt_model_tiers :: "(string \<times> int) list"
  rt_profiles :: "(string \<times> policy_profile) list"
  rt_escalation_profiles :: "(string \<times> policy_profile) list"
  rt_cost_order :: "string list"
  rt_latency_order :: "string list"
  rt_evidence_minimum_status :: string
  rt_fallback_enabled :: bool
  rt_fallback_trigger_states :: "string list"
  rt_allow_rate_limit_fallback :: bool
  rt_bootstrap :: bool
  rt_benchmark_required :: bool
  rt_max_automatic_level :: int
  rt_owner_level :: int
  rt_content_hash :: string

definition policy_id :: "py \<Rightarrow> policy_error + string" where
  "policy_id v = nonempty_str policy_invalid v"

definition policy_int :: "int \<Rightarrow> int \<Rightarrow> py \<Rightarrow> policy_error + int" where
  "policy_int lo hi v = (case v of
     PInt i \<Rightarrow> (if i < lo \<or> i > hi then Inl policy_invalid else Inr i) | _ \<Rightarrow> Inl policy_invalid)"

definition policy_enum :: "string list \<Rightarrow> py \<Rightarrow> policy_error + string" where
  "policy_enum vs v = enum_member policy_invalid vs v"

definition policy_object :: "py \<Rightarrow> policy_error + (string \<times> py) list" where
  "policy_object v = as_object policy_invalid v"

definition policy_bool :: "py \<Rightarrow> policy_error + bool" where
  "policy_bool v = (case v of PBool b \<Rightarrow> Inr b | _ \<Rightarrow> Inl policy_invalid)"

definition policy_known :: "(string \<times> py) list \<Rightarrow> string list \<Rightarrow> policy_error + unit" where
  "policy_known raw allowed =
     ensure (list_all (\<lambda>kv. fst kv \<in> set allowed) raw) policy_invalid (Inr ())"

text \<open>A non-empty JSON list whose items are parsed one by one; duplicates are refused.\<close>

definition policy_list :: "(py \<Rightarrow> policy_error + string) \<Rightarrow> py \<Rightarrow> policy_error + string list" where
  "policy_list item v = (case v of
     PList xs \<Rightarrow> ensure (xs \<noteq> []) policy_invalid
       (thenE (mapE item xs) (\<lambda>ys. ensure (distinct ys) policy_invalid (Inr ys)))
   | _ \<Rightarrow> Inl policy_invalid)"

definition level_range :: "int \<Rightarrow> int list" where
  "level_range n = [0..n]"

definition validate_level_names :: "py \<Rightarrow> int \<Rightarrow> policy_error + unit" where
  "validate_level_names v owner_lvl =
     thenE (policy_object v) (\<lambda>names.
     ensure (names \<noteq> []) policy_invalid
     (ensure (fst ` set names = int_text ` set (level_range owner_lvl)) policy_invalid
     (ensure (list_all (\<lambda>kv. case snd kv of PStr s \<Rightarrow> s \<noteq> [] | _ \<Rightarrow> False) names) policy_invalid
     (Inr ()))))"

definition require_exact_level_keys :: "(string \<times> py) list \<Rightarrow> int \<Rightarrow> policy_error + unit" where
  "require_exact_level_keys value max_auto =
     thenE (mapE (\<lambda>kv. case int_of_text (fst kv) of None \<Rightarrow> Inl policy_invalid
              | Some lvl \<Rightarrow> ensure (0 \<le> lvl \<and> lvl \<le> max_auto) policy_invalid (Inr lvl)) value) (\<lambda>levels.
     ensure (set levels = set (level_range max_auto)) policy_invalid (Inr ()))"

definition require_monotonic_tiers :: "(string \<times> int) list \<Rightarrow> policy_error + unit" where
  "require_monotonic_tiers tiers =
     ensure (snd ` set tiers = set (level_range (fold max (map snd tiers) 0))) policy_invalid (Inr ())"

text \<open>Comparing two levels by their rank.\<close>

definition rank_le :: "string \<Rightarrow> string \<Rightarrow> bool" where
  "rank_le a b = (case (reasoning_rank a, reasoning_rank b) of
     (Some x, Some y) \<Rightarrow> x \<le> y | _ \<Rightarrow> False)"

text \<open>The loop over the levels that pairs the default with the ceiling.\<close>

definition reasoning_entry ::
  "(string \<times> py) list \<Rightarrow> (string \<times> py) list \<Rightarrow> int \<Rightarrow> policy_error + (int \<times> string \<times> string)" where
  "reasoning_entry defaults ceilings lvl =
     (let d = py_get defaults (int_text lvl); c = py_get ceilings (int_text lvl) in
      ensure (d \<noteq> PNone \<and> c \<noteq> PNone) policy_invalid
      (thenE (policy_enum REASONING_LEVELS d) (\<lambda>dl.
       thenE (policy_enum REASONING_LEVELS c) (\<lambda>cl.
       ensure (rank_le dl cl) policy_invalid (Inr (lvl, dl, cl))))))"

definition tier_entry :: "(string \<times> py) list \<Rightarrow> int \<Rightarrow> policy_error + (int \<times> int)" where
  "tier_entry lmt lvl =
     (let t = py_get lmt (int_text lvl) in
      ensure (t \<noteq> PNone) policy_invalid (thenE (policy_int 0 2 t) (\<lambda>n. Inr (lvl, n))))"

definition model_tier_entry :: "string \<times> py \<Rightarrow> policy_error + (string \<times> int)" where
  "model_tier_entry kv =
     thenE (policy_id (PStr (fst kv))) (\<lambda>mid. thenE (policy_int 0 2 (snd kv)) (\<lambda>t. Inr (mid, t)))"

text \<open>A floor above the ceiling of an entry level is refused.\<close>

definition under_ceiling :: "(int \<times> string) list \<Rightarrow> string \<Rightarrow> int \<Rightarrow> bool" where
  "under_ceiling ceilings min_reason lvl = (case map_of ceilings lvl of None \<Rightarrow> True
     | Some c \<Rightarrow> rank_le min_reason c)"

definition parse_profile ::
  "(string \<times> int) list \<Rightarrow> (int \<times> string) list \<Rightarrow> py \<Rightarrow> policy_error + policy_profile" where
  "parse_profile model_tiers ceilings v =
     thenE (policy_object v) (\<lambda>p.
     thenE (policy_known p [''roles'', ''required_capabilities'', ''minimum_reasoning_level'',
              ''entry_level'', ''low_risk_entry_level'', ''allowed_models'', ''independence'']) (\<lambda>_.
     thenE (if py_get p ''roles'' = PNone then Inr []
            else policy_list (policy_enum [''lead'', ''analyst'', ''implementer'', ''qa'', ''reviewer''])
                   (py_get p ''roles'')) (\<lambda>roles.
     thenE (policy_list (policy_enum CAPABILITIES) (py_get p ''required_capabilities'')) (\<lambda>caps.
     thenE (policy_enum REASONING_LEVELS (py_get p ''minimum_reasoning_level'')) (\<lambda>min_reason.
     thenE (policy_int 0 4 (py_get p ''entry_level'')) (\<lambda>entry.
     thenE (if py_get p ''low_risk_entry_level'' = PNone then Inr None
            else thenE (policy_int 0 4 (py_get p ''low_risk_entry_level'')) (\<lambda>n. Inr (Some n))) (\<lambda>low_entry.
     thenE (policy_list policy_id (py_get p ''allowed_models'')) (\<lambda>allowed.
     ensure (list_all (\<lambda>m. m \<in> fst ` set model_tiers) allowed) policy_invalid
     (ensure (list_all (under_ceiling ceilings min_reason)
         (entry # (case low_entry of None \<Rightarrow> [] | Some l \<Rightarrow> [l]))) policy_invalid
     (thenE (if py_get p ''independence'' = PNone then Inr None
            else thenE (policy_enum INDEPENDENCES (py_get p ''independence'')) (\<lambda>i. Inr (Some i))) (\<lambda>independence.
     Inr \<lparr>pp_roles = roles, pp_required_capabilities = caps,
        pp_minimum_reasoning_level = min_reason, pp_entry_level = entry,
        pp_low_risk_entry_level = low_entry, pp_allowed_models = allowed,
        pp_independence = independence\<rparr>)))))))))))"

fun parse_profiles ::
  "(string \<times> int) list \<Rightarrow> (int \<times> string) list \<Rightarrow> (string \<times> py) list \<Rightarrow>
   policy_error + (string \<times> policy_profile) list" where
  "parse_profiles tiers ceilings [] = Inr []"
| "parse_profiles tiers ceilings ((pid, v) # rest) =
     thenE (policy_id (PStr pid)) (\<lambda>_.
     thenE (parse_profile tiers ceilings v) (\<lambda>p.
     thenE (parse_profiles tiers ceilings rest) (\<lambda>ps. Inr ((pid, p) # ps))))"

definition COST_LATENCY_CLASSES :: "string list" where
  "COST_LATENCY_CLASSES = [''LOW'', ''MEDIUM'', ''HIGH'', ''UNKNOWN'']"

definition require_class_order :: "py \<Rightarrow> policy_error + string list" where
  "require_class_order v = policy_list (policy_enum COST_LATENCY_CLASSES) v"

text \<open>\<open>evidence_requirements\<close>: optional, and \<open>null\<close> stands for none.\<close>

definition parse_evidence_requirements :: "(string \<times> py) list \<Rightarrow> policy_error + string" where
  "parse_evidence_requirements raw =
     thenE (if py_get raw ''evidence_requirements'' = PNone then Inr []
            else policy_object (py_get raw ''evidence_requirements'')) (\<lambda>req.
     thenE (policy_known req [''minimum_status'']) (\<lambda>_.
     thenE (policy_enum EVIDENCE_STATUSES
              (py_get_default req ''minimum_status'' (PStr ''PROVISIONAL''))) (\<lambda>st.
     ensure (evidence_status_rank st > 0) policy_invalid (Inr st))))"

definition parse_fallback :: "(string \<times> py) list \<Rightarrow> policy_error + (bool \<times> string list \<times> bool)" where
  "parse_fallback raw =
     thenE (if py_get raw ''fallback'' = PNone then Inr []
            else policy_object (py_get raw ''fallback'')) (\<lambda>fb.
     thenE (policy_known fb [''enabled'', ''trigger_states'', ''allow_rate_limit_fallback'']) (\<lambda>_.
     thenE (policy_bool (py_get_default fb ''enabled'' (PBool False))) (\<lambda>enabled.
     thenE (policy_list (policy_enum AVAILABILITY_STATES)
              (py_get_default fb ''trigger_states'' (PList [PStr ''UNAVAILABLE'']))) (\<lambda>states.
     thenE (policy_bool (py_get_default fb ''allow_rate_limit_fallback'' (PBool False))) (\<lambda>allow.
     Inr (enabled, states, allow))))))"

definition parse_escalation :: "(string \<times> py) list \<Rightarrow> policy_error + (int \<times> int)" where
  "parse_escalation raw =
     thenE (policy_object (py_get_default raw ''escalation'' (PDict []))) (\<lambda>esc.
     thenE (policy_known esc [''max_automatic_level'', ''owner_level'', ''level_names'']) (\<lambda>_.
     thenE (policy_int 0 4 (py_get esc ''max_automatic_level'')) (\<lambda>max_auto.
     thenE (policy_int 1 4 (py_get esc ''owner_level'')) (\<lambda>owner_lvl.
     ensure (owner_lvl > max_auto) policy_invalid
     (thenE (validate_level_names (py_get esc ''level_names'') owner_lvl) (\<lambda>_.
      Inr (max_auto, owner_lvl)))))))"

definition parse_reasoning ::
  "(string \<times> py) list \<Rightarrow> int \<Rightarrow> policy_error + (int \<times> string \<times> string) list" where
  "parse_reasoning raw max_auto =
     thenE (policy_object (py_get_default raw ''reasoning'' (PDict []))) (\<lambda>reasoning.
     thenE (policy_known reasoning [''level_defaults'', ''level_ceilings'']) (\<lambda>_.
     thenE (policy_object (py_get_default reasoning ''level_defaults'' (PDict []))) (\<lambda>defaults.
     thenE (policy_object (py_get_default reasoning ''level_ceilings'' (PDict []))) (\<lambda>ceilings.
     thenE (require_exact_level_keys defaults max_auto) (\<lambda>_.
     thenE (require_exact_level_keys ceilings max_auto) (\<lambda>_.
     mapE (reasoning_entry defaults ceilings) (level_range max_auto)))))))"

definition parse_level_tiers :: "(string \<times> py) list \<Rightarrow> int \<Rightarrow> policy_error + (int \<times> int) list" where
  "parse_level_tiers raw max_auto =
     thenE (policy_object (py_get_default raw ''level_min_tiers'' (PDict []))) (\<lambda>lmt.
     thenE (require_exact_level_keys lmt max_auto) (\<lambda>_.
     mapE (tier_entry lmt) (level_range max_auto)))"

definition parse_model_tiers :: "(string \<times> py) list \<Rightarrow> policy_error + (string \<times> int) list" where
  "parse_model_tiers raw =
     thenE (policy_object (py_get_default raw ''model_tiers'' (PDict []))) (\<lambda>tiers.
     ensure (tiers \<noteq> []) policy_invalid
     (thenE (mapE model_tier_entry tiers) (\<lambda>mts.
     thenE (require_monotonic_tiers mts) (\<lambda>_. Inr mts))))"

definition POLICY_DOC_KEYS :: "string list" where
  "POLICY_DOC_KEYS = [''policy_version'', ''bootstrap'', ''benchmark_required_for_new_models'',
     ''escalation'', ''reasoning'', ''level_min_tiers'', ''model_tiers'', ''profiles'',
     ''escalation_profiles'', ''cost_order'', ''latency_order'', ''evidence_requirements'', ''fallback'']"

text \<open>\<open>RoutingPolicy.__init__\<close>\<close>

definition parse_policy :: "env \<Rightarrow> codec \<Rightarrow> py \<Rightarrow> policy_error + routing_policy" where
  "parse_policy E J doc =
     thenE (policy_object doc) (\<lambda>raw.
     thenE (policy_known raw POLICY_DOC_KEYS) (\<lambda>_.
     thenE (policy_id (py_get raw ''policy_version'')) (\<lambda>pv.
     ensure (pv = ROUTING_POLICY_VERSION) policy_invalid
     (thenE (policy_bool (py_get_default raw ''bootstrap'' (PBool False))) (\<lambda>bootstrap.
     thenE (policy_bool (py_get_default raw ''benchmark_required_for_new_models'' (PBool True))) (\<lambda>bench.
     ensure bootstrap policy_invalid
     (ensure bench policy_invalid
     (thenE (parse_escalation raw) (\<lambda>(max_auto, owner_lvl).
     thenE (parse_reasoning raw max_auto) (\<lambda>levels.
     thenE (parse_level_tiers raw max_auto) (\<lambda>min_tiers.
     thenE (parse_model_tiers raw) (\<lambda>tiers.
     let ceilings = map (\<lambda>(lvl, d, c). (lvl, c)) levels in
     thenE (policy_object (py_get_default raw ''profiles'' (PDict []))) (\<lambda>raw_profiles.
     ensure (raw_profiles \<noteq> []) policy_invalid
     (thenE (parse_profiles tiers ceilings raw_profiles) (\<lambda>profiles.
     thenE (policy_object (py_get_default raw ''escalation_profiles'' (PDict []))) (\<lambda>raw_esc.
     thenE (parse_profiles tiers ceilings raw_esc) (\<lambda>esc_profiles.
     thenE (require_class_order (py_get raw ''cost_order'')) (\<lambda>cost_order.
     thenE (require_class_order (py_get raw ''latency_order'')) (\<lambda>latency_order.
     thenE (parse_evidence_requirements raw) (\<lambda>min_status.
     thenE (parse_fallback raw) (\<lambda>(fb_enabled, fb_states, fb_rate).
     Inr \<lparr>rt_reasoning_defaults = map (\<lambda>(lvl, d, c). (lvl, d)) levels,
        rt_reasoning_ceilings = ceilings, rt_level_min_tiers = min_tiers,
        rt_model_tiers = tiers, rt_profiles = profiles,
        rt_escalation_profiles = esc_profiles, rt_cost_order = cost_order,
        rt_latency_order = latency_order, rt_evidence_minimum_status = min_status,
        rt_fallback_enabled = fb_enabled, rt_fallback_trigger_states = fb_states,
        rt_allow_rate_limit_fallback = fb_rate, rt_bootstrap = bootstrap,
        rt_benchmark_required = bench, rt_max_automatic_level = max_auto,
        rt_owner_level = owner_lvl,
        rt_content_hash = env_sha256 E (co_compact J doc)\<rparr>)))))))))))))))))))))"

definition load_routing_policy :: "env \<Rightarrow> codec \<Rightarrow> py option \<Rightarrow> policy_error + routing_policy" where
  "load_routing_policy E J file = (case file of None \<Rightarrow> Inl policy_invalid | Some doc \<Rightarrow>
     ensure (json_keys_unique doc) policy_invalid
     (thenE (policy_object doc) (\<lambda>_. parse_policy E J doc)))"

text \<open>\<open>validate_models\<close>: every model the policy names is known, enabled and has a known provider.\<close>

definition policy_model_ok :: "registry \<Rightarrow> string \<Rightarrow> bool" where
  "policy_model_ok r mid = (case get_model r mid of None \<Rightarrow> False
     | Some md \<Rightarrow> md_enabled md \<and> get_provider r (md_provider_id md) \<noteq> None)"

definition validate_models :: "routing_policy \<Rightarrow> registry \<Rightarrow> policy_error + unit" where
  "validate_models p r =
     ensure (list_all (\<lambda>kv. policy_model_ok r (fst kv)) (rt_model_tiers p)) policy_invalid
     (ensure (list_all (\<lambda>kv. list_all (policy_model_ok r) (pp_allowed_models (snd kv))) (rt_profiles p))
        policy_invalid
     (ensure (list_all (\<lambda>kv. list_all (policy_model_ok r) (pp_allowed_models (snd kv)))
                (rt_escalation_profiles p)) policy_invalid (Inr ())))"

definition default_policy ::
  "env \<Rightarrow> codec \<Rightarrow> py option \<Rightarrow> registry \<Rightarrow> policy_error + routing_policy" where
  "default_policy E J file r =
     thenE (load_routing_policy E J file) (\<lambda>p. thenE (validate_models p r) (\<lambda>_. Inr p))"

text \<open>Reading the policy.\<close>

definition level_entry :: "(int \<times> 'a) list \<Rightarrow> int \<Rightarrow> policy_error + 'a" where
  "level_entry xs level = (case map_of xs level of None \<Rightarrow> Inl RawKeyError | Some x \<Rightarrow> Inr x)"

definition tier_of :: "routing_policy \<Rightarrow> string \<Rightarrow> int option" where
  "tier_of p mid = map_of (rt_model_tiers p) mid"

definition profile_for_role :: "routing_policy \<Rightarrow> string \<Rightarrow> policy_error + policy_profile" where
  "profile_for_role p r =
     (case find (\<lambda>kv. r \<in> set (pp_roles (snd kv))) (rt_profiles p) of
        None \<Rightarrow> Inl policy_invalid | Some (pid, prof) \<Rightarrow> Inr prof)"

definition escalation_profile :: "routing_policy \<Rightarrow> string \<Rightarrow> policy_profile option" where
  "escalation_profile p pid = map_of (rt_escalation_profiles p) pid"

fun index_of :: "string \<Rightarrow> string list \<Rightarrow> int" where
  "index_of x [] = 0"
| "index_of x (y # ys) = (if x = y then 0 else 1 + index_of x ys)"

text \<open>\<open>cost_rank\<close> and \<open>latency_rank\<close>: the position in the order, its length for an unknown class.\<close>

definition cost_rank :: "routing_policy \<Rightarrow> string \<Rightarrow> int" where
  "cost_rank p c = index_of c (rt_cost_order p)"

definition latency_rank :: "routing_policy \<Rightarrow> string \<Rightarrow> int" where
  "latency_rank p c = index_of c (rt_latency_order p)"

section \<open>Requests\<close>

record attempt_evidence =
  ae_attempt_no :: int
  ae_model_id :: "string option"
  ae_reasoning_level :: "string option"
  ae_outcome_class :: string
  ae_status :: "string option"
  ae_sequence_kind :: "string option"
  ae_escalation_level :: int
  ae_failure_code :: "string option"

definition attempt_canonical :: "attempt_evidence \<Rightarrow> py" where
  "attempt_canonical a = PDict [(''attempt_no'', PInt (ae_attempt_no a)),
     (''model_id'', py_opt_str (ae_model_id a)),
     (''reasoning_level'', py_opt_str (ae_reasoning_level a)),
     (''outcome_class'', PStr (ae_outcome_class a)), (''status'', py_opt_str (ae_status a)),
     (''sequence_kind'', py_opt_str (ae_sequence_kind a)),
     (''escalation_level'', PInt (ae_escalation_level a)),
     (''failure_code'', py_opt_str (ae_failure_code a))]"

record routing_evidence =
  re_prior_attempts :: "attempt_evidence list"
  re_test_results :: "string list"
  re_reviewer_verdicts :: "string list"
  re_open_findings_count :: int
  re_confirmed_finding :: bool
  re_security_relevant :: bool
  re_concurrency_relevant :: bool

definition evidence_canonical :: "routing_evidence \<Rightarrow> py" where
  "evidence_canonical ev = PDict [
     (''prior_attempts'', PList (map attempt_canonical (re_prior_attempts ev))),
     (''test_results'', strings (re_test_results ev)),
     (''reviewer_verdicts'', strings (re_reviewer_verdicts ev)),
     (''open_findings_count'', PInt (re_open_findings_count ev)),
     (''confirmed_finding'', PBool (re_confirmed_finding ev)),
     (''security_relevant'', PBool (re_security_relevant ev)),
     (''concurrency_relevant'', PBool (re_concurrency_relevant ev))]"

record availability_snapshot =
  as_provider_states :: "(string \<times> string) list"
  as_model_states :: "(string \<times> string) list"

definition new_availability_snapshot ::
  "(string \<times> string) list \<Rightarrow> (string \<times> string) list \<Rightarrow> policy_error + availability_snapshot" where
  "new_availability_snapshot ps ms =
     ensure (length ps \<le> 64) request_invalid
     (ensure (length ms \<le> 128) request_invalid
     (ensure (list_all (\<lambda>(key, state). key \<noteq> [] \<and> state \<in> set AVAILABILITY_STATES) ps) request_invalid
     (ensure (list_all (\<lambda>(key, state). key \<noteq> [] \<and> state \<in> set AVAILABILITY_STATES) ms) request_invalid
     (Inr \<lparr>as_provider_states = ps, as_model_states = ms\<rparr>))))"

definition states_canonical :: "(string \<times> string) list \<Rightarrow> py" where
  "states_canonical xs = PDict (map (\<lambda>(k, v). (k, PStr v)) (sort_key fst xs))"

definition snapshot_canonical :: "availability_snapshot option \<Rightarrow> py" where
  "snapshot_canonical sn = (case sn of None \<Rightarrow> PNone
     | Some s \<Rightarrow> PDict [(''provider_states'', states_canonical (as_provider_states s)),
                       (''model_states'', states_canonical (as_model_states s))])"

record routing_request =
  rtq_job_id :: string
  rtq_task_id :: string
  rtq_role :: string
  rtq_risk_class :: string
  rtq_dispatch_id :: "string option"
  rtq_reference_model_id :: "string option"
  rtq_independence_requirement :: "string option"
  rtq_evidence :: routing_evidence
  rtq_current_escalation_level :: int
  rtq_policy_version :: string
  rtq_availability_snapshot :: "availability_snapshot option"

definition ROUTE_ROLES :: "string list" where
  "ROUTE_ROLES = map role_value [LEAD, ANALYST, IMPLEMENTER, QA, REVIEWER]"

definition ROUTE_RISKS :: "string list" where
  "ROUTE_RISKS = map risk_class_value [RISK_LOW, RISK_NORMAL, RISK_HIGH]"

definition validate_request :: "routing_request \<Rightarrow> policy_error + unit" where
  "validate_request q =
     ensure (rtq_job_id q \<noteq> [] \<and> rtq_task_id q \<noteq> []) request_invalid
     (ensure (rtq_role q \<in> set ROUTE_ROLES) request_invalid
     (ensure (rtq_risk_class q \<in> set ROUTE_RISKS) request_invalid
     (ensure (rtq_current_escalation_level q \<ge> 0) request_invalid
     (ensure (case rtq_independence_requirement q of None \<Rightarrow> True
              | Some i \<Rightarrow> i \<in> set INDEPENDENCES) policy_invalid
     (ensure (rtq_policy_version q = ROUTING_POLICY_VERSION) request_invalid (Inr ()))))))"

section \<open>Triggers\<close>

definition is_reject_verdict :: "string \<Rightarrow> bool" where
  "is_reject_verdict v \<longleftrightarrow> str_lower (str_strip v) = ''reject''"

definition is_approve_verdict :: "string \<Rightarrow> bool" where
  "is_approve_verdict v \<longleftrightarrow> str_lower (str_strip v) = ''approve''"

definition tests_contradict :: "string list \<Rightarrow> bool" where
  "tests_contradict ts \<longleftrightarrow> (case rev ts of t1 # t2 # _ \<Rightarrow> t1 = ''failed'' \<and> t2 = ''passed'' | _ \<Rightarrow> False)"

definition verdicts_contradict :: "string list \<Rightarrow> bool" where
  "verdicts_contradict vs \<longleftrightarrow>
     (case rev vs of v1 # v2 # _ \<Rightarrow> is_reject_verdict v1 \<and> is_approve_verdict v2 | _ \<Rightarrow> False)"

definition fix_attempts :: "routing_evidence \<Rightarrow> int list" where
  "fix_attempts ev = remdups (map ae_attempt_no
     (filter (\<lambda>a. ae_outcome_class a = ''CAPABILITY'') (re_prior_attempts ev)))"

definition detect_triggers :: "routing_evidence \<Rightarrow> string list" where
  "detect_triggers ev =
     (if length (fix_attempts ev) \<ge> 2 then [''REPEATED_FIX_FAILURE''] else []) @
     (if re_test_results ev \<noteq> [] \<and> last (re_test_results ev) = ''failed''
      then [''TESTS_STILL_RED''] else []) @
     (if re_open_findings_count ev > 0 \<and> \<not> re_confirmed_finding ev
      then [''ROOT_CAUSE_UNPROVEN''] else []) @
     (if list_ex is_reject_verdict (re_reviewer_verdicts ev)
      then [''REVIEWER_REJECTED_CANDIDATE''] else []) @
     (if tests_contradict (re_test_results ev) \<or> verdicts_contradict (re_reviewer_verdicts ev)
      then [''CONTRADICTORY_EVIDENCE''] else []) @
     (if re_security_relevant ev then [''SECURITY_COMPLEXITY''] else []) @
     (if re_concurrency_relevant ev then [''CONCURRENCY_COMPLEXITY''] else []) @
     (if list_ex (\<lambda>a. ae_outcome_class a \<in> {''EXTERNAL'', ''PROVIDER'', ''TRANSIENT''})
           (re_prior_attempts ev)
      then [''PROVIDER_FAILURE''] else [])"

definition HARD_ROOT_CAUSE :: "string list" where
  "HARD_ROOT_CAUSE = [''REPEATED_FIX_FAILURE'', ''TESTS_STILL_RED'', ''ROOT_CAUSE_UNPROVEN'']"

definition ONE_STEP_TRIGGERS :: "string list" where
  "ONE_STEP_TRIGGERS = [''REVIEWER_REJECTED_CANDIDATE'', ''CONTRADICTORY_EVIDENCE'',
     ''CONCURRENCY_COMPLEXITY'', ''RECOVERY_COMPLEXITY'', ''UNEXPECTED_SCOPE_GROWTH'']"

definition SECURITY_DEEP_REASONING_ROLES :: "string list" where
  "SECURITY_DEEP_REASONING_ROLES = map role_value [ANALYST, REVIEWER, LEAD]"

definition all_in :: "string list \<Rightarrow> string list \<Rightarrow> bool" where
  "all_in xs ys \<longleftrightarrow> list_all (\<lambda>x. x \<in> set ys) xs"

definition apply_trigger_levels :: "int \<Rightarrow> int \<Rightarrow> string list \<Rightarrow> string \<Rightarrow> int" where
  "apply_trigger_levels level current triggers r =
     (let hard = all_in HARD_ROOT_CAUSE triggers;
          l1 = (if hard then max level LEVEL_DEEP_REASONING else level);
          l2 = (if ''SECURITY_COMPLEXITY'' \<in> set triggers \<and> r \<in> set SECURITY_DEEP_REASONING_ROLES
                then max l1 LEVEL_DEEP_REASONING else l1);
          s1 = (if list_ex (\<lambda>c. c \<in> set triggers) ONE_STEP_TRIGGERS then 1 else 0);
          s2 = (if hard \<and> current \<ge> LEVEL_DEEP_REASONING then max s1 1 else s1)
      in l2 + s2)"

section \<open>The profile of a request\<close>

definition route_entry_level :: "policy_profile \<Rightarrow> string \<Rightarrow> int" where
  "route_entry_level prof risk = (case pp_low_risk_entry_level prof of
     None \<Rightarrow> pp_entry_level prof
   | Some l \<Rightarrow> if risk = risk_class_value RISK_LOW then l else pp_entry_level prof)"

definition intersect_models :: "string list \<Rightarrow> string list \<Rightarrow> string list" where
  "intersect_models base extra = filter (\<lambda>m. m \<in> set extra) base"

definition profile_applies :: "policy_profile \<Rightarrow> string \<Rightarrow> bool" where
  "profile_applies prof r \<longleftrightarrow> (if pp_roles prof = [] then True else r \<in> set (pp_roles prof))"

definition max_reason :: "string \<Rightarrow> string \<Rightarrow> policy_error + string" where
  "max_reason a b = (case (reasoning_rank a, reasoning_rank b) of
     (Some x, Some y) \<Rightarrow> Inr (if x \<ge> y then a else b) | _ \<Rightarrow> Inl RawKeyError)"

text \<open>What the escalation profiles change: capabilities, reasoning floor, entry level, models.\<close>

record task_profile =
  tp_required_capabilities :: "string list"
  tp_minimum_reasoning :: string
  tp_entry_level :: int
  tp_allowed_models :: "string list"

definition shift_profile :: "policy_profile \<Rightarrow> task_profile \<Rightarrow> policy_error + task_profile" where
  "shift_profile prof t =
     thenE (max_reason (tp_minimum_reasoning t) (pp_minimum_reasoning_level prof)) (\<lambda>reason.
     Inr \<lparr>tp_required_capabilities = pp_required_capabilities prof,
          tp_minimum_reasoning = reason,
          tp_entry_level = max (tp_entry_level t) (pp_entry_level prof),
          tp_allowed_models = intersect_models (tp_allowed_models t) (pp_allowed_models prof)\<rparr>)"

definition applicable :: "routing_policy \<Rightarrow> string \<Rightarrow> string \<Rightarrow> policy_profile option" where
  "applicable p pid r = (case escalation_profile p pid of None \<Rightarrow> None
     | Some prof \<Rightarrow> if profile_applies prof r then Some prof else None)"

definition security_shift ::
  "routing_policy \<Rightarrow> string \<Rightarrow> string list \<Rightarrow> task_profile \<Rightarrow> policy_error + task_profile" where
  "security_shift p r triggers t =
     (if ''SECURITY_COMPLEXITY'' \<notin> set triggers then Inr t
      else (case applicable p ''security_review'' r of
          Some sec \<Rightarrow> shift_profile sec t
        | None \<Rightarrow> (case applicable p ''deep_analysis'' r of
              Some da \<Rightarrow> shift_profile da t | None \<Rightarrow> Inr t)))"

definition root_cause_shift ::
  "routing_policy \<Rightarrow> string \<Rightarrow> string list \<Rightarrow> task_profile \<Rightarrow> policy_error + task_profile" where
  "root_cause_shift p r triggers t =
     (if \<not> all_in HARD_ROOT_CAUSE triggers then Inr t
      else (case applicable p ''root_cause_analysis'' r of
          Some rca \<Rightarrow> shift_profile rca t | None \<Rightarrow> Inr t))"

definition task_profile_of ::
  "routing_policy \<Rightarrow> routing_request \<Rightarrow> policy_profile \<Rightarrow> policy_error + task_profile" where
  "task_profile_of p q prof =
     (let triggers = detect_triggers (rtq_evidence q) in
      thenE (security_shift p (rtq_role q) triggers
        \<lparr>tp_required_capabilities = pp_required_capabilities prof,
         tp_minimum_reasoning = pp_minimum_reasoning_level prof,
         tp_entry_level = route_entry_level prof (rtq_risk_class q),
         tp_allowed_models = pp_allowed_models prof\<rparr>) (\<lambda>t.
      root_cause_shift p (rtq_role q) triggers t))"

definition independence_for :: "routing_request \<Rightarrow> policy_profile \<Rightarrow> string" where
  "independence_for q prof =
     (if rtq_role q = role_value REVIEWER then ''DIFFERENT_MODEL_REQUIRED''
      else if or_empty (rtq_independence_requirement q) \<noteq> [] then or_empty (rtq_independence_requirement q)
      else if or_empty (pp_independence prof) \<noteq> [] then or_empty (pp_independence prof)
      else ''SAME_MODEL_ALLOWED'')"

definition current_level :: "routing_policy \<Rightarrow> routing_request \<Rightarrow> int" where
  "current_level p q = max LEVEL_ROUTINE (min (rtq_current_escalation_level q) (rt_owner_level p))"

definition route_level :: "routing_policy \<Rightarrow> routing_request \<Rightarrow> int \<Rightarrow> int" where
  "route_level p q base_level =
     (let current = current_level p q in
      min (apply_trigger_levels (max base_level current) current
             (detect_triggers (rtq_evidence q)) (rtq_role q)) (rt_owner_level p))"

definition reasoning_for :: "routing_policy \<Rightarrow> int \<Rightarrow> string \<Rightarrow> policy_error + string" where
  "reasoning_for p level min_reason =
     thenE (level_entry (rt_reasoning_defaults p) level) (\<lambda>default.
     thenE (max_reason default min_reason) (\<lambda>reason.
     thenE (level_entry (rt_reasoning_ceilings p) level) (\<lambda>ceiling.
     (case (reasoning_rank reason, reasoning_rank ceiling) of
        (Some x, Some c) \<Rightarrow> Inr (if x > c then ceiling else reason) | _ \<Rightarrow> Inl RawKeyError))))"

section \<open>Candidates\<close>

definition model_registry_enabled :: "registry \<Rightarrow> model_descriptor \<Rightarrow> bool" where
  "model_registry_enabled r model \<longleftrightarrow> md_enabled model \<and> md_lifecycle_state model = ''ACTIVE'' \<and>
     (case get_provider r (md_provider_id model) of None \<Rightarrow> False | Some pd \<Rightarrow> pd_enabled pd)"

definition reasoning_level_supported :: "model_descriptor \<Rightarrow> string \<Rightarrow> policy_error + bool" where
  "reasoning_level_supported model level = (case reasoning_rank level of
     None \<Rightarrow> Inl RawKeyError
   | Some floor_rank \<Rightarrow> any_rank RawKeyError floor_rank (md_reasoning_levels model))"

definition route_independence_ok ::
  "model_descriptor \<Rightarrow> model_descriptor option \<Rightarrow> requirements \<Rightarrow> bool" where
  "route_independence_ok model reference q =
     (let c = rq_independence_requirement q in
      if c = ''SAME_MODEL_ALLOWED'' then True
      else (case reference of
          None \<Rightarrow> False
        | Some ref \<Rightarrow>
            if c = ''DIFFERENT_MODEL_REQUIRED'' then md_model_id model \<noteq> md_model_id ref
            else if c = ''DIFFERENT_PROVIDER_REQUIRED'' then md_provider_id model \<noteq> md_provider_id ref
            else True))"

definition is_candidate ::
  "registry \<Rightarrow> routing_policy \<Rightarrow> evidence_registry \<Rightarrow> requirements \<Rightarrow> string list \<Rightarrow> int \<Rightarrow> string \<Rightarrow>
   model_descriptor option \<Rightarrow> model_descriptor \<Rightarrow> policy_error + bool" where
  "is_candidate r p ev q allowed min_tier reasoning reference model =
     (if md_model_id model \<notin> set allowed then Inr False
      else if (case tier_of p (md_model_id model) of None \<Rightarrow> True | Some t \<Rightarrow> t < min_tier) then Inr False
      else if \<not> model_registry_enabled r model then Inr False
      else thenE (satisfies_floor model q) (\<lambda>capable.
        if \<not> capable then Inr False
        else thenE (reasoning_level_supported model reasoning) (\<lambda>reasons.
          if \<not> reasons then Inr False
          else if \<not> route_independence_ok model reference q then Inr False
          else Inr (satisfies_evidence ev (md_model_id model) (rq_required_capabilities q)
                      (rt_evidence_minimum_status p)))))"

definition eligible_candidates ::
  "registry \<Rightarrow> routing_policy \<Rightarrow> evidence_registry \<Rightarrow> requirements \<Rightarrow> string list \<Rightarrow> int \<Rightarrow> string \<Rightarrow>
   string option \<Rightarrow> policy_error + model_descriptor list" where
  "eligible_candidates r p ev q allowed level reasoning reference_model_id =
     thenE (level_entry (rt_level_min_tiers p) level) (\<lambda>min_tier.
     filterE (is_candidate r p ev q allowed min_tier reasoning
                (case reference_model_id of None \<Rightarrow> None | Some mid \<Rightarrow> get_model r mid))
       (list_models r))"

definition rank_key :: "routing_policy \<Rightarrow> model_descriptor \<Rightarrow> int \<times> int \<times> int \<times> string" where
  "rank_key p m = ((case tier_of p (md_model_id m) of Some t \<Rightarrow> t | None \<Rightarrow> 99),
     cost_rank p (md_cost_class m), latency_rank p (md_latency_class m), md_model_id m)"

definition rank_all :: "routing_policy \<Rightarrow> model_descriptor list \<Rightarrow> model_descriptor list" where
  "rank_all p candidates = sort_key (rank_key p) candidates"

definition availability_rank :: "string \<Rightarrow> int" where
  "availability_rank s = (case map_of [(''DISABLED'', 0), (''UNAVAILABLE'', 1), (''UNKNOWN'', 2),
     (''DEGRADED'', 3), (''AVAILABLE'', 4)] s of None \<Rightarrow> 0 | Some n \<Rightarrow> n)"

definition worse_availability :: "string \<Rightarrow> string \<Rightarrow> string" where
  "worse_availability a b = (if availability_rank a \<le> availability_rank b then a else b)"

definition effective_availability ::
  "registry \<Rightarrow> model_descriptor \<Rightarrow> availability_snapshot option \<Rightarrow> string" where
  "effective_availability r model snapshot =
     (let registry_default = (case get_provider r (md_provider_id model) of
            Some pd \<Rightarrow> pd_availability_state pd | None \<Rightarrow> ''UNKNOWN'') in
      (case snapshot of None \<Rightarrow> registry_default | Some sn \<Rightarrow>
        (case map_of (as_model_states sn) (md_model_id model) of
           Some st \<Rightarrow> worse_availability registry_default st
         | None \<Rightarrow> (case map_of (as_provider_states sn) (md_provider_id model) of
             Some st \<Rightarrow> worse_availability registry_default st | None \<Rightarrow> registry_default))))"

definition is_usable :: "registry \<Rightarrow> availability_snapshot option \<Rightarrow> model_descriptor \<Rightarrow> bool" where
  "is_usable r snapshot model \<longleftrightarrow>
     effective_availability r model snapshot \<in> {''AVAILABLE'', ''DEGRADED''}"

text \<open>\<open>_select\<close>: the chosen model and whether a fallback was tried.\<close>

definition select_model ::
  "registry \<Rightarrow> routing_policy \<Rightarrow> availability_snapshot option \<Rightarrow> model_descriptor list \<Rightarrow>
   model_descriptor option \<times> bool" where
  "select_model r p snapshot candidates = (case rank_all p candidates of
     [] \<Rightarrow> (None, False)
   | primary # others \<Rightarrow>
       if is_usable r snapshot primary then (Some primary, False)
       else if \<not> rt_fallback_enabled p then (None, True)
       else if effective_availability r primary snapshot \<notin> set (rt_fallback_trigger_states p)
       then (None, True)
       else (find (is_usable r snapshot) others, True))"

section \<open>The decision\<close>

definition REASON_PRIORITY :: "string list" where
  "REASON_PRIORITY = [''REPEATED_FIX_FAILURE'', ''ROOT_CAUSE_UNPROVEN'',
     ''REVIEWER_REJECTED_CANDIDATE'', ''CONTRADICTORY_EVIDENCE'', ''CONCURRENCY_COMPLEXITY'',
     ''UNEXPECTED_SCOPE_GROWTH'', ''RECOVERY_COMPLEXITY'', ''TESTS_STILL_RED'',
     ''SECURITY_COMPLEXITY'']"

definition NON_CAPABILITY_CODES :: "string list" where
  "NON_CAPABILITY_CODES = [''PROVIDER_FAILURE'', ''MODEL_FAILURE'', ''VALIDATED_FALLBACK'']"

definition decision_reason :: "string list \<Rightarrow> int \<Rightarrow> int \<Rightarrow> string" where
  "decision_reason triggers level base_level =
     (case (if level > base_level then find (\<lambda>c. c \<in> set triggers) REASON_PRIORITY else None) of
        Some c \<Rightarrow> c
      | None \<Rightarrow> (case find (\<lambda>c. c \<in> set triggers) NON_CAPABILITY_CODES of
          Some c \<Rightarrow> c | None \<Rightarrow> ''MINIMUM_SUFFICIENT''))"

record routed_decision = routing_decision +
  rd_dispatch_id :: "string option"
  rd_matched_capabilities :: "string list"
  rd_created_at :: string

definition TERMINAL_REASON_CODES :: "string list" where
  "TERMINAL_REASON_CODES = [''OWNER_GATE'', ''NO_ELIGIBLE_CANDIDATE'', ''NO_VALID_FALLBACK'']"

definition is_terminal_decision :: "('a) routing_decision_scheme \<Rightarrow> bool" where
  "is_terminal_decision d \<longleftrightarrow> ro_provider d = None \<or> ro_model d = None \<or>
     ro_escalation_level d \<ge> LEVEL_OWNER \<or> ro_reason_code d \<in> set TERMINAL_REASON_CODES"

definition evidence_gate_canonical ::
  "evidence_registry \<Rightarrow> model_descriptor list \<Rightarrow> string list \<Rightarrow> py" where
  "evidence_gate_canonical ev candidates caps =
     (let categories = sort (remdups (map capability_category caps)) in
      PList (map (\<lambda>m. PDict [(''model_id'', PStr (md_model_id m)),
        (''statuses'', PDict (map (\<lambda>c. (c, PStr (get_status ev (md_model_id m) c))) categories))])
        (sort_key md_model_id candidates)))"

text \<open>What a decision is about, before it is hashed.\<close>

record decision_content =
  dc_chosen :: "model_descriptor option"
  dc_level :: int
  dc_reasoning :: "string option"
  dc_caps :: "string list"
  dc_reason :: string
  dc_independence :: string
  dc_candidates :: "model_descriptor list"

definition attempt_refs :: "routing_request \<Rightarrow> string list" where
  "attempt_refs q = map (\<lambda>a. ''attempt:'' @ int_text (ae_attempt_no a)) (re_prior_attempts (rtq_evidence q))"

definition inputs_object ::
  "registry \<Rightarrow> routing_policy \<Rightarrow> evidence_registry \<Rightarrow> routing_request \<Rightarrow> decision_content \<Rightarrow> py" where
  "inputs_object r p ev q c = PDict [
     (''policy_hash'', PStr (rt_content_hash p)),
     (''registry_hash'', PStr (rg_content_hash r)),
     (''evidence_hash'', PStr (evr_content_hash ev)),
     (''policy_version'', PStr ROUTING_POLICY_VERSION),
     (''registry_version'', PStr (rg_version r)),
     (''evidence_version'', PStr (evr_version ev)),
     (''role'', PStr (rtq_role q)),
     (''risk_class'', PStr (rtq_risk_class q)),
     (''required_capabilities'', strings (sort (dc_caps c))),
     (''reasoning_level'', py_opt_str (dc_reasoning c)),
     (''independence_requirement'', PStr (dc_independence c)),
     (''reference_model_id'', py_opt_str (rtq_reference_model_id q)),
     (''current_escalation_level'', PInt (rtq_current_escalation_level q)),
     (''evidence_minimum_status'', PStr (rt_evidence_minimum_status p)),
     (''evidence'', evidence_canonical (rtq_evidence q)),
     (''evidence_refs'', strings (attempt_refs q)),
     (''evidence_gate'', evidence_gate_canonical ev (dc_candidates c) (dc_caps c)),
     (''availability_snapshot'', snapshot_canonical (rtq_availability_snapshot q))]"

definition canonical_object ::
  "registry \<Rightarrow> routing_policy \<Rightarrow> evidence_registry \<Rightarrow> routing_request \<Rightarrow> decision_content \<Rightarrow> string \<Rightarrow>
   (string \<times> py) list" where
  "canonical_object r p ev q c inputs_hash = [
     (''job_id'', PStr (rtq_job_id q)),
     (''task_id'', PStr (rtq_task_id q)),
     (''role'', PStr (rtq_role q)),
     (''risk_class'', PStr (rtq_risk_class q)),
     (''reference_model_id'', py_opt_str (rtq_reference_model_id q)),
     (''independence_requirement'', PStr (dc_independence c)),
     (''provider'', py_opt_str (map_option md_provider_id (dc_chosen c))),
     (''model'', py_opt_str (map_option md_model_id (dc_chosen c))),
     (''reasoning_level'', py_opt_str (dc_reasoning c)),
     (''escalation_level'', PInt (dc_level c)),
     (''required_capabilities'', strings (sort (dc_caps c))),
     (''reason_code'', PStr (dc_reason c)),
     (''policy_version'', PStr ROUTING_POLICY_VERSION),
     (''registry_version'', PStr (rg_version r)),
     (''evidence_version'', PStr (evr_version ev)),
     (''policy_hash'', PStr (rt_content_hash p)),
     (''registry_hash'', PStr (rg_content_hash r)),
     (''evidence_hash'', PStr (evr_content_hash ev)),
     (''inputs_hash'', PStr inputs_hash),
     (''availability_snapshot'', snapshot_canonical (rtq_availability_snapshot q)),
     (''evidence_refs'', strings (attempt_refs q))]"

definition requirements_object :: "routing_request \<Rightarrow> decision_content \<Rightarrow> py" where
  "requirements_object q c = PDict [
     (''role'', PStr (rtq_role q)),
     (''risk_class'', PStr (rtq_risk_class q)),
     (''required_capabilities'', strings (sort (dc_caps c))),
     (''reasoning_level'', py_opt_str (dc_reasoning c)),
     (''independence_requirement'', PStr (dc_independence c))]"

definition build_decision ::
  "env \<Rightarrow> codec \<Rightarrow> registry \<Rightarrow> routing_policy \<Rightarrow> evidence_registry \<Rightarrow> routing_request \<Rightarrow> string \<Rightarrow>
   decision_content \<Rightarrow> routed_decision" where
  "build_decision E J r p ev q created_at c =
     (let inputs_hash = env_sha256 E (co_compact J (inputs_object r p ev q c));
          canonical = co_compact J (PDict (canonical_object r p ev q c inputs_hash));
          sha = env_sha256 E canonical
      in \<lparr>ro_decision_id = take 32 sha, ro_job_id = rtq_job_id q, ro_task_id = rtq_task_id q,
          ro_role = rtq_role q,
          ro_provider = map_option md_provider_id (dc_chosen c),
          ro_model = map_option md_model_id (dc_chosen c),
          ro_reasoning_level = dc_reasoning c, ro_escalation_level = dc_level c,
          ro_required_capabilities = dc_caps c,
          ro_requirements_hash = env_sha256 E (co_compact J (requirements_object q c)),
          ro_reason_code = dc_reason c, ro_policy_version = ROUTING_POLICY_VERSION,
          ro_registry_version = rg_version r, ro_evidence_version = evr_version ev,
          ro_policy_hash = rt_content_hash p, ro_registry_hash = rg_content_hash r,
          ro_evidence_hash = evr_content_hash ev, ro_inputs_hash = inputs_hash,
          ro_evidence_refs = attempt_refs q,
          ro_reference_model_id = rtq_reference_model_id q,
          ro_independence_requirement = Some (dc_independence c),
          ro_canonical_json = canonical, ro_sha256 = sha,
          rd_dispatch_id = rtq_dispatch_id q,
          rd_matched_capabilities = (case dc_chosen c of None \<Rightarrow> []
            | Some m \<Rightarrow> filter (\<lambda>x. x \<in> set (md_capability_tags m)) (dc_caps c)),
          rd_created_at = created_at\<rparr>)"

text \<open>A decision without a model.\<close>

definition terminal_content ::
  "string list \<Rightarrow> string \<Rightarrow> int \<Rightarrow> string \<Rightarrow> model_descriptor list \<Rightarrow> decision_content" where
  "terminal_content caps reason level independence candidates =
     \<lparr>dc_chosen = None, dc_level = level, dc_reasoning = None, dc_caps = caps, dc_reason = reason,
      dc_independence = independence, dc_candidates = candidates\<rparr>"

definition requirements_of :: "task_profile \<Rightarrow> string \<Rightarrow> requirements" where
  "requirements_of t independence =
     \<lparr>rq_required_capabilities = tp_required_capabilities t, rq_optional_capabilities = [],
      rq_minimum_reasoning_level = tp_minimum_reasoning t, rq_tool_requirements = [],
      rq_context_requirement = None, rq_independence_requirement = independence,
      rq_quality_floor = ''UNKNOWN''\<rparr>"

text \<open>What the selection makes of the candidates.\<close>

definition selected_content ::
  "routing_request \<Rightarrow> task_profile \<Rightarrow> string \<Rightarrow> int \<Rightarrow> int \<Rightarrow> string \<Rightarrow> model_descriptor list \<Rightarrow>
   model_descriptor option \<times> bool \<Rightarrow> decision_content" where
  "selected_content q t independence role_entry level reasoning candidates selection =
     (case fst selection of
        None \<Rightarrow> terminal_content (tp_required_capabilities t)
          (if candidates \<noteq> [] then ''NO_VALID_FALLBACK'' else ''NO_ELIGIBLE_CANDIDATE'')
          level independence candidates
      | Some chosen \<Rightarrow>
          \<lparr>dc_chosen = Some chosen, dc_level = level, dc_reasoning = Some reasoning,
           dc_caps = tp_required_capabilities t,
           dc_reason = (if snd selection then ''VALIDATED_FALLBACK''
             else decision_reason (detect_triggers (rtq_evidence q)) level role_entry),
           dc_independence = independence, dc_candidates = candidates\<rparr>)"

text \<open>\<open>route\<close> from the eligibility filter on.\<close>

definition route_at_level ::
  "registry \<Rightarrow> routing_policy \<Rightarrow> evidence_registry \<Rightarrow> routing_request \<Rightarrow> task_profile \<Rightarrow> string \<Rightarrow>
   int \<Rightarrow> int \<Rightarrow> policy_error + decision_content" where
  "route_at_level r p ev q t independence role_entry level =
     thenE (reasoning_for p level (tp_minimum_reasoning t)) (\<lambda>reasoning.
     thenE (capability_requirements (requirements_of t independence)) (\<lambda>reqs.
     thenE (eligible_candidates r p ev reqs (tp_allowed_models t) level reasoning
              (rtq_reference_model_id q)) (\<lambda>candidates.
     Inr (selected_content q t independence role_entry level reasoning candidates
            (select_model r p (rtq_availability_snapshot q) candidates)))))"

definition route_content ::
  "registry \<Rightarrow> routing_policy \<Rightarrow> evidence_registry \<Rightarrow> routing_request \<Rightarrow> policy_error + decision_content" where
  "route_content r p ev q =
     thenE (validate_request q) (\<lambda>_.
     thenE (profile_for_role p (rtq_role q)) (\<lambda>prof.
     thenE (task_profile_of p q prof) (\<lambda>t.
     (let level = route_level p q (tp_entry_level t); independence = independence_for q prof in
      if ''MISSING_REQUIRED_EXTERNAL_INFO'' \<in> set (detect_triggers (rtq_evidence q)) \<or>
         level > rt_max_automatic_level p
      then Inr (terminal_content (tp_required_capabilities t) ''OWNER_GATE'' level independence [])
      else route_at_level r p ev q t independence
             (route_entry_level prof (rtq_risk_class q)) level))))"

definition route ::
  "env \<Rightarrow> codec \<Rightarrow> registry \<Rightarrow> routing_policy \<Rightarrow> evidence_registry \<Rightarrow> string option \<Rightarrow> string \<Rightarrow>
   routing_request \<Rightarrow> policy_error + routed_decision" where
  "route E J r p ev given_now clock q =
     thenE (route_content r p ev q) (\<lambda>c.
     Inr (build_decision E J r p ev q
            (if or_empty given_now = [] then clock else or_empty given_now) c))"

definition thinking_to_reasoning :: "string option \<Rightarrow> string option" where
  "thinking_to_reasoning tier = (case tier of None \<Rightarrow> None
     | Some t \<Rightarrow> map_of [(''high'', ''HIGH''), (''medium'', ''MEDIUM''), (''low'', ''LOW'')]
                 (str_lower (str_strip t)))"

end
