(* ===== verification/Router_Safety.thy ===== *)
theory Router_Safety
  imports Model_Router
begin

text \<open>
  What the loaders guarantee of a policy and a registry they accept (\<open>policy_wf\<close>, \<open>registry_wf\<close>),
  and what the router guarantees of its decisions: with loaded documents it fails only on an
  invalid request, the level is bounded and never falls, the model it names passes every filter and
  is the first usable one of the ranking, and the identity it names is one the core accepts.
\<close>

section \<open>Loaded policies\<close>

definition profile_wf :: "(string \<times> int) list \<Rightarrow> (int \<times> string) list \<Rightarrow> policy_profile \<Rightarrow> bool" where
  "profile_wf tiers ceilings p \<longleftrightarrow>
     set (pp_roles p) \<subseteq> set ROUTE_ROLES \<and>
     pp_required_capabilities p \<noteq> [] \<and>
     distinct_members CAPABILITIES (pp_required_capabilities p) \<and>
     pp_minimum_reasoning_level p \<in> set REASONING_LEVELS \<and>
     pp_entry_level p \<in> {0..4} \<and>
     (case pp_low_risk_entry_level p of None \<Rightarrow> True | Some l \<Rightarrow> l \<in> {0..4}) \<and>
     pp_allowed_models p \<noteq> [] \<and> distinct (pp_allowed_models p) \<and>
     set (pp_allowed_models p) \<subseteq> fst ` set tiers \<and>
     under_ceiling ceilings (pp_minimum_reasoning_level p) (pp_entry_level p) \<and>
     (case pp_independence p of None \<Rightarrow> True | Some i \<Rightarrow> i \<in> set INDEPENDENCES)"

definition levels_wf :: "int \<Rightarrow> (int \<times> string) list \<Rightarrow> (int \<times> string) list \<Rightarrow> (int \<times> int) list \<Rightarrow> bool" where
  "levels_wf max_auto defaults ceilings min_tiers \<longleftrightarrow>
     map fst defaults = level_range max_auto \<and> map fst ceilings = level_range max_auto \<and>
     map fst min_tiers = level_range max_auto \<and>
     list_all2 (\<lambda>d c. rank_le (snd d) (snd c)) defaults ceilings \<and>
     list_all (\<lambda>d. snd d \<in> set REASONING_LEVELS) defaults \<and>
     list_all (\<lambda>c. snd c \<in> set REASONING_LEVELS) ceilings \<and>
     list_all (\<lambda>t. snd t \<in> {0..2}) min_tiers"

definition policy_wf :: "routing_policy \<Rightarrow> bool" where
  "policy_wf p \<longleftrightarrow>
     0 \<le> rt_max_automatic_level p \<and> rt_max_automatic_level p < rt_owner_level p \<and>
     rt_owner_level p \<le> 4 \<and>
     levels_wf (rt_max_automatic_level p) (rt_reasoning_defaults p) (rt_reasoning_ceilings p)
       (rt_level_min_tiers p) \<and>
     snd ` set (rt_model_tiers p) = {0..fold max (map snd (rt_model_tiers p)) 0} \<and>
     list_all (\<lambda>kv. profile_wf (rt_model_tiers p) (rt_reasoning_ceilings p) (snd kv))
       (rt_profiles p @ rt_escalation_profiles p) \<and>
     0 < evidence_status_rank (rt_evidence_minimum_status p) \<and>
     set (rt_fallback_trigger_states p) \<subseteq> set AVAILABILITY_STATES \<and>
     rt_bootstrap p \<and> rt_benchmark_required p"

lemma enum_member_Inr [simp]: "enum_member e vs v = Inr s \<longleftrightarrow> v = PStr s \<and> s \<in> set vs"
  by (auto simp: enum_member_def split: py.splits)

lemma nonempty_str_Inr [simp]: "nonempty_str e v = Inr s \<longleftrightarrow> v = PStr s \<and> s \<noteq> []"
  by (auto simp: nonempty_str_def split: py.splits)

lemma policy_int_Inr [simp]: "policy_int lo hi v = Inr i \<longleftrightarrow> v = PInt i \<and> lo \<le> i \<and> i \<le> hi"
  by (auto simp: policy_int_def split: py.splits)

lemma policy_enum_Inr [simp]: "policy_enum vs v = Inr s \<longleftrightarrow> v = PStr s \<and> s \<in> set vs"
  by (simp add: policy_enum_def)

lemma mapE_Nil [simp]: "mapE f xs = Inr [] \<longleftrightarrow> xs = []"
  by (cases xs) auto

lemma policy_list_Inr:
  "policy_list item v = Inr ys \<Longrightarrow> ys \<noteq> [] \<and> distinct ys \<and> (\<forall>y \<in> set ys. \<exists>x. item x = Inr y)"
  by (cases v) (auto simp: policy_list_def dest: mapE_Inr_set)

lemma policy_enum_list:
  "policy_list (policy_enum vs) v = Inr ys \<Longrightarrow> ys \<noteq> [] \<and> distinct ys \<and> set ys \<subseteq> set vs"
  by (drule policy_list_Inr) auto

lemma optional_Inr:
  "(if b then Inr None else thenE m (\<lambda>n. Inr (Some n))) = Inr r \<longleftrightarrow>
   b \<and> r = None \<or> \<not> b \<and> (\<exists>n. m = Inr n \<and> r = Some n)"
  by auto

lemma parse_profile_cases:
  assumes "parse_profile tiers ceilings v = Inr p"
  obtains raw where
    "(if py_get raw ''roles'' = PNone then Inr []
      else policy_list (policy_enum [''lead'', ''analyst'', ''implementer'', ''qa'', ''reviewer''])
             (py_get raw ''roles'')) = Inr (pp_roles p)"
    "policy_list (policy_enum CAPABILITIES) (py_get raw ''required_capabilities'') =
       Inr (pp_required_capabilities p)"
    "pp_minimum_reasoning_level p \<in> set REASONING_LEVELS"
    "0 \<le> pp_entry_level p" "pp_entry_level p \<le> 4"
    "(if py_get raw ''low_risk_entry_level'' = PNone then Inr None
      else thenE (policy_int 0 4 (py_get raw ''low_risk_entry_level'')) (\<lambda>n. Inr (Some n))) =
       Inr (pp_low_risk_entry_level p)"
    "policy_list policy_id (py_get raw ''allowed_models'') = Inr (pp_allowed_models p)"
    "list_all (\<lambda>m. m \<in> fst ` set tiers) (pp_allowed_models p)"
    "under_ceiling ceilings (pp_minimum_reasoning_level p) (pp_entry_level p)"
    "(if py_get raw ''independence'' = PNone then Inr None
      else thenE (policy_enum INDEPENDENCES (py_get raw ''independence'')) (\<lambda>i. Inr (Some i))) =
       Inr (pp_independence p)"
  using assms unfolding parse_profile_def
  by (clarsimp simp del: if_split)

lemma parse_profile_wf:
  assumes "parse_profile tiers ceilings v = Inr p" shows "profile_wf tiers ceilings p"
  using assms
proof (cases rule: parse_profile_cases)
  case (1 raw)
  have "set (pp_roles p) \<subseteq> set ROUTE_ROLES"
    using 1(1) by (auto simp: ROUTE_ROLES_def split: if_splits dest!: policy_enum_list)
  then show ?thesis
    using policy_enum_list [OF 1(2)] 1(3-5,8-9) policy_list_Inr [OF 1(7)] 1(6,10)
    unfolding optional_Inr by (auto simp: profile_wf_def distinct_members_def list_all_iff)
qed

lemma parse_profiles_wf:
  "parse_profiles tiers ceilings raw = Inr ps \<Longrightarrow> kv \<in> set ps \<Longrightarrow> profile_wf tiers ceilings (snd kv)"
  by (induction tiers ceilings raw arbitrary: ps rule: parse_profiles.induct)
    (auto simp: parse_profile_wf)

lemma reasoning_entry_Inr:
  "reasoning_entry ds cs lvl = Inr e \<Longrightarrow> fst e = lvl \<and> fst (snd e) \<in> set REASONING_LEVELS \<and>
     snd (snd e) \<in> set REASONING_LEVELS \<and> rank_le (fst (snd e)) (snd (snd e))"
  by (auto simp: reasoning_entry_def Let_def)

lemma mapE_entries:
  assumes "mapE f xs = Inr ys" "\<And>x y. f x = Inr y \<Longrightarrow> fst y = x"
  shows "map fst ys = xs"
  using assms(1) by (induction xs arbitrary: ys) (auto dest: assms(2))

lemma parse_reasoning_wf:
  assumes "parse_reasoning raw n = Inr ls"
  shows "map fst ls = level_range n \<and>
    (\<forall>e \<in> set ls. fst (snd e) \<in> set REASONING_LEVELS \<and> snd (snd e) \<in> set REASONING_LEVELS \<and>
       rank_le (fst (snd e)) (snd (snd e)))"
proof -
  obtain ds cs where m: "mapE (reasoning_entry ds cs) (level_range n) = Inr ls"
    using assms by (auto simp: parse_reasoning_def)
  have "map fst ls = level_range n"
    using m by (rule mapE_entries) (auto dest: reasoning_entry_Inr)
  moreover have "\<exists>lvl. reasoning_entry ds cs lvl = Inr e" if "e \<in> set ls" for e
    using mapE_Inr_set [OF m that] by blast
  ultimately show ?thesis
    by (auto dest: reasoning_entry_Inr)
qed

lemma parse_level_tiers_wf:
  assumes "parse_level_tiers raw n = Inr ts"
  shows "map fst ts = level_range n \<and> (\<forall>t \<in> set ts. snd t \<in> {0..2})"
proof -
  obtain lmt where m: "mapE (tier_entry lmt) (level_range n) = Inr ts"
    using assms by (auto simp: parse_level_tiers_def)
  have e: "fst y = x \<and> snd y \<in> {0..2}" if "tier_entry lmt x = Inr y" for x y
    using that by (auto simp: tier_entry_def Let_def)
  show ?thesis
    using mapE_entries [OF m] mapE_Inr_set [OF m] e by blast
qed

lemma level_range_set [simp]: "set (level_range n) = {0..n}"
  by (simp add: level_range_def)

lemma parse_model_tiers_wf:
  "parse_model_tiers raw = Inr ts \<Longrightarrow> snd ` set ts = {0..fold max (map snd ts) 0}"
  by (auto simp: parse_model_tiers_def require_monotonic_tiers_def)

lemma parse_escalation_wf:
  "parse_escalation raw = Inr (n, m) \<Longrightarrow> 0 \<le> n \<and> n < m \<and> m \<le> 4"
  by (auto simp: parse_escalation_def)

lemma parse_fallback_wf:
  "parse_fallback raw = Inr (a, states, b) \<Longrightarrow> set states \<subseteq> set AVAILABILITY_STATES"
  by (auto simp: parse_fallback_def dest!: policy_enum_list)

lemma parse_evidence_requirements_wf:
  "parse_evidence_requirements raw = Inr st \<Longrightarrow> 0 < evidence_status_rank st"
  by (auto simp: parse_evidence_requirements_def)

lemma parse_policy_cases:
  assumes "parse_policy E J doc = Inr p"
  obtains raw levels raw_profiles raw_esc a b where
    "parse_escalation raw = Inr (rt_max_automatic_level p, rt_owner_level p)"
    "parse_reasoning raw (rt_max_automatic_level p) = Inr levels"
    "rt_reasoning_defaults p = map (\<lambda>(lvl, d, c). (lvl, d)) levels"
    "rt_reasoning_ceilings p = map (\<lambda>(lvl, d, c). (lvl, c)) levels"
    "parse_level_tiers raw (rt_max_automatic_level p) = Inr (rt_level_min_tiers p)"
    "parse_model_tiers raw = Inr (rt_model_tiers p)"
    "parse_profiles (rt_model_tiers p) (rt_reasoning_ceilings p) raw_profiles = Inr (rt_profiles p)"
    "parse_profiles (rt_model_tiers p) (rt_reasoning_ceilings p) raw_esc = Inr (rt_escalation_profiles p)"
    "parse_evidence_requirements raw = Inr (rt_evidence_minimum_status p)"
    "parse_fallback raw = Inr (a, rt_fallback_trigger_states p, b)"
    "rt_bootstrap p" "rt_benchmark_required p"
  using assms unfolding parse_policy_def Let_def
  by (fastforce split: prod.splits)

lemma parse_policy_wf:
  assumes "parse_policy E J doc = Inr p" shows "policy_wf p"
  using assms
proof (cases rule: parse_policy_cases)
  case (1 raw levels raw_profiles raw_esc a b)
  note r = parse_reasoning_wf [OF 1(2)]
  have "levels_wf (rt_max_automatic_level p) (rt_reasoning_defaults p) (rt_reasoning_ceilings p)
      (rt_level_min_tiers p)"
    using r parse_level_tiers_wf [OF 1(5)]
    by (auto simp: levels_wf_def 1(3,4) list_all_iff comp_def case_prod_beta list_all2_conv_all_nth)
  moreover have "list_all (\<lambda>kv. profile_wf (rt_model_tiers p) (rt_reasoning_ceilings p) (snd kv))
      (rt_profiles p @ rt_escalation_profiles p)"
    using parse_profiles_wf [OF 1(7)] parse_profiles_wf [OF 1(8)] by (auto simp: list_all_iff)
  ultimately show ?thesis
    using parse_escalation_wf [OF 1(1)] parse_model_tiers_wf [OF 1(6)]
      parse_evidence_requirements_wf [OF 1(9)] parse_fallback_wf [OF 1(10)] 1(11,12)
    by (simp add: policy_wf_def)
qed

section \<open>Loaded registries\<close>

definition model_wf :: "model_descriptor \<Rightarrow> bool" where
  "model_wf m \<longleftrightarrow> set (md_reasoning_levels m) \<subseteq> set REASONING_LEVELS \<and>
     set (md_capability_tags m) \<subseteq> set CAPABILITIES \<and>
     set (md_tool_capabilities m) \<subseteq> set TOOL_CAPABILITIES \<and>
     md_reliability_class m \<in> set RELIABILITY_CLASSES \<and> md_lifecycle_state m \<in> set LIFECYCLE_STATES"

definition registry_wf :: "registry \<Rightarrow> bool" where
  "registry_wf r \<longleftrightarrow> rg_version r = REGISTRY_VERSION \<and>
     distinct (map fst (rg_providers r)) \<and> distinct (map fst (rg_models r)) \<and>
     (\<forall>(k, pd) \<in> set (rg_providers r). k = pd_provider_id pd \<and>
        pd_availability_state pd \<in> set AVAILABILITY_STATES) \<and>
     (\<forall>(k, m) \<in> set (rg_models r). k = md_model_id m \<and> model_wf m \<and> cross_reference_ok r m)"

lemma parse_enum_list_Inr: "parse_enum_list vs v = Inr ys \<Longrightarrow> set ys \<subseteq> set vs"
  by (cases v) (auto simp: parse_enum_list_def require_enum_def dest: mapE_Inr_set)

lemma parse_model_wf: "parse_model pv v = Inr m \<Longrightarrow> model_wf m"
  unfolding parse_model_def model_wf_def
  by (clarsimp simp: require_enum_def) (blast dest: parse_enum_list_Inr)

lemma parse_provider_wf:
  "parse_provider J pv v = Inr p \<Longrightarrow> pd_availability_state p \<in> set AVAILABILITY_STATES"
  unfolding parse_provider_def by (clarsimp simp: require_enum_def)

lemma parse_keyed_Inr:
  assumes "parse_keyed parse key raws parsed = Inr ds"
    and "distinct (map fst parsed)" "\<forall>(k, d) \<in> set parsed. k = key d \<and> (\<exists>v. parse v = Inr d)"
  shows "distinct (map fst ds) \<and> (\<forall>(k, d) \<in> set ds. k = key d \<and> (\<exists>v. parse v = Inr d))"
  using assms
proof (induction parse key raws parsed arbitrary: ds rule: parse_keyed.induct)
  case (2 parse key raw rest parsed)
  then obtain d where d: "parse raw = Inr d" "key d \<notin> fst ` set parsed"
    "parse_keyed parse key rest (parsed @ [(key d, d)]) = Inr ds"
    by auto
  show ?case
    by (rule "2.IH" [OF d(3)]) (use 2 d in auto)
qed auto

lemma from_payload_wf:
  assumes "from_payload E J ps ms version policy_version = Inr r" shows "registry_wf r"
proof -
  obtain raw_ps raw_ms providers models where
    ps: "parse_keyed (parse_provider J policy_version) pd_provider_id raw_ps [] = Inr providers"
    and ms: "parse_keyed (parse_model policy_version) md_model_id raw_ms [] = Inr models"
    and r: "rg_providers r = providers" "rg_models r = models" "rg_version r = REGISTRY_VERSION"
      "list_all (\<lambda>m. cross_reference_ok r (snd m)) models"
    using assms by (auto simp: from_payload_def new_registry_def validate_cross_references_def Let_def)
  show ?thesis
    using parse_keyed_Inr [OF ps] parse_keyed_Inr [OF ms] r
    by (fastforce simp: registry_wf_def list_all_iff dest: parse_model_wf parse_provider_wf)
qed

lemma get_model_wf:
  assumes "registry_wf r" "get_model r mid = Some m"
  shows "md_model_id m = mid \<and> model_wf m \<and> cross_reference_ok r m"
  using assms map_of_SomeD [of "rg_models r" mid m]
  by (fastforce simp: registry_wf_def get_model_def)

lemma set_list_models:
  "m \<in> set (list_models r) \<longleftrightarrow> (\<exists>mid. get_model r mid = Some m)"
proof -
  have "get_model r mid = Some m \<Longrightarrow> mid \<in> set (map fst (rg_models r))" for mid
    unfolding get_model_def by (force dest: map_of_SomeD)
  then show ?thesis
    by (force simp: list_models_def List.map_filter_def)
qed

lemma listed_model:
  assumes "registry_wf r" "m \<in> set (list_models r)"
  shows "get_model r (md_model_id m) = Some m \<and> model_wf m"
  using assms by (auto simp: set_list_models dest: get_model_wf)

section \<open>Routing answers\<close>

lemma rank_known [simp]: "l \<in> set REASONING_LEVELS \<Longrightarrow> \<exists>n. reasoning_rank l = Some n"
  by (auto simp: REASONING_LEVELS_def reasoning_rank_def)

definition supports :: "string list \<Rightarrow> int \<Rightarrow> bool" where
  "supports levels n \<longleftrightarrow> list_ex (\<lambda>l. case reasoning_rank l of None \<Rightarrow> False | Some k \<Rightarrow> k \<ge> n) levels"

lemma any_rank_known:
  "set ls \<subseteq> set REASONING_LEVELS \<Longrightarrow> any_rank e n ls = Inr (supports ls n)"
  by (induction ls) (auto simp: supports_def dest!: rank_known)

lemma any_rank_True: "any_rank e n ls = Inr True \<Longrightarrow> supports ls n"
  by (induction ls) (auto simp: supports_def split: option.splits if_splits)

lemma filterE_Inr_set: "filterE f xs = Inr ys \<Longrightarrow> set ys = {x \<in> set xs. f x = Inr True}"
  by (induction xs arbitrary: ys) (auto split: if_splits)

lemma filterE_total: "(\<And>x. x \<in> set xs \<Longrightarrow> \<exists>b. f x = Inr b) \<Longrightarrow> \<exists>ys. filterE f xs = Inr ys"
  by (induction xs) fastforce+

lemma max_reason_known:
  assumes "a \<in> set REASONING_LEVELS" "b \<in> set REASONING_LEVELS"
  shows "\<exists>c. max_reason a b = Inr c \<and> c \<in> set REASONING_LEVELS \<and> rank_le a c \<and> rank_le b c"
  using assms by (auto simp: max_reason_def REASONING_LEVELS_def reasoning_rank_def rank_le_def)

text \<open>The task profile of a request under a well-formed policy.\<close>

definition task_profile_wf :: "task_profile \<Rightarrow> bool" where
  "task_profile_wf t \<longleftrightarrow> distinct_members CAPABILITIES (tp_required_capabilities t) \<and>
     tp_minimum_reasoning t \<in> set REASONING_LEVELS \<and> 0 \<le> tp_entry_level t"

lemma escalation_profile_wf:
  assumes "policy_wf p" "applicable p pid r = Some prof"
  shows "profile_wf (rt_model_tiers p) (rt_reasoning_ceilings p) prof"
proof -
  have "(pid, prof) \<in> set (rt_escalation_profiles p)"
    using assms(2) by (auto simp: applicable_def escalation_profile_def map_of_SomeD
        split: option.splits if_splits)
  then show ?thesis
    using assms(1) by (force simp: policy_wf_def list_all_iff)
qed

lemma role_profile_wf:
  assumes "policy_wf p" "profile_for_role p r = Inr prof"
  shows "profile_wf (rt_model_tiers p) (rt_reasoning_ceilings p) prof"
proof -
  obtain pid where "(pid, prof) \<in> set (rt_profiles p)"
    using assms(2) by (auto simp: profile_for_role_def find_Some_iff split: option.splits)
      (metis nth_mem)
  then show ?thesis
    using assms(1) by (force simp: policy_wf_def list_all_iff)
qed

lemma shift_profile_known:
  assumes "profile_wf tiers ceilings prof" "task_profile_wf t"
  shows "\<exists>t'. shift_profile prof t = Inr t' \<and> task_profile_wf t' \<and>
    tp_entry_level t \<le> tp_entry_level t' \<and> set (tp_allowed_models t') \<subseteq> set (tp_allowed_models t)"
proof -
  obtain c where "max_reason (tp_minimum_reasoning t) (pp_minimum_reasoning_level prof) = Inr c"
    "c \<in> set REASONING_LEVELS"
    using max_reason_known [of "tp_minimum_reasoning t" "pp_minimum_reasoning_level prof"] assms
    by (auto simp: profile_wf_def task_profile_wf_def)
  then show ?thesis
    using assms by (auto simp: shift_profile_def profile_wf_def task_profile_wf_def intersect_models_def)
qed

lemma shifted_known:
  assumes p: "policy_wf p" and t: "task_profile_wf t"
  shows "\<exists>t'. security_shift p r trs t = Inr t' \<and> task_profile_wf t' \<and>
      tp_entry_level t \<le> tp_entry_level t' \<and> set (tp_allowed_models t') \<subseteq> set (tp_allowed_models t)"
    and "\<exists>t'. root_cause_shift p r trs t = Inr t' \<and> task_profile_wf t' \<and>
      tp_entry_level t \<le> tp_entry_level t' \<and> set (tp_allowed_models t') \<subseteq> set (tp_allowed_models t)"
  using t shift_profile_known [OF escalation_profile_wf [OF p] t]
  by (auto simp: security_shift_def root_cause_shift_def split: option.splits)

lemma task_profile_known:
  assumes p: "policy_wf p" and prof: "profile_for_role p (rtq_role q) = Inr prof"
  shows "\<exists>t. task_profile_of p q prof = Inr t \<and> task_profile_wf t \<and>
    route_entry_level prof (rtq_risk_class q) \<le> tp_entry_level t \<and>
    set (tp_allowed_models t) \<subseteq> set (pp_allowed_models prof)"
proof -
  let ?trs = "detect_triggers (rtq_evidence q)"
  let ?t0 = "\<lparr>tp_required_capabilities = pp_required_capabilities prof,
    tp_minimum_reasoning = pp_minimum_reasoning_level prof,
    tp_entry_level = route_entry_level prof (rtq_risk_class q),
    tp_allowed_models = pp_allowed_models prof\<rparr>"
  have w: "profile_wf (rt_model_tiers p) (rt_reasoning_ceilings p) prof"
    using role_profile_wf [OF p prof] .
  then have "task_profile_wf ?t0"
    by (auto simp: profile_wf_def task_profile_wf_def route_entry_level_def split: option.splits)
  then obtain t1 where t1: "security_shift p (rtq_role q) ?trs ?t0 = Inr t1" "task_profile_wf t1"
    "route_entry_level prof (rtq_risk_class q) \<le> tp_entry_level t1"
    "set (tp_allowed_models t1) \<subseteq> set (pp_allowed_models prof)"
    using shifted_known(1) [OF p] by fastforce
  then show ?thesis
    using shifted_known(2) [OF p t1(2), of "rtq_role q" ?trs]
    by (fastforce simp: task_profile_of_def Let_def)
qed

lemma level_entry_known:
  assumes "map fst xs = level_range n" "0 \<le> lvl" "lvl \<le> n"
  shows "\<exists>x. level_entry xs lvl = Inr x \<and> (lvl, x) \<in> set xs"
proof -
  have "lvl \<in> fst ` set xs"
    using assms by (metis atLeastAtMost_iff level_range_set list.set_map)
  then obtain x where "map_of xs lvl = Some x"
    using map_of_eq_None_iff [of xs lvl] by (cases "map_of xs lvl") auto
  then show ?thesis
    by (auto simp: level_entry_def dest: map_of_SomeD)
qed

lemma reasoning_for_known:
  assumes p: "policy_wf p" and lvl: "0 \<le> level" "level \<le> rt_max_automatic_level p"
    and mr: "min_reason \<in> set REASONING_LEVELS"
  shows "\<exists>l. reasoning_for p level min_reason = Inr l \<and> l \<in> set REASONING_LEVELS"
proof -
  note e = level_entry_known [OF _ lvl]
  have w: "levels_wf (rt_max_automatic_level p) (rt_reasoning_defaults p) (rt_reasoning_ceilings p)
      (rt_level_min_tiers p)"
    using p by (simp add: policy_wf_def)
  obtain d where d: "level_entry (rt_reasoning_defaults p) level = Inr d"
    "(level, d) \<in> set (rt_reasoning_defaults p)"
    using w e [of "rt_reasoning_defaults p"] unfolding levels_wf_def by blast
  obtain c where c: "level_entry (rt_reasoning_ceilings p) level = Inr c"
    "(level, c) \<in> set (rt_reasoning_ceilings p)"
    using w e [of "rt_reasoning_ceilings p"] unfolding levels_wf_def by blast
  have dc: "d \<in> set REASONING_LEVELS" "c \<in> set REASONING_LEVELS"
    using w d(2) c(2) unfolding levels_wf_def list_all_iff by auto
  obtain l where l: "max_reason d min_reason = Inr l" "l \<in> set REASONING_LEVELS"
    using max_reason_known [OF dc(1) mr] by blast
  obtain x y where "reasoning_rank l = Some x" "reasoning_rank c = Some y"
    using rank_known [OF l(2)] rank_known [OF dc(2)] by blast
  then show ?thesis
    using d(1) c(1) l dc by (simp add: reasoning_for_def)
qed

lemma requirements_known:
  assumes "task_profile_wf t" "independence \<in> set INDEPENDENCES"
  shows "capability_requirements (requirements_of t independence) = Inr (requirements_of t independence)"
    and "validate_requirements (requirements_of t independence) = Inr ()"
  using assms
  by (auto simp: capability_requirements_def validate_requirements_def requirements_of_def
      task_profile_wf_def distinct_members_def RELIABILITY_CLASSES_def ensure_def)

lemma satisfies_floor_known:
  assumes "model_wf m" "task_profile_wf t" "independence \<in> set INDEPENDENCES"
  shows "\<exists>b. satisfies_floor m (requirements_of t independence) = Inr b"
proof -
  obtain n where "reasoning_rank (tp_minimum_reasoning t) = Some n"
    using assms(2) rank_known by (force simp: task_profile_wf_def)
  then show ?thesis
    using assms requirements_known(2) [OF assms(2,3)]
    by (auto simp: satisfies_floor_def reasoning_satisfies_def any_rank_known model_wf_def
        requirements_of_def class_satisfies_def)
qed

lemma is_candidate_known:
  assumes "model_wf m" "task_profile_wf t" "independence \<in> set INDEPENDENCES"
    and "reasoning \<in> set REASONING_LEVELS"
  shows "\<exists>b. is_candidate r p ev (requirements_of t independence) allowed mt reasoning ref m = Inr b"
proof -
  obtain b where b: "satisfies_floor m (requirements_of t independence) = Inr b"
    using satisfies_floor_known [OF assms(1-3)] by blast
  obtain n where "reasoning_rank reasoning = Some n"
    using rank_known [OF assms(4)] by blast
  moreover have "set (md_reasoning_levels m) \<subseteq> set REASONING_LEVELS"
    using assms(1) by (simp add: model_wf_def)
  ultimately have "reasoning_level_supported m reasoning = Inr (supports (md_reasoning_levels m) n)"
    by (simp add: reasoning_level_supported_def any_rank_known)
  then show ?thesis
    using b by (auto simp: is_candidate_def)
qed

lemma independence_for_known:
  assumes "validate_request q = Inr ()" "profile_wf tiers ceilings prof"
  shows "independence_for q prof \<in> set INDEPENDENCES"
proof -
  have "''DIFFERENT_MODEL_REQUIRED'' \<in> set INDEPENDENCES" "''SAME_MODEL_ALLOWED'' \<in> set INDEPENDENCES"
    by (simp_all add: INDEPENDENCES_def)
  then show ?thesis
    using assms by (auto simp: independence_for_def validate_request_def profile_wf_def or_empty_def
        split: option.splits)
qed

section \<open>Levels\<close>

lemma apply_trigger_levels_ge: "level \<le> apply_trigger_levels level current triggers r"
  by (auto simp: apply_trigger_levels_def Let_def)

lemma apply_trigger_levels_le:
  "apply_trigger_levels level current triggers r \<le> max level LEVEL_DEEP_REASONING + 1"
  by (auto simp: apply_trigger_levels_def Let_def)


lemma route_level_bounds:
  assumes "policy_wf p"
  shows "0 \<le> route_level p q base" "route_level p q base \<le> rt_owner_level p"
    and "min base (rt_owner_level p) \<le> route_level p q base"
    and "min (rtq_current_escalation_level q) (rt_owner_level p) \<le> route_level p q base"
    and "route_level p q base \<le>
      max (max base (rtq_current_escalation_level q)) LEVEL_DEEP_REASONING + 1"
proof -
  let ?cur = "current_level p q"
  let ?l = "max base ?cur"
  let ?a = "apply_trigger_levels ?l ?cur (detect_triggers (rtq_evidence q)) (rtq_role q)"
  have o: "1 \<le> rt_owner_level p" using assms by (auto simp: policy_wf_def)
  have r: "route_level p q base = min ?a (rt_owner_level p)"
    by (simp add: route_level_def Let_def)
  have a: "?l \<le> ?a" "?a \<le> max ?l LEVEL_DEEP_REASONING + 1"
    by (rule apply_trigger_levels_ge, rule apply_trigger_levels_le)
  have c: "0 \<le> ?cur" "min (rtq_current_escalation_level q) (rt_owner_level p) \<le> ?cur"
    "?cur \<le> max 0 (rtq_current_escalation_level q)"
    by (auto simp: current_level_def LEVEL_ROUTINE_def)
  show "0 \<le> route_level p q base" "route_level p q base \<le> rt_owner_level p"
    "min base (rt_owner_level p) \<le> route_level p q base"
    "min (rtq_current_escalation_level q) (rt_owner_level p) \<le> route_level p q base"
    using o a c unfolding r by auto
  show "route_level p q base \<le>
      max (max base (rtq_current_escalation_level q)) LEVEL_DEEP_REASONING + 1"
    using a c unfolding r LEVEL_DEEP_REASONING_def by linarith
qed

lemma route_content_answers:
  assumes p: "policy_wf p" and r: "registry_wf r" and v: "validate_request q = Inr ()"
    and prof: "profile_for_role p (rtq_role q) = Inr prof"
  shows "\<exists>c. route_content r p ev q = Inr c"
proof -
  obtain t where t: "task_profile_of p q prof = Inr t" "task_profile_wf t"
    using task_profile_known [OF p prof] by blast
  let ?i = "independence_for q prof" and ?l = "route_level p q (tp_entry_level t)"
  have i: "?i \<in> set INDEPENDENCES"
    using independence_for_known [OF v role_profile_wf [OF p prof]] .
  show ?thesis
  proof (cases "?l \<le> rt_max_automatic_level p")
    case True
    note l = route_level_bounds(1) [OF p] True
    obtain reasoning where re: "reasoning_for p ?l (tp_minimum_reasoning t) = Inr reasoning"
      "reasoning \<in> set REASONING_LEVELS"
      using reasoning_for_known [OF p l] t(2) by (auto simp: task_profile_wf_def)
    obtain mt where mt: "level_entry (rt_level_min_tiers p) ?l = Inr mt"
      using level_entry_known [OF _ l] p by (fastforce simp: policy_wf_def levels_wf_def)
    let ?ref = "case rtq_reference_model_id q of None \<Rightarrow> None | Some mid \<Rightarrow> get_model r mid"
    have "\<exists>cs. filterE (is_candidate r p ev (requirements_of t ?i) (tp_allowed_models t) mt reasoning ?ref)
        (list_models r) = Inr cs"
      by (rule filterE_total, rule is_candidate_known)
        (use listed_model [OF r] t(2) i re(2) in auto)
    then obtain cs where cs: "eligible_candidates r p ev (requirements_of t ?i) (tp_allowed_models t)
        ?l reasoning (rtq_reference_model_id q) = Inr cs"
      using mt by (auto simp: eligible_candidates_def)
    then have "\<exists>c. route_at_level r p ev q t ?i (route_entry_level prof (rtq_risk_class q)) ?l = Inr c"
      using re cs requirements_known(1) [OF t(2) i]
      by (simp add: route_at_level_def)
    then show ?thesis
      using v prof t True by (auto simp: route_content_def Let_def)
  qed (use v prof t in \<open>auto simp: route_content_def Let_def\<close>)
qed

section \<open>The chosen model\<close>

lemma select_model_first_usable:
  assumes "select_model r p sn cs = (Some m, fb)"
  shows "m \<in> set cs \<and> is_usable r sn m \<and>
    list_all (\<lambda>m'. is_usable r sn m' \<longrightarrow> rank_key p m \<le> rank_key p m') cs"
proof -
  let ?os = "sort_key (rank_key p) cs"
  have s: "sorted (map (rank_key p) ?os)" "set ?os = set cs" by simp_all
  have "\<exists>us vs. ?os = us @ m # vs \<and> is_usable r sn m \<and> (\<forall>u \<in> set us. \<not> is_usable r sn u)"
  proof (cases ?os)
    case (Cons m1 os)
    show ?thesis
    proof (cases "is_usable r sn m1")
      case True
      then have "?os = [] @ m # os" "is_usable r sn m"
        using assms Cons by (auto simp: select_model_def rank_all_def)
      then show ?thesis by (metis empty_iff list.set(1))
    next
      case False
      then have "find (is_usable r sn) os = Some m"
        using assms Cons by (auto simp: select_model_def rank_all_def split: if_splits)
      then obtain i where i: "i < length os" "is_usable r sn (os ! i)" "m = os ! i"
        "\<forall>j < i. \<not> is_usable r sn (os ! j)"
        by (auto simp: find_Some_iff)
      then have "?os = (m1 # take i os) @ m # drop (Suc i) os"
        using Cons id_take_nth_drop [OF i(1)] i(3) by simp
      moreover have "\<not> is_usable r sn u" if "u \<in> set (m1 # take i os)" for u
        using that False i by (auto simp: in_set_conv_nth)
      ultimately have "?os = (m1 # take i os) @ m # drop (Suc i) os"
        "\<forall>u \<in> set (m1 # take i os). \<not> is_usable r sn u"
        by blast+
      then show ?thesis using i(2,3) by metis
    qed
  qed (use assms in \<open>simp add: select_model_def rank_all_def\<close>)
  then obtain us vs where u: "?os = us @ m # vs" "is_usable r sn m" "\<forall>u \<in> set us. \<not> is_usable r sn u"
    by blast
  have "rank_key p m \<le> rank_key p m'" if "m' \<in> set cs" "is_usable r sn m'" for m'
  proof -
    have "m' \<in> set (us @ m # vs)" using that(1) s(2) u(1) by metis
    then have "m' = m \<or> m' \<in> set vs" using u(3) that(2) by auto
    then show ?thesis using s(1) unfolding u(1) by (auto simp: sorted_append)
  qed
  moreover have "m \<in> set cs" using s(2) u(1) by (metis in_set_conv_decomp)
  ultimately show ?thesis using u(2) by (auto simp: list_all_iff)
qed

lemma select_model_fallback:
  assumes "select_model r p sn cs = (Some m, True)"
  shows "rt_fallback_enabled p \<and> list_ex (\<lambda>m'. \<not> is_usable r sn m' \<and>
    effective_availability r m' sn \<in> set (rt_fallback_trigger_states p) \<and>
    rank_key p m' \<le> rank_key p m) cs"
proof (cases "sort_key (rank_key p) cs")
  case (Cons m1 os)
  then have "m1 \<in> set cs" by (metis list.set_intros(1) set_sort)
  moreover have "m \<in> set os" "\<not> is_usable r sn m1" "rt_fallback_enabled p"
    "effective_availability r m1 sn \<in> set (rt_fallback_trigger_states p)"
    using assms Cons by (auto simp: select_model_def rank_all_def find_Some_iff split: if_splits)
  moreover have "sorted (map (rank_key p) (m1 # os))" using Cons by (metis sorted_sort_key)
  ultimately show ?thesis by (auto simp: list_ex_iff)
qed (use assms in \<open>simp add: select_model_def rank_all_def\<close>)

text \<open>What the filters ask of a candidate.\<close>

definition passes_filters ::
  "registry \<Rightarrow> routing_policy \<Rightarrow> evidence_registry \<Rightarrow> requirements \<Rightarrow> string list \<Rightarrow> int \<Rightarrow>
   string option \<Rightarrow> model_descriptor \<Rightarrow> bool" where
  "passes_filters r p ev q allowed level reference_model_id m \<longleftrightarrow>
     md_model_id m \<in> set allowed \<and>
     (case (tier_of p (md_model_id m), map_of (rt_level_min_tiers p) level) of
        (Some t, Some mt) \<Rightarrow> mt \<le> t | _ \<Rightarrow> False) \<and>
     model_registry_enabled r m \<and>
     set (rq_required_capabilities q) \<subseteq> set (md_capability_tags m) \<and>
     route_independence_ok m (case reference_model_id of None \<Rightarrow> None | Some mid \<Rightarrow> get_model r mid) q \<and>
     list_all (\<lambda>c. evidence_status_rank (rt_evidence_minimum_status p) \<le>
        evidence_status_rank (get_status ev (md_model_id m) (capability_category c)))
       (rq_required_capabilities q)"

lemma satisfies_floor_caps:
  "satisfies_floor m q = Inr True \<Longrightarrow> set (rq_required_capabilities q) \<subseteq> set (md_capability_tags m)"
  by (simp add: satisfies_floor_def split: if_splits)

lemma candidate_passes:
  assumes "eligible_candidates r p ev q allowed level reasoning ref = Inr cs" "m \<in> set cs"
    and "0 < evidence_status_rank (rt_evidence_minimum_status p)"
  shows "passes_filters r p ev q allowed level ref m \<and> m \<in> set (list_models r)"
proof -
  obtain mt where mt: "map_of (rt_level_min_tiers p) level = Some mt"
    and f: "filterE (is_candidate r p ev q allowed mt reasoning
        (case ref of None \<Rightarrow> None | Some mid \<Rightarrow> get_model r mid)) (list_models r) = Inr cs"
    using assms(1) by (auto simp: eligible_candidates_def level_entry_def split: option.splits)
  have m: "m \<in> set (list_models r)"
    and "is_candidate r p ev q allowed mt reasoning
      (case ref of None \<Rightarrow> None | Some mid \<Rightarrow> get_model r mid) m = Inr True"
    using filterE_Inr_set [OF f] assms(2) by auto
  then have "satisfies_floor m q = Inr True"
    and c: "md_model_id m \<in> set allowed" "model_registry_enabled r m"
      "route_independence_ok m (case ref of None \<Rightarrow> None | Some mid \<Rightarrow> get_model r mid) q"
      "satisfies_evidence ev (md_model_id m) (rq_required_capabilities q) (rt_evidence_minimum_status p)"
    and "\<exists>t. tier_of p (md_model_id m) = Some t \<and> mt \<le> t"
    unfolding is_candidate_def by (auto split: if_splits option.splits)
  with m show ?thesis
    using mt satisfies_floor_caps [of m q] assms(3)
    by (auto simp: passes_filters_def list_all_iff satisfies_evidence_iff)
qed

lemma route_at_level_chosen:
  assumes "route_at_level r p ev q t ind re level = Inr c" "dc_chosen c = Some m"
  obtains cs fb reasoning where
    "eligible_candidates r p ev (requirements_of t ind) (tp_allowed_models t) level reasoning
       (rtq_reference_model_id q) = Inr cs"
    "select_model r p (rtq_availability_snapshot q) cs = (Some m, fb)"
    "dc_level c = level" "dc_caps c = tp_required_capabilities t" "dc_candidates c = cs"
    "dc_independence c = ind" "dc_reasoning c = Some reasoning"
    "dc_reason c = (if fb then ''VALIDATED_FALLBACK''
       else decision_reason (detect_triggers (rtq_evidence q)) level re)"
    "reasoning_for p level (tp_minimum_reasoning t) = Inr reasoning"
proof -
  obtain reasoning cs where
    "reasoning_for p level (tp_minimum_reasoning t) = Inr reasoning"
    "eligible_candidates r p ev (requirements_of t ind) (tp_allowed_models t) level reasoning
       (rtq_reference_model_id q) = Inr cs"
    "c = selected_content q t ind re level reasoning cs
       (select_model r p (rtq_availability_snapshot q) cs)"
    using assms(1) by (auto simp: route_at_level_def capability_requirements_def)
  then show thesis
    using that assms(2)
    by (cases "select_model r p (rtq_availability_snapshot q) cs")
      (auto simp: selected_content_def terminal_content_def split: option.splits)
qed

lemma route_content_chosen:
  assumes "route_content r p ev q = Inr c" "dc_chosen c = Some m"
  obtains prof t where "validate_request q = Inr ()" "profile_for_role p (rtq_role q) = Inr prof"
    "task_profile_of p q prof = Inr t"
    "route_level p q (tp_entry_level t) \<le> rt_max_automatic_level p"
    "route_at_level r p ev q t (independence_for q prof)
       (route_entry_level prof (rtq_risk_class q)) (route_level p q (tp_entry_level t)) = Inr c"
  using assms that
  by (auto simp: route_content_def Let_def terminal_content_def split: if_splits)

section \<open>Properties\<close>

text \<open>C15: A routing policy that the loader accepts is well-formed: its levels are complete and ordered,
  every default is below its ceiling, the tiers have no gap, every profile names known roles,
  capabilities and models, its reasoning floor is reachable at its entry level, and the evidence
  gate is not vacuous.\<close>

theorem loaded_policy_well_formed:
  assumes "default_policy E J file r = Inr p"
  shows "policy_wf p \<and> list_all (\<lambda>kv. policy_model_ok r (fst kv)) (rt_model_tiers p)"
  using assms
  by (auto simp: default_policy_def load_routing_policy_def validate_models_def parse_policy_wf
      split: option.splits)

text \<open>C14: With a loaded policy and a loaded registry the router answers every request, except that it
  reports an invalid request or a role without a profile by a \<open>RoutingError\<close>; it never raises an
  error of the registry, a \<open>KeyError\<close> or a \<open>ValueError\<close>.\<close>

theorem route_answers:
  assumes "parse_policy E J doc = Inr p" "from_payload E J ps ms version policy_version = Inr r"
  shows "case thenE (validate_request q) (\<lambda>_. profile_for_role p (rtq_role q)) of
      Inl e \<Rightarrow> route E J r p ev given clock q = Inl e \<and> e \<in> {policy_invalid, request_invalid}
    | Inr prof \<Rightarrow> \<exists>d. route E J r p ev given clock q = Inr d"
proof (cases "thenE (validate_request q) (\<lambda>_. profile_for_role p (rtq_role q))")
  case (Inl e)
  then have "route E J r p ev given clock q = Inl e"
    by (cases "validate_request q"; cases "profile_for_role p (rtq_role q)")
      (simp_all add: route_def route_content_def)
  moreover have "e \<in> {policy_invalid, request_invalid}"
    using Inl by (auto simp: thenE_def validate_request_def ensure_def profile_for_role_def
        split: sum.splits if_splits option.splits)
  ultimately show ?thesis using Inl by simp
next
  case (Inr prof)
  then obtain c where "route_content r p ev q = Inr c"
    using route_content_answers [OF parse_policy_wf [OF assms(1)] from_payload_wf [OF assms(2)]]
    by fastforce
  then show ?thesis using Inr by (simp add: route_def)
qed

lemma route_content_level:
  assumes p: "policy_wf p" and c: "route_content r p ev q = Inr c"
  obtains prof t where "profile_for_role p (rtq_role q) = Inr prof" "task_profile_of p q prof = Inr t"
    "dc_level c = route_level p q (tp_entry_level t)"
    "dc_chosen c = None \<or> dc_level c \<le> rt_max_automatic_level p"
proof -
  obtain prof t where prof: "profile_for_role p (rtq_role q) = Inr prof"
    and t: "task_profile_of p q prof = Inr t"
    using c by (auto simp: route_content_def Let_def)
  show thesis
  proof (cases "dc_chosen c")
    case None
    then have "dc_level c = route_level p q (tp_entry_level t)"
      using c prof t
      by (auto simp: route_content_def route_at_level_def selected_content_def terminal_content_def
          Let_def split: if_splits option.splits)
    then show thesis using that prof t None by blast
  next
    case (Some m)
    then obtain prof' t' where e: "profile_for_role p (rtq_role q) = Inr prof'"
      "task_profile_of p q prof' = Inr t'"
      "route_level p q (tp_entry_level t') \<le> rt_max_automatic_level p"
      "route_at_level r p ev q t' (independence_for q prof')
         (route_entry_level prof' (rtq_risk_class q)) (route_level p q (tp_entry_level t')) = Inr c"
      using route_content_chosen [OF c] by metis
    moreover have "dc_level c = route_level p q (tp_entry_level t')"
      using route_at_level_chosen [OF e(4) Some] by metis
    ultimately show thesis using that by simp
  qed
qed

lemma route_Inr:
  "route E J r p ev given clock q = Inr d \<longleftrightarrow> (\<exists>c. route_content r p ev q = Inr c \<and>
     d = build_decision E J r p ev q (if or_empty given = [] then clock else or_empty given) c)"
  by (auto simp: route_def)

lemma decision_fields [simp]:
  "ro_model (build_decision E J r p ev q n c) = map_option md_model_id (dc_chosen c)"
  "ro_provider (build_decision E J r p ev q n c) = map_option md_provider_id (dc_chosen c)"
  "ro_escalation_level (build_decision E J r p ev q n c) = dc_level c"
  "ro_reason_code (build_decision E J r p ev q n c) = dc_reason c"
  "ro_required_capabilities (build_decision E J r p ev q n c) = dc_caps c"
  "ro_independence_requirement (build_decision E J r p ev q n c) = Some (dc_independence c)"
  by (simp_all add: build_decision_def Let_def)


lemma detect_no_fallback: "''VALIDATED_FALLBACK'' \<notin> set (detect_triggers ev)"
  by (auto simp: detect_triggers_def split: if_splits)

lemma decision_reason_known:
  "decision_reason (detect_triggers ev) level base \<noteq> ''VALIDATED_FALLBACK''"
  using detect_no_fallback [of ev]
  by (auto simp: decision_reason_def REASON_PRIORITY_def NON_CAPABILITY_CODES_def
      split: if_splits option.splits)

lemma routed_model_facts:
  assumes "parse_policy E J doc = Inr p" "from_payload E J ps ms version policy_version = Inr r"
    and "route E J r p ev given clock q = Inr d" "ro_model d = Some mid"
  obtains m prof reqs allowed reasoning cs where
    "get_model r mid = Some m" "ro_provider d = Some (md_provider_id m)"
    "profile_for_role p (rtq_role q) = Inr prof" "set allowed \<subseteq> set (pp_allowed_models prof)"
    "rq_required_capabilities reqs = ro_required_capabilities d"
    "ro_independence_requirement d = Some (rq_independence_requirement reqs)"
    "passes_filters r p ev reqs allowed (ro_escalation_level d) (rtq_reference_model_id q) m"
    "rtq_role q = ''reviewer'' \<Longrightarrow>
       rtq_reference_model_id q \<noteq> None \<and> rtq_reference_model_id q \<noteq> Some mid"
    "eligible_candidates r p ev reqs allowed (ro_escalation_level d) reasoning
      (rtq_reference_model_id q) = Inr cs"
    "m \<in> set cs" "is_usable r (rtq_availability_snapshot q) m"
    "list_all (\<lambda>m'. is_usable r (rtq_availability_snapshot q) m' \<longrightarrow> rank_key p m \<le> rank_key p m') cs"
    "ro_reason_code d = ''VALIDATED_FALLBACK'' \<Longrightarrow> rt_fallback_enabled p \<and>
       list_ex (\<lambda>m'. \<not> is_usable r (rtq_availability_snapshot q) m' \<and>
         effective_availability r m' (rtq_availability_snapshot q) \<in> set (rt_fallback_trigger_states p) \<and>
         rank_key p m' \<le> rank_key p m) cs"
proof -
  have p: "policy_wf p" and r: "registry_wf r"
    using parse_policy_wf [OF assms(1)] from_payload_wf [OF assms(2)] .
  obtain c where c: "route_content r p ev q = Inr c" and d: "ro_escalation_level d = dc_level c"
    "ro_provider d = map_option md_provider_id (dc_chosen c)" "ro_reason_code d = dc_reason c"
    "ro_required_capabilities d = dc_caps c" "ro_independence_requirement d = Some (dc_independence c)"
    and "map_option md_model_id (dc_chosen c) = Some mid"
    using assms(3,4) by (auto simp: route_Inr)
  then obtain m where m: "dc_chosen c = Some m" "md_model_id m = mid" by auto
  obtain prof t where rc: "profile_for_role p (rtq_role q) = Inr prof" "task_profile_of p q prof = Inr t"
    "route_at_level r p ev q t (independence_for q prof)
       (route_entry_level prof (rtq_risk_class q)) (route_level p q (tp_entry_level t)) = Inr c"
    using route_content_chosen [OF c m(1)] by metis
  obtain cs fb reasoning where ch:
    "eligible_candidates r p ev (requirements_of t (independence_for q prof)) (tp_allowed_models t)
       (dc_level c) reasoning (rtq_reference_model_id q) = Inr cs"
    "select_model r p (rtq_availability_snapshot q) cs = (Some m, fb)"
    "dc_caps c = tp_required_capabilities t" "dc_independence c = independence_for q prof"
    "dc_reason c = ''VALIDATED_FALLBACK'' \<longrightarrow> fb"
    using route_at_level_chosen [OF rc(3) m(1)] decision_reason_known by metis
  note sel = select_model_first_usable [OF ch(2)]
  have f: "passes_filters r p ev (requirements_of t (independence_for q prof)) (tp_allowed_models t)
      (dc_level c) (rtq_reference_model_id q) m" and listed: "m \<in> set (list_models r)"
    using candidate_passes [OF ch(1)] sel p by (auto simp: policy_wf_def)
  have g: "get_model r mid = Some m"
    using listed_model [OF r listed] m(2) by simp
  have rev: "rtq_reference_model_id q \<noteq> None \<and> rtq_reference_model_id q \<noteq> Some mid"
    if "rtq_role q = ''reviewer''"
    using that f g m(2) by (auto simp: passes_filters_def route_independence_ok_def requirements_of_def
        independence_for_def Let_def split: option.splits)
  have "set (tp_allowed_models t) \<subseteq> set (pp_allowed_models prof)"
    using task_profile_known [OF p rc(1)] rc(2) by auto
  then show thesis
    using that [where m = m and prof = prof and reqs = "requirements_of t (independence_for q prof)" and
        allowed = "tp_allowed_models t" and reasoning = reasoning and cs = cs]
      g rc(1) f rev ch sel select_model_fallback [of r p "rtq_availability_snapshot q" cs m]
    unfolding d m(1) by (auto simp: requirements_of_def)
qed


section \<open>The core accepts what the router decides\<close>

text \<open>What is assumed of the JSON codec: reading back an encoded object gives the text, number,
  \<open>null\<close> and list-of-text fields it had.\<close>

definition plain_field :: "py \<Rightarrow> bool" where
  "plain_field v \<longleftrightarrow> (case v of PDict _ \<Rightarrow> False | PFloat _ \<Rightarrow> False
     | PList xs \<Rightarrow> list_all (\<lambda>x. case x of PStr _ \<Rightarrow> True | _ \<Rightarrow> False) xs | _ \<Rightarrow> True)"

definition json_faithful :: "env \<Rightarrow> codec \<Rightarrow> bool" where
  "json_faithful E J \<longleftrightarrow> (\<forall>kvs. distinct (map fst kvs) \<longrightarrow>
     (case env_loads E (co_compact J (PDict kvs)) of
        Some (PDict kvs') \<Rightarrow> \<forall>k. plain_field (py_get kvs k) \<longrightarrow> py_get kvs' k = py_get kvs k
      | _ \<Rightarrow> False))"

lemma plain_field_simps [simp]:
  "plain_field PNone" "plain_field (PStr s)" "plain_field (PInt i)" "plain_field (py_opt_str x)"
  "plain_field (strings xs)"
  by (auto simp: plain_field_def py_opt_str_def strings_def list_all_iff split: option.splits)

lemma usable_default:
  assumes "is_usable r sn m"
  shows "\<exists>pd. get_provider r (md_provider_id m) = Some pd \<and>
    pd_availability_state pd \<in> {''AVAILABLE'', ''DEGRADED''}"
proof -
  have w: "a \<in> {''AVAILABLE'', ''DEGRADED''}"
    if "worse_availability a b \<in> {''AVAILABLE'', ''DEGRADED''}" for a b
    using that by (auto simp: worse_availability_def availability_rank_def split: if_splits)
  define registry_default where "registry_default = (case get_provider r (md_provider_id m) of
      Some pd \<Rightarrow> pd_availability_state pd | None \<Rightarrow> ''UNKNOWN'')"
  have "effective_availability r m sn = registry_default \<or>
      (\<exists>st. effective_availability r m sn = worse_availability registry_default st)"
    unfolding effective_availability_def Let_def registry_default_def [symmetric]
    by (auto split: option.split)
  then have "registry_default \<in> {''AVAILABLE'', ''DEGRADED''}"
    using assms w unfolding is_usable_def by metis
  then show ?thesis
    by (cases "get_provider r (md_provider_id m)") (simp_all add: registry_default_def)
qed

lemma identity_view_accepts:
  assumes "get_model r mid = Some m" "model_registry_enabled r m" "is_usable r sn m"
  shows "\<exists>e. validate_identity (identity_view r) (Some (md_provider_id m)) (Some mid) = Inr e"
proof -
  obtain pd where pd: "get_provider r (md_provider_id m) = Some pd"
    "pd_availability_state pd \<in> {''AVAILABLE'', ''DEGRADED''}"
    using usable_default [OF assms(3)] by blast
  have "map_of (mr_providers (identity_view r)) (md_provider_id m) =
      Some \<lparr>pe_enabled = pd_enabled pd, pe_availability_state = pd_availability_state pd\<rparr>"
    using pd(1) by (simp add: identity_view_def get_provider_def map_of_map)
  moreover have "map_of (mr_models (identity_view r)) mid = Some \<lparr>me_provider_id = md_provider_id m,
      me_enabled = md_enabled m, me_lifecycle_state = md_lifecycle_state m\<rparr>"
    using assms(1) by (simp add: identity_view_def get_model_def map_of_map)
  moreover have "pd_enabled pd" "md_enabled m" "md_lifecycle_state m = ''ACTIVE''"
    using assms(2) pd(1) by (simp_all add: model_registry_enabled_def)
  ultimately show ?thesis
    using pd(2) by (simp add: validate_identity_def)
qed

lemma detect_known: "set (detect_triggers ev) \<subseteq> set ROUTING_REASON_CODES"
  by (auto simp: detect_triggers_def ROUTING_REASON_CODES_def split: if_splits)

lemma decision_reason_code: "decision_reason trs level base \<in> set ROUTING_REASON_CODES"
  by (auto simp: decision_reason_def REASON_PRIORITY_def NON_CAPABILITY_CODES_def
      ROUTING_REASON_CODES_def split: if_splits option.splits)

lemma route_content_reason:
  assumes "route_content r p ev q = Inr c" shows "dc_reason c \<in> set ROUTING_REASON_CODES"
proof -
  have t: "''OWNER_GATE'' \<in> set ROUTING_REASON_CODES" "''NO_VALID_FALLBACK'' \<in> set ROUTING_REASON_CODES"
    "''NO_ELIGIBLE_CANDIDATE'' \<in> set ROUTING_REASON_CODES" "''VALIDATED_FALLBACK'' \<in> set ROUTING_REASON_CODES"
    by (simp_all add: ROUTING_REASON_CODES_def)
  show ?thesis
  proof (cases "dc_chosen c")
    case None
    then have "dc_reason c \<in> {''OWNER_GATE'', ''NO_VALID_FALLBACK'', ''NO_ELIGIBLE_CANDIDATE''}"
      using assms by (auto simp: route_content_def route_at_level_def selected_content_def
          terminal_content_def Let_def split: if_splits option.splits)
    then show ?thesis using t by auto
  next
    case (Some m)
    obtain t' ind re level where "route_at_level r p ev q t' ind re level = Inr c"
      using route_content_chosen [OF assms Some] by metis
    from route_at_level_chosen [OF this Some] show ?thesis
      using t decision_reason_code by metis
  qed
qed

lemma json_faithfulD:
  assumes "json_faithful E J" "distinct (map fst kvs)"
  shows "\<exists>kvs'. env_loads E (co_compact J (PDict kvs)) = Some (PDict kvs') \<and>
    (\<forall>k. plain_field (py_get kvs k) \<longrightarrow> py_get kvs' k = py_get kvs k)"
proof -
  have "case env_loads E (co_compact J (PDict kvs)) of
      Some (PDict kvs') \<Rightarrow> \<forall>k. plain_field (py_get kvs k) \<longrightarrow> py_get kvs' k = py_get kvs k
    | _ \<Rightarrow> False"
    using assms by (simp add: json_faithful_def)
  then show ?thesis
    by (auto split: option.splits py.splits)
qed

lemma canonical_matches_read:
  assumes "canonical_matches kvs d" "plain_field (py_get kvs ''escalation_level'')"
    and "\<forall>k. plain_field (py_get kvs k) \<longrightarrow> py_get kvs' k = py_get kvs k"
  shows "canonical_matches kvs' d"
  using assms by (simp add: canonical_matches_def)

lemma build_decision_matches:
  "canonical_matches (canonical_object r p ev q c (ro_inputs_hash (build_decision E J r p ev q n c)))
     (routing_decision.truncate (build_decision E J r p ev q n c))"
  by (simp add: canonical_matches_def routing_decision.truncate_def build_decision_def Let_def
      canonical_object_def py_get_def py_opt_str_def py_eq_int_def)

lemma build_decision_valid:
  assumes j: "json_faithful E J" and sha: "\<And>x. is_sha256_hex (env_sha256 E x)"
    and h: "is_sha256_hex (rt_content_hash p)" "is_sha256_hex (rg_content_hash r)"
      "is_sha256_hex (evr_content_hash ev)" "rg_version r = ''1''" "evr_version ev = ''1''"
    and c: "dc_reason c \<in> set ROUTING_REASON_CODES" "0 \<le> dc_level c" "dc_level c \<le> 4"
    and q: "rtq_role q = role_value ro"
  shows "validate_routing_decision E (routing_decision.truncate (build_decision E J r p ev q n c))
    (rtq_task_id q) ro"
proof -
  let ?d = "build_decision E J r p ev q n c"
  define kvs where "kvs = canonical_object r p ev q c (ro_inputs_hash ?d)"
  have k: "distinct (map fst kvs)" "plain_field (py_get kvs ''escalation_level'')"
    by (simp_all add: kvs_def canonical_object_def py_get_def)
  obtain kvs' where l: "env_loads E (co_compact J (PDict kvs)) = Some (PDict kvs')"
    "\<forall>k. plain_field (py_get kvs k) \<longrightarrow> py_get kvs' k = py_get kvs k"
    using json_faithfulD [OF j k(1)] by blast
  have "canonical_matches kvs' (routing_decision.truncate ?d)"
    using canonical_matches_read [OF _ k(2) l(2)] build_decision_matches kvs_def by metis
  moreover have "ro_canonical_json (routing_decision.truncate ?d) = co_compact J (PDict kvs)"
    by (simp add: kvs_def routing_decision.truncate_def build_decision_def Let_def)
  ultimately show ?thesis
    using l(1) sha h c q
    by (simp add: validate_routing_decision_def routing_decision.truncate_def build_decision_def
        Let_def ROUTING_POLICY_VERSION_def)
qed

text \<open>C12: The core accepts what the router decides: the decision passes the validation of
  \<open>Core.create_dispatch\<close>, and the identity of a decision that is not terminal passes the identity
  check of the registry it was made from.\<close>

theorem routed_identity_accepted:
  assumes "json_faithful E J" "\<And>x. is_sha256_hex (env_sha256 E x)"
    and "parse_policy E J doc = Inr p" "from_payload E J ps ms version policy_version = Inr r"
    and "evidence_from_payload E J evs ev_version = Inr ev"
    and "route E J r p ev given clock q = Inr d" "rtq_role q = role_value ro"
  shows "validate_routing_decision E (routing_decision.truncate d) (rtq_task_id q) ro \<and>
    (is_terminal_decision d \<or>
     (\<exists>e. validate_identity (identity_view r) (ro_provider d) (ro_model d) = Inr e))"
proof
  obtain c n where c: "route_content r p ev q = Inr c" and d: "d = build_decision E J r p ev q n c"
    using assms(6) by (auto simp: route_Inr)
  have p: "policy_wf p" using parse_policy_wf [OF assms(3)] .
  obtain t :: task_profile where "dc_level c = route_level p q (tp_entry_level t)"
    by (rule route_content_level [OF p c]) blast
  then have l: "0 \<le> dc_level c" "dc_level c \<le> 4"
    using route_level_bounds [OF p, where q = q and base = "tp_entry_level t"] p
    by (auto simp: policy_wf_def)
  have h: "is_sha256_hex (rt_content_hash p)" "is_sha256_hex (rg_content_hash r)"
    "is_sha256_hex (evr_content_hash ev)"
    using assms(2-5)
    by (auto simp: parse_policy_def from_payload_def new_registry_def registry_content_hash_def
        evidence_from_payload_def evidence_content_hash_def Let_def split: prod.splits)
  have v: "rg_version r = ''1''" "evr_version ev = ''1''"
    using assms(4,5) from_payload_wf [OF assms(4)]
    by (auto simp: registry_wf_def REGISTRY_VERSION_def evidence_from_payload_def EVIDENCE_REGISTRY_VERSION_def)
  show "validate_routing_decision E (routing_decision.truncate d) (rtq_task_id q) ro"
    unfolding d
    by (rule build_decision_valid [OF assms(1,2) h v route_content_reason [OF c] l assms(7)])
  show "is_terminal_decision d \<or>
     (\<exists>e. validate_identity (identity_view r) (ro_provider d) (ro_model d) = Inr e)"
  proof (cases "ro_model d")
    case None
    then show ?thesis by (simp add: is_terminal_decision_def)
  next
    case (Some mid)
    obtain m where "get_model r mid = Some m" "ro_provider d = Some (md_provider_id m)"
      "model_registry_enabled r m" "is_usable r (rtq_availability_snapshot q) m"
      by (rule routed_model_facts [OF assms(3,4,6) Some]) (simp add: passes_filters_def)
    then show ?thesis
      using identity_view_accepts Some by simp
  qed
qed

end
