(* ===== verification/Router_Demo.thy ===== *)
theory Router_Demo
  imports Router_Safety "HOL-Library.Countable"
begin

text \<open>
  A small policy with two levels and two models, loaded from JSON by the code's own loaders, and the
  concrete instances of the router's properties on it: a reviewer who gets the other model, an
  implementer whose first model is unavailable, a request that ends at the owner.
\<close>

section \<open>Documents\<close>

definition demo_router_env :: env where
  "demo_router_env = \<lparr>env_clock = (\<lambda>n. 0), env_uuid = (\<lambda>n. ''u''),
     env_sha256 = (\<lambda>s. replicate 64 CHR ''a''), env_dumps = (\<lambda>v. []), env_loads = (\<lambda>s. None),
     env_str = (\<lambda>v. []), env_sql_text = (\<lambda>v. []),
     env_registry = \<lparr>mr_providers = [], mr_models = []\<rparr>\<rparr>"

definition demo_codec :: codec where
  "demo_codec = \<lparr>co_compact = (\<lambda>v. []), co_urlparse = (\<lambda>s. None)\<rparr>"

definition provider_doc :: "string \<Rightarrow> string \<Rightarrow> py" where
  "provider_doc pid kind = PDict [(''provider_id'', PStr pid), (''provider_type'', PStr kind),
     (''display_name'', PStr ''Demo''), (''enabled'', PBool True),
     (''availability_state'', PStr ''AVAILABLE''),
     (''capabilities_supported'', strings [''CODE_IMPLEMENTATION'', ''CODE_REVIEW'']),
     (''credential_ref'', PStr ''auth:demo'')]"

definition model_doc :: "string \<Rightarrow> string \<Rightarrow> string list \<Rightarrow> py" where
  "model_doc mid pid tags = PDict [(''model_id'', PStr mid), (''provider_id'', PStr pid),
     (''canonical_model_name'', PStr mid), (''enabled'', PBool True),
     (''lifecycle_state'', PStr ''ACTIVE''),
     (''reasoning_levels_supported'', strings [''MEDIUM'', ''HIGH'']),
     (''capability_tags'', strings tags), (''cost_class'', PStr ''LOW'')]"

definition demo_providers :: py where
  "demo_providers = PList [provider_doc ''alpha'' ''oauth-plugin'', provider_doc ''beta'' ''openai-completions'']"

definition demo_models :: py where
  "demo_models = PList [model_doc ''small'' ''alpha'' [''CODE_IMPLEMENTATION''],
     model_doc ''large'' ''beta'' [''CODE_IMPLEMENTATION'', ''CODE_REVIEW'']]"

definition evidence_doc :: "string \<Rightarrow> string list \<Rightarrow> py" where
  "evidence_doc mid cats = PDict [(''model_id'', PStr mid),
     (''categories'', PDict (map (\<lambda>c. (c, PDict [(''status'', PStr ''PROVISIONAL''),
        (''evidence_ref'', PStr ''docs-demo''), (''version'', PStr ''1'')])) cats))]"

definition demo_evidence :: py where
  "demo_evidence = PList [evidence_doc ''small'' [''repository_coding''],
     evidence_doc ''large'' [''repository_coding'', ''security_review'']]"

definition profile_doc :: "string \<Rightarrow> string \<Rightarrow> string list \<Rightarrow> py" where
  "profile_doc r cap models = PDict [(''roles'', strings [r]), (''required_capabilities'', strings [cap]),
     (''minimum_reasoning_level'', PStr ''MEDIUM''), (''entry_level'', PInt 0),
     (''allowed_models'', strings models)]"

definition levels_doc :: "py \<Rightarrow> py \<Rightarrow> py" where
  "levels_doc a b = PDict [(''0'', a), (''1'', b)]"

definition demo_policy_doc :: py where
  "demo_policy_doc = PDict [(''policy_version'', PStr ''2''), (''bootstrap'', PBool True),
     (''escalation'', PDict [(''max_automatic_level'', PInt 1), (''owner_level'', PInt 2),
        (''level_names'', PDict [(''0'', PStr ''ROUTINE''), (''1'', PStr ''DEEP''), (''2'', PStr ''OWNER'')])]),
     (''reasoning'', PDict [(''level_defaults'', levels_doc (PStr ''MEDIUM'') (PStr ''HIGH'')),
        (''level_ceilings'', levels_doc (PStr ''MEDIUM'') (PStr ''HIGH''))]),
     (''level_min_tiers'', levels_doc (PInt 0) (PInt 1)),
     (''model_tiers'', PDict [(''small'', PInt 0), (''large'', PInt 1)]),
     (''profiles'', PDict [
        (''implementer'', profile_doc ''implementer'' ''CODE_IMPLEMENTATION'' [''small'', ''large'']),
        (''reviewer'', profile_doc ''reviewer'' ''CODE_REVIEW'' [''large''])]),
     (''cost_order'', strings [''LOW'', ''HIGH'']), (''latency_order'', strings [''LOW'']),
     (''fallback'', PDict [(''enabled'', PBool True)])]"

section \<open>What the loaders make of them\<close>

definition demo_descriptor :: "string \<Rightarrow> string \<Rightarrow> provider_descriptor" where
  "demo_descriptor pid kind = \<lparr>pd_provider_id = pid, pd_provider_type = kind,
     pd_display_name = ''Demo'', pd_enabled = True, pd_availability_state = ''AVAILABLE'',
     pd_capabilities_supported = [''CODE_IMPLEMENTATION'', ''CODE_REVIEW''],
     pd_credential_ref = Some ''auth:demo'', pd_auth_mode = None, pd_endpoint_ref = None,
     pd_profile_ref = None, pd_policy_version = ''1''\<rparr>"

definition demo_model :: "string \<Rightarrow> string \<Rightarrow> string list \<Rightarrow> model_descriptor" where
  "demo_model mid pid tags = \<lparr>md_model_id = mid, md_provider_id = pid,
     md_canonical_model_name = mid, md_enabled = True, md_lifecycle_state = ''ACTIVE'',
     md_context_window = None, md_output_limit = None, md_reasoning_levels = [''MEDIUM'', ''HIGH''],
     md_tool_capabilities = [], md_abilities = \<lparr>mab_vision = None, mab_coding = None, mab_review = None\<rparr>,
     md_latency_class = ''UNKNOWN'', md_cost_class = ''LOW'', md_reliability_class = ''UNKNOWN'',
     md_capability_tags = tags, md_policy_version = ''1'',
     md_provenance = \<lparr>cp_source = [], cp_benchmarked = False\<rparr>\<rparr>"

definition demo_registry :: registry where
  "demo_registry = \<lparr>rg_version = ''1'',
     rg_providers = [(''alpha'', demo_descriptor ''alpha'' ''oauth-plugin''),
                     (''beta'', demo_descriptor ''beta'' ''openai-completions'')],
     rg_models = [(''small'', demo_model ''small'' ''alpha'' [''CODE_IMPLEMENTATION'']),
                  (''large'', demo_model ''large'' ''beta'' [''CODE_IMPLEMENTATION'', ''CODE_REVIEW''])],
     rg_content_hash = replicate 64 CHR ''a''\<rparr>"

definition demo_profile :: "string \<Rightarrow> string \<Rightarrow> string list \<Rightarrow> policy_profile" where
  "demo_profile r cap models = \<lparr>pp_roles = [r], pp_required_capabilities = [cap],
     pp_minimum_reasoning_level = ''MEDIUM'', pp_entry_level = 0, pp_low_risk_entry_level = None,
     pp_allowed_models = models, pp_independence = None\<rparr>"

definition demo_policy :: routing_policy where
  "demo_policy = \<lparr>rt_reasoning_defaults = [(0, ''MEDIUM''), (1, ''HIGH'')],
     rt_reasoning_ceilings = [(0, ''MEDIUM''), (1, ''HIGH'')],
     rt_level_min_tiers = [(0, 0), (1, 1)], rt_model_tiers = [(''small'', 0), (''large'', 1)],
     rt_profiles = [
       (''implementer'', demo_profile ''implementer'' ''CODE_IMPLEMENTATION'' [''small'', ''large'']),
       (''reviewer'', demo_profile ''reviewer'' ''CODE_REVIEW'' [''large''])],
     rt_escalation_profiles = [], rt_cost_order = [''LOW'', ''HIGH''], rt_latency_order = [''LOW''],
     rt_evidence_minimum_status = ''PROVISIONAL'', rt_fallback_enabled = True,
     rt_fallback_trigger_states = [''UNAVAILABLE''], rt_allow_rate_limit_fallback = False,
     rt_bootstrap = True, rt_benchmark_required = True, rt_max_automatic_level = 1,
     rt_owner_level = 2, rt_content_hash = replicate 64 CHR ''a''\<rparr>"

definition demo_entry :: "string \<Rightarrow> string \<Rightarrow> (string \<times> string) \<times> evidence_entry" where
  "demo_entry mid cat = ((mid, cat), \<lparr>ee_model_id = mid, ee_category = cat,
     ee_status = ''PROVISIONAL'', ee_evidence_ref = ''docs-demo'', ee_version = ''1'',
     ee_benchmarked = False\<rparr>)"

definition demo_evidence_registry :: evidence_registry where
  "demo_evidence_registry = \<lparr>evr_version = ''1'',
     evr_entries = [demo_entry ''small'' ''repository_coding'', demo_entry ''large'' ''repository_coding'',
       demo_entry ''large'' ''security_review''],
     evr_content_hash = replicate 64 CHR ''a''\<rparr>"

lemma demo_registry_loads:
  "from_payload demo_router_env demo_codec demo_providers demo_models ''1'' ''1'' = Inr demo_registry"
  by code_simp

lemma demo_policy_loads:
  "default_policy demo_router_env demo_codec (Some demo_policy_doc) demo_registry = Inr demo_policy"
  by code_simp

lemma demo_evidence_loads:
  "evidence_from_payload demo_router_env demo_codec demo_evidence ''1'' = Inr demo_evidence_registry"
  by code_simp

lemma demo_policy_parses:
  "parse_policy demo_router_env demo_codec demo_policy_doc = Inr demo_policy"
  using demo_policy_loads by (auto simp: default_policy_def load_routing_policy_def)

section \<open>Requests\<close>

definition demo_attempts :: routing_evidence where
  "demo_attempts = \<lparr>re_prior_attempts = [], re_test_results = [], re_reviewer_verdicts = [],
     re_open_findings_count = 0, re_confirmed_finding = False, re_security_relevant = False,
     re_concurrency_relevant = False\<rparr>"

definition demo_request :: "role \<Rightarrow> string option \<Rightarrow> availability_snapshot option \<Rightarrow> routing_request" where
  "demo_request r reference snapshot = \<lparr>rtq_job_id = ''j'', rtq_task_id = ''t'',
     rtq_role = role_value r, rtq_risk_class = ''NORMAL'', rtq_dispatch_id = None,
     rtq_reference_model_id = reference, rtq_independence_requirement = None,
     rtq_evidence = demo_attempts, rtq_current_escalation_level = 0, rtq_policy_version = ''2'',
     rtq_availability_snapshot = snapshot\<rparr>"


definition chosen_of :: "policy_error + decision_content \<Rightarrow> (string option \<times> int \<times> string) option" where
  "chosen_of x = (case x of Inl _ \<Rightarrow> None
     | Inr c \<Rightarrow> Some (map_option md_model_id (dc_chosen c), dc_level c, dc_reason c))"

lemma demo_reviewer:
  "chosen_of (route_content demo_registry demo_policy demo_evidence_registry
     (demo_request REVIEWER (Some ''small'') None)) = Some (Some ''large'', 0, ''MINIMUM_SUFFICIENT'')"
  by code_simp



lemma chosen_of_Some:
  assumes "chosen_of (route_content r p ev q) = Some (mid, l, reason)"
  shows "\<exists>d. route E J r p ev given clock q = Inr d \<and> ro_model d = mid \<and>
    ro_escalation_level d = l \<and> ro_reason_code d = reason"
  using assms by (auto simp: chosen_of_def route_def split: sum.splits)

section \<open>Instances of the properties\<close>

theorem loaded_policy_well_formed_witness:
  "default_policy demo_router_env demo_codec (Some demo_policy_doc) demo_registry = Inr demo_policy \<and>
   policy_wf demo_policy"
  using demo_policy_loads loaded_policy_well_formed [OF demo_policy_loads] by blast

theorem route_answers_witness:
  "\<exists>d. route demo_router_env demo_codec demo_registry demo_policy demo_evidence_registry None ''now''
     (demo_request REVIEWER (Some ''small'') None) = Inr d"
proof -
  have "thenE (validate_request (demo_request REVIEWER (Some ''small'') None))
      (\<lambda>_. profile_for_role demo_policy (rtq_role (demo_request REVIEWER (Some ''small'') None))) =
    Inr (demo_profile ''reviewer'' ''CODE_REVIEW'' [''large''])"
    by code_simp
  then show ?thesis
    using route_answers [OF demo_policy_parses demo_registry_loads,
        where q = "demo_request REVIEWER (Some ''small'') None" and ev = demo_evidence_registry and
          given = None and clock = "''now''"]
    by (simp only: sum.case)
qed



text \<open>A codec that reads back what it wrote, by numbering the JSON values.\<close>

instance py_float :: countable
  by countable_datatype

instance py :: countable
  by countable_datatype

definition counted_codec :: codec where
  "counted_codec = \<lparr>co_compact = (\<lambda>v. replicate (to_nat v) CHR ''x''), co_urlparse = (\<lambda>s. None)\<rparr>"

definition counted_env :: env where
  "counted_env = demo_router_env\<lparr>env_loads := (\<lambda>s. Some (from_nat (length s)))\<rparr>"

lemma counted_faithful: "json_faithful counted_env counted_codec"
  by (simp add: json_faithful_def counted_env_def counted_codec_def)

lemma counted_sha: "env_sha256 counted_env x = replicate 64 CHR ''a''"
  by (simp add: counted_env_def demo_router_env_def)

lemma demo_sha: "env_sha256 demo_router_env x = replicate 64 CHR ''a''"
  by (simp add: demo_router_env_def)

lemma counted_parse_provider: "parse_provider counted_codec pv = parse_provider demo_codec pv"
proof -
  have "require_endpoint_ref counted_codec v = require_endpoint_ref demo_codec v" for v
    by (cases v) (simp_all add: require_endpoint_ref_def counted_codec_def demo_codec_def)
  then show ?thesis by (intro ext) (simp add: parse_provider_def)
qed

lemma counted_loads:
  "from_payload counted_env counted_codec demo_providers demo_models ''1'' ''1'' = Inr demo_registry"
  "parse_policy counted_env counted_codec demo_policy_doc = Inr demo_policy"
  "evidence_from_payload counted_env counted_codec demo_evidence ''1'' = Inr demo_evidence_registry"
  using demo_registry_loads demo_policy_parses demo_evidence_loads
  by (simp_all add: from_payload_def registry_content_hash_def parse_policy_def
      evidence_from_payload_def evidence_content_hash_def counted_parse_provider counted_sha demo_sha)

theorem routed_identity_accepted_witness:
  "\<exists>d e. route counted_env counted_codec demo_registry demo_policy demo_evidence_registry None ''now''
     (demo_request REVIEWER (Some ''small'') None) = Inr d \<and> \<not> is_terminal_decision d \<and>
   validate_routing_decision counted_env (routing_decision.truncate d) ''t'' REVIEWER \<and>
   validate_identity (identity_view demo_registry) (ro_provider d) (ro_model d) = Inr e"
proof -
  let ?q = "demo_request REVIEWER (Some ''small'') None"
  obtain d where d: "route counted_env counted_codec demo_registry demo_policy demo_evidence_registry
      None ''now'' ?q = Inr d"
    "ro_model d = Some ''large''" "ro_escalation_level d = 0" "ro_reason_code d = ''MINIMUM_SUFFICIENT''"
    using chosen_of_Some [OF demo_reviewer] by blast
  have hex: "is_sha256_hex (env_sha256 counted_env x)" for x
    unfolding counted_sha by code_simp
  have "ro_provider d \<noteq> None"
    using d(1,2) by (auto simp: route_Inr)
  then have n: "\<not> is_terminal_decision d"
    using d(2-4) by (simp add: is_terminal_decision_def LEVEL_OWNER_def TERMINAL_REASON_CODES_def)
  have q: "rtq_role ?q = role_value REVIEWER" "rtq_task_id ?q = ''t''"
    by (simp_all add: demo_request_def)
  show ?thesis
    using routed_identity_accepted [OF counted_faithful hex counted_loads(2,1,3) d(1) q(1)] d(1) n
    unfolding q(2) by blast
qed

section \<open>Edge cases\<close>

text \<open>An identifier may end in a line feed: the pattern ends in \<open>$\<close>.\<close>

lemma identifier_with_line_feed:
  "require_id (PStr (''small'' @ [CHR 0x0A])) = Inr (''small'' @ [CHR 0x0A])"
  by code_simp

text \<open>A URL that the parser refuses raises its error through the loader.\<close>

lemma endpoint_raises_value_error:
  "require_endpoint_ref demo_codec (PStr ''http://['') = Inl RawValueError"
  by code_simp

text \<open>Without a reference model the router drops a candidate that the registry keeps.\<close>

lemma preferred_independence_differs:
  assumes "rq_independence_requirement q = ''DIFFERENT_PROVIDER_PREFERRED''"
  shows "registry_independence_ok m None q \<and> \<not> route_independence_ok m None q"
  using assms by (simp add: registry_independence_ok_def route_independence_ok_def)

text \<open>The stronger requirement of a reviewer's request is replaced by the weaker one.\<close>

lemma reviewer_provider_requirement_dropped:
  assumes "rtq_role q = ''reviewer''" "rtq_independence_requirement q = Some ''DIFFERENT_PROVIDER_REQUIRED''"
  shows "independence_for q prof = ''DIFFERENT_MODEL_REQUIRED''"
  using assms by (simp add: independence_for_def)

text \<open>A level whose ceiling is below the floor of the profile clamps the reasoning level.\<close>

lemma reasoning_below_floor:
  "reasoning_for (demo_policy\<lparr>rt_reasoning_defaults := [(0, ''LOW'')], rt_reasoning_ceilings := [(0, ''LOW'')]\<rparr>)
     0 ''HIGH'' = Inr ''LOW''"
  by code_simp

end
