(* ===== verification/Core_Orchestration.thy ===== *)
theory Core_Orchestration
  imports Core_Dispatch
begin

text \<open>
  The public orchestration commands of \<open>core.py\<close> and \<open>recover()\<close>.  \<open>bind_spawn_result\<close> and
  \<open>receive_agent_result\<close> run their own idempotency inside one transaction; the former raises
  its policy violation after the commit that rejected the dispatch.
\<close>

section \<open>Creating a dispatch\<close>

record model_choice =
  mc_provider :: "string option"
  mc_model :: "string option"
  mc_thinking_tier :: "string option"

definition model_choice_py :: "model_choice option \<Rightarrow> py" where
  "model_choice_py mc = (case mc of
     None \<Rightarrow> PNone
   | Some c \<Rightarrow> PDict [(''provider'', py_opt_str (mc_provider c)), (''model'', py_opt_str (mc_model c)),
       (''thinking_tier'', py_opt_str (mc_thinking_tier c))])"

definition role_violation :: "env \<Rightarrow> string \<Rightarrow> role \<Rightarrow> string \<Rightarrow> 'a cact" where
  "role_violation E task_id r reason =
     andThen (emit E ''policy.role_violation'' (Some task_id) (Some (role_value r)) None
       [(''reason'', PStr reason)]) (raise RolePolicyViolation)"

definition routing_row ::
  "env \<Rightarrow> routing_decision \<Rightarrow> timestamp \<Rightarrow> routing_decision_row" where
  "routing_row E ro now = \<lparr>rd_decision_id = ro_decision_id ro, rd_job_id = ro_job_id ro,
     rd_provider = ro_provider ro, rd_model = ro_model ro,
     rd_reasoning_level = ro_reasoning_level ro, rd_escalation_level = ro_escalation_level ro,
     rd_reason_code = ro_reason_code ro, rd_policy_version = ro_policy_version ro,
     rd_requirements_hash = ro_requirements_hash ro,
     rd_evidence_refs_json = env_dumps E (strings (ro_evidence_refs ro)),
     rd_sha256 = ro_sha256 ro, rd_registry_version = ro_registry_version ro,
     rd_evidence_version = ro_evidence_version ro, rd_policy_hash = ro_policy_hash ro,
     rd_registry_hash = ro_registry_hash ro, rd_evidence_hash = ro_evidence_hash ro,
     rd_inputs_hash = ro_inputs_hash ro, rd_created_at = now\<rparr>"

definition record_routing :: "env \<Rightarrow> routing_decision option \<Rightarrow> unit cact" where
  "record_routing E rdec = (case rdec of
     None \<Rightarrow> ret ()
   | Some ro \<Rightarrow> bindA (now_iso E) (\<lambda>now. insert_routing_decision (routing_row E ro now)))"

definition create_dispatch_work ::
  "env \<Rightarrow> string \<Rightarrow> string \<Rightarrow> role \<Rightarrow> int \<Rightarrow> int \<Rightarrow> sequence_kind \<Rightarrow>
   string option \<times> string option \<times> string option \<Rightarrow> string option \<Rightarrow> routing_decision option \<Rightarrow>
   (entity \<times> string) cact" where
  "create_dispatch_work E task_id task_run_id r position cycle_no kind identity parent rdec =
     fetch (get_task task_id) NotFound (\<lambda>task.
     look (role_actor_ok task_id r) (\<lambda>ok.
     require ok PermissionDenied
     (require (\<not> (t_state task \<in> TERMINAL_STATES \<or> t_state task \<in> PAUSE_STATES)) InvalidTransition
     (look (workflow_frontier E task_id) (\<lambda>fr.
      require (wf_expected_role fr = Some r) RoleConflict
     (require (cycle_no = wf_cycle_no fr \<and> position = wf_position fr \<and> kind = wf_sequence_kind fr)
        DispatchError
     (look (list_dispatches task_id) (\<lambda>ds.
      require (\<not> (\<exists>d \<in> set ds. dispatch_active d)) DispatchError
     (fetch (get_task_run task_run_id) DispatchError (\<lambda>tr.
      require (tr_task_id tr = task_id) DispatchError
     (look (\<lambda>s. case parent of None \<Rightarrow> True | Some p \<Rightarrow> get_dispatch p s \<noteq> None) (\<lambda>parent_ok.
      require parent_ok DispatchError
     (look (get_latest_handoff task_id) (\<lambda>latest.
      liftR (validate_identity (env_registry E) (fst identity) (fst (snd identity))) (\<lambda>_.
      andThen (record_routing E rdec)
     (bindA (new_uuid E) (\<lambda>did.
      bindA (now_iso E) (\<lambda>now.
      fetch (\<lambda>_. fst identity) IntegrityError (\<lambda>provider.
      fetch (\<lambda>_. fst (snd identity)) IntegrityError (\<lambda>model.
      fetch (\<lambda>_. snd (snd identity)) IntegrityError (\<lambda>thinking.
      let d = \<lparr>d_id = did, d_task_id = task_id, d_task_run_id = task_run_id, d_role = r,
               d_parent_dispatch_id = parent, d_expected_agent_class = provider,
               d_expected_model_class = model, d_expected_thinking_tier = thinking,
               d_child_session_id = None, d_openclaw_run_id = None, d_actual_provider = None,
               d_actual_model = None, d_thinking_tier = None, d_status = DS_PENDING,
               d_cycle_no = cycle_no, d_position = position, d_sequence_kind = kind,
               d_attempt_no = int (length (filter
                  (\<lambda>d. d_cycle_no d = cycle_no \<and> d_position d = position) ds)) + 1,
               d_handoff_id = map_option h_id latest, d_result = None, d_created_at = now,
               d_started_at = None, d_consumed_at = None,
               d_routing_decision_id = map_option ro_decision_id rdec,
               d_escalation_level = (case rdec of None \<Rightarrow> 0 | Some ro \<Rightarrow> ro_escalation_level ro),
               d_routing_reason_code = map_option ro_reason_code rdec,
               d_attempt_outcome = None\<rparr> in
      andThen (insert_dispatch d)
     (andThen (emit E ''agent.dispatch_created'' (Some task_id) (Some (role_value r)) None
        [(''dispatch_id'', PStr did), (''position'', PInt position), (''cycle_no'', PInt cycle_no)])
     (andThen (emit E ''handoff.expected'' (Some task_id) (Some (role_value r)) None
        [(''dispatch_id'', PStr did)])
     (ret (E_dispatch d, did)))))))))))))))))))))))))"

text \<open>The identity of the dispatch is settled before the transaction: the explicit choice, the
  router's decision, or the canonical model; a choice the policy refuses is logged.\<close>

definition with_identity ::
  "env \<Rightarrow> string \<Rightarrow> role \<Rightarrow> risk_class \<Rightarrow> model_choice option \<Rightarrow> routing_decision option \<Rightarrow>
   (string option \<times> string option \<times> string option \<Rightarrow> entity cact) \<Rightarrow> entity cact" where
  "with_identity E task_id r risk mc rdec k =
     (case (mc, rdec) of
        (None, Some ro) \<Rightarrow>
          (if ro_provider ro = None \<or> ro_model ro = None \<or> thinking_tier ro = None
           then role_violation E task_id r ''router_decision_terminal''
           else k (ro_provider ro, ro_model ro, thinking_tier ro))
      | _ \<Rightarrow>
          (let identity = (case mc of
                 None \<Rightarrow> (case resolve_model r risk of (p, m, t) \<Rightarrow> (Some p, Some m, Some t))
               | Some c \<Rightarrow> (mc_provider c, mc_model c, mc_thinking_tier c)) in
           if rdec = None \<and> \<not> validate_model_choice r (fst identity) (fst (snd identity))
                                (snd (snd identity)) risk
           then role_violation E task_id r ''model_choice''
           else k identity))"

definition create_dispatch ::
  "env \<Rightarrow> string \<Rightarrow> string \<Rightarrow> string \<Rightarrow> int \<Rightarrow> int \<Rightarrow> sequence_kind \<Rightarrow> model_choice option \<Rightarrow> string \<Rightarrow>
   string option \<Rightarrow> string option \<Rightarrow> routing_decision option \<Rightarrow> entity cact" where
  "create_dispatch E task_id task_run_id role position cycle_no kind mc source parent ikey rdec =
     require_controller source
     (coerce_role role (\<lambda>r.
      if rdec \<noteq> None \<and> mc \<noteq> None then role_violation E task_id r ''model_choice_and_decision''
      else
      require (case rdec of None \<Rightarrow> True | Some ro \<Rightarrow> validate_routing_decision E ro task_id r)
        RolePolicyViolation
     (fetch (get_task task_id) NotFound (\<lambda>task0.
      with_identity E task_id r (t_risk_class task0) mc rdec (\<lambda>identity.
      idempotent E ikey ''create_dispatch''
        [(''task_id'', PStr task_id), (''task_run_id'', PStr task_run_id),
         (''role'', PStr (role_value r)), (''position'', PInt position), (''cycle_no'', PInt cycle_no),
         (''sequence_kind'', PStr (sequence_kind_value kind)), (''model_choice'', model_choice_py mc),
         (''source'', PStr source), (''parent_dispatch_id'', py_opt_str parent),
         (''routing_decision_id'', py_opt_str (map_option ro_decision_id rdec))]
        (create_dispatch_work E task_id task_run_id r position cycle_no kind identity parent rdec)
        (refetch ''create_dispatch''))))))"

section \<open>Binding the spawned run\<close>

text \<open>The body of the transaction: \<open>Some e\<close> is the violation to raise after the commit.  An
  \<open>IntegrityError\<close> of the bind (a session or run bound twice) becomes a \<open>DispatchError\<close>.\<close>

definition bind_work ::
  "env \<Rightarrow> string \<Rightarrow> string \<Rightarrow> string \<Rightarrow> string \<Rightarrow> string \<Rightarrow> string \<Rightarrow> bool cact" where
  "bind_work E did session run provider model thinking =
     fetch (get_dispatch did) NotFound (\<lambda>d.
     require (d_status d \<in> {DS_PENDING, DS_RECOVERY_PENDING}) DispatchError
     (fetch (get_task (d_task_id d)) TypeError (\<lambda>task.
      let policy_ok = (if d_routing_decision_id d \<noteq> None then True
             else validate_model_choice (d_role d) (Some provider) (Some model) (Some thinking)
                    (t_risk_class task));
          exact_ok = (provider = d_expected_agent_class d \<and> model = d_expected_model_class d \<and>
             thinking = d_expected_thinking_tier d) in
      if \<not> policy_ok \<or> \<not> exact_ok then
        bindA (reject_dispatch_cas did) (\<lambda>rc.
        require (rc = 1) DispatchError
       (andThen (emit E ''policy.role_violation'' (Some (d_task_id d)) (Some (role_value (d_role d)))
           None [(''reason'', PStr ''model_mismatch'')])
        (ret True)))
      else
        bindA (now_iso E) (\<lambda>now.
        bindA (catch (update_dispatch_bind did session run provider model thinking now)
                (\<lambda>e. if e = IntegrityError then Some (raise DispatchError) else None)) (\<lambda>rc.
        require (rc = 1) DispatchError
       (andThen (emit E ''agent.started'' (Some (d_task_id d)) (Some (role_value (d_role d))) None
           [(''dispatch_id'', PStr did)])
        (ret False)))))))"

definition bind_spawn_result ::
  "env \<Rightarrow> string \<Rightarrow> string \<Rightarrow> string \<Rightarrow> string \<Rightarrow> string \<Rightarrow> string \<Rightarrow> string \<Rightarrow> string option \<Rightarrow>
   entity cact" where
  "bind_spawn_result E did session run provider model thinking source ikey =
     require_controller source
     (let h = hash_args E [(''dispatch_id'', PStr did), (''child_session_id'', PStr session),
            (''openclaw_run_id'', PStr run), (''actual_provider'', PStr provider),
            (''actual_model'', PStr model), (''thinking_tier'', PStr thinking), (''source'', PStr source)];
          fresh_bind = bindA (bind_work E did session run provider model thinking) (\<lambda>rejected.
             andThen (case ikey of None \<Rightarrow> ret ()
               | Some k \<Rightarrow> bindA (now_iso E) (\<lambda>now.
                   set_command_idempotency k ''bind_spawn_result'' did h now))
             (ret (rejected, E_none))) in
      bindA (atomically
        (case ikey of
           None \<Rightarrow> fresh_bind
         | Some k \<Rightarrow> look (get_command_idempotency k ''bind_spawn_result'') (\<lambda>existing.
             case existing of
               None \<Rightarrow> fresh_bind
             | Some r \<Rightarrow> require (snd r = h) IdempotencyError
                 (bindA (refetch ''bind_spawn_result'' (fst r)) (\<lambda>ent. ret (False, ent))))))
        (\<lambda>r. if fst r then raise RolePolicyViolation
             else if snd r \<noteq> E_none then ret (snd r)
             else look (get_dispatch did) (\<lambda>d. ret (as_entity E_dispatch d))))"

section \<open>Receiving a result\<close>

definition received :: "string \<Rightarrow> string \<Rightarrow> string option \<Rightarrow> entity cact" where
  "received did status reason =
     ret (E_receive \<lparr>re_dispatch_id = did, re_status = status, re_reason = reason\<rparr>)"

definition refuse ::
  "env \<Rightarrow> string option \<Rightarrow> string \<Rightarrow> string \<Rightarrow> string \<Rightarrow> py \<Rightarrow> entity cact" where
  "refuse E task_id did status reason event_meta =
     andThen (quarantine E task_id did reason event_meta)
     (andThen (emit_rejected E task_id reason did)
     (received did status (Some reason)))"

definition claimed_task :: "py \<Rightarrow> py" where
  "claimed_task event_meta = (case event_meta of PDict m \<Rightarrow> py_get m ''task_id'' | _ \<Rightarrow> PNone)"

text \<open>The last step: the compare-and-set and everything that follows an accepted result.\<close>

definition consume_result ::
  "env \<Rightarrow> agent_dispatch \<Rightarrow> task \<Rightarrow> (string \<times> py) list \<Rightarrow> entity cact" where
  "consume_result E d task validated =
     look (validate_effect_bindings (d_task_id d) validated) (\<lambda>bindings_ok.
     require bindings_ok DispatchError
     (bindA (now_iso E) (\<lambda>now.
      bindA (consume_dispatch (d_id d) (PDict validated) now) (\<lambda>rc.
      if rc \<noteq> 1 then
        andThen (emit E ''agent.result_duplicate'' (Some (d_task_id d)) None None
          [(''dispatch_id'', PStr (d_id d))])
        (received (d_id d) ''duplicate'' None)
      else
        bindA (set_dispatch_attempt_outcome (d_id d) ''SUCCESS'') (\<lambda>_.
        andThen (emit E ''agent.result_received'' (Some (d_task_id d)) (Some (role_value (d_role d)))
          None [(''dispatch_id'', PStr (d_id d))])
       (andThen (apply_role_effects E d validated)
       (andThen (complete_active_role E d)
       (andThen (sequence_handoff E d)
       (andThen (apply_state_sync E task d (py_get validated ''decision''))
       (andThen (emit E ''agent.result_accepted'' (Some (d_task_id d)) (Some (role_value (d_role d)))
          None [(''dispatch_id'', PStr (d_id d))])
       (andThen (emit E ''agent.completed'' (Some (d_task_id d)) (Some (role_value (d_role d)))
          None [(''dispatch_id'', PStr (d_id d))])
       (received (d_id d) ''consumed'' None))))))))))))"

text \<open>Why a result of a dispatch that is up for consumption is refused: the checks in order.\<close>

definition refusal_reason ::
  "agent_dispatch \<Rightarrow> task option \<Rightarrow> py \<Rightarrow> py \<Rightarrow> core \<Rightarrow> string option" where
  "refusal_reason d task event_meta result s =
     (case envelope_mismatch d event_meta result of
        Some m \<Rightarrow> Some m
      | None \<Rightarrow>
          if d_child_session_id d = None \<or> d_openclaw_run_id d = None then Some ''not_bound''
          else if map_option tr_id (get_latest_task_run (d_task_id d) s) \<noteq> Some (d_task_run_id d)
          then Some ''stale_run''
          else if \<not> role_actor_ok (d_task_id d) (d_role d) s then Some ''role_mismatch''
          else if d_handoff_id d \<noteq> map_option h_id (get_latest_handoff (d_task_id d) s)
          then Some ''handoff_mismatch''
          else if (case task of None \<Rightarrow> True | Some t \<Rightarrow> t_state t \<in> TERMINAL_STATES)
          then Some ''task_ended''
          else None)"

definition receive_bound ::
  "env \<Rightarrow> agent_dispatch \<Rightarrow> py \<Rightarrow> py \<Rightarrow> entity cact" where
  "receive_bound E d event_meta result =
     look (get_task (d_task_id d)) (\<lambda>task.
     look (refusal_reason d task event_meta result) (\<lambda>reason.
     (case (reason, task) of
        (Some m, _) \<Rightarrow> refuse E (Some (d_task_id d)) (d_id d) ''rejected'' m event_meta
      | (None, None) \<Rightarrow> raise TypeError
      | (None, Some t) \<Rightarrow>
          (case validate_role_output E (d_role d) result of
             Inr validated \<Rightarrow> consume_result E d t validated
           | Inl OutputValidationError \<Rightarrow>
               bindA (now_iso E) (\<lambda>_.
               bindA (update_dispatch_status (d_id d) DS_REJECTED) (\<lambda>_.
               refuse E (Some (d_task_id d)) (d_id d) ''rejected'' ''malformed_output'' event_meta))
           | Inl e \<Rightarrow> raise e))))"

definition receive_work :: "env \<Rightarrow> string \<Rightarrow> py \<Rightarrow> py \<Rightarrow> entity cact" where
  "receive_work E did event_meta result =
     look (get_dispatch did) (\<lambda>row.
     (case row of
        None \<Rightarrow> liftR (bind_text E (claimed_task event_meta)) (\<lambda>claimed.
          refuse E claimed did ''unknown'' ''dispatch_unknown'' event_meta)
      | Some d \<Rightarrow>
          if d_status d = DS_CONSUMED then
            (case event_meta_mismatch d event_meta of
               None \<Rightarrow> andThen (emit E ''agent.result_duplicate'' (Some (d_task_id d)) None None
                   [(''dispatch_id'', PStr did)])
                 (received did ''duplicate'' None)
             | Some m \<Rightarrow> refuse E (Some (d_task_id d)) did ''rejected'' m event_meta)
          else if d_status d \<in> {DS_FAILED, DS_REJECTED, DS_QUARANTINED} then
            refuse E (Some (d_task_id d)) did ''rejected'' ''stale_dispatch'' event_meta
          else if d_status d = DS_PENDING then
            refuse E (Some (d_task_id d)) did ''rejected'' ''pending_injection'' event_meta
          else receive_bound E d event_meta result))"

definition receive_agent_result ::
  "env \<Rightarrow> string \<Rightarrow> py \<Rightarrow> py \<Rightarrow> string \<Rightarrow> string option \<Rightarrow> entity cact" where
  "receive_agent_result E did event_meta result source ikey =
     require_controller source
     (let h = hash_args E [(''dispatch_id'', PStr did), (''event_meta'', event_meta),
            (''result'', result), (''source'', PStr source)] in
      atomically
        (case ikey of
           None \<Rightarrow> receive_work E did event_meta result
         | Some k \<Rightarrow> look (get_command_idempotency k ''receive_agent_result'') (\<lambda>existing.
             case existing of
               Some r \<Rightarrow> require (snd r = h) IdempotencyError
                 (look (get_dispatch did) (\<lambda>d.
                  if map_option d_status d = Some DS_CONSUMED then received did ''duplicate'' None
                  else received did ''rejected'' None))
             | None \<Rightarrow> bindA (receive_work E did event_meta result) (\<lambda>res.
                 bindA (now_iso E) (\<lambda>now.
                 andThen (set_command_idempotency k ''receive_agent_result'' did h now)
                 (ret res))))))"

section \<open>Failure and recovery\<close>

definition mark_failed_work ::
  "env \<Rightarrow> string \<Rightarrow> string \<Rightarrow> string option \<Rightarrow> string option \<Rightarrow> (entity \<times> string) cact" where
  "mark_failed_work E did reason error_class error_code =
     fetch (get_dispatch did) NotFound (\<lambda>d.
     require (d_status d \<in> {DS_RUNNING, DS_RECOVERY_PENDING}) DispatchError
     (bindA (now_iso E) (\<lambda>now.
      bindA (update_dispatch_status did DS_FAILED) (\<lambda>_.
      bindA (set_dispatch_attempt_outcome did
         (classify_attempt (Some ''FAILED'') error_class False False error_code)) (\<lambda>_.
      look (get_active_role_run (d_task_id d)) (\<lambda>active.
      andThen (case active of
          None \<Rightarrow> ret ()
        | Some a \<Rightarrow> whenA (rr_role a = d_role d)
            (andThen (update_role_run_status (rr_id a) RR_FAILED now)
             (emit E ''role.failed'' (Some (d_task_id d)) (Some (role_value (d_role d))) None
               [(''role'', PStr (role_value (d_role d))), (''detail'', PStr ''agent_failed'')])))
     (bindA (models_handoff E (d_task_id d) (d_role d) (d_role d) now) (\<lambda>h.
      andThen (insert_handoff h)
     (andThen (emit E ''handoff.created'' (Some (d_task_id d)) None None
        (handoff_payload (d_role d) (d_role d)))
     (andThen (emit E ''agent.failed'' (Some (d_task_id d)) (Some (role_value (d_role d))) None
        [(''dispatch_id'', PStr did), (''reason'', PStr reason)])
     (look (get_dispatch did) (\<lambda>r. ret (as_entity E_dispatch r, did)))))))))))))"

definition mark_agent_failed ::
  "env \<Rightarrow> string \<Rightarrow> string \<Rightarrow> string \<Rightarrow> string option \<Rightarrow> string option \<Rightarrow> string option \<Rightarrow>
   entity cact" where
  "mark_agent_failed E did reason source ikey error_class error_code =
     require_controller source
     (require (case error_class of None \<Rightarrow> True | Some c \<Rightarrow> c \<in> set ERROR_CLASSES) DispatchError
     (idempotent E ikey ''mark_agent_failed''
       [(''dispatch_id'', PStr did), (''reason'', PStr reason), (''source'', PStr source),
        (''error_class'', py_opt_str error_class), (''error_code'', py_opt_str error_code)]
       (mark_failed_work E did reason error_class error_code)
       (refetch ''mark_agent_failed'')))"

text \<open>The dispatch phase of \<open>recover()\<close>: a pending or running dispatch of the implementer, and
  a running one of any other role, is parked; a pending one of a read-only role fails.\<close>

definition recover_dispatch :: "env \<Rightarrow> agent_dispatch \<Rightarrow> unit cact" where
  "recover_dispatch E d =
     (if d_status d \<notin> {DS_PENDING, DS_RUNNING} then ret ()
      else if d_role d \<noteq> IMPLEMENTER \<and> d_status d = DS_PENDING
      then bindA (update_dispatch_status (d_id d) DS_FAILED) (\<lambda>_. ret ())
      else bindA (update_dispatch_status (d_id d) DS_RECOVERY_PENDING) (\<lambda>_.
        emit E ''agent.recovery_pending'' (Some (d_task_id d)) (Some (role_value (d_role d))) None
          [(''dispatch_id'', PStr (d_id d))]))"

definition state_changed_payload :: "task_state \<Rightarrow> task_state \<Rightarrow> (string \<times> py) list" where
  "state_changed_payload x y =
     [(''from_state'', PStr (task_state_value x)), (''to_state'', PStr (task_state_value y))]"

definition park_task :: "env \<Rightarrow> timestamp \<Rightarrow> string \<Rightarrow> unit cact" where
  "park_task E now tid =
     look (get_task tid) (\<lambda>task.
     (case task of
        None \<Rightarrow> ret ()
      | Some t \<Rightarrow>
          if t_state t \<in> TERMINAL_STATES \<or> t_state t \<in> PAUSE_STATES then ret ()
          else andThen (update_task_state tid RECOVERING (Some (t_state t)) now)
            (emit E ''task.state_changed'' (Some tid) None (Some (task_state_value RECOVERING))
              (state_changed_payload (t_state t) RECOVERING))))"

definition fail_role_run ::
  "env \<Rightarrow> timestamp \<Rightarrow> agent_dispatch list \<Rightarrow> role_run \<Rightarrow> unit cact" where
  "fail_role_run E now unresolved rr =
     (if \<exists>d \<in> set unresolved. d_task_id d = rr_task_id rr \<and> d_role d = rr_role rr then ret ()
      else andThen (update_role_run_status (rr_id rr) RR_FAILED now)
        (emit E ''role.failed'' (Some (rr_task_id rr)) (Some (role_value (rr_role rr))) None
          [(''role'', PStr (role_value (rr_role rr))), (''detail'', PStr ''interrupted'')]))"

definition fail_run :: "timestamp \<Rightarrow> agent_dispatch list \<Rightarrow> task_run \<Rightarrow> unit cact" where
  "fail_run now unresolved tr =
     (if \<exists>d \<in> set unresolved. d_task_run_id d = tr_id tr then ret ()
      else update_task_run_status (tr_id tr) TR_FAILED now)"

text \<open>What becomes of a task that is not parked: \<open>None\<close> if it stays.  A stored resume state is
  a \<open>task_state\<close> here, so the code's branch for an unreadable one does not arise.\<close>

definition rollback_target :: "task \<Rightarrow> task_state option" where
  "rollback_target t =
     (let target = recovery_target (t_state t) (t_resume_state t);
          target' = (if target \<noteq> t_state t \<and> \<not> is_allowed RECOVERING target (t_resume_state t)
                     then BLOCKED else target) in
      if target' \<noteq> t_state t then Some target' else None)"

definition roll_back_task :: "env \<Rightarrow> timestamp \<Rightarrow> task \<Rightarrow> unit cact" where
  "roll_back_task E now t = (case rollback_target t of
     None \<Rightarrow> ret ()
   | Some target \<Rightarrow>
       andThen (update_task_state (t_id t) target None now)
       (emit E ''task.state_changed'' (Some (t_id t)) None (Some (task_state_value target))
         (state_changed_payload (t_state t) target)))"

definition parked_dispatches :: "core \<Rightarrow> agent_dispatch list" where
  "parked_dispatches s = filter (\<lambda>d. d_status d = DS_RECOVERY_PENDING) (list_all_dispatches s)"

definition recover_work :: "env \<Rightarrow> (entity \<times> string) cact" where
  "recover_work E =
     bindA (now_iso E) (\<lambda>now.
     andThen (emit E ''system.recovery_started'' None None None [])
     (look list_all_dispatches (\<lambda>ds.
      andThen (forA ds (recover_dispatch E))
     (look parked_dispatches (\<lambda>parked.
      let conservative = remdups (map d_task_id parked) in
      andThen (forA conservative (park_task E now))
     (look (\<lambda>s. filter (\<lambda>r. rr_status r = RR_STARTED) (db_role_runs s)) (\<lambda>rrs.
      andThen (forA rrs (fail_role_run E now parked))
     (look (\<lambda>s. filter (\<lambda>r. tr_status r = TR_STARTED) (db_task_runs s)) (\<lambda>trs.
      andThen (forA trs (fail_run now parked))
     (look (\<lambda>s. filter (\<lambda>t. t_id t \<notin> set conservative) (db_tasks s)) (\<lambda>ts.
      andThen (forA ts (roll_back_task E now))
     (andThen (emit E ''system.recovery_completed'' None None None
        [(''interrupted_role_runs'', PInt (int (length rrs))),
         (''interrupted_task_runs'', PInt (int (length trs))),
         (''recovery_pending_dispatches'', PInt (int (length parked)))])
     (ret (E_report \<lparr>rp_interrupted_role_runs = length rrs, rp_interrupted_task_runs = length trs,
        rp_rolled_back = List.map_filter
          (\<lambda>t. map_option (\<lambda>y. (t_id t, t_state t, y)) (rollback_target t)) ts,
        rp_recovery_pending = length parked\<rparr>, ''recovered''))))))))))))))"

definition recover :: "env \<Rightarrow> string \<Rightarrow> string option \<Rightarrow> entity cact" where
  "recover E source ikey =
     with_owner source
     (idempotent E ikey ''recover'' [(''source'', PStr source)] (recover_work E)
       (\<lambda>_. ret (E_report \<lparr>rp_interrupted_role_runs = 0, rp_interrupted_task_runs = 0,
          rp_rolled_back = [], rp_recovery_pending = 0\<rparr>)))"

end
