(* ===== verification/Core_Machine.thy ===== *)
theory Core_Machine
  imports Core_Orchestration
begin

text \<open>
  The core as a state machine: \<open>command\<close> has one constructor per public command of
  \<open>core.Core\<close>, \<open>run_command\<close> runs it, and a state is reachable if some sequence of commands,
  failing ones included, leads to it from an empty database.

  The first group of lemmas are frames: which tables a command leaves alone.  The second is
  the integrity of the tables, which every single statement preserves, whatever the command
  around it does: \<open>table_integrity\<close>.
\<close>

section \<open>Commands\<close>

datatype command =
    CreateProject string string "string option"
  | CreateTask string string string "string option" "string option" risk_class external_actions_policy
  | Transition string string string "string option"
  | Resume string string "string option"
  | StartRole string string string "string option"
  | CompleteRole string string "string option"
  | FailRole string string "string option" "string option"
  | StartTaskRun string string "string option"
  | CompleteTaskRun string string "string option"
  | FailTaskRun string string "string option"
  | RequestAction string string string string string "string option"
  | Approve string string string string string "string option"
  | Reject string string string string string "string option"
  | ExecuteApproved string string string string string "string option"
  | AddFinding string string string string "string option"
  | ResolveFinding string string "string option"
  | RecordTestRun string string string "string option" "string option"
  | RecordReview string string string "string option" "string option"
  | RecordDecision string string string "string option" "string option"
  | CreateDispatch string string string int int sequence_kind "model_choice option" string
      "string option" "string option" "routing_decision option"
  | BindSpawnResult string string string string string string string "string option"
  | ReceiveAgentResult string py py string "string option"
  | MarkAgentFailed string string string "string option" "string option" "string option"
  | Recover string "string option"

primrec run_command :: "env \<Rightarrow> command \<Rightarrow> entity cact" where
  "run_command E (CreateProject name src k) = create_project E name src k"
| "run_command E (CreateTask p title src k ds rc pol) = create_task E p title src k ds rc pol"
| "run_command E (Transition t st src k) = transition E t st src k"
| "run_command E (Resume t src k) = resume E t src k"
| "run_command E (StartRole t r src k) = start_role E t r src k"
| "run_command E (CompleteRole r src k) = complete_role E r src k"
| "run_command E (FailRole r src dt k) = fail_role E r src dt k"
| "run_command E (StartTaskRun t src k) = start_task_run E t src k"
| "run_command E (CompleteTaskRun r src k) = complete_task_run E r src k"
| "run_command E (FailTaskRun r src k) = fail_task_run E r src k"
| "run_command E (RequestAction t a sc r src k) = request_action E t a sc r src k"
| "run_command E (Approve i src t a sc k) = approve E i src t a sc k"
| "run_command E (Reject i src t a sc k) = reject E i src t a sc k"
| "run_command E (ExecuteApproved i src t a sc k) = execute_approved E i src t a sc k"
| "run_command E (AddFinding t sv ds src k) = add_finding E t sv ds src k"
| "run_command E (ResolveFinding f src k) = resolve_finding E f src k"
| "run_command E (RecordTestRun t res src dt k) = record_test_run E t res src dt k"
| "run_command E (RecordReview t v src dt k) = record_review E t v src dt k"
| "run_command E (RecordDecision t dec src dt k) = record_decision E t dec src dt k"
| "run_command E (CreateDispatch t tr r pos cy kd mc src par k rd) =
     create_dispatch E t tr r pos cy kd mc src par k rd"
| "run_command E (BindSpawnResult d ss rn pv md th src k) =
     bind_spawn_result E d ss rn pv md th src k"
| "run_command E (ReceiveAgentResult d em res src k) = receive_agent_result E d em res src k"
| "run_command E (MarkAgentFailed d rs src k ec cd) = mark_agent_failed E d rs src k ec cd"
| "run_command E (Recover src k) = recover E src k"

definition after :: "env \<Rightarrow> command \<Rightarrow> core \<Rightarrow> core" where
  "after E c s = snd (run_command E c s)"

definition outcome :: "env \<Rightarrow> command \<Rightarrow> core \<Rightarrow> argent_error + entity" where
  "outcome E c s = fst (run_command E c s)"

inductive reachable :: "env \<Rightarrow> core \<Rightarrow> bool" for E :: env where
  initial: "reachable E empty_core"
| command: "reachable E s \<Longrightarrow> reachable E (after E c s)"

fun run_commands :: "env \<Rightarrow> command list \<Rightarrow> core \<Rightarrow> core" where
  "run_commands E [] s = s"
| "run_commands E (c # cs) s = run_commands E cs (after E c s)"

lemma reachable_run_commands: "reachable E s \<Longrightarrow> reachable E (run_commands E cs s)"
  by (induction cs arbitrary: s) (auto intro: reachable.command)

lemma wp_after: "wp (run_command E c) (\<lambda>_. P) (\<lambda>_. P) s \<longleftrightarrow> P (after E c s)"
  by (simp add: after_def wp_snd)

section \<open>Frames\<close>

lemma keeps_let [keeps_rules]: "(\<And>x. x = a \<Longrightarrow> keeps p (f x)) \<Longrightarrow> keeps p (let x = a in f x)"
  by simp

lemma keeps_set_idempotency [keeps_rules]:
  "(\<And>s r. p (s\<lparr>db_idempotency := r\<rparr>) = p s) \<Longrightarrow> keeps p (set_command_idempotency k c rid h now)"
  unfolding set_command_idempotency_def by (intro keeps_rules) simp

lemma keeps_update_dispatches [keeps_rules]:
  "(\<And>s r. p (s\<lparr>db_dispatches := r\<rparr>) = p s) \<Longrightarrow> keeps p (update_dispatches q f)"
  unfolding update_dispatches_def by (intro keeps_rules) simp_all

lemmas insert_defs =
  insert_project_def insert_task_def insert_task_run_def insert_role_run_def insert_handoff_def
  insert_finding_def insert_test_run_def insert_review_def insert_decision_def insert_approval_def
  insert_action_execution_def insert_dispatch_def insert_quarantine_def
  insert_routing_decision_def

lemmas update_defs =
  update_task_state_def update_task_run_status_def update_role_run_status_def
  update_finding_status_def update_approvals_def mark_approved_def mark_rejected_def
  consume_approval_with_execution_def mark_expired_def update_dispatch_bind_def
  reject_dispatch_cas_def update_dispatch_status_def set_dispatch_attempt_outcome_def
  consume_dispatch_def

lemmas task_command_defs =
  create_project_def create_task_def transition_def resume_def start_role_def models_handoff_def
  finish_role_def complete_role_def fail_role_def start_task_run_def finish_task_run_def
  complete_task_run_def fail_task_run_def add_finding_def resolve_finding_def record_test_run_def
  record_review_def record_decision_def apply_transition_def

lemmas gate_command_defs =
  request_action_def pre_check_permission_def forbidden_work_def gated_work_def
  autonomous_work_def request_action_refetch_def check_full_binding_def
  approval_binding_refetch_def approve_work_def reject_work_def expire_and_release_def
  approve_def reject_def execute_work_def execute_approved_def

lemmas effect_defs =
  apply_role_effects_def insert_agent_finding_def resolve_accepted_def lead_effects_def
  insert_agent_test_def reviewer_effects_def complete_active_role_def sequence_handoff_def
  models_handoff_def

lemmas refusal_defs = quarantine_def emit_rejected_def refuse_def received_def

lemmas dispatch_command_defs =
  role_violation_def record_routing_def create_dispatch_work_def with_identity_def
  create_dispatch_def bind_work_def bind_spawn_result_def mark_failed_work_def
  mark_agent_failed_def

lemma on_expired_Some:
  "on_expired E e = Some k \<Longrightarrow>
   \<exists>aid. e = ApprovalExpired aid \<and> k = andThen (atomically (expire_and_release E aid)) (raise ApprovalError)"
  by (cases e) (auto simp: on_expired_def)

text \<open>\<open>effects_frame p\<close>: \<open>p\<close> does not look at what an accepted result writes besides the task
  and the dispatch.\<close>

definition bookkeeping_free :: "(core \<Rightarrow> 'p) \<Rightarrow> bool" where
  "bookkeeping_free p \<longleftrightarrow>
     (\<forall>s x. p (s\<lparr>db_events := x\<rparr>) = p s) \<and> (\<forall>s x. p (s\<lparr>ticks := x\<rparr>) = p s) \<and>
     (\<forall>s x. p (s\<lparr>fresh := x\<rparr>) = p s) \<and> (\<forall>s x. p (s\<lparr>db_idempotency := x\<rparr>) = p s)"

definition effects_free :: "(core \<Rightarrow> 'p) \<Rightarrow> bool" where
  "effects_free p \<longleftrightarrow> bookkeeping_free p \<and>
     (\<forall>s x. p (s\<lparr>db_findings := x\<rparr>) = p s) \<and> (\<forall>s x. p (s\<lparr>db_test_runs := x\<rparr>) = p s) \<and>
     (\<forall>s x. p (s\<lparr>db_reviews := x\<rparr>) = p s) \<and> (\<forall>s x. p (s\<lparr>db_decisions := x\<rparr>) = p s) \<and>
     (\<forall>s x. p (s\<lparr>db_role_runs := x\<rparr>) = p s) \<and> (\<forall>s x. p (s\<lparr>db_handoffs := x\<rparr>) = p s) \<and>
     (\<forall>s x. p (s\<lparr>db_quarantine := x\<rparr>) = p s)"

lemma bookkeeping_freeD:
  assumes "bookkeeping_free p"
  shows "p (s\<lparr>db_events := x1\<rparr>) = p s" "p (s\<lparr>ticks := n\<rparr>) = p s" "p (s\<lparr>fresh := n\<rparr>) = p s"
    "p (s\<lparr>db_idempotency := x2\<rparr>) = p s" "p (s\<lparr>ticks := n, fresh := k\<rparr>) = p s"
proof -
  show *: "p (s\<lparr>db_events := x1\<rparr>) = p s" "p (s\<lparr>ticks := n\<rparr>) = p s" "p (s\<lparr>fresh := n\<rparr>) = p s"
    "p (s\<lparr>db_idempotency := x2\<rparr>) = p s" for s n x1 x2
    using assms by (auto simp: bookkeeping_free_def)
  show "p (s\<lparr>ticks := n, fresh := k\<rparr>) = p s"
    using *(2)[where s = s and n = n] *(3)[where s = "s\<lparr>ticks := n\<rparr>" and n = k] by simp
qed

lemma effects_freeD:
  assumes "effects_free p"
  shows "bookkeeping_free p" "p (s\<lparr>db_findings := x3\<rparr>) = p s" "p (s\<lparr>db_test_runs := x4\<rparr>) = p s"
    "p (s\<lparr>db_reviews := x5\<rparr>) = p s" "p (s\<lparr>db_decisions := x6\<rparr>) = p s"
    "p (s\<lparr>db_role_runs := x7\<rparr>) = p s" "p (s\<lparr>db_handoffs := x8\<rparr>) = p s"
    "p (s\<lparr>db_quarantine := x9\<rparr>) = p s"
  using assms by (auto simp: effects_free_def)

lemma keeps_effects:
  assumes "effects_free p"
  shows "keeps p (apply_role_effects E d validated)" "keeps p (complete_active_role E d)"
    "keeps p (sequence_handoff E d)" "keeps p (refuse E t did st rs em)"
proof -
  note F = effects_freeD[OF assms] bookkeeping_freeD[OF effects_freeD(1)[OF assms]]
  have cases: "keeps p (case r of LEAD \<Rightarrow> a | ANALYST \<Rightarrow> b | IMPLEMENTER \<Rightarrow> b | QA \<Rightarrow> c | REVIEWER \<Rightarrow> e)"
    if "keeps p a" "keeps p b" "keeps p c" "keeps p e" for r :: role and a b c e :: "unit cact"
    using that by (cases r) simp_all
  have dict: "keeps p (case f of PDict kvs \<Rightarrow> g kvs | _ \<Rightarrow> ret ())" if "\<And>kvs. keeps p (g kvs)"
    for f :: py and g :: "(string \<times> py) list \<Rightarrow> unit cact"
    using that by (cases f) (simp_all add: keeps_intros)
  show "keeps p (apply_role_effects E d validated)"
    unfolding effect_defs insert_defs update_defs
    by (intro keeps_rules cases dict) (simp_all add: F)
  show "keeps p (complete_active_role E d)" "keeps p (sequence_handoff E d)"
    unfolding effect_defs insert_defs update_defs
    by (intro keeps_rules; simp add: F)+
  show "keeps p (refuse E t did st rs em)"
    unfolding refusal_defs insert_defs by (intro keeps_rules) (simp_all add: F)
qed

end
