(* ===== verification/Core_Tables.thy ===== *)
theory Core_Tables
  imports Core_Machine
begin

text \<open>
  What every single SQL statement guarantees, whatever command it is part of.  The locale
  \<open>statement_relation\<close> asks for a reflexive, transitive relation that each statement of
  \<open>Core_Store\<close> (and each tick of the clock) respects, and lifts it to every command, through
  transactions, rollbacks, idempotent replays and exception handlers.

  It is interpreted twice: with the preservation of the table constraints, and with the
  persistence of rows (nothing is deleted, identities do not change, a decided approval stays
  decided, the logs only grow).
\<close>

section \<open>Rows as they are inserted\<close>

definition fresh_approval :: "owner_approval \<Rightarrow> bool" where
  "fresh_approval a \<longleftrightarrow> ap_status a = AP_PENDING \<and> ap_decided_at a = None \<and>
     ap_consumed_at a = None \<and> ap_approved_at a = None \<and> ap_execution_id a = None \<and>
     ap_executed_at a = None \<and> ap_closed_at a = None"

definition fresh_dispatch :: "agent_dispatch \<Rightarrow> bool" where
  "fresh_dispatch d \<longleftrightarrow> d_status d = DS_PENDING \<and> d_child_session_id d = None \<and>
     d_openclaw_run_id d = None \<and> d_result d = None \<and> d_consumed_at d = None"

section \<open>The interface\<close>

locale statement_relation =
  fixes R :: "core \<Rightarrow> core \<Rightarrow> bool"
  assumes refl: "reflp R" and trans: "transp R"
    and world: "R s (s\<lparr>ticks := n, fresh := k\<rparr>)"
    and s_project: "steps R (insert_project p)"
    and s_task: "t_state t = NEW \<Longrightarrow> t_resume_state t = None \<Longrightarrow> steps R (insert_task t)"
    and s_task_state: "steps R (update_task_state i st rs now)"
    and s_task_run: "steps R (insert_task_run tr)"
    and s_task_run_status: "steps R (update_task_run_status i trs now)"
    and s_role_run: "steps R (insert_role_run rr)"
    and s_role_run_status: "steps R (update_role_run_status i rrs now)"
    and s_handoff: "steps R (insert_handoff h)"
    and s_finding: "steps R (insert_finding f)"
    and s_finding_status: "steps R (update_finding_status i fs now)"
    and s_test_run: "steps R (insert_test_run te)"
    and s_review: "steps R (insert_review rv)"
    and s_decision: "steps R (insert_decision dc)"
    and s_approval: "fresh_approval ap \<Longrightarrow> steps R (insert_approval E ap)"
    and s_approved: "steps R (mark_approved i now)"
    and s_rejected: "steps R (mark_rejected i now)"
    and s_consumed: "steps R (consume_approval_with_execution i now x)"
    and s_expired: "steps R (mark_expired i now)"
    and s_execution: "steps R (insert_action_execution ex)"
    and s_event: "steps R (insert_event ev)"
    and s_idempotency: "steps R (set_command_idempotency key com rid hash now)"
    and s_dispatch: "fresh_dispatch d \<Longrightarrow> steps R (insert_dispatch d)"
    and s_bind: "steps R (update_dispatch_bind i ss rn pv md th now)"
    and s_reject: "steps R (reject_dispatch_cas i)"
    and s_status: "steps R (update_dispatch_status i ds)"
    and s_outcome: "steps R (set_dispatch_attempt_outcome i oc)"
    and s_consume: "steps R (consume_dispatch i res now)"
    and s_quarantine: "steps R (insert_quarantine q)"
    and s_routing: "steps R (insert_routing_decision rd)"
begin

lemma ticks_only: "R s (s\<lparr>ticks := n\<rparr>)"
  using world[where s = s and n = n and k = "fresh s"] by simp

lemma fresh_only: "R s (s\<lparr>fresh := n\<rparr>)"
  using world[where s = s and n = "ticks s" and k = n] by simp

lemma s_world: "steps R (now_iso E)" "steps R (expiry_iso E ttl)" "steps R (new_uuid E)"
  by (auto simp: steps_def now_iso_def expiry_iso_def new_uuid_def intro: ticks_only fresh_only)

lemma s_atomically: "steps R m \<Longrightarrow> steps R (atomically m)"
  unfolding atomically_def by (rule steps_transact) (auto simp: rolled_back_def intro: world)

lemma s_let: "(\<And>x. x = a \<Longrightarrow> steps R (f x)) \<Longrightarrow> steps R (let x = a in f x)"
  by simp

lemma s_prod: "(\<And>a b. steps R (f a b)) \<Longrightarrow> steps R (case x of (a, b) \<Rightarrow> f a b)"
  by (cases x) simp

lemma s_role:
  "steps R a \<Longrightarrow> steps R b \<Longrightarrow> steps R c \<Longrightarrow> steps R e \<Longrightarrow>
   steps R (case r of LEAD \<Rightarrow> a | ANALYST \<Rightarrow> b | IMPLEMENTER \<Rightarrow> b | QA \<Rightarrow> c | REVIEWER \<Rightarrow> e)"
  by (cases r) simp_all

lemma s_dict:
  "(\<And>kvs. steps R (g kvs)) \<Longrightarrow> steps R (case v of PDict kvs \<Rightarrow> g kvs | _ \<Rightarrow> ret ())"
  by (cases v) (simp_all add: steps_ret refl)

lemma s_sum:
  "(\<And>e. steps R (f e)) \<Longrightarrow> (\<And>a. steps R (g a)) \<Longrightarrow>
   steps R (case x of Inl e \<Rightarrow> f e | Inr a \<Rightarrow> g a)"
  by (cases x) simp_all

lemmas statements =
  s_project s_task s_task_state s_task_run s_task_run_status s_role_run s_role_run_status
  s_handoff s_finding s_finding_status s_test_run s_review s_decision s_approval s_approved
  s_rejected s_consumed s_expired s_execution s_event s_idempotency s_dispatch s_bind s_reject
  s_status s_outcome s_consume s_quarantine s_routing s_world

lemmas through = refl trans steps_rules statements s_atomically s_let s_prod s_role s_dict s_sum

lemma s_emit: "steps R (emit E typ ti ro st pl)"
  unfolding emit_def by (intro through)

lemma s_refetch: "steps R (refetch command rid)"
  unfolding refetch_def by (intro through)

lemma s_idempotent:
  "steps R work \<Longrightarrow> (\<And>rid. steps R (refet rid)) \<Longrightarrow>
   steps R (idempotent E key command args work refet)"
  unfolding idempotent_def by (intro through; assumption)

lemmas all_through = through s_emit s_refetch s_idempotent

lemma s_on_expired:
  "on_expired E e = Some k \<Longrightarrow> steps R k"
  by (drule on_expired_Some) (auto simp: expire_and_release_def apply_transition_def
      intro!: all_through)

lemma s_task_commands:
  "steps R (create_project E nm src key)" "steps R (create_task E pid title src key ds rc pol)"
  "steps R (transition E tid st' src key)" "steps R (resume E tid src key)"
  "steps R (start_role E tid ro src key)" "steps R (complete_role E rid src key)"
  "steps R (fail_role E rid src dt key)" "steps R (start_task_run E tid src key)"
  "steps R (complete_task_run E rid src key)" "steps R (fail_task_run E rid src key)"
  "steps R (add_finding E tid sv ds' src key)" "steps R (resolve_finding E fid src key)"
  "steps R (record_test_run E tid re src dt key)" "steps R (record_review E tid vd src dt key)"
  "steps R (record_decision E tid dec src dt key)"
  unfolding task_command_defs by (intro all_through; simp)+

lemma s_gate_commands:
  "steps R (request_action E tid a sc ro src key)" "steps R (approve E aid src tid a sc key)"
  "steps R (reject E aid src tid a sc key)" "steps R (execute_approved E aid src tid a sc key)"
  unfolding gate_command_defs apply_transition_def
  by (intro all_through; (erule s_on_expired | simp add: fresh_approval_def)?)+

lemma s_role_effects: "steps R (apply_role_effects E d v)"
  unfolding effect_defs by (intro all_through)

lemma s_effects:
  "steps R (complete_active_role E d)" "steps R (sequence_handoff E d)"
  "steps R (refuse E t did status reason em)"
  unfolding effect_defs refusal_defs by (intro all_through)+

lemma s_run_plan: "steps R (run_plan E plan t)"
  by (induction E plan t rule: run_plan.induct)
     (auto simp: apply_transition_def intro!: all_through)

lemma s_state_sync: "steps R (apply_state_sync E t d dec)"
  unfolding apply_state_sync_def apply_transition_def by (intro all_through s_run_plan)

lemma s_consume_result: "steps R (consume_result E d t v)"
  unfolding consume_result_def received_def
  by (intro all_through s_role_effects s_effects s_state_sync)

lemma s_receive_bound: "steps R (receive_bound E d em res)"
proof -
  have err: "steps R (case e of OutputValidationError \<Rightarrow> m | _ \<Rightarrow> raise e)" if "steps R m"
    for e and m :: "entity cact"
    using that by (cases e) (simp_all add: steps_raise refl)
  show ?thesis
    unfolding receive_bound_def
    by (intro all_through; (intro s_consume_result)?)
       (auto split: option.splits sum.splits argent_error.splits
          intro!: all_through s_consume_result s_effects)
qed

lemma s_dispatch_commands:
  "steps R (create_dispatch E tid trid ro pos cyc kd mc src par key rd)"
  "steps R (bind_spawn_result E did ss rn pv md th src key)"
  "steps R (mark_agent_failed E did rs src key ec cd)"
  unfolding dispatch_command_defs models_handoff_def
  by (intro all_through; auto simp: fresh_dispatch_def intro!: all_through
      split: if_splits option.splits)+

lemma s_receive: "steps R (receive_agent_result E did em res src key)"
  unfolding receive_agent_result_def receive_work_def received_def
  by (intro all_through s_effects s_receive_bound)

lemma s_recover: "steps R (recover E src key)"
  unfolding recover_def recover_work_def recover_dispatch_def park_task_def fail_role_run_def
    fail_run_def roll_back_task_def
  by (intro all_through)

theorem command_steps: "steps R (run_command E c)"
  by (cases c) (simp_all add: s_task_commands s_gate_commands s_dispatch_commands s_receive s_recover)

lemma after_R: "R s (after E c s)"
  unfolding after_def by (rule stepsD[OF command_steps])

lemma run_R: "R s (run_commands E cs s)"
proof (induction cs arbitrary: s)
  case Nil
  then show ?case using refl by (simp add: reflpD)
next
  case (Cons c cs)
  then show ?case using after_R[of s E c] trans by (simp) (blast dest: transpD)
qed

end

section \<open>Growing tables\<close>

definition grows :: "('r \<Rightarrow> 'r \<Rightarrow> bool) \<Rightarrow> 'r list \<Rightarrow> 'r list \<Rightarrow> bool" where
  "grows rel xs ys \<longleftrightarrow> list_all2 rel xs (take (length xs) ys)"

lemma grows_refl: "reflp rel \<Longrightarrow> grows rel xs xs"
  by (auto simp: grows_def intro: list.rel_refl reflpD)

lemma grows_trans:
  assumes "transp rel" "grows rel xs ys" "grows rel ys zs"
  shows "grows rel xs zs"
proof -
  have len: "length xs \<le> length ys"
    using assms(2) by (auto simp: grows_def dest: list_all2_lengthD)
  have "list_all2 rel (take (length xs) ys) (take (length xs) zs)"
    using assms(3) len by (auto simp: grows_def dest: list_all2_takeI[where n = "length xs"] simp: min_def)
  with assms(1,2) show ?thesis
    unfolding grows_def by (blast intro: list_all2_trans[of rel rel rel] dest: transpD)
qed

lemma grows_snoc: "reflp rel \<Longrightarrow> grows rel xs (xs @ [x])"
  using grows_refl[of rel xs] by (simp add: grows_def)

lemma grows_update_rows:
  "reflp rel \<Longrightarrow> (\<And>x. x \<in> set xs \<Longrightarrow> p x \<Longrightarrow> rel x (f x)) \<Longrightarrow> grows rel xs (update_rows p f xs)"
  by (induction xs) (auto simp: grows_def update_rows_def reflpD)

lemma growsD_find:
  assumes "grows rel xs ys" "unique_keys key xs" "unique_keys key ys"
    and "\<And>x y. rel x y \<Longrightarrow> key y = key x" and "find_row key k xs = Some x"
  shows "\<exists>y. find_row key k ys = Some y \<and> rel x y"
proof -
  from assms(5) have x: "x \<in> set xs" "key x = k" by (auto dest: find_row_SomeD)
  then obtain i where i: "i < length xs" "x = xs ! i" by (auto simp: in_set_conv_nth)
  let ?y = "take (length xs) ys ! i"
  have len: "length (take (length xs) ys) = length xs"
    using assms(1) unfolding grows_def by (metis list_all2_lengthD)
  have y: "?y \<in> set (take (length xs) ys)"
    using i(1) len by (metis nth_mem)
  have rel: "rel x ?y"
    using assms(1) i unfolding grows_def by (metis list_all2_nthD)
  then have "?y \<in> set ys" "key ?y = k" using y assms(4)[OF rel] x by (auto dest: in_set_takeD)
  with rel assms(3) show ?thesis by (auto simp: find_row_unique_iff)
qed

section \<open>Table constraints\<close>

text \<open>What the DDL promises of a database, and what the compare-and-set statements add for
  approvals: a decision carries its time, which lies before the expiry.\<close>

definition approval_row_ok :: "owner_approval \<Rightarrow> bool" where
  "approval_row_ok a \<longleftrightarrow> (case ap_status a of
     AP_PENDING \<Rightarrow> ap_approved_at a = None \<and> ap_execution_id a = None
   | AP_APPROVED \<Rightarrow> (\<exists>n. ap_approved_at a = Some n \<and> n < ap_expires_at a) \<and> ap_execution_id a = None
   | AP_CONSUMED \<Rightarrow> (\<exists>n. ap_approved_at a = Some n \<and> n < ap_expires_at a) \<and>
       (\<exists>m. ap_consumed_at a = Some m \<and> m < ap_expires_at a) \<and> ap_execution_id a \<noteq> None
   | AP_REJECTED \<Rightarrow> ap_approved_at a = None \<and> ap_execution_id a = None
   | AP_EXPIRED \<Rightarrow> ap_closed_at a = Some (ap_expires_at a) \<and> ap_execution_id a = None)"

definition tables_ok :: "core \<Rightarrow> bool" where
  "tables_ok s \<longleftrightarrow>
     project_rows_ok (db_projects s) \<and> task_rows_ok (db_tasks s) \<and>
     unique_keys tr_id (db_task_runs s) \<and> role_run_rows_ok (db_role_runs s) \<and>
     unique_keys h_id (db_handoffs s) \<and> unique_keys f_id (db_findings s) \<and>
     unique_keys te_id (db_test_runs s) \<and> unique_keys rv_id (db_reviews s) \<and>
     unique_keys dc_id (db_decisions s) \<and> approval_rows_ok (db_approvals s) \<and>
     (\<forall>a \<in> set (db_approvals s). approval_row_ok a) \<and>
     execution_rows_ok (db_executions s) \<and> unique_keys ev_id (db_events s) \<and>
     unique_keys (\<lambda>r. (ci_key r, ci_command r)) (db_idempotency s) \<and>
     dispatch_rows_ok (db_dispatches s) \<and> unique_keys q_id (db_quarantine s)"

lemma unique_keys_filter_update:
  assumes "unique_keys key (filter q rs)"
    and "\<And>r. r \<in> set rs \<Longrightarrow> p r \<Longrightarrow> key (f r) = key r" and "\<And>r. r \<in> set rs \<Longrightarrow> p r \<Longrightarrow> q (f r) \<Longrightarrow> q r"
  shows "unique_keys key (filter q (update_rows p f rs))"
  using assms
proof (induction rs)
  case (Cons r rs)
  have sub: "key ` set (filter q (update_rows p f rs)) \<subseteq> key ` set (filter q rs)"
    using Cons.prems(2,3) by (auto simp: set_update_rows split: if_splits)
  have IH: "unique_keys key (filter q (update_rows p f rs))"
    using Cons by (auto simp: unique_keys_def split: if_splits)
  have r: "key (if p r then f r else r) = key r" "q (if p r then f r else r) \<Longrightarrow> q r"
    using Cons.prems(2,3)[of r] by (auto split: if_splits)
  show ?case
  proof (cases "q (if p r then f r else r)")
    case True
    then have "key r \<notin> key ` set (filter q rs)"
      using r(2) Cons.prems(1) by (auto simp: unique_keys_def)
    with sub r(1) IH True show ?thesis
      by (auto simp: update_rows_Cons unique_keys_def)
  next
    case False
    with IH show ?thesis by (simp add: update_rows_Cons)
  qed
qed simp

lemma steps_writeI:
  "(\<And>s. ok s \<Longrightarrow> R s (f s)) \<Longrightarrow> reflp R \<Longrightarrow> steps R (store_write ok f)"
  by (auto simp: steps_def store_write_def reflpD)

lemma steps_casI: "(\<And>s. R s (f s)) \<Longrightarrow> steps R (cas_write n f)"
  by (auto simp: steps_def cas_write_def)

lemma steps_update_dispatchesI:
  "reflp R \<Longrightarrow> (\<And>s. dispatch_rows_ok (update_rows p f (db_dispatches s)) \<Longrightarrow>
     R s (s\<lparr>db_dispatches := update_rows p f (db_dispatches s)\<rparr>)) \<Longrightarrow>
   steps R (update_dispatches p f)"
  by (auto simp: steps_def update_dispatches_def andThen_def bindA_def store_write_def cas_write_def
      reflpD)

lemmas steps_statementI = steps_writeI steps_casI steps_update_dispatchesI

lemma rows_ok_updates:
  "task_rows_ok ts \<Longrightarrow> (\<And>t. t_id (f t) = t_id t) \<Longrightarrow>
     (\<And>t. t_idempotency_key (f t) = t_idempotency_key t) \<Longrightarrow> task_rows_ok (update_rows p f ts)"
  by (auto simp: task_rows_ok_def unique_some_def intro!: unique_keys_filter_update)

lemma approval_rows_ok_update:
  assumes "approval_rows_ok as" "\<And>a. ap_id (f a) = ap_id a"
    and "\<And>a. (ap_task_id (f a), ap_action (f a), ap_scope (f a)) = (ap_task_id a, ap_action a, ap_scope a)"
    and "\<And>a. p a \<Longrightarrow> approval_active (f a) \<Longrightarrow> approval_active a"
    and "unique_some ap_execution_id (update_rows p f as)"
  shows "approval_rows_ok (update_rows p f as)"
  using assms unfolding approval_rows_ok_def
  by (auto intro!: unique_keys_filter_update)

lemma unique_some_update:
  "unique_some key rs \<Longrightarrow> (\<And>r. key (f r) = key r) \<Longrightarrow> unique_some key (update_rows p f rs)"
  by (auto simp: unique_some_def intro!: unique_keys_filter_update)

lemma approval_row_ok_update:
  "\<forall>a \<in> set as. approval_row_ok a \<Longrightarrow> (\<And>a. p a \<Longrightarrow> approval_row_ok a \<Longrightarrow> approval_row_ok (f a)) \<Longrightarrow>
   \<forall>a \<in> set (update_rows p f as). approval_row_ok a"
  by (auto simp: set_update_rows)

lemma reflp_imp: "reflp (\<lambda>s s'. P s \<longrightarrow> P s')" and transp_imp: "transp (\<lambda>s s'. P s \<longrightarrow> P s')"
  by (auto simp: reflp_def transp_def)

abbreviation tables_rel :: "core \<Rightarrow> core \<Rightarrow> bool" where
  "tables_rel \<equiv> (\<lambda>s s'. tables_ok s \<longrightarrow> tables_ok s')"

lemma tables_inserts:
  "steps tables_rel (insert_project p)" "steps tables_rel (insert_task t)"
  "steps tables_rel (insert_task_run tr)" "steps tables_rel (insert_role_run rr)"
  "steps tables_rel (insert_handoff h)" "steps tables_rel (insert_finding f)"
  "steps tables_rel (insert_test_run te)" "steps tables_rel (insert_review rv)"
  "steps tables_rel (insert_decision dc)" "steps tables_rel (insert_action_execution ex)"
  "steps tables_rel (insert_dispatch d)" "steps tables_rel (insert_quarantine q)"
  unfolding insert_defs
  by (rule steps_writeI; simp add: tables_ok_def reflp_imp)+

lemma tables_insert_approval:
  "fresh_approval a \<Longrightarrow> steps tables_rel (insert_approval E a)"
  unfolding insert_defs Let_def
  by (rule steps_writeI) (auto simp: tables_ok_def reflp_imp fresh_approval_def approval_row_ok_def)

lemma tables_logs:
  "steps tables_rel (insert_event ev)" "steps tables_rel (insert_routing_decision rd)"
  "steps tables_rel (set_command_idempotency k c rid h now)"
proof -
  have "steps tables_rel (store_write (\<lambda>_. True)
     (\<lambda>s. if find_row ev_id (ev_id ev) (db_events s) = None
          then s\<lparr>db_events := db_events s @ [ev]\<rparr> else s))"
    by (rule steps_writeI) (auto simp: tables_ok_def reflp_imp unique_keys_snoc)
  then show "steps tables_rel (insert_event ev)"
    unfolding insert_event_def by (intro steps_rules reflp_imp)
  show "steps tables_rel (insert_routing_decision rd)"
    unfolding insert_routing_decision_def
    by (intro steps_rules reflp_imp steps_writeI) (auto simp: tables_ok_def)
  show "steps tables_rel (set_command_idempotency k c rid h now)"
    unfolding set_command_idempotency_def get_command_idempotency_def
    by (rule steps_writeI) (auto simp: tables_ok_def reflp_imp unique_keys_snoc)
qed

lemma tables_updates:
  "steps tables_rel (update_task_state i st rs now)"
  "steps tables_rel (update_task_run_status i trs now)"
  "steps tables_rel (update_role_run_status i rrs now)"
  "steps tables_rel (update_finding_status i fs now)"
  unfolding update_defs
  by (rule steps_writeI; auto simp: tables_ok_def reflp_imp intro!: rows_ok_updates)+

lemma tables_update_approvals:
  assumes "\<And>a. ap_id (f a) = ap_id a"
    and "\<And>a. (ap_task_id (f a), ap_action (f a), ap_scope (f a)) = (ap_task_id a, ap_action a, ap_scope a)"
    and "\<And>a. p a \<Longrightarrow> approval_active (f a) \<Longrightarrow> approval_active a"
    and "\<And>a. p a \<Longrightarrow> approval_row_ok a \<Longrightarrow> approval_row_ok (f a)"
    and "tables_ok s" "unique_some ap_execution_id (update_rows p f (db_approvals s))"
  shows "tables_ok (s\<lparr>db_approvals := update_rows p f (db_approvals s)\<rparr>)"
proof -
  have "approval_rows_ok (update_rows p f (db_approvals s))"
    using assms by (intro approval_rows_ok_update) (simp_all add: tables_ok_def)
  moreover have "\<forall>a \<in> set (update_rows p f (db_approvals s)). approval_row_ok a"
    using assms(4,5) by (intro approval_row_ok_update) (simp_all add: tables_ok_def)
  ultimately show ?thesis using assms(5) by (simp add: tables_ok_def)
qed

lemma tables_approvals:
  "steps tables_rel (mark_approved i now)" "steps tables_rel (mark_rejected i now)"
  "steps tables_rel (consume_approval_with_execution i now x)" "steps tables_rel (mark_expired i now)"
proof -
  have ids: "unique_some ap_execution_id (db_approvals s)" if "tables_ok s" for s
    using that by (simp add: tables_ok_def approval_rows_ok_def)
  show "steps tables_rel (mark_approved i now)" "steps tables_rel (mark_rejected i now)"
    "steps tables_rel (mark_expired i now)"
    unfolding mark_approved_def mark_rejected_def mark_expired_def update_approvals_def
    by (rule steps_casI, rule impI, rule tables_update_approvals;
        auto simp: approval_active_def approval_row_ok_def intro!: unique_some_update ids)+
  show "steps tables_rel (consume_approval_with_execution i now x)"
  proof (rule stepsI, rule impI)
    fix s assume "tables_ok s"
    then show "tables_ok (snd (consume_approval_with_execution i now x s))"
      by (auto simp: consume_approval_with_execution_def with_consumed_def update_approvals_def
          store_write_def cas_write_def andThen_def bindA_def approval_active_def
          approval_row_ok_def intro!: tables_update_approvals)
  qed
qed

lemma tables_dispatches:
  "steps tables_rel (update_dispatch_bind i ss rn pv md th now)"
  "steps tables_rel (reject_dispatch_cas i)" "steps tables_rel (update_dispatch_status i ds)"
  "steps tables_rel (set_dispatch_attempt_outcome i oc)"
  "steps tables_rel (consume_dispatch i res now)"
  unfolding update_defs
  by (intro steps_rules reflp_imp steps_update_dispatchesI; simp add: tables_ok_def)+

interpretation tables: statement_relation tables_rel
  by unfold_locales
    (simp_all add: reflp_imp transp_imp tables_inserts tables_insert_approval tables_logs
      tables_updates tables_approvals tables_dispatches, simp add: tables_ok_def)

lemma reachable_tables_ok: "reachable E s \<Longrightarrow> tables_ok s"
proof (induction rule: reachable.induct)
  case initial
  show ?case by (simp add: tables_ok_def empty_core_def project_rows_ok_def task_rows_ok_def
      role_run_rows_ok_def approval_rows_ok_def execution_rows_ok_def dispatch_rows_ok_def
      unique_some_def)
next
  case (command s c)
  then show ?case using tables.after_R[of s E c] by blast
qed

section \<open>Persistence of rows\<close>

text \<open>A row without the columns an UPDATE may touch.\<close>

definition task_identity :: "task \<Rightarrow> task" where
  "task_identity t = t\<lparr>t_state := NEW, t_resume_state := None, t_updated_at := 0\<rparr>"

definition task_run_identity :: "task_run \<Rightarrow> task_run" where
  "task_run_identity r = r\<lparr>tr_status := TR_STARTED, tr_finished_at := None\<rparr>"

definition role_run_identity :: "role_run \<Rightarrow> role_run" where
  "role_run_identity r = r\<lparr>rr_status := RR_STARTED, rr_finished_at := None\<rparr>"

definition finding_identity :: "finding \<Rightarrow> finding" where
  "finding_identity f = f\<lparr>f_status := FI_OPEN, f_resolved_at := None\<rparr>"

definition dispatch_identity :: "agent_dispatch \<Rightarrow> agent_dispatch" where
  "dispatch_identity d = d\<lparr>d_child_session_id := None, d_openclaw_run_id := None,
     d_actual_provider := None, d_actual_model := None, d_thinking_tier := None,
     d_status := DS_PENDING, d_result := None, d_started_at := None, d_consumed_at := None,
     d_attempt_outcome := None\<rparr>"

abbreviation same :: "('r \<Rightarrow> 'i) \<Rightarrow> 'r \<Rightarrow> 'r \<Rightarrow> bool" where
  "same identity \<equiv> (\<lambda>r r'. identity r' = identity r)"

text \<open>What an approval is about never changes; a closed one never changes at all; an approved
  one can only be consumed or expire, and keeps the time of its approval.\<close>

definition approval_progress :: "owner_approval \<Rightarrow> owner_approval \<Rightarrow> bool" where
  "approval_progress a a' \<longleftrightarrow>
     ap_id a' = ap_id a \<and> ap_task_id a' = ap_task_id a \<and> ap_action a' = ap_action a \<and>
     ap_scope a' = ap_scope a \<and> ap_requested_by a' = ap_requested_by a \<and>
     ap_source_class a' = ap_source_class a \<and> ap_created_at a' = ap_created_at a \<and>
     ap_expires_at a' = ap_expires_at a \<and> ap_binding_hash a' = ap_binding_hash a \<and>
     (ap_status a \<in> {AP_REJECTED, AP_CONSUMED, AP_EXPIRED} \<longrightarrow> a' = a) \<and>
     (ap_status a = AP_APPROVED \<longrightarrow> ap_status a' \<in> {AP_APPROVED, AP_CONSUMED, AP_EXPIRED} \<and>
        ap_approved_at a' = ap_approved_at a)"

lemma approval_progress_refl: "reflp approval_progress"
  by (simp add: reflp_def approval_progress_def)

lemma approval_progress_trans: "transp approval_progress"
proof (rule transpI)
  fix a b c assume ab: "approval_progress a b" and bc: "approval_progress b c"
  show "approval_progress a c"
  proof (cases "ap_status a \<in> {AP_REJECTED, AP_CONSUMED, AP_EXPIRED}")
    case True
    with ab have "b = a" unfolding approval_progress_def by blast
    with bc show ?thesis by simp
  next
    case False
    show ?thesis
    proof (cases "ap_status a = AP_APPROVED")
      case True
      with ab have b: "ap_status b \<in> {AP_APPROVED, AP_CONSUMED, AP_EXPIRED}"
        "ap_approved_at b = ap_approved_at a" by (simp_all add: approval_progress_def)
      then have "ap_status c \<in> {AP_APPROVED, AP_CONSUMED, AP_EXPIRED}"
        "ap_approved_at c = ap_approved_at b"
        using bc by (auto simp: approval_progress_def)
      with ab bc b True show ?thesis by (simp add: approval_progress_def)
    next
      case pending: False
      with False ab bc show ?thesis by (simp add: approval_progress_def)
    qed
  qed
qed

definition rows_persist :: "core \<Rightarrow> core \<Rightarrow> bool" where
  "rows_persist s s' \<longleftrightarrow>
     grows (=) (db_projects s) (db_projects s') \<and>
     grows (same task_identity) (db_tasks s) (db_tasks s') \<and>
     grows (same task_run_identity) (db_task_runs s) (db_task_runs s') \<and>
     grows (same role_run_identity) (db_role_runs s) (db_role_runs s') \<and>
     grows (=) (db_handoffs s) (db_handoffs s') \<and>
     grows (same finding_identity) (db_findings s) (db_findings s') \<and>
     grows (=) (db_test_runs s) (db_test_runs s') \<and>
     grows (=) (db_reviews s) (db_reviews s') \<and>
     grows (=) (db_decisions s) (db_decisions s') \<and>
     grows approval_progress (db_approvals s) (db_approvals s') \<and>
     grows (=) (db_executions s) (db_executions s') \<and>
     grows (=) (db_events s) (db_events s') \<and>
     grows (=) (db_idempotency s) (db_idempotency s') \<and>
     grows (same dispatch_identity) (db_dispatches s) (db_dispatches s') \<and>
     grows (=) (db_quarantine s) (db_quarantine s') \<and>
     grows (=) (db_routing s) (db_routing s')"

lemma grows_eq_refl [simp]: "grows (=) xs xs"
  by (simp add: grows_refl reflp_def)

lemma grows_eq_snoc [simp]: "grows (=) xs (xs @ [x])"
  by (simp add: grows_snoc reflp_def)

lemma grows_same_refl [simp]: "grows (same i) xs xs"
  by (simp add: grows_refl reflp_def)

lemma grows_same_snoc [simp]: "grows (same i) xs (xs @ [x])"
  by (simp add: grows_snoc reflp_def)

lemma grows_same_update [simp]:
  "(\<And>x. i (f x) = i x) \<Longrightarrow> grows (same i) xs (update_rows p f xs)"
  by (simp add: grows_update_rows reflp_def)

lemma grows_approvals [simp]:
  "grows approval_progress xs xs" "grows approval_progress xs (xs @ [x])"
  by (simp_all add: grows_refl grows_snoc approval_progress_refl)

lemma rows_persist_refl: "reflp rows_persist"
  by (simp add: reflp_def rows_persist_def)

lemma rows_persist_trans: "transp rows_persist"
proof (rule transpI)
  have eq: "transp (=)" and sm: "transp (same i)" for i by (simp_all add: transp_def)
  fix a b c assume "rows_persist a b" "rows_persist b c"
  then show "rows_persist a c"
    unfolding rows_persist_def
    by (elim conjE, intro conjI)
       (erule grows_trans[OF eq] grows_trans[OF sm] grows_trans[OF approval_progress_trans],
         assumption)+
qed

lemma persist_inserts:
  "steps rows_persist (insert_project p)" "steps rows_persist (insert_task t)"
  "steps rows_persist (insert_task_run tr)" "steps rows_persist (insert_role_run rr)"
  "steps rows_persist (insert_handoff h)" "steps rows_persist (insert_finding f)"
  "steps rows_persist (insert_test_run te)" "steps rows_persist (insert_review rv)"
  "steps rows_persist (insert_decision dc)" "steps rows_persist (insert_action_execution ex)"
  "steps rows_persist (insert_dispatch d)" "steps rows_persist (insert_quarantine q)"
  "steps rows_persist (insert_approval E a)"
  unfolding insert_defs Let_def
  by (rule steps_writeI; simp add: rows_persist_def rows_persist_refl)+

lemma persist_logs:
  "steps rows_persist (insert_event ev)" "steps rows_persist (insert_routing_decision rd)"
  "steps rows_persist (set_command_idempotency k c rid h now)"
  unfolding insert_event_def insert_routing_decision_def set_command_idempotency_def
  by (intro steps_rules rows_persist_refl steps_writeI; simp add: rows_persist_def)+

lemma persist_updates:
  "steps rows_persist (update_task_state i st rs now)"
  "steps rows_persist (update_task_run_status i trs now)"
  "steps rows_persist (update_role_run_status i rrs now)"
  "steps rows_persist (update_finding_status i fs now)"
  unfolding update_defs with_role_run_status_def
  by (rule steps_writeI; simp add: rows_persist_def rows_persist_refl task_identity_def
      task_run_identity_def role_run_identity_def finding_identity_def)+

lemma persist_update_approvals:
  "(\<And>a. p a \<Longrightarrow> approval_progress a (f a)) \<Longrightarrow> steps rows_persist (update_approvals p f)"
  unfolding update_approvals_def
  by (rule steps_casI) (simp add: rows_persist_def grows_update_rows approval_progress_refl)

lemma persist_approvals:
  "steps rows_persist (mark_approved i now)" "steps rows_persist (mark_rejected i now)"
  "steps rows_persist (consume_approval_with_execution i now x)"
  "steps rows_persist (mark_expired i now)"
  unfolding mark_approved_def mark_rejected_def consume_approval_with_execution_def mark_expired_def
  by (intro steps_rules rows_persist_refl rows_persist_trans steps_writeI persist_update_approvals;
      auto simp: approval_progress_def rows_persist_def)+

lemma persist_dispatches:
  "steps rows_persist (update_dispatch_bind i ss rn pv md th now)"
  "steps rows_persist (reject_dispatch_cas i)" "steps rows_persist (update_dispatch_status i ds)"
  "steps rows_persist (set_dispatch_attempt_outcome i oc)"
  "steps rows_persist (consume_dispatch i res now)"
  unfolding update_defs
  by (intro steps_rules rows_persist_refl steps_update_dispatchesI;
      simp add: rows_persist_def dispatch_identity_def)+

interpretation persist: statement_relation rows_persist
  by unfold_locales
    (simp_all add: rows_persist_refl rows_persist_trans persist_inserts persist_logs
      persist_updates persist_approvals persist_dispatches, simp add: rows_persist_def)

lemma task_identity_id: "task_identity u = task_identity v \<Longrightarrow> t_id u = t_id v"
  by (drule arg_cong[of _ _ t_id]) (simp add: task_identity_def)

lemma task_persists:
  assumes "tables_ok s" "tables_ok s'" "rows_persist s s'" "get_task i s = Some t"
  shows "\<exists>t'. get_task i s' = Some t' \<and> task_identity t' = task_identity t"
proof -
  have "grows (same task_identity) (db_tasks s) (db_tasks s')"
    using assms(3) unfolding rows_persist_def by blast
  moreover have "unique_keys t_id (db_tasks s)" "unique_keys t_id (db_tasks s')"
    using assms(1,2) unfolding tables_ok_def task_rows_ok_def by blast+
  ultimately show ?thesis
    using task_identity_id assms(4) unfolding get_task_def by (rule growsD_find)
qed

end
