(* ===== verification/Core_Safety.thy ===== *)
theory Core_Safety
  imports Core_Tables
begin

text \<open>
  The life of a task.  \<open>task_move\<close> is the only way a command may change a task's state: a
  transition of the table, or the parking of a live task by \<open>recover()\<close>, which bypasses the
  table; in both cases the resume state is set exactly on entering a pause state, to the state
  that was left.  Every command moves every task along a chain of such moves
  (\<open>command_moves\<close>), and the well-formedness of reachable tasks follows by induction.
\<close>

section \<open>Moves\<close>

type_synonym mode = "task_state \<times> task_state option"

definition task_mode :: "task \<Rightarrow> mode" where
  "task_mode t = (t_state t, t_resume_state t)"

definition task_move :: "mode \<Rightarrow> mode \<Rightarrow> bool" where
  "task_move m m' \<longleftrightarrow>
     (is_allowed (fst m) (fst m') (snd m) \<or>
      fst m' = RECOVERING \<and> fst m \<notin> TERMINAL_STATES \<and> fst m \<notin> PAUSE_STATES) \<and>
     snd m' = (if fst m' \<in> PAUSE_STATES then Some (fst m) else None)"

text \<open>Between two states of the database every task moves along a chain; a task that is new came
  along one from \<open>NEW\<close>.\<close>

definition tasks_move :: "task list \<Rightarrow> task list \<Rightarrow> bool" where
  "tasks_move ts ts' \<longleftrightarrow> (\<forall>i t. find_row t_id i ts = Some t \<longrightarrow>
       (\<exists>t'. find_row t_id i ts' = Some t' \<and> task_move\<^sup>*\<^sup>* (task_mode t) (task_mode t'))) \<and>
     (\<forall>i t'. find_row t_id i ts = None \<longrightarrow> find_row t_id i ts' = Some t' \<longrightarrow>
       task_move\<^sup>*\<^sup>* (NEW, None) (task_mode t'))"

lemma tasks_move_refl: "tasks_move ts ts"
  by (auto simp: tasks_move_def)

lemma tasks_move_trans:
  assumes xy: "tasks_move xs ys" and yz: "tasks_move ys zs"
  shows "tasks_move xs zs"
  unfolding tasks_move_def
proof (intro conjI allI impI)
  fix i t assume "find_row t_id i xs = Some t"
  then show "\<exists>t'. find_row t_id i zs = Some t' \<and> task_move\<^sup>*\<^sup>* (task_mode t) (task_mode t')"
    using xy yz unfolding tasks_move_def by (meson rtranclp_trans)
next
  fix i t' assume x: "find_row t_id i xs = None" and z: "find_row t_id i zs = Some t'"
  show "task_move\<^sup>*\<^sup>* (NEW, None) (task_mode t')"
  proof (cases "find_row t_id i ys")
    case None
    with z yz show ?thesis unfolding tasks_move_def by blast
  next
    case (Some u)
    then have "task_move\<^sup>*\<^sup>* (NEW, None) (task_mode u)"
      using x xy unfolding tasks_move_def by blast
    moreover have "task_move\<^sup>*\<^sup>* (task_mode u) (task_mode t')"
      using Some z yz unfolding tasks_move_def by fastforce
    ultimately show ?thesis by (rule rtranclp_trans)
  qed
qed

lemma tasks_move_snoc:
  assumes "task_mode t = (NEW, None)" shows "tasks_move ts (ts @ [t])"
  using assms by (auto simp: tasks_move_def find_row_append find_row_Cons split: option.splits if_splits)

text \<open>The UPDATE of \<open>_update_task_state\<close>.\<close>

definition with_task_state ::
  "string \<Rightarrow> task_state \<Rightarrow> task_state option \<Rightarrow> timestamp \<Rightarrow> task list \<Rightarrow> task list" where
  "with_task_state i st rs now = update_rows (\<lambda>t. t_id t = i)
     (\<lambda>t. t\<lparr>t_state := st, t_resume_state := rs, t_updated_at := now\<rparr>)"

lemma update_task_state_eq:
  "update_task_state i st rs now = store_write (\<lambda>_. True)
     (\<lambda>s. s\<lparr>db_tasks := with_task_state i st rs now (db_tasks s)\<rparr>)"
  by (simp add: update_task_state_def with_task_state_def)

lemma find_with_task_state:
  "find_row t_id j (with_task_state i st rs now ts) =
     map_option (\<lambda>t. if t_id t = i then t\<lparr>t_state := st, t_resume_state := rs, t_updated_at := now\<rparr>
                     else t) (find_row t_id j ts)"
  unfolding with_task_state_def by (rule find_row_update_rows) simp

lemma tasks_move_with:
  assumes "find_row t_id i ts = Some t" and "task_move (task_mode t) (st, rs)"
  shows "tasks_move ts (with_task_state i st rs now ts)"
  unfolding tasks_move_def find_with_task_state
proof (intro conjI allI impI)
  fix j u assume u: "find_row t_id j ts = Some u"
  then have j: "t_id u = j" by (auto dest: find_row_SomeD)
  show "\<exists>t'. map_option (\<lambda>t. if t_id t = i then t\<lparr>t_state := st, t_resume_state := rs,
      t_updated_at := now\<rparr> else t) (find_row t_id j ts) = Some t' \<and>
    task_move\<^sup>*\<^sup>* (task_mode u) (task_mode t')"
  proof (cases "j = i")
    case True
    with u assms(1) have "u = t" by simp
    with u True j assms(2) show ?thesis
      by (simp add: task_mode_def r_into_rtranclp)
  next
    case False
    with u j show ?thesis by simp
  qed
qed simp

section \<open>Frames of the movers\<close>

definition other_tables where
  "other_tables (s :: core) = (db_projects s, db_task_runs s, db_role_runs s, db_handoffs s, db_findings s,
     db_test_runs s, db_reviews s, db_decisions s, db_approvals s, db_executions s,
     db_idempotency s, db_dispatches s, db_quarantine s, db_routing s)"

lemma other_tables_logged [simp]:
  "other_tables (logged ev s) = other_tables s" "other_tables (s\<lparr>ticks := n\<rparr>) = other_tables s"
  "other_tables (s\<lparr>fresh := n\<rparr>) = other_tables s" "other_tables (s\<lparr>db_tasks := ts\<rparr>) = other_tables s"
  by (simp_all add: other_tables_def)

lemma wp_apply_transition:
  assumes "\<And>now s'. db_tasks s' = with_task_state (t_id task) to nr now (db_tasks s) \<Longrightarrow>
      other_tables s' = other_tables s \<Longrightarrow> Q () s'"
  shows "wp (apply_transition E task to nr) Q any_error s"
  unfolding apply_transition_def update_task_state_eq
  by (auto simp: wp_simps split: sum.splits intro!: assms)

lemma wp_emit_any:
  assumes "\<And>s'. db_tasks s' = db_tasks s \<Longrightarrow> other_tables s' = other_tables s \<Longrightarrow> Q () s'"
  shows "wp (emit E typ ti ro st pl) Q any_error s"
  by (auto simp: wp_simps split: sum.splits intro!: assms)

section \<open>The allowed moves of each guard\<close>

lemma move_allowed:
  "is_allowed x y rs \<Longrightarrow> y \<notin> PAUSE_STATES \<Longrightarrow> task_move (x, rs) (y, None)"
  by (simp add: task_move_def)

lemma move_gate:
  "is_actionable x \<Longrightarrow> task_move (x, rs) (OWNER_APPROVAL_REQUIRED, Some x)"
  by (simp add: task_move_def actionable_gate_entry PAUSE_STATES_def)

lemma move_park:
  "x \<notin> TERMINAL_STATES \<Longrightarrow> x \<notin> PAUSE_STATES \<Longrightarrow> task_move (x, rs) (RECOVERING, Some x)"
  by (simp add: task_move_def PAUSE_STATES_def)

lemma allowed_from_pause:
  "x \<in> PAUSE_STATES \<Longrightarrow> is_allowed x y rs \<Longrightarrow> y \<notin> PAUSE_STATES"
  by (cases x; cases y; cases rs)
     (auto simp: is_allowed_def state_set_defs split: if_splits)

section \<open>Commands that do not touch tasks, approvals or executions\<close>

definition gate_tables :: "core \<Rightarrow> task list \<times> owner_approval list \<times> action_execution list" where
  "gate_tables s = (db_tasks s, db_approvals s, db_executions s)"

lemma bookkeeping_gate_tables: "effects_free gate_tables"
  by (simp add: effects_free_def bookkeeping_free_def gate_tables_def)

lemma keeps_gate_tasks:
  "keeps gate_tables (create_project E nm src key)"
  "keeps gate_tables (start_role E tid ro src key)" "keeps gate_tables (complete_role E rid src key)"
  "keeps gate_tables (fail_role E rid src dt key)" "keeps gate_tables (start_task_run E tid src key)"
  "keeps gate_tables (complete_task_run E rid src key)"
  "keeps gate_tables (fail_task_run E rid src key)"
  "keeps gate_tables (add_finding E tid sv ds src key)"
  "keeps gate_tables (resolve_finding E fid src key)"
  "keeps gate_tables (record_test_run E tid re src dt key)"
  "keeps gate_tables (record_review E tid vd src dt key)"
  "keeps gate_tables (record_decision E tid dec src dt key)"
  unfolding task_command_defs insert_defs update_defs
  by (intro keeps_rules keeps_idempotent; simp add: gate_tables_def)+

lemma keeps_gate_dispatch:
  "keeps gate_tables (create_dispatch E tid trid ro pos cyc kd mc src par key rd)"
  "keeps gate_tables (bind_spawn_result E did ss rn pv md th src key)"
  "keeps gate_tables (mark_agent_failed E did rs src key ec cd)"
  unfolding dispatch_command_defs models_handoff_def insert_defs update_defs
  by (intro keeps_rules keeps_idempotent;
      auto simp: gate_tables_def intro!: keeps_rules split: if_splits option.splits)+

section \<open>Commands that move tasks\<close>

definition moves_tasks :: "'a cact \<Rightarrow> bool" where
  "moves_tasks m \<longleftrightarrow> (\<forall>s. wp m (\<lambda>_ s'. tasks_move (db_tasks s) (db_tasks s')) any_error s)"

lemma moves_tasksI:
  "(\<And>s. wp m (\<lambda>_ s'. tasks_move (db_tasks s) (db_tasks s')) any_error s) \<Longrightarrow> moves_tasks m"
  by (simp add: moves_tasks_def)

lemma moves_tasksD:
  "moves_tasks m \<Longrightarrow> wp m (\<lambda>_ s'. tasks_move (db_tasks s) (db_tasks s')) any_error s"
  by (simp add: moves_tasks_def)

abbreviation moved :: "core \<Rightarrow> core \<Rightarrow> bool" where
  "moved \<equiv> (\<lambda>s s'. tasks_move (db_tasks s) (db_tasks s'))"

lemma moved_refl: "reflp moved" and moved_trans: "transp moved"
  by (auto simp: reflp_def transp_def tasks_move_refl intro: tasks_move_trans)

lemma steps_wp: "steps R m \<longleftrightarrow> (\<forall>s. wp m (\<lambda>_. R s) (\<lambda>_. R s) s)"
  by (simp add: steps_def wp_snd)

lemma moved_keeps: "keeps gate_tables m \<Longrightarrow> steps moved m"
  unfolding steps_def by (metis fst_conv gate_tables_def keepsD tasks_move_refl)

lemma moved_atomically: "moves_tasks m \<Longrightarrow> steps moved (atomically m)"
  unfolding steps_wp wp_atomically
  by (intro allI, rule wp_mono, erule moves_tasksD) (simp_all add: tasks_move_refl)

lemma moved_idempotent:
  assumes "moves_tasks work" "\<And>rid. keeps db_tasks (refet rid)"
  shows "steps moved (idempotent E key command args work refet)"
  unfolding steps_wp
proof
  fix s :: core
  let ?I = "\<lambda>s'. tasks_move (db_tasks s) (db_tasks s')"
  show "wp (idempotent E key command args work refet) (\<lambda>_. ?I) (\<lambda>_. ?I) s"
  proof (rule wp_idempotent_inv)
    show "?I s" by (rule tasks_move_refl)
    show "wp work (\<lambda>_. ?I) any_error s" using assms(1) by (rule moves_tasksD)
    show "wp (refet rid) (\<lambda>_. ?I) any_error s'" if "?I s'" for rid s'
      using assms(2) by (rule wp_keeps) (use that in simp_all)
  qed simp_all
qed

lemmas moved_rules = steps_rules moved_refl moved_trans moved_idempotent moved_atomically keeps_refetch

lemma get_task_id: "get_task i s = Some t \<Longrightarrow> t_id t = i \<and> find_row t_id i (db_tasks s) = Some t"
  by (auto simp: get_task_def dest: find_row_SomeD)

lemma wp_move_current:
  assumes "get_task (t_id t) s = Some t" "task_move (task_mode t) (y, nr)"
    and "\<And>s'. tasks_move (db_tasks s) (db_tasks s') \<Longrightarrow> other_tables s' = other_tables s \<Longrightarrow>
      (\<exists>now. get_task (t_id t) s' = Some (t\<lparr>t_state := y, t_resume_state := nr, t_updated_at := now\<rparr>)) \<Longrightarrow>
      Q () s'"
  shows "wp (apply_transition E t y nr) Q any_error s"
proof (rule wp_apply_transition)
  fix now s' assume "db_tasks s' = with_task_state (t_id t) y nr now (db_tasks s)"
    and "other_tables s' = other_tables s"
  then show "Q () s'"
    using assms(1) get_task_id[OF assms(1)]
    by (intro assms(3)) (auto simp: get_task_def find_with_task_state intro!: tasks_move_with assms(2))
qed

lemma moved_create_task: "steps moved (create_task E pid ti src key ds rc pol)"
  unfolding create_task_def
  by (intro moved_rules moves_tasksI)
     (auto simp: wp_simps insert_task_def Let_def tasks_move_snoc task_mode_def split: option.splits sum.splits)

lemma moved_transition: "steps moved (transition E tid st src key)"
  unfolding transition_def
  by (intro moved_rules moves_tasksI)
     (auto simp: wp_simps task_mode_def dest: get_task_id intro!: wp_move_current move_allowed
        split: option.splits)

lemma moved_resume: "steps moved (resume E tid src key)"
proof -
  have paused: "y \<notin> PAUSE_STATES" if "is_allowed PAUSED y rs" for y rs
    using allowed_from_pause[OF _ that] by (simp add: PAUSE_STATES_def)
  show ?thesis
    unfolding resume_def
    by (intro moved_rules moves_tasksI)
       (auto simp: wp_simps task_mode_def dest: get_task_id paused
          intro!: wp_move_current move_allowed split: option.splits)
qed

end
