(* ===== verification/Core_Lifecycle.thy ===== *)
theory Core_Lifecycle
  imports Core_Safety
begin

text \<open>
  Every command of the core moves every task along a chain of \<open>task_move\<close>s, the gate and the
  dispatch commands and \<open>recover()\<close> included; what follows for the reachable tasks.
\<close>

section \<open>Gate commands\<close>

lemma moved_keeps_tasks: "keeps db_tasks m \<Longrightarrow> steps moved m"
  unfolding steps_def by (metis keepsD tasks_move_refl)

lemma moves_keeps_tasks: "keeps db_tasks m \<Longrightarrow> moves_tasks m"
  by (rule moves_tasksI) (erule wp_keeps; simp add: tasks_move_refl)

lemma keeps_tasks_emit [keeps_rules]: "keeps db_tasks (emit E typ ti ro st pl)"
  by (intro keeps_rules) simp_all

lemma find_row_self: "find_row key k rs = Some r \<Longrightarrow> find_row key (key r) rs = Some r"
  by (metis find_row_SomeD)

lemma moves_gated: "moves_tasks (gated_work E tid a sc ro src)"
  unfolding gated_work_def insert_approval_def
  by (rule moves_tasksI)
     (auto simp: wp_simps Let_def task_mode_def get_task_def dest: find_row_SomeD
        intro!: wp_move_current move_gate split: option.splits sum.splits elim: find_row_self)

lemma moved_request_action: "steps moved (request_action E tid a sc ro src key)"
proof -
  have plain: "moves_tasks (forbidden_work E tid a sc ac src)"
    "moves_tasks (autonomous_work E tid a sc ac src)" for ac
    unfolding forbidden_work_def autonomous_work_def insert_action_execution_def
    by (rule moves_keeps_tasks; intro keeps_rules; simp)+
  have refet: "keeps db_tasks (request_action_refetch rid)" for rid
    unfolding request_action_refetch_def by (intro keeps_rules)
  have events: "steps moved (emit E ty ti ro' st pl)" for ty ti ro' st pl
    by (rule moved_keeps_tasks) (rule keeps_tasks_emit)
  have sums: "steps moved (case x of Inl e \<Rightarrow> f e | Inr b \<Rightarrow> g b)"
    if "\<And>e. steps moved (f e)" "\<And>b. steps moved (g b)" for x :: "argent_error + unit"
      and f :: "argent_error \<Rightarrow> entity cact" and g
    using that by (cases x) simp_all
  show ?thesis
    unfolding request_action_def pre_check_permission_def Let_def
    by (intro moved_rules sums events plain moves_gated refet keeps_intros(1))
qed

lemma keeps_binding: "keeps p k \<Longrightarrow> keeps p (check_full_binding E ap tid a sc k)"
  unfolding check_full_binding_def by (intro keeps_rules)

lemma keeps_binding_refetch: "keeps p (approval_binding_refetch E tid a sc rid)"
  unfolding approval_binding_refetch_def by (intro keeps_rules keeps_binding)

lemma moved_on_expired: "on_expired E e = Some k \<Longrightarrow> steps moved k"
proof (drule on_expired_Some, elim exE conjE)
  fix aid assume k: "k = andThen (atomically (expire_and_release E aid)) (raise ApprovalError)"
  have "moves_tasks (expire_and_release E aid)"
    unfolding expire_and_release_def mark_expired_def update_approvals_def
    by (rule moves_tasksI)
       (auto simp: wp_simps task_mode_def get_task_def tasks_move_refl PAUSE_STATES_def
          dest: find_row_SomeD
          intro!: wp_move_current move_allowed split: option.splits elim: find_row_self)
  then show "steps moved k"
    unfolding k by (intro moved_rules)
qed

lemma moves_reject: "moves_tasks (reject_work E ap tid a sc)"
  unfolding reject_work_def check_full_binding_def mark_rejected_def update_approvals_def
  by (rule moves_tasksI)
     (auto simp: wp_simps task_mode_def get_task_def tasks_move_refl PAUSE_STATES_def
        dest: find_row_SomeD
        intro!: wp_move_current move_allowed split: option.splits sum.splits elim: find_row_self)

lemma gate_exit_not_pause: "is_allowed OWNER_APPROVAL_REQUIRED y rs \<Longrightarrow> y \<notin> PAUSE_STATES"
  using allowed_from_pause[of OWNER_APPROVAL_REQUIRED] by (simp add: PAUSE_STATES_def)

lemma moves_execute: "moves_tasks (execute_work E aid tid a sc)"
  unfolding execute_work_def check_full_binding_def consume_approval_with_execution_def
    update_approvals_def insert_action_execution_def
  by (rule moves_tasksI)
     (auto simp: wp_simps task_mode_def get_task_def tasks_move_refl
        dest: find_row_SomeD gate_exit_not_pause
        intro!: wp_move_current move_allowed split: option.splits sum.splits elim: find_row_self)

lemma moves_bind_ret:
  "(\<And>r. moves_tasks m) \<Longrightarrow> moves_tasks (bindA m (\<lambda>r. ret (f r)))"
  by (simp add: moves_tasks_def wp_simps)

lemma moves_fetch: "(\<And>a. moves_tasks (k a)) \<Longrightarrow> moves_tasks (fetch f e k)"
  by (auto simp: moves_tasks_def wp_simps split: option.splits)

lemma moved_decisions:
  "steps moved (approve E aid src tid a sc key)" "steps moved (reject E aid src tid a sc key)"
  "steps moved (execute_approved E aid src tid a sc key)"
proof -
  have app: "moves_tasks (approve_work E ap tid a sc)" for ap
    unfolding approve_work_def mark_approved_def update_approvals_def
    by (rule moves_keeps_tasks) (intro keeps_rules keeps_binding keeps_tasks_emit; simp)
  show "steps moved (approve E aid src tid a sc key)" "steps moved (reject E aid src tid a sc key)"
    "steps moved (execute_approved E aid src tid a sc key)"
    unfolding approve_def reject_def execute_approved_def
    by (intro moved_rules moves_fetch moves_bind_ret app moves_reject moves_execute
        keeps_binding_refetch; erule moved_on_expired)+
qed

section \<open>Results of agents\<close>

lemma sync_plan_targets:
  "(x, y) \<in> set (state_sync_plan d dec cur) \<Longrightarrow> y \<notin> PAUSE_STATES \<and> y \<noteq> FAILED"
  by (auto simp: state_sync_plan_def standard_plan_def rework_plan_def PAUSE_STATES_def Let_def
      split: if_splits)

lemma wp_run_plan:
  assumes "get_task (t_id t) s = Some t" "tasks_move ts (db_tasks s)"
    and "\<And>x y. (x, y) \<in> set plan \<Longrightarrow> y \<notin> PAUSE_STATES"
  shows "wp (run_plan E plan t) (\<lambda>_ s'. tasks_move ts (db_tasks s')) any_error s"
  using assms
proof (induction plan arbitrary: t s)
  case Nil
  then show ?case by (simp add: wp_simps)
next
  case (Cons p plan)
  obtain x y where p: "p = (x, y)" by (cases p)
  have y: "y \<notin> PAUSE_STATES" using Cons.prems(3)[of x y] p by simp
  show ?case
    unfolding p run_plan.simps wp_simps if_bool_eq_conj
  proof (intro conjI impI TrueI)
    assume "is_allowed (t_state t) y (t_resume_state t)"
    then have "task_move (task_mode t) (y, None)" by (simp add: task_mode_def move_allowed y)
    with Cons.prems(1) show "wp (apply_transition E t y None)
        (\<lambda>_ s. case get_task (t_id t) s of None \<Rightarrow> True
          | Some a \<Rightarrow> wp (run_plan E plan a) (\<lambda>_ s'. tasks_move ts (db_tasks s')) any_error s)
        any_error s"
    proof (rule wp_move_current)
      fix s' assume m: "tasks_move (db_tasks s) (db_tasks s')"
        and "\<exists>now. get_task (t_id t) s' = Some (t\<lparr>t_state := y, t_resume_state := None, t_updated_at := now\<rparr>)"
      then obtain t' where t': "get_task (t_id t) s' = Some t'" "t_id t' = t_id t"
        by (auto dest: get_task_id)
      have "wp (run_plan E plan t') (\<lambda>_ s'. tasks_move ts (db_tasks s')) any_error s'"
        using t' Cons.prems(2,3) m by (intro Cons.IH) (auto intro: tasks_move_trans)
      with t'(1) show "case get_task (t_id t) s' of None \<Rightarrow> True
          | Some a \<Rightarrow> wp (run_plan E plan a) (\<lambda>_ s'. tasks_move ts (db_tasks s')) any_error s'"
        by simp
    qed
  qed
qed

lemma recovering_exit_not_pause: "is_allowed RECOVERING y rs \<Longrightarrow> y \<notin> PAUSE_STATES"
  using allowed_from_pause[of RECOVERING] by (simp add: PAUSE_STATES_def)

lemma recovering_resume_known:
  "is_allowed RECOVERING y rs \<Longrightarrow> rs = Some y \<Longrightarrow> task_move (RECOVERING, rs) (y, None)"
  by (simp add: task_move_def recovering_exit_not_pause)

lemma wp_state_sync:
  assumes t: "get_task (d_task_id d) s = Some t" and ts: "tasks_move ts (db_tasks s)"
  shows "wp (apply_state_sync E t d dec) (\<lambda>_ s'. tasks_move ts (db_tasks s')) any_error s"
proof -
  have id: "t_id t = d_task_id d" using get_task_id[OF t] by simp
  have plan: "wp (run_plan E (state_sync_plan d dec (t_state u)) u)
      (\<lambda>_ s'. tasks_move ts (db_tasks s')) any_error s'"
    if "get_task (t_id u) s' = Some u" "tasks_move ts (db_tasks s')" for u s'
    using that sync_plan_targets by (intro wp_run_plan) auto
  show ?thesis
    unfolding apply_state_sync_def wp_simps if_bool_eq_conj
  proof (intro conjI impI)
    assume "t_state t \<noteq> RECOVERING"
    then show "wp (run_plan E (state_sync_plan d dec (t_state t)) t)
        (\<lambda>_ s'. tasks_move ts (db_tasks s')) any_error s"
      using t id ts by (intro plan) simp_all
  next
    assume st: "t_state t = RECOVERING"
    show "case t_resume_state t of None \<Rightarrow> True | Some a \<Rightarrow>
        (is_allowed (t_state t) a (Some a) \<longrightarrow>
          wp (apply_transition E t a None)
           (\<lambda>_ s. case get_task (d_task_id d) s of None \<Rightarrow> True
             | Some aa \<Rightarrow> wp (run_plan E (state_sync_plan d dec (t_state aa)) aa)
                  (\<lambda>_ s'. tasks_move ts (db_tasks s')) any_error s) any_error s) \<and>
        (\<not> is_allowed (t_state t) a (Some a) \<longrightarrow> True)"
    proof (cases "t_resume_state t")
      case (Some a)
      have "wp (apply_transition E t a None)
           (\<lambda>_ s. case get_task (d_task_id d) s of None \<Rightarrow> True
             | Some aa \<Rightarrow> wp (run_plan E (state_sync_plan d dec (t_state aa)) aa)
                  (\<lambda>_ s'. tasks_move ts (db_tasks s')) any_error s) any_error s"
        if al: "is_allowed (t_state t) a (Some a)"
      proof (rule wp_move_current)
        show "get_task (t_id t) s = Some t" using t id by simp
        show "task_move (task_mode t) (a, None)"
          using al Some st by (simp add: task_mode_def recovering_resume_known)
        fix s' assume m: "tasks_move (db_tasks s) (db_tasks s')"
          and "\<exists>now. get_task (t_id t) s' = Some (t\<lparr>t_state := a, t_resume_state := None, t_updated_at := now\<rparr>)"
        then obtain t' where t': "get_task (d_task_id d) s' = Some t'" "t_id t' = d_task_id d"
          by (auto simp: id dest: get_task_id)
        with plan[of t' s'] tasks_move_trans[OF ts m]
        show "case get_task (d_task_id d) s' of None \<Rightarrow> True
             | Some aa \<Rightarrow> wp (run_plan E (state_sync_plan d dec (t_state aa)) aa)
                  (\<lambda>_ s'. tasks_move ts (db_tasks s')) any_error s'"
          by simp
      qed
      with Some show ?thesis by simp
    qed simp
  qed
qed

lemma effects_free_tasks: "effects_free db_tasks"
  by (simp add: effects_free_def bookkeeping_free_def)

lemmas keeps_tasks_effects = keeps_effects[OF effects_free_tasks]

lemma keeps_tasks_dispatch_updates:
  "keeps db_tasks (consume_dispatch did res now)" "keeps db_tasks (update_dispatch_status did st)"
  "keeps db_tasks (set_dispatch_attempt_outcome did oc)"
  unfolding update_defs by (intro keeps_rules; simp)+

lemma wp_same_tasks:
  assumes "keeps db_tasks m" "db_tasks s = T"
    and "\<And>a s'. db_tasks s' = T \<Longrightarrow> Q a s'"
  shows "wp m Q any_error s"
  using assms(1) by (rule wp_keeps) (use assms in simp_all)

lemma wp_consume_result:
  assumes "get_task (d_task_id d) s = Some t"
  shows "wp (consume_result E d t v) (\<lambda>_ s'. tasks_move (db_tasks s) (db_tasks s')) any_error s"
proof -
  let ?Q = "\<lambda>_ s'. tasks_move (db_tasks s) (db_tasks s')"
  note keep = keeps_tasks_effects keeps_tasks_dispatch_updates keeps_tasks_emit
  have sync: "wp (apply_state_sync E t d dec) (\<lambda>_. wp m ?Q any_error) any_error s'"
    if "db_tasks s' = db_tasks s" "keeps db_tasks m" for dec s' and m :: "entity cact"
  proof (rule wp_mono)
    show "wp (apply_state_sync E t d dec) ?Q any_error s'"
      using assms that(1) by (intro wp_state_sync) (simp_all add: get_task_def tasks_move_refl)
    show "wp m ?Q any_error s''" if "tasks_move (db_tasks s) (db_tasks s'')" for s''
      using \<open>keeps db_tasks m\<close> by (rule wp_keeps) (use that in simp_all)
  qed simp
  show ?thesis
    unfolding consume_result_def received_def
    by (simp only: wp_look wp_require wp_bindA wp_andThen wp_if wp_ret wp_world if_bool_eq_conj |
        intro conjI impI TrueI sync wp_same_tasks[OF keep(5)] wp_same_tasks[OF keep(7)]
          wp_same_tasks[OF keep(1)] wp_same_tasks[OF keep(2)] wp_same_tasks[OF keep(3)]
          wp_same_tasks[OF keep(8)] refl keeps_intros(1,4) keep(8) |
        simp add: tasks_move_refl)+
qed

lemma wp_receive_bound:
  "wp (receive_bound E d em res) (\<lambda>_ s'. tasks_move (db_tasks s) (db_tasks s')) any_error s"
proof -
  let ?Q = "\<lambda>_ s'. tasks_move (db_tasks s) (db_tasks s')"
  have refuse: "wp (refuse E t did st rs em) ?Q any_error s'" if "db_tasks s' = db_tasks s" for t did st rs s'
    using keeps_tasks_effects(4) that by (rule wp_same_tasks) (simp add: tasks_move_refl)
  have malformed: "wp (bindA (now_iso E) (\<lambda>_.
      bindA (update_dispatch_status did st) (\<lambda>_. refuse E t did' st' rs em))) ?Q any_error s"
    for did st t did' st' rs
    unfolding wp_bindA wp_world
    by (rule wp_same_tasks[OF keeps_tasks_dispatch_updates(2) refl]) (simp add: refuse)
  show ?thesis
  proof (cases "refusal_reason d (get_task (d_task_id d) s) em res s")
    case (Some m)
    then show ?thesis by (simp add: receive_bound_def wp_look refuse)
  next
    case none: None
    show ?thesis
    proof (cases "get_task (d_task_id d) s")
      case None
      with none show ?thesis by (simp add: receive_bound_def wp_look wp_raise)
    next
      case (Some t)
      show ?thesis
      proof (cases "validate_role_output E (d_role d) res")
        case (Inr v)
        with none Some show ?thesis by (simp add: receive_bound_def wp_look wp_consume_result)
      next
        case (Inl e)
        with none Some malformed show ?thesis
          by (cases "e = OutputValidationError")
             (simp_all add: receive_bound_def wp_look wp_raise split: argent_error.split)
      qed
    qed
  qed
qed

lemma moves_receive_work: "moves_tasks (receive_work E did em res)"
proof (rule moves_tasksI)
  fix s :: core
  let ?Q = "\<lambda>_ s'. tasks_move (db_tasks s) (db_tasks s')"
  have refuse: "wp (refuse E t did st rs em) ?Q any_error s" for t did st rs
    by (rule wp_same_tasks[OF keeps_tasks_effects(4) refl]) (simp add: tasks_move_refl)
  have dup: "wp (andThen (emit E ty ti ro st pl) (received did' st' rs)) ?Q any_error s"
    for ty ti ro st pl did' st' rs
    unfolding wp_andThen received_def wp_ret_fun
    by (rule wp_emit_any) (simp add: tasks_move_refl)
  show "wp (receive_work E did em res) ?Q any_error s"
  proof (cases "get_dispatch did s")
    case None
    then show ?thesis
      by (simp add: receive_work_def wp_look wp_liftR refuse split: sum.split)
  next
    case (Some d)
    then show ?thesis
      by (simp add: receive_work_def wp_look wp_if wp_option refuse dup wp_receive_bound
          split: option.split)
  qed
qed

lemma moved_receive: "steps moved (receive_agent_result E did em res src key)"
proof -
  have keyed: "moves_tasks (bindA (receive_work E did em res) (\<lambda>r. bindA (now_iso E) (\<lambda>now.
      andThen (set_command_idempotency k c did h now) (ret r))))" for k c h
    unfolding moves_tasks_def wp_bindA
    by (intro allI, rule wp_mono, rule moves_tasksD, rule moves_receive_work)
       (simp_all add: wp_simps set_command_idempotency_def)
  have replay: "moves_tasks (require b IdempotencyError (look g (\<lambda>d.
      if p d then received did st rs else received did st' rs')))" for b g p st rs st' rs'
    by (rule moves_keeps_tasks) (auto simp: received_def intro!: keeps_rules)
  have look: "moves_tasks (look f k)" if "\<And>x. moves_tasks (k x)" for f and k :: "'b \<Rightarrow> entity cact"
    using that by (simp add: moves_tasks_def wp_look)
  have opt: "moves_tasks (case x of None \<Rightarrow> m | Some a \<Rightarrow> n a)"
    if "moves_tasks m" "\<And>a. moves_tasks (n a)" for x and m :: "entity cact" and n :: "'b \<Rightarrow> entity cact"
    using that by (cases x) simp_all
  show ?thesis
    unfolding receive_agent_result_def Let_def
    by (intro moved_rules opt look keyed replay moves_receive_work)
qed

section \<open>Recovery\<close>

lemma wp_forA_rest:
  assumes "I xs s" and "\<And>x xs s. I (x # xs) s \<Longrightarrow> wp (f x) (\<lambda>_. I xs) E s" and "\<And>s. I [] s \<Longrightarrow> Q () s"
  shows "wp (forA xs f) Q E s"
  using assms(1)
proof (induction xs arbitrary: s)
  case Nil
  then show ?case by (simp add: wp_simps assms(3))
next
  case (Cons x xs)
  show ?case unfolding forA.simps wp_andThen
    by (rule wp_mono, rule assms(2)[OF Cons.prems]) (auto intro: Cons.IH)
qed

lemma rollback_move:
  assumes "rollback_target t = Some y"
  shows "task_move (task_mode t) (y, None)"
proof -
  have "t_state t = RECOVERING \<and> is_allowed RECOVERING y (t_resume_state t)"
  proof (cases "t_state t = RECOVERING")
    case True
    then show ?thesis
      using assms recovery_target_allowed[of RECOVERING "t_resume_state t"]
      by (auto simp: rollback_target_def Let_def split: if_splits)
  next
    case False
    then have "recovery_target (t_state t) (t_resume_state t) = t_state t"
      using recovery_target_allowed[of "t_state t"] by simp
    with assms show ?thesis by (simp add: rollback_target_def)
  qed
  then show ?thesis
    by (auto simp: task_mode_def intro!: move_allowed recovering_exit_not_pause)
qed

text \<open>The state between two rounds of a loop of \<open>recover()\<close> that began in the table \<open>T\<close>.\<close>

definition recovering_from :: "task list \<Rightarrow> core \<Rightarrow> bool" where
  "recovering_from T s \<longleftrightarrow> tasks_move T (db_tasks s) \<and> unique_keys t_id (db_tasks s)"

lemma unique_with_task_state [simp]:
  "unique_keys t_id (with_task_state i st rs now ts) = unique_keys t_id ts"
  by (simp add: with_task_state_def)

lemma wp_park_task:
  assumes "recovering_from T s"
  shows "wp (park_task E now tid) (\<lambda>_. recovering_from T) any_error s"
  using assms unfolding park_task_def recovering_from_def update_task_state_eq get_task_def
  by (auto simp: wp_simps task_mode_def intro!: tasks_move_with move_park
      elim!: tasks_move_trans split: option.splits sum.splits)

definition rolling :: "task list \<Rightarrow> task list \<Rightarrow> core \<Rightarrow> bool" where
  "rolling T ts s \<longleftrightarrow> recovering_from T s \<and>
     (\<forall>u \<in> set ts. find_row t_id (t_id u) (db_tasks s) = Some u) \<and> distinct (map t_id ts)"

lemma wp_roll_back:
  assumes r: "rolling T (t # ts) s"
  shows "wp (roll_back_task E now t) (\<lambda>_. rolling T ts) any_error s"
proof (cases "rollback_target t")
  case None
  have "rolling T ts s" using r by (simp add: rolling_def)
  then show ?thesis unfolding roll_back_task_def None option.simps wp_ret .
next
  case (Some y)
  let ?ts = "with_task_state (t_id t) y None now (db_tasks s)"
  have t: "find_row t_id (t_id t) (db_tasks s) = Some t" using r by (simp add: rolling_def)
  have move: "recovering_from T (s\<lparr>db_tasks := ?ts\<rparr>)"
    using r tasks_move_with[OF t rollback_move[OF Some]]
    by (auto simp: rolling_def recovering_from_def intro: tasks_move_trans)
  have rest: "find_row t_id (t_id u) ?ts = Some u" if "u \<in> set ts" for u
  proof -
    have "distinct (map t_id (t # ts))" using r unfolding rolling_def by blast
    then have "t_id t \<notin> t_id ` set ts" by simp
    then have "t_id u \<noteq> t_id t" using that by (metis imageI)
    moreover have "find_row t_id (t_id u) (db_tasks s) = Some u"
      using r that unfolding rolling_def list.set by blast
    ultimately show ?thesis by (simp add: find_with_task_state)
  qed
  show ?thesis
    unfolding roll_back_task_def Some option.simps update_task_state_eq wp_andThen
      wp_store_write if_True
  proof (rule wp_emit_any)
    fix s' :: core assume "db_tasks s' = db_tasks (s\<lparr>db_tasks := ?ts\<rparr>)"
    with move rest r show "rolling T ts s'"
      by (simp add: rolling_def recovering_from_def)
  qed
qed

lemma wp_recover_work:
  assumes "unique_keys t_id (db_tasks s)"
  shows "wp (recover_work E) (\<lambda>_ s'. tasks_move (db_tasks s) (db_tasks s')) any_error s"
proof -
  let ?I = "recovering_from (db_tasks s)"
  have frame: "wp m (\<lambda>_. ?I) any_error s'" if "keeps db_tasks m" "?I s'" for m :: "unit cact" and s'
    using that(1) by (rule wp_keeps) (use that(2) in \<open>simp_all add: recovering_from_def\<close>)
  have seq: "wp (andThen m k) Q any_error s'"
    if "wp m (\<lambda>_. ?I) any_error s'" "\<And>s''. ?I s'' \<Longrightarrow> wp k Q any_error s''"
    for m :: "unit cact" and k :: "(entity \<times> string) cact" and Q s'
    unfolding wp_andThen using that by (auto elim!: wp_mono)
  have dispatches: "keeps db_tasks (forA ds (recover_dispatch E))" for ds
    unfolding recover_dispatch_def
    by (intro keeps_rules keeps_tasks_emit keeps_tasks_dispatch_updates)
  have roles: "keeps db_tasks (forA rrs (fail_role_run E now parked))" for now parked rrs
    unfolding fail_role_run_def update_role_run_status_def
    by (intro keeps_rules keeps_tasks_emit; simp)
  have runs: "keeps db_tasks (forA trs (fail_run now parked))" for now parked trs
    unfolding fail_run_def update_task_run_status_def by (intro keeps_rules; simp)
  have park: "wp (forA ids (park_task E now)) (\<lambda>_. ?I) any_error s'" if "?I s'" for ids now s'
    by (rule wp_forA[where I = ?I]) (use that wp_park_task in auto)
  have roll: "wp (forA (filter p (db_tasks s')) (roll_back_task E now)) (\<lambda>_. ?I) any_error s'"
    if "?I s'" for p now s'
  proof (rule wp_forA_rest[where I = "rolling (db_tasks s)"])
    show "rolling (db_tasks s) (filter p (db_tasks s')) s'"
      using that by (auto simp: rolling_def recovering_from_def find_row_unique unique_keys_def
          distinct_map_filter)
  qed (auto intro: wp_roll_back simp: rolling_def)
  show ?thesis
    unfolding recover_work_def Let_def wp_bindA wp_world
    apply (rule seq, rule frame, rule keeps_tasks_emit) 
    apply (simp add: recovering_from_def tasks_move_refl assms)
    unfolding wp_look
    apply (rule seq, rule frame, rule dispatches, assumption)
    unfolding wp_look
    apply (rule seq, rule park, assumption)
    unfolding wp_look
    apply (rule seq, rule frame, rule roles, assumption)
    unfolding wp_look
    apply (rule seq, rule frame, rule runs, assumption)
    unfolding wp_look
    apply (rule seq, rule roll, assumption)
    apply (rule seq, rule frame, rule keeps_tasks_emit, assumption)
    apply (simp add: wp_ret recovering_from_def)
    done
qed

section \<open>Every command\<close>

lemma command_moves:
  assumes "tables_ok s"
  shows "tasks_move (db_tasks s) (db_tasks (after E c s))"
proof -
  have step: "moved s (snd (m s))" if "steps moved m" for m :: "entity cact"
    using that by (rule stepsD)
  show ?thesis
  proof (cases c)
    case (Recover src key)
    let ?I = "\<lambda>s'. moved s s'"
    have "wp (idempotent E key c2 args (recover_work E) (\<lambda>_. ret rep)) (\<lambda>_. ?I) (\<lambda>_. ?I) s"
      for c2 args rep
      using assms by (intro wp_idempotent_inv wp_recover_work)
        (simp_all add: tasks_move_refl wp_ret tables_ok_def task_rows_ok_def)
    then have "wp (recover E src key) (\<lambda>_. ?I) (\<lambda>_. ?I) s"
      unfolding recover_def wp_guards by (simp add: tasks_move_refl split: sum.split)
    then show ?thesis by (simp add: Recover after_def wp_snd)
  qed (simp_all add: after_def step moved_create_task moved_transition moved_resume
      moved_request_action moved_decisions moved_receive moved_keeps keeps_gate_tasks
      keeps_gate_dispatch)
qed

lemma run_moves:
  "tables_ok s \<Longrightarrow> tasks_move (db_tasks s) (db_tasks (run_commands E cs s))"
proof (induction cs arbitrary: s)
  case (Cons c cs)
  have "tables_ok (after E c s)" using Cons.prems tables.after_R by blast
  with Cons show ?case by (auto intro: tasks_move_trans command_moves)
qed (simp add: tasks_move_refl)

lemma reachable_move: "reachable E s \<Longrightarrow> tasks_move [] (db_tasks s)"
proof (induction rule: reachable.induct)
  case initial
  show ?case by (simp add: empty_core_def tasks_move_refl)
next
  case (command s c)
  then show ?case
    by (blast intro: tasks_move_trans command_moves reachable_tables_ok)
qed

lemma reachable_task:
  "reachable E s \<Longrightarrow> get_task i s = Some t \<Longrightarrow> task_move\<^sup>*\<^sup>* (NEW, None) (task_mode t)"
  by (drule reachable_move) (simp add: tasks_move_def get_task_def)

text \<open>What a mode looks like that a chain from \<open>NEW\<close> leads to.\<close>

definition mode_ok :: "mode \<Rightarrow> bool" where
  "mode_ok m \<longleftrightarrow> fst m \<noteq> PAUSED \<and> fst m \<noteq> FAILED \<and>
     (case snd m of None \<Rightarrow> fst m \<notin> PAUSE_STATES
      | Some r \<Rightarrow> fst m \<in> PAUSE_STATES \<and> r \<notin> PAUSE_STATES \<and> r \<notin> TERMINAL_STATES \<and> r \<noteq> FAILED)"

lemma move_mode_ok:
  assumes "task_move m m'" "mode_ok m"
  shows "mode_ok m'"
proof -
  obtain x rx y ry where [simp]: "m = (x, rx)" "m' = (y, ry)" by (cases m, cases m')
  show ?thesis
    using assms
    by (cases x; cases rx; cases y)
       (auto simp: task_move_def mode_ok_def is_allowed_def state_set_defs split: if_splits)
qed

lemma moves_mode_ok: "task_move\<^sup>*\<^sup>* m m' \<Longrightarrow> mode_ok m \<Longrightarrow> mode_ok m'"
  by (induction rule: rtranclp_induct) (auto intro: move_mode_ok)

interpretation task_life: sticky_machine task_move "\<lambda>m. is_terminal (fst m)"
  by unfold_locales
     (auto simp: task_move_def is_terminal_def dest: is_allowed_not_terminal)

end
