(* ===== verification/Core_Properties.thy ===== *)
theory Core_Properties
  imports Core_Lifecycle
begin

text \<open>
  What the commands of the core guarantee, stated over \<open>reachable\<close> databases and arbitrary
  sequences of commands (\<open>run_commands\<close>), failing commands included.  The witnesses run
  concrete commands from the empty database in the environment \<open>plain_env\<close>, whose clock
  counts readings and whose \<open>n\<close>-th uuid is a string of \<open>n\<close> zeros.
\<close>

section \<open>A concrete run\<close>

definition demo_start :: "command list" where
  "demo_start =
     [CreateProject ''p'' ''owner:authenticated'' None,
      CreateTask [] ''t'' ''owner:authenticated'' None None RISK_LOW ALLOWED_WITH_GATE,
      StartRole ''0'' ''lead'' ''role:lead'' None]"

definition demo_state :: core where
  "demo_state = run_commands plain_env demo_start empty_core"

lemma demo_reachable: "reachable plain_env demo_state"
  unfolding demo_state_def by (intro reachable_run_commands reachable.initial)

lemma demo_task: "map_option task_mode (get_task ''0'' demo_state) = Some (NEW, None)"
  unfolding demo_state_def demo_start_def by code_simp

section \<open>The life of a task\<close>

text \<open>C1: from any reachable database, whatever commands follow, a task is never lost, keeps its
  identity, and moves only along the transition table or by the parking of \<open>recover()\<close>.\<close>

theorem task_life:
  assumes "reachable E s" "get_task i s = Some t"
  shows "\<exists>t'. get_task i (run_commands E cs s) = Some t' \<and> task_identity t' = task_identity t \<and>
     task_move\<^sup>*\<^sup>* (task_mode t) (task_mode t')"
proof -
  have tables: "tables_ok s" "tables_ok (run_commands E cs s)"
    using assms(1) by (auto intro: reachable_tables_ok reachable_run_commands)
  obtain t' where t': "get_task i (run_commands E cs s) = Some t'"
    "task_move\<^sup>*\<^sup>* (task_mode t) (task_mode t')"
    using run_moves[OF tables(1)] assms(2) unfolding tasks_move_def get_task_def by blast
  with task_persists[OF tables persist.run_R assms(2)] show ?thesis by auto
qed

theorem task_life_witness:
  "\<exists>t t'. get_task ''0'' demo_state = Some t \<and>
     get_task ''0'' (run_commands plain_env [Transition ''0'' ''PLANNING'' ''role:lead'' None] demo_state) =
       Some t' \<and> task_move\<^sup>*\<^sup>* (task_mode t) (task_mode t')"
proof -
  obtain t where "get_task ''0'' demo_state = Some t"
    using demo_task by (cases "get_task ''0'' demo_state") auto
  with task_life[OF demo_reachable this] show ?thesis by blast
qed

text \<open>C2: a task that is DONE or CANCELLED stays so, whatever commands follow.\<close>

theorem final_forever_run:
  assumes "reachable E s" "get_task i s = Some t" "is_terminal (t_state t)"
  shows "\<exists>t'. get_task i (run_commands E cs s) = Some t' \<and> t_state t' = t_state t \<and>
     t_resume_state t' = t_resume_state t"
proof -
  have "tables_ok s" using assms(1) by (rule reachable_tables_ok)
  then obtain t' where t': "get_task i (run_commands E cs s) = Some t'"
    "task_move\<^sup>*\<^sup>* (task_mode t) (task_mode t')"
    using run_moves assms(2) unfolding tasks_move_def get_task_def by blast
  have "task_mode t' = task_mode t"
    using t'(2) by (rule task_life.final_forever) (simp add: task_mode_def assms(3))
  with t'(1) show ?thesis by (simp add: task_mode_def)
qed

definition demo_cancelled :: core where
  "demo_cancelled =
     run_commands plain_env [Transition ''0'' ''CANCELLED'' ''role:lead'' None] demo_state"

lemma demo_cancelled_task:
  "map_option task_mode (get_task ''0'' demo_cancelled) = Some (CANCELLED, None)"
  unfolding demo_cancelled_def demo_state_def demo_start_def by code_simp

theorem final_forever_run_witness:
  "\<exists>t'. get_task ''0'' (run_commands plain_env
     [Transition ''0'' ''PLANNING'' ''role:lead'' None, Recover ''owner:authenticated'' None] demo_cancelled) =
     Some t' \<and> t_state t' = CANCELLED"
proof -
  obtain t where t: "get_task ''0'' demo_cancelled = Some t" "task_mode t = (CANCELLED, None)"
    using demo_cancelled_task by (cases "get_task ''0'' demo_cancelled") auto
  have "reachable plain_env demo_cancelled"
    unfolding demo_cancelled_def by (intro reachable_run_commands demo_reachable)
  from final_forever_run[OF this t(1)] t(2) show ?thesis
    by (fastforce simp: task_mode_def is_terminal_def TERMINAL_STATES_def)
qed

text \<open>C3: in a reachable database no task is PAUSED or FAILED, so \<open>resume()\<close> never finds one to
  resume; a resume state is stored exactly in the two pause states that occur, and it is a state
  the task may go back to.\<close>

theorem reachable_task_mode:
  assumes "reachable E s" "get_task i s = Some t"
  shows "t_state t \<notin> {PAUSED, FAILED} \<and>
     (case t_resume_state t of
        None \<Rightarrow> t_state t \<notin> PAUSE_STATES
      | Some r \<Rightarrow> t_state t \<in> {OWNER_APPROVAL_REQUIRED, RECOVERING} \<and>
          is_valid_resume_target (Some r) \<and> r \<noteq> FAILED \<and> is_allowed (t_state t) r (Some r))"
proof -
  have "mode_ok (task_mode t)"
    by (rule moves_mode_ok[OF reachable_task[OF assms]]) (simp add: mode_ok_def PAUSE_STATES_def)
  then show ?thesis
    by (auto simp: mode_ok_def task_mode_def is_allowed_def state_set_defs split: option.splits)
qed

theorem reachable_task_mode_witness:
  "\<exists>t. get_task ''0'' demo_state = Some t \<and> t_state t = NEW \<and> t_resume_state t = None \<and>
     t_state t \<notin> {PAUSED, FAILED}"
proof -
  obtain t where t: "get_task ''0'' demo_state = Some t" "task_mode t = (NEW, None)"
    using demo_task by (cases "get_task ''0'' demo_state") auto
  from reachable_task_mode[OF demo_reachable t(1)] t show ?thesis by (simp add: task_mode_def)
qed

section \<open>Exclusive rows\<close>






section \<open>Rows persist\<close>



end
