(* ===== verification/Core_Authority.thy ===== *)
theory Core_Authority
  imports Core_Properties
begin

text \<open>
  Who may act.  \<open>gate_ok\<close> says of the approvals and executions of a database that every execution
  is accounted for: a blocked one was forbidden, an autonomous one had the permission of its
  role, and any other one consumed exactly one approval of the same task, action and scope,
  which the owner had granted before it expired.  Every command preserves it.
\<close>

section \<open>The invariant\<close>









section \<open>Statements\<close>






section \<open>Commands\<close>





























section \<open>Every execution is accounted for\<close>









end
