(* ===== verification/Core_Integrity.thy ===== *)
theory Core_Integrity
  imports Core_Properties
begin

text \<open>
  Two more readings of the statement interface of \<open>Core_Tables\<close>: references between rows stay
  valid, and the event log holds only events the privacy filter lets through.
\<close>

section \<open>References\<close>

abbreviation ids :: "('r \<Rightarrow> 'k) \<Rightarrow> 'r list \<Rightarrow> 'k set" where
  "ids key rs \<equiv> key ` set rs"

lemma found_iff: "find_row key k rs \<noteq> None \<longleftrightarrow> k \<in> ids key rs"
  by (auto simp: find_row_None_iff)

lemma ids_update_rows [simp]: "(\<And>r. key (f r) = key r) \<Longrightarrow> ids key (update_rows p f rs) = ids key rs"
  using map_key_update_rows[of key f p rs] by (metis set_map)

lemma ball_update_rows:
  "(\<forall>r \<in> set rs. P r) \<Longrightarrow> (\<And>r. P r \<Longrightarrow> P (f r)) \<Longrightarrow> \<forall>r \<in> set (update_rows p f rs). P r"
  by (auto simp: set_update_rows)

definition references_ok :: "core \<Rightarrow> bool" where
  "references_ok s \<longleftrightarrow>
     t_project_id ` set (db_tasks s) \<subseteq> ids p_id (db_projects s) \<and>
     tr_task_id ` set (db_task_runs s) \<subseteq> ids t_id (db_tasks s) \<and>
     rr_task_id ` set (db_role_runs s) \<subseteq> ids t_id (db_tasks s) \<and>
     h_task_id ` set (db_handoffs s) \<subseteq> ids t_id (db_tasks s) \<and>
     f_task_id ` set (db_findings s) \<subseteq> ids t_id (db_tasks s) \<and>
     te_task_id ` set (db_test_runs s) \<subseteq> ids t_id (db_tasks s) \<and>
     rv_task_id ` set (db_reviews s) \<subseteq> ids t_id (db_tasks s) \<and>
     dc_task_id ` set (db_decisions s) \<subseteq> ids t_id (db_tasks s) \<and>
     ap_task_id ` set (db_approvals s) \<subseteq> ids t_id (db_tasks s) \<and>
     ex_task_id ` set (db_executions s) \<subseteq> ids t_id (db_tasks s) \<and>
     (\<Union>x \<in> set (db_executions s). set_option (ex_approval_id x)) \<subseteq> ids ap_id (db_approvals s) \<and>
     d_task_id ` set (db_dispatches s) \<subseteq> ids t_id (db_tasks s) \<and>
     d_task_run_id ` set (db_dispatches s) \<subseteq> ids tr_id (db_task_runs s) \<and>
     (\<Union>d \<in> set (db_dispatches s). set_option (d_parent_dispatch_id d)) \<subseteq> ids d_id (db_dispatches s)"

abbreviation refs_rel :: "core \<Rightarrow> core \<Rightarrow> bool" where
  "refs_rel \<equiv> (\<lambda>s s'. references_ok s \<longrightarrow> references_ok s')"

lemma has_task_ids: "has_task s i \<longleftrightarrow> i \<in> ids t_id (db_tasks s)"
  by (auto simp: has_task_def find_row_None_iff)

lemmas lookups = has_task_ids get_project_def get_task_run_def get_approval_def get_dispatch_def

lemma refs_inserts:
  "steps refs_rel (insert_project p)" "steps refs_rel (insert_task t)"
  "steps refs_rel (insert_task_run tr)" "steps refs_rel (insert_role_run rr)"
  "steps refs_rel (insert_handoff h)" "steps refs_rel (insert_finding f)"
  "steps refs_rel (insert_test_run te)" "steps refs_rel (insert_review rv)"
  "steps refs_rel (insert_decision dc)" "steps refs_rel (insert_approval E a)"
  "steps refs_rel (insert_quarantine q)"
  unfolding insert_defs Let_def lookups found_iff
  by (rule steps_writeI; auto simp: references_ok_def reflp_imp)+

lemma refs_guarded_inserts:
  "steps refs_rel (insert_action_execution ex)" "steps refs_rel (insert_dispatch d)"
  unfolding insert_defs lookups found_iff
  by (rule steps_writeI; auto simp: references_ok_def reflp_imp split: option.splits if_splits)+

lemma refs_updates:
  "steps refs_rel (update_task_state i st rs now)" "steps refs_rel (update_task_run_status i trs now)"
  "steps refs_rel (update_role_run_status i rrs now)" "steps refs_rel (update_finding_status i fs now)"
  unfolding update_defs with_role_run_status_def
  by (rule steps_writeI; simp add: references_ok_def reflp_imp)+

lemma refs_update_approvals:
  assumes "\<And>a. ap_id (f a) = ap_id a" "\<And>a. ap_task_id (f a) = ap_task_id a"
  shows "steps refs_rel (update_approvals p f)"
  unfolding update_approvals_def by (rule steps_casI) (simp add: references_ok_def assms)

lemma refs_approvals:
  "steps refs_rel (mark_approved i now)" "steps refs_rel (mark_rejected i now)"
  "steps refs_rel (consume_approval_with_execution i now x)" "steps refs_rel (mark_expired i now)"
  unfolding mark_approved_def mark_rejected_def consume_approval_with_execution_def mark_expired_def
  by (intro steps_rules reflp_imp transp_imp steps_writeI refs_update_approvals; simp)+

lemma refs_dispatches:
  "steps refs_rel (update_dispatch_bind i ss rn pv md th now)" "steps refs_rel (reject_dispatch_cas i)"
  "steps refs_rel (update_dispatch_status i ds)" "steps refs_rel (set_dispatch_attempt_outcome i oc)"
  "steps refs_rel (consume_dispatch i res now)"
proof -
  have upd: "steps refs_rel (update_dispatches p f)"
    if "\<And>d. d_id (f d) = d_id d" "\<And>d. d_task_id (f d) = d_task_id d"
      "\<And>d. d_task_run_id (f d) = d_task_run_id d" "\<And>d. d_parent_dispatch_id (f d) = d_parent_dispatch_id d"
    for p f
  proof (rule steps_update_dispatchesI)
    fix s :: core
    have "(\<Union>d \<in> set (update_rows p f (db_dispatches s)). set_option (d_parent_dispatch_id d)) =
        (\<Union>d \<in> set (db_dispatches s). set_option (d_parent_dispatch_id d))"
      using that by (auto simp: set_update_rows split: if_splits)
    then show "refs_rel s (s\<lparr>db_dispatches := update_rows p f (db_dispatches s)\<rparr>)"
      using that by (simp add: references_ok_def)
  qed (rule reflp_imp)
  show "steps refs_rel (update_dispatch_bind i ss rn pv md th now)" "steps refs_rel (reject_dispatch_cas i)"
    "steps refs_rel (update_dispatch_status i ds)" "steps refs_rel (set_dispatch_attempt_outcome i oc)"
    "steps refs_rel (consume_dispatch i res now)"
    unfolding update_dispatch_bind_def reject_dispatch_cas_def update_dispatch_status_def
      set_dispatch_attempt_outcome_def consume_dispatch_def
    by (intro steps_rules reflp_imp upd; simp)+
qed

lemma refs_logs:
  "steps refs_rel (insert_event ev)" "steps refs_rel (insert_routing_decision rd)"
  "steps refs_rel (set_command_idempotency k c rid h now)"
  unfolding insert_event_def insert_routing_decision_def set_command_idempotency_def
  by (intro steps_rules reflp_imp steps_writeI; simp add: references_ok_def)+

interpretation refs: statement_relation refs_rel
  by unfold_locales
    (simp_all add: reflp_imp transp_imp refs_inserts refs_guarded_inserts refs_updates
      refs_approvals refs_dispatches refs_logs, simp add: references_ok_def)



section \<open>The event log\<close>

abbreviation log_rel :: "core \<Rightarrow> core \<Rightarrow> bool" where
  "log_rel \<equiv> (\<lambda>s s'. (\<forall>ev \<in> set (db_events s). check_event ev = Inr ()) \<longrightarrow>
     (\<forall>ev \<in> set (db_events s'). check_event ev = Inr ()))"

lemma log_event: "steps log_rel (insert_event ev)"
proof -
  have "log_rel s (snd (insert_event ev s))" for s
    by (cases "check_event ev") (auto simp: insert_event_def liftR_def store_write_def)
  then show ?thesis by (rule stepsI)
qed

lemma log_keeps: "keeps db_events m \<Longrightarrow> steps log_rel m"
  by (simp add: steps_def keeps_def)

interpretation event_log: statement_relation log_rel
proof unfold_locales
  show "steps log_rel (insert_event ev)" for ev by (rule log_event)
qed (simp_all add: reflp_imp transp_imp, (rule log_keeps, simp only: insert_defs update_defs
      set_command_idempotency_def Let_def, (intro keeps_rules; simp))+)

text \<open>whatever commands ran, no text of a logged event (envelope, payload keys and payload
  strings at any depth) contains a word of the deny list.\<close>

theorem logged_events_private:
  assumes "reachable E s" "ev \<in> set (db_events s)" "t \<in> set (event_texts ev)"
  shows "contains_denylisted t = None"
proof -
  have "\<forall>ev \<in> set (db_events s). check_event ev = Inr ()"
    using assms(1)
  proof (induction rule: reachable.induct)
    case (command s c)
    then show ?case using event_log.after_R[of s E c] by blast
  qed (simp add: empty_core_def)
  with assms(2,3) show ?thesis using check_event_iff by blast
qed

theorem logged_events_private_witness:
  "\<exists>ev. ev \<in> set (db_events demo_state) \<and> ''role.started'' \<in> set (event_texts ev) \<and>
     contains_denylisted ''role.started'' = None"
proof -
  have "''role.started'' \<in> set (map ev_type (db_events demo_state))"
    unfolding demo_state_def demo_start_def by code_simp
  then obtain ev where ev: "ev \<in> set (db_events demo_state)" "''role.started'' \<in> set (event_texts ev)"
    by (auto simp: event_texts_def)
  with logged_events_private[OF demo_reachable ev] show ?thesis by blast
qed

end
