(* ===== verification/Core_Dispatch_Life.thy ===== *)
theory Core_Dispatch_Life
  imports Core_Properties
begin

text \<open>
  The life of a dispatch.  \<open>dispatch_move\<close> is its status machine, \<open>bound_ok\<close> what a row in each
  status must hold; \<open>dispatch_life\<close> is what one command may do to a row, and \<open>command_dispatches\<close>
  shows that every command respects it.
\<close>

section \<open>Statuses\<close>

definition dispatch_final :: "dispatch_status \<Rightarrow> bool" where
  "dispatch_final st \<longleftrightarrow> st \<in> {DS_CONSUMED, DS_FAILED, DS_REJECTED, DS_QUARANTINED}"

inductive dispatch_move :: "role \<Rightarrow> dispatch_status \<Rightarrow> dispatch_status \<Rightarrow> bool" for r :: role where
  bound: "st \<in> {DS_PENDING, DS_RECOVERY_PENDING} \<Longrightarrow> dispatch_move r st DS_RUNNING"
| refused: "\<not> dispatch_final st \<Longrightarrow> dispatch_move r st DS_REJECTED"
| consumed: "st \<in> {DS_RUNNING, DS_RECOVERY_PENDING} \<Longrightarrow> dispatch_move r st DS_CONSUMED"
| failed: "st \<in> {DS_RUNNING, DS_RECOVERY_PENDING} \<Longrightarrow> dispatch_move r st DS_FAILED"
| parked: "st \<in> {DS_PENDING, DS_RUNNING} \<Longrightarrow> dispatch_move r st DS_RECOVERY_PENDING"
| dropped: "r \<noteq> IMPLEMENTER \<Longrightarrow> dispatch_move r DS_PENDING DS_FAILED"

inductive_simps dispatch_move_iff: "dispatch_move r st st'"

interpretation dispatch_table: sticky_machine "dispatch_move r" dispatch_final for r
  by unfold_locales (auto simp: dispatch_move_iff dispatch_final_def)

text \<open>The identity a dispatch asks for, and what has to be there in each status.\<close>

definition runs_as_expected :: "agent_dispatch \<Rightarrow> bool" where
  "runs_as_expected d \<longleftrightarrow> d_child_session_id d \<noteq> None \<and> d_openclaw_run_id d \<noteq> None \<and>
     d_actual_provider d = Some (d_expected_agent_class d) \<and>
     d_actual_model d = Some (d_expected_model_class d) \<and>
     d_thinking_tier d = Some (d_expected_thinking_tier d)"

definition bound_ok :: "agent_dispatch \<Rightarrow> bool" where
  "bound_ok d \<longleftrightarrow> (case d_status d of
     DS_PENDING \<Rightarrow> d_child_session_id d = None \<and> d_result d = None
   | DS_RUNNING \<Rightarrow> runs_as_expected d \<and> d_result d = None
   | DS_RECOVERY_PENDING \<Rightarrow> (d_child_session_id d = None \<or> runs_as_expected d) \<and> d_result d = None
   | DS_CONSUMED \<Rightarrow> runs_as_expected d \<and> d_result d \<noteq> None \<and> d_consumed_at d \<noteq> None \<and>
       d_attempt_outcome d = Some ''SUCCESS''
   | _ \<Rightarrow> d_result d = None)"

definition dispatch_life :: "agent_dispatch \<Rightarrow> agent_dispatch \<Rightarrow> bool" where
  "dispatch_life d d' \<longleftrightarrow> dispatch_identity d' = dispatch_identity d \<and>
     (dispatch_move (d_role d))\<^sup>*\<^sup>* (d_status d) (d_status d') \<and>
     (dispatch_final (d_status d) \<longrightarrow> d' = d) \<and> (bound_ok d \<longrightarrow> bound_ok d')"

lemma identity_fields:
  assumes "dispatch_identity d' = dispatch_identity d"
  shows "d_id d' = d_id d" "d_role d' = d_role d" "d_task_id d' = d_task_id d"
  using arg_cong[OF assms, of d_id] arg_cong[OF assms, of d_role] arg_cong[OF assms, of d_task_id]
  by (simp_all add: dispatch_identity_def)

lemma life_refl: "dispatch_life d d"
  by (simp add: dispatch_life_def)

lemma life_trans:
  assumes ab: "dispatch_life a b" and bc: "dispatch_life b c"
  shows "dispatch_life a c"
proof -
  have "dispatch_identity b = dispatch_identity a" using ab by (simp add: dispatch_life_def)
  then have "d_role b = d_role a" by (rule identity_fields)
  then have "(dispatch_move (d_role a))\<^sup>*\<^sup>* (d_status a) (d_status c)"
    using ab bc unfolding dispatch_life_def by (metis rtranclp_trans)
  then show ?thesis using ab bc unfolding dispatch_life_def by auto
qed

section \<open>Tables of dispatches\<close>

definition dispatches_move :: "agent_dispatch list \<Rightarrow> agent_dispatch list \<Rightarrow> bool" where
  "dispatches_move ds ds' \<longleftrightarrow>
     (\<forall>i d. find_row d_id i ds = Some d \<longrightarrow> (\<exists>d'. find_row d_id i ds' = Some d' \<and> dispatch_life d d')) \<and>
     (\<forall>i d'. find_row d_id i ds = None \<longrightarrow> find_row d_id i ds' = Some d' \<longrightarrow>
        bound_ok d' \<and> (dispatch_move (d_role d'))\<^sup>*\<^sup>* DS_PENDING (d_status d'))"

lemma dispatches_move_refl: "dispatches_move ds ds"
  by (auto simp: dispatches_move_def life_refl)

lemma dispatches_move_trans:
  assumes xy: "dispatches_move xs ys" and yz: "dispatches_move ys zs"
  shows "dispatches_move xs zs"
  unfolding dispatches_move_def
proof (rule conjI; intro allI impI)
  fix i d assume "find_row d_id i xs = Some d"
  then show "\<exists>d'. find_row d_id i zs = Some d' \<and> dispatch_life d d'"
    using xy yz unfolding dispatches_move_def by (meson life_trans)
next
  fix i d' assume x: "find_row d_id i xs = None" and z: "find_row d_id i zs = Some d'"
  show "bound_ok d' \<and> (dispatch_move (d_role d'))\<^sup>*\<^sup>* DS_PENDING (d_status d')"
  proof (cases "find_row d_id i ys")
    case None
    with z yz show ?thesis unfolding dispatches_move_def by blast
  next
    case (Some e)
    then have e: "bound_ok e" "(dispatch_move (d_role e))\<^sup>*\<^sup>* DS_PENDING (d_status e)"
      using x xy unfolding dispatches_move_def by blast+
    from Some z yz have life: "dispatch_life e d'" unfolding dispatches_move_def by fastforce
    then have "d_role d' = d_role e" by (auto simp: dispatch_life_def intro: identity_fields)
    with life e show ?thesis unfolding dispatch_life_def by (metis rtranclp_trans)
  qed
qed

lemma dispatches_move_snoc:
  "d_status d = DS_PENDING \<Longrightarrow> bound_ok d \<Longrightarrow> dispatches_move ds (ds @ [d])"
  by (auto simp: dispatches_move_def find_row_append find_row_Cons life_refl split: option.splits if_splits)

text \<open>A write that touches one row only.\<close>

lemma dispatches_move_one:
  assumes "find_row d_id i ds = Some d" "find_row d_id i ds' = Some d'" "dispatch_life d d'"
    and "\<And>j. j \<noteq> i \<Longrightarrow> find_row d_id j ds' = find_row d_id j ds"
  shows "dispatches_move ds ds'"
  unfolding dispatches_move_def
proof (rule conjI; intro allI impI)
  fix j e assume "find_row d_id j ds = Some e"
  then show "\<exists>e'. find_row d_id j ds' = Some e' \<and> dispatch_life e e'"
    using assms by (cases "j = i") (auto simp: life_refl)
next
  fix j e' assume "find_row d_id j ds = None" "find_row d_id j ds' = Some e'"
  then show "bound_ok e' \<and> (dispatch_move (d_role e'))\<^sup>*\<^sup>* DS_PENDING (d_status e')"
    using assms by (cases "j = i") auto
qed

lemma wp_update_dispatches:
  "wp (update_dispatches p f) Q X s =
     (if dispatch_rows_ok (update_rows p f (db_dispatches s))
      then Q (row_count p (db_dispatches s)) (s\<lparr>db_dispatches := update_rows p f (db_dispatches s)\<rparr>)
      else X IntegrityError s)"
  by (simp add: update_dispatches_def wp_simps)

text \<open>\<open>row_write i g s s'\<close>: between \<open>s\<close> and \<open>s'\<close> only the dispatch \<open>i\<close> changed, by \<open>g\<close>.\<close>

definition row_write :: "string \<Rightarrow> (agent_dispatch \<Rightarrow> agent_dispatch) \<Rightarrow> agent_dispatch list \<Rightarrow> agent_dispatch list \<Rightarrow> bool" where
  "row_write i g ds ds' \<longleftrightarrow> (\<forall>j. find_row d_id j ds' =
     map_option (\<lambda>d. if j = i then g d else d) (find_row d_id j ds))"

lemma row_write_update:
  assumes "\<And>d. d_id (f d) = d_id d"
  shows "row_write i (\<lambda>d. if p d then f d else d) ds (update_rows (\<lambda>d. d_id d = i \<and> p d) f ds)"
  unfolding row_write_def find_row_update_rows[of d_id f, OF assms]
  by (auto dest: find_row_SomeD split: option.splits simp: option.map_comp intro!: map_option_cong)

lemma row_write_move:
  assumes "row_write i g ds ds'" "find_row d_id i ds = Some d" "dispatch_life d (g d)"
  shows "dispatches_move ds ds'"
  using assms by (intro dispatches_move_one[where i = i]) (auto simp: row_write_def option.map_ident_strong)

lemma row_write_comp:
  "row_write i g ds ds' \<Longrightarrow> row_write i h ds' ds'' \<Longrightarrow> row_write i (\<lambda>d. h (g d)) ds ds''"
  unfolding row_write_def by (auto simp: option.map_comp intro!: map_option_cong)

section \<open>Commands\<close>

abbreviation dmoved :: "core \<Rightarrow> core \<Rightarrow> bool" where
  "dmoved \<equiv> (\<lambda>s s'. dispatches_move (db_dispatches s) (db_dispatches s'))"

lemma keeps_dispatches_emit: "keeps db_dispatches (emit E ty ti ro st pl)"
  by (intro keeps_rules) simp_all

lemma wp_same_dispatches:
  assumes "keeps db_dispatches m" "db_dispatches s = D"
    and "\<And>a s'. db_dispatches s' = D \<Longrightarrow> Q a s'"
  shows "wp m Q any_error s"
  using assms(1) by (rule wp_keeps) (use assms in simp_all)

lemma dmoved_refl: "reflp dmoved" and dmoved_trans: "transp dmoved"
  by (auto simp: reflp_def transp_def dispatches_move_refl intro: dispatches_move_trans)

lemma dmoved_idempotent:
  assumes "wp work (\<lambda>_. dmoved s) any_error s" "\<And>rid. keeps db_dispatches (refet rid)"
  shows "dmoved s (snd (idempotent E key command args work refet s))"
proof -
  have "wp (idempotent E key command args work refet) (\<lambda>_. dmoved s) (\<lambda>_. dmoved s) s"
  proof (rule wp_idempotent_inv)
    show "wp (refet rid) (\<lambda>_. dmoved s) any_error s'" if "dmoved s s'" for rid s'
      using assms(2) by (rule wp_keeps) (use that in simp_all)
  qed (simp_all add: dispatches_move_refl assms(1))
  then show ?thesis by (simp add: wp_snd)
qed

lemma steps_wp_any: "steps R m \<Longrightarrow> wp m (\<lambda>_. R s) any_error s"
  by (auto simp: steps_def wp_def split: prod.splits sum.splits) (metis snd_conv)

lemma wp_create_work:
  "wp (create_dispatch_work E tid trid r pos cyc kd idn par rd) (\<lambda>_. dmoved s) any_error s"
proof -
  have frame: "steps dmoved m" if "keeps db_dispatches m" for m :: "unit cact"
    using that by (simp add: steps_def keeps_def dispatches_move_refl)
  have world: "steps dmoved (now_iso E)" "steps dmoved (new_uuid E)"
    by (simp_all add: steps_def now_iso_def new_uuid_def dispatches_move_refl)
  have routing: "keeps db_dispatches (record_routing E rd)"
    unfolding record_routing_def insert_routing_decision_def by (intro keeps_rules; simp)
  have insert: "steps dmoved (insert_dispatch d)" if "d_status d = DS_PENDING" "bound_ok d" for d
    using that unfolding insert_dispatch_def
    by (intro steps_writeI dmoved_refl) (simp add: dispatches_move_snoc)
  have let_rule: "steps dmoved (let x = a in k x)" if "\<And>x. x = a \<Longrightarrow> steps dmoved (k x)"
    for a :: agent_dispatch and k :: "agent_dispatch \<Rightarrow> (entity \<times> string) cact"
    using that by simp
  have "steps dmoved (create_dispatch_work E tid trid r pos cyc kd idn par rd)"
    unfolding create_dispatch_work_def
    by (intro steps_rules dmoved_refl dmoved_trans world insert let_rule frame[OF routing]
        frame[OF keeps_dispatches_emit]; (simp add: bound_ok_def; fail)?)
  then show ?thesis by (rule steps_wp_any)
qed

lemma life_step:
  assumes "dispatch_identity d' = dispatch_identity d"
    and "dispatch_move (d_role d) (d_status d) (d_status d')" "bound_ok d \<Longrightarrow> bound_ok d'"
  shows "dispatch_life d d'"
  using assms unfolding dispatch_life_def by (auto simp: dispatch_move_iff dispatch_final_def)

lemma life_bind:
  assumes "d_status d \<in> {DS_PENDING, DS_RECOVERY_PENDING}"
    and "pv = d_expected_agent_class d" "md = d_expected_model_class d" "th = d_expected_thinking_tier d"
  shows "dispatch_life d (d\<lparr>d_status := DS_RUNNING, d_child_session_id := Some ss,
        d_openclaw_run_id := Some rn, d_actual_provider := Some pv, d_actual_model := Some md,
        d_thinking_tier := Some th, d_started_at := Some now\<rparr>)"
  by (rule life_step) (use assms in \<open>auto simp: dispatch_identity_def dispatch_move_iff bound_ok_def
      runs_as_expected_def split: dispatch_status.splits\<close>)

lemma life_reject:
  assumes "\<not> dispatch_final (d_status d)"
  shows "dispatch_life d (d\<lparr>d_status := DS_REJECTED\<rparr>)"
  by (rule life_step) (use assms in \<open>auto simp: dispatch_identity_def dispatch_final_def dispatch_move_iff
      bound_ok_def split: dispatch_status.splits\<close>)

lemma life_fail:
  assumes "dispatch_move (d_role d) (d_status d) DS_FAILED"
  shows "dispatch_life d (d\<lparr>d_status := DS_FAILED\<rparr>)"
    "dispatch_life d (d\<lparr>d_status := DS_FAILED, d_attempt_outcome := oc\<rparr>)"
  by (rule life_step; use assms in \<open>auto simp: dispatch_identity_def dispatch_move_iff
      bound_ok_def split: dispatch_status.splits\<close>)+

lemma life_park:
  assumes "d_status d \<in> {DS_PENDING, DS_RUNNING}"
  shows "dispatch_life d (d\<lparr>d_status := DS_RECOVERY_PENDING\<rparr>)"
  by (rule life_step) (use assms in \<open>auto simp: dispatch_identity_def dispatch_move_iff
      bound_ok_def runs_as_expected_def split: dispatch_status.splits\<close>)

lemma life_consume:
  assumes "d_status d \<in> {DS_RUNNING, DS_RECOVERY_PENDING}" "runs_as_expected d"
  shows "dispatch_life d (d\<lparr>d_status := DS_CONSUMED, d_result := Some res, d_consumed_at := Some now,
     d_attempt_outcome := Some ''SUCCESS''\<rparr>)"
  by (rule life_step) (use assms in \<open>auto simp: dispatch_identity_def dispatch_move_iff bound_ok_def
      runs_as_expected_def split: dispatch_status.splits\<close>)

lemma get_dispatch_find: "get_dispatch i s = find_row d_id i (db_dispatches s)"
  by (simp add: get_dispatch_def)

lemma wp_bind_work:
  "wp (bind_work E did ss rn pv md th) (\<lambda>_. dmoved s) any_error s"
proof (cases "get_dispatch did s")
  case None
  then show ?thesis by (simp add: bind_work_def wp_fetch)
next
  case (Some d)
  have d: "find_row d_id did (db_dispatches s) = Some d" using Some by (simp add: get_dispatch_find)
  let ?p = "\<lambda>d. d_status d \<in> {DS_PENDING, DS_RECOVERY_PENDING}"
  have bind: "dispatches_move (db_dispatches s) (update_rows (\<lambda>d. d_id d = did \<and> ?p d)
      (\<lambda>d. d\<lparr>d_status := DS_RUNNING, d_child_session_id := Some ss,
        d_openclaw_run_id := Some rn, d_actual_provider := Some pv, d_actual_model := Some md,
        d_thinking_tier := Some th, d_started_at := Some now\<rparr>) (db_dispatches s))"
    if "?p d" "pv = d_expected_agent_class d" "md = d_expected_model_class d"
      "th = d_expected_thinking_tier d" for now
    by (rule row_write_move[OF row_write_update d]) (use that life_bind in auto)
  have reject: "dispatches_move (db_dispatches s) (update_rows (\<lambda>d. d_id d = did \<and> ?p d)
      (\<lambda>d. d\<lparr>d_status := DS_REJECTED\<rparr>) (db_dispatches s))" if "?p d"
    by (rule row_write_move[OF row_write_update d])
       (use that in \<open>auto intro!: life_reject simp: dispatch_final_def\<close>)
  show ?thesis
    unfolding bind_work_def wp_fetch Some option.case
    using bind reject
    by (simp add: wp_simps wp_update_dispatches update_dispatch_bind_def reject_dispatch_cas_def Let_def
        split: option.splits sum.splits)
qed

section \<open>Results\<close>

lemma updated_move:
  assumes "find_row d_id i ds = Some d" "p d" "\<And>d. d_id (f d) = d_id d" "dispatch_life d (f d)"
  shows "dispatches_move ds (update_rows (\<lambda>d. d_id d = i \<and> p d) f ds)"
  by (rule row_write_move[OF row_write_update assms(1)]) (use assms in simp_all)

lemma updated_row:
  fixes f :: "agent_dispatch \<Rightarrow> agent_dispatch"
  assumes "find_row d_id i ds = Some d" "\<And>d. d_id (f d) = d_id d"
  shows "find_row d_id j (update_rows (\<lambda>d. d_id d = i) f ds) =
     (if j = i then Some (f d) else find_row d_id j ds)"
  using row_write_update[where f = f and i = i and p = "\<lambda>_. True" and ds = ds, OF assms(2)] assms(1)
  by (auto simp: row_write_def option.map_ident_strong)

text \<open>A status and an outcome written one after the other.\<close>

lemma status_outcome_move:
  assumes "find_row d_id i ds = Some d" "dispatch_life d (d\<lparr>d_status := st, d_attempt_outcome := oc\<rparr>)"
  shows "dispatches_move ds (update_rows (\<lambda>d. d_id d = i) (\<lambda>d. d\<lparr>d_attempt_outcome := oc\<rparr>)
     (update_rows (\<lambda>d. d_id d = i) (\<lambda>d. d\<lparr>d_status := st\<rparr>) ds))"
proof -
  let ?ds = "update_rows (\<lambda>d. d_id d = i) (\<lambda>d. d\<lparr>d_status := st\<rparr>) ds"
  have row: "find_row d_id i ?ds = Some (d\<lparr>d_status := st\<rparr>)"
    using assms(1) by (simp add: updated_row)
  show ?thesis
    by (rule dispatches_move_one[OF assms(1) _ assms(2)])
       (simp_all add: updated_row[OF row] updated_row[OF assms(1)])
qed

lemma consume_move:
  assumes "find_row d_id i ds = Some d" "d_status d \<in> {DS_RUNNING, DS_RECOVERY_PENDING}"
    "runs_as_expected d"
  shows "dispatches_move ds (update_rows (\<lambda>d. d_id d = i)
     (\<lambda>d. d\<lparr>d_attempt_outcome := Some ''SUCCESS''\<rparr>)
     (update_rows (\<lambda>d. d_id d = i \<and> d_status d \<in> {DS_RUNNING, DS_RECOVERY_PENDING})
       (\<lambda>d. d\<lparr>d_status := DS_CONSUMED, d_result := Some res, d_consumed_at := Some now\<rparr>) ds))"
proof -
  let ?p = "\<lambda>d. d_status d \<in> {DS_RUNNING, DS_RECOVERY_PENDING}"
  let ?f = "\<lambda>d. d\<lparr>d_status := DS_CONSUMED, d_result := Some res, d_consumed_at := Some now\<rparr>"
  have w: "row_write i (\<lambda>d. if ?p d then ?f d else d) ds (update_rows (\<lambda>d. d_id d = i \<and> ?p d) ?f ds)"
    by (rule row_write_update) simp
  then have row: "find_row d_id i (update_rows (\<lambda>d. d_id d = i \<and> ?p d) ?f ds) = Some (?f d)"
    and other: "\<And>j. j \<noteq> i \<Longrightarrow> find_row d_id j (update_rows (\<lambda>d. d_id d = i \<and> ?p d) ?f ds) = find_row d_id j ds"
    using assms(1,2) unfolding row_write_def by (auto simp: option.map_ident_strong)
  have both: "find_row d_id j (update_rows (\<lambda>d. d_id d = i)
      (\<lambda>d. d\<lparr>d_attempt_outcome := Some ''SUCCESS''\<rparr>) (update_rows (\<lambda>d. d_id d = i \<and> ?p d) ?f ds)) =
     (if j = i then Some (?f d\<lparr>d_attempt_outcome := Some ''SUCCESS''\<rparr>) else find_row d_id j ds)" for j
    using other by (subst updated_row[OF row]) auto
  show ?thesis
    by (rule dispatches_move_one[OF assms(1) _ life_consume[OF assms(2,3)]])
       (simp_all only: both if_True refl if_False agent_dispatch.simps)
qed

lemma effects_free_dispatches: "effects_free db_dispatches"
  by (simp add: effects_free_def bookkeeping_free_def)

lemmas keeps_dispatches_effects = keeps_effects[OF effects_free_dispatches]

lemma keeps_dispatches_task_state: "keeps db_dispatches (update_task_state i st rs now)"
  unfolding update_defs by (intro keeps_rules; simp)

lemma keeps_dispatches_run_plan: "keeps db_dispatches (run_plan E plan t)"
  by (induction E plan t rule: run_plan.induct)
     (auto simp: apply_transition_def require_allowed_def
       intro!: keeps_rules keeps_dispatches_emit keeps_dispatches_task_state)

lemma keeps_dispatches_sync: "keeps db_dispatches (apply_state_sync E t d dec)"
  unfolding apply_state_sync_def apply_transition_def require_allowed_def
  by (intro keeps_rules keeps_dispatches_emit keeps_dispatches_task_state keeps_dispatches_run_plan)
    (simp_all add: keeps_rules keeps_dispatches_emit keeps_dispatches_task_state
       keeps_dispatches_run_plan)

lemma refusal_checked:
  assumes "refusal_reason d task em res s = None"
  shows "runs_as_expected d"
  using assms
  by (auto simp: refusal_reason_def runs_as_expected_def envelope_mismatch_def model_mismatch_def
      split: option.splits if_splits)

lemma row_count_one:
  assumes "unique_keys d_id ds" "find_row d_id i ds = Some d" "p d"
  shows "row_count (\<lambda>e. d_id e = i \<and> p e) ds = 1"
  using assms
proof (induction ds)
  case (Cons e ds)
  have "filter (\<lambda>e. d_id e = i \<and> p e) ds = []" if "d_id e = i"
    using Cons.prems(1) that by (simp add: unique_keys_def filter_empty_conv) (metis imageI)
  with Cons show ?case
    by (auto simp: row_count_def unique_keys_def find_row_Cons split: if_splits)
qed simp

lemma wp_consume_dispatches:
  assumes ids: "unique_keys d_id (db_dispatches s)" and d: "get_dispatch (d_id d) s = Some d"
    "d_status d \<in> {DS_RUNNING, DS_RECOVERY_PENDING}" "runs_as_expected d"
  shows "wp (consume_result E d t v) (\<lambda>_. dmoved s) any_error s"
proof -
  let ?p = "\<lambda>e. d_id e = d_id d \<and> d_status e \<in> {DS_RUNNING, DS_RECOVERY_PENDING}"
  note keep = keeps_dispatches_effects keeps_dispatches_sync keeps_dispatches_emit
  have tail: "wp m (\<lambda>_. dmoved s) any_error s'" if "keeps db_dispatches m" "dmoved s s'"
    for m :: "entity cact" and s'
    using that(1) by (rule wp_keeps) (use that(2) in simp_all)
  have row: "find_row d_id (d_id d) (db_dispatches s) = Some d"
    using d(1) by (simp add: get_dispatch_find)
  have one: "row_count ?p (db_dispatches s) = 1"
    by (rule row_count_one[OF ids row]) (use d in simp)
  have consumed: "dmoved s s'" if "db_dispatches s' = update_rows (\<lambda>e. d_id e = d_id d)
      (\<lambda>e. e\<lparr>d_attempt_outcome := Some ''SUCCESS''\<rparr>) (update_rows ?p
        (\<lambda>e. e\<lparr>d_status := DS_CONSUMED, d_result := Some (PDict v),
          d_consumed_at := Some (env_clock E (ticks s))\<rparr>) (db_dispatches s))" for s'
    unfolding that by (rule consume_move[OF row d(2,3)])
  show ?thesis
    unfolding consume_result_def received_def update_defs wp_look wp_require wp_bindA wp_if wp_world
      wp_update_dispatches if_bool_eq_conj
    by (intro conjI impI TrueI tail keeps_intros keep consumed)
       (simp_all add: one[simplified])
qed

lemma find_updated_dispatch:
  assumes "find_row d_id i (db_dispatches s) = Some d" "dispatch_life d (d\<lparr>d_status := st\<rparr>)"
    and "\<And>a s'. dmoved s s' \<Longrightarrow> Q a s'"
  shows "wp (update_dispatch_status i st) Q any_error s"
proof -
  have "dispatches_move (db_dispatches s)
      (update_rows (\<lambda>d. d_id d = i) (\<lambda>d. d\<lparr>d_status := st\<rparr>) (db_dispatches s))"
    using updated_move[where p = "\<lambda>_. True" and f = "\<lambda>d. d\<lparr>d_status := st\<rparr>", OF assms(1) TrueI _ assms(2)]
    by simp
  then show ?thesis
    unfolding update_dispatch_status_def wp_update_dispatches by (simp add: assms(3))
qed

lemma wp_receive_bound_dispatches:
  assumes ids: "unique_keys d_id (db_dispatches s)" and d: "get_dispatch (d_id d) s = Some d"
    "d_status d \<in> {DS_RUNNING, DS_RECOVERY_PENDING}"
  shows "wp (receive_bound E d em res) (\<lambda>_. dmoved s) any_error s"
proof -
  have refuse: "wp (refuse E t did st rs em) (\<lambda>_. dmoved s) any_error s'" if "dmoved s s'" for t did st rs s'
    using keeps_dispatches_effects(4) by (rule wp_keeps) (use that in simp_all)
  have here: "dmoved s s" by (simp add: dispatches_move_refl)
  have malformed: "wp (bindA (now_iso E) (\<lambda>_.
      bindA (update_dispatch_status (d_id d) DS_REJECTED) (\<lambda>_. refuse E t did st rs em)))
      (\<lambda>_. dmoved s) any_error s" for t did st rs
    unfolding wp_bindA wp_world
    by (rule find_updated_dispatch[where d = d])
       (use d refuse in \<open>auto simp: get_dispatch_find dispatch_final_def intro!: life_reject\<close>)
  show ?thesis
  proof (cases "refusal_reason d (get_task (d_task_id d) s) em res s")
    case (Some m)
    then show ?thesis by (simp add: receive_bound_def wp_look refuse here)
  next
    case none: None
    show ?thesis
    proof (cases "get_task (d_task_id d) s")
      case None
      with none show ?thesis by (simp add: receive_bound_def wp_look wp_raise)
    next
      case (Some t)
      have consume: "wp (consume_result E d t v) (\<lambda>_. dmoved s) any_error s" for v
        by (rule wp_consume_dispatches[OF ids d refusal_checked[OF none]])
      show ?thesis
      proof (cases "validate_role_output E (d_role d) res")
        case (Inr v)
        with none Some show ?thesis by (simp add: receive_bound_def wp_look consume)
      next
        case (Inl e)
        with none Some malformed show ?thesis
          by (cases "e = OutputValidationError")
             (simp_all add: receive_bound_def wp_look wp_raise split: argent_error.split)
      qed
    qed
  qed
qed

lemma wp_receive_work_dispatches:
  assumes ids: "unique_keys d_id (db_dispatches s)"
  shows "wp (receive_work E did em res) (\<lambda>_. dmoved s) any_error s"
proof -
  have refuse: "wp (refuse E t did st rs em) (\<lambda>_. dmoved s) any_error s" for t did st rs
    using keeps_dispatches_effects(4) by (rule wp_keeps) (simp_all add: dispatches_move_refl)
  have dup: "wp (andThen (emit E ty ti ro st pl) (received did' st' rs)) (\<lambda>_. dmoved s) any_error s"
    for ty ti ro st pl did' st' rs
    by (rule wp_keeps[where f = db_dispatches])
       (auto simp: received_def dispatches_move_refl intro!: keeps_intros keeps_dispatches_emit)
  show ?thesis
  proof (cases "get_dispatch did s")
    case None
    then show ?thesis
      by (simp add: receive_work_def wp_look wp_liftR refuse split: sum.split)
  next
    case (Some d)
    then have id: "get_dispatch (d_id d) s = Some d"
      by (auto simp: get_dispatch_find dest: find_row_SomeD)
    have "d_status d \<in> {DS_RUNNING, DS_RECOVERY_PENDING}"
      if "d_status d \<noteq> DS_CONSUMED" "d_status d \<notin> {DS_FAILED, DS_REJECTED, DS_QUARANTINED}"
        "d_status d \<noteq> DS_PENDING"
      using that by (cases "d_status d") simp_all
    then have bound: "wp (receive_bound E d em res) (\<lambda>_. dmoved s) any_error s"
      if "d_status d \<noteq> DS_CONSUMED" "d_status d \<notin> {DS_FAILED, DS_REJECTED, DS_QUARANTINED}"
        "d_status d \<noteq> DS_PENDING"
      using that by (intro wp_receive_bound_dispatches[OF ids id]) simp
    show ?thesis
      unfolding receive_work_def wp_look Some option.case wp_if wp_option if_bool_eq_conj
      using refuse dup bound by (auto split: option.split)
  qed
qed

section \<open>The dispatch commands\<close>

text \<open>A command moves the dispatches of \<open>s\<close>; \<open>moves_here s m\<close> is that, for the part that may
  still fail and be rolled back.\<close>

abbreviation moves_here :: "core \<Rightarrow> 'a cact \<Rightarrow> bool" where
  "moves_here s m \<equiv> wp m (\<lambda>_. dmoved s) any_error s"

lemma dmoved_atomically:
  assumes "moves_here s m"
  shows "wp (atomically m) (\<lambda>_. dmoved s) (\<lambda>_. dmoved s) s"
  by (rule wp_atomically_inv[OF _ assms]) (simp_all add: dispatches_move_refl)

lemma moved_keeps_dispatches: "keeps db_dispatches m \<Longrightarrow> dmoved s (snd (m s))"
  by (simp add: keepsD dispatches_move_refl)

lemma here_keeps: "keeps db_dispatches m \<Longrightarrow> moves_here s m"
  by (erule wp_keeps) (simp_all add: dispatches_move_refl)

lemma keeps_dispatches_idempotency: "keeps db_dispatches (set_command_idempotency k c rid h now)"
  unfolding set_command_idempotency_def by (intro keeps_rules) simp

lemma keeps_dispatches_refetch: "keeps db_dispatches (refetch c rid)"
  unfolding refetch_def by (intro keeps_rules)

lemma here_then:
  assumes "moves_here s m" "\<And>a. keeps db_dispatches (k a)"
  shows "moves_here s (bindA m k)"
  unfolding wp_bindA using assms(1)
  by (rule wp_mono) (auto intro!: wp_keeps[OF assms(2)])

lemma keeps_stamp:
  "keeps db_dispatches (bindA (now_iso E) (\<lambda>now. andThen (set_command_idempotency k c rid h now) (ret a)))"
  by (intro keeps_rules keeps_dispatches_idempotency) simp_all

lemma dispatches_receive:
  assumes "unique_keys d_id (db_dispatches s)"
  shows "dmoved s (snd (receive_agent_result E did em res src key s))"
proof -
  have work: "moves_here s (receive_work E did em res)"
    using assms by (rule wp_receive_work_dispatches)
  have fresh: "moves_here s (bindA (receive_work E did em res) (\<lambda>r. bindA (now_iso E) (\<lambda>now.
      andThen (set_command_idempotency k c did h now) (ret r))))" for k c h
    by (rule here_then[OF work keeps_stamp])
  have replay: "moves_here s (require b IdempotencyError (look g (\<lambda>d.
      if p d then received did st rs else received did st' rs')))" for b g p st rs st' rs'
    by (rule here_keeps) (auto simp: received_def intro!: keeps_rules)
  have looked: "moves_here s (look f m)" if "\<And>x. moves_here s (m x)" for f and m :: "'b \<Rightarrow> entity cact"
    using that by (simp add: wp_look)
  have cases: "moves_here s (case x of None \<Rightarrow> m | Some a \<Rightarrow> n a)"
    if "moves_here s m" "\<And>a. moves_here s (n a)" for x and m :: "entity cact" and n :: "'b \<Rightarrow> entity cact"
    using that by (cases x) simp_all
  have "wp (receive_agent_result E did em res src key) (\<lambda>_. dmoved s) (\<lambda>_. dmoved s) s"
    unfolding receive_agent_result_def Let_def
    by (simp only: wp_guards if_bool_eq_conj)
       (intro conjI allI impI dispatches_move_refl dmoved_atomically cases work looked fresh replay)
  then show ?thesis by (simp add: wp_snd)
qed

lemma dispatches_create:
  "dmoved s (snd (create_dispatch E tid trid ro pos cyc kd mc src par key rd s))"
proof -
  have work: "steps dmoved (idempotent E k c args (create_dispatch_work E tid trid r pos cyc kd idn par rd)
      (refetch c'))" for k c args r idn c'
    by (rule stepsI, rule dmoved_idempotent[OF wp_create_work keeps_dispatches_refetch])
  have violation: "keeps db_dispatches (role_violation E tid r reason :: entity cact)" for r reason
    unfolding role_violation_def by (intro keeps_rules keeps_dispatches_emit)
  then have violated: "steps dmoved (role_violation E tid r reason :: entity cact)" for r reason
    by (intro stepsI moved_keeps_dispatches)
  have identity: "steps dmoved (with_identity E tid r risk mc rd k)" if "\<And>idn. steps dmoved (k idn)" for r risk k
    using that moved_keeps_dispatches[OF violation]
    by (auto simp: with_identity_def steps_def Let_def split: option.split prod.split)
  have "steps dmoved (create_dispatch E tid trid ro pos cyc kd mc src par key rd)"
    unfolding create_dispatch_def
    by (intro steps_rules dmoved_refl dmoved_trans identity work violated)
  then show ?thesis by (rule stepsD)
qed

lemma dispatches_bind:
  "dmoved s (snd (bind_spawn_result E did ss rn pv md th src key s))"
proof -
  have keyed: "keeps db_dispatches (case key of None \<Rightarrow> ret () | Some k \<Rightarrow>
      bindA (now_iso E) (\<lambda>now. set_command_idempotency k c did h now))" for c h
    by (intro keeps_rules keeps_dispatches_idempotency) simp_all
  have fresh: "moves_here s (bindA (bind_work E did ss rn pv md th) (\<lambda>rejected.
      andThen (case key of None \<Rightarrow> ret () | Some k \<Rightarrow>
        bindA (now_iso E) (\<lambda>now. set_command_idempotency k c did h now))
      (ret (rejected, E_none))))" for c h
    by (rule here_then[OF wp_bind_work]) (intro keeps_intros keyed)
  have replay: "moves_here s (require b IdempotencyError (bindA (refetch c rid) (\<lambda>ent. ret (False, ent))))"
    for b c rid by (rule here_keeps) (intro keeps_rules keeps_dispatches_refetch)
  have looked: "moves_here s (look f m)" if "\<And>x. moves_here s (m x)" for f and m :: "'b \<Rightarrow> (bool \<times> entity) cact"
    using that by (simp add: wp_look)
  have cases: "moves_here s (case x of None \<Rightarrow> m | Some a \<Rightarrow> n a)"
    if "moves_here s m" "\<And>a. moves_here s (n a)" for x and m :: "(bool \<times> entity) cact" and n :: "'b \<Rightarrow> _"
    using that by (cases x) simp_all
  have answer: "keeps db_dispatches (if fst r then raise RolePolicyViolation
      else if snd r \<noteq> E_none then ret (snd r)
      else look (get_dispatch did) (\<lambda>d. ret (as_entity E_dispatch d)))" for r :: "bool \<times> entity"
    by (intro keeps_rules)
  have body: "wp (bindA (atomically m) (\<lambda>r. if fst r then raise RolePolicyViolation
      else if snd r \<noteq> E_none then ret (snd r)
      else look (get_dispatch did) (\<lambda>d. ret (as_entity E_dispatch d)))) (\<lambda>_. dmoved s) (\<lambda>_. dmoved s) s"
    if "moves_here s m" for m
    unfolding wp_bindA using dmoved_atomically[OF that]
    by (rule wp_mono) (rule wp_keeps[OF answer], simp_all)
  have "wp (bind_spawn_result E did ss rn pv md th src key) (\<lambda>_. dmoved s) (\<lambda>_. dmoved s) s"
    unfolding bind_spawn_result_def Let_def
    by (simp only: wp_guards if_bool_eq_conj)
       (intro conjI allI impI dispatches_move_refl body cases looked fresh[unfolded Let_def] replay)
  then show ?thesis by (simp add: wp_snd)
qed

lemma wp_mark_failed: "moves_here s (mark_failed_work E did rs ec cd)"
proof (cases "get_dispatch did s")
  case None
  then show ?thesis by (simp add: mark_failed_work_def wp_fetch)
next
  case (Some d)
  then have row: "find_row d_id did (db_dispatches s) = Some d" by (simp add: get_dispatch_find)
  have failed: "dmoved s s'" if "d_status d \<in> {DS_RUNNING, DS_RECOVERY_PENDING}"
    "db_dispatches s' = update_rows (\<lambda>e. d_id e = did) (\<lambda>e. e\<lparr>d_attempt_outcome := Some oc\<rparr>)
       (update_rows (\<lambda>e. d_id e = did) (\<lambda>e. e\<lparr>d_status := DS_FAILED\<rparr>) (db_dispatches s))" for s' oc
    unfolding that(2) using that(1)
    by (intro status_outcome_move[OF row] life_fail) (auto simp: dispatch_move_iff)
  have tail: "wp m (\<lambda>_. dmoved s) any_error s'" if "keeps db_dispatches m" "dmoved s s'"
    for m :: "(entity \<times> string) cact" and s'
    using that(1) by (rule wp_keeps) (use that(2) in simp_all)
  have role_run: "keeps db_dispatches (update_role_run_status i st now)" for i st now
    unfolding update_role_run_status_def by (intro keeps_rules) simp
  have handoff: "keeps db_dispatches (models_handoff E t r r' now)" "keeps db_dispatches (insert_handoff h)"
    for t r r' now h
    unfolding models_handoff_def insert_handoff_def by (intro keeps_rules; simp)+
  show ?thesis
    unfolding mark_failed_work_def update_dispatch_status_def set_dispatch_attempt_outcome_def
      wp_fetch wp_look wp_require wp_bindA wp_world Some option.case wp_update_dispatches if_bool_eq_conj
    by (intro conjI impI TrueI; rule tail)
       (intro keeps_rules keeps_dispatches_emit role_run handoff; fail |
        (rule failed; simp))+
qed

lemma dispatches_mark_failed: "dmoved s (snd (mark_agent_failed E did rs src key ec cd s))"
proof -
  have "steps dmoved (idempotent E k c args (mark_failed_work E did rs ec cd) (refetch c'))" for k c args c'
    by (rule stepsI, rule dmoved_idempotent[OF wp_mark_failed keeps_dispatches_refetch])
  then have "steps dmoved (mark_agent_failed E did rs src key ec cd)"
    unfolding mark_agent_failed_def by (intro steps_rules dmoved_refl dmoved_trans)
  then show ?thesis by (rule stepsD)
qed

section \<open>Recovery\<close>

text \<open>The rows the loop has still to visit are as they were read.\<close>

definition visiting :: "agent_dispatch list \<Rightarrow> agent_dispatch list \<Rightarrow> core \<Rightarrow> bool" where
  "visiting D ds s \<longleftrightarrow> dispatches_move D (db_dispatches s) \<and> distinct (map d_id ds) \<and>
     (\<forall>d \<in> set ds. find_row d_id (d_id d) (db_dispatches s) = Some d)"

lemma visiting_next:
  assumes v: "visiting D (d # ds) s"
    and u: "db_dispatches s' = update_rows (\<lambda>e. d_id e = d_id d) (\<lambda>e. e\<lparr>d_status := st\<rparr>) (db_dispatches s)"
    and life: "dispatch_life d (d\<lparr>d_status := st\<rparr>)"
  shows "visiting D ds s'"
proof -
  have row: "find_row d_id (d_id d) (db_dispatches s) = Some d" using v by (simp add: visiting_def)
  have found: "find_row d_id j (db_dispatches s') =
      (if j = d_id d then Some (d\<lparr>d_status := st\<rparr>) else find_row d_id j (db_dispatches s))" for j
    unfolding u by (rule updated_row[OF row]) simp
  have move: "dispatches_move (db_dispatches s) (db_dispatches s')"
    by (rule dispatches_move_one[OF row _ life]) (simp_all add: found)
  have rest: "find_row d_id (d_id e) (db_dispatches s') = Some e" if "e \<in> set ds" for e
  proof -
    have "d_id d \<notin> d_id ` set ds" using v by (simp add: visiting_def)
    then have "d_id e \<noteq> d_id d" using that by (metis imageI)
    moreover have "find_row d_id (d_id e) (db_dispatches s) = Some e"
      using v that by (auto simp only: visiting_def list.set)
    ultimately show ?thesis by (simp add: found)
  qed
  show ?thesis unfolding visiting_def
  proof (intro conjI ballI rest)
    show "dispatches_move D (db_dispatches s')"
      using v move by (auto simp only: visiting_def intro: dispatches_move_trans)
    show "distinct (map d_id ds)" using v by (simp add: visiting_def)
  qed
qed

lemma wp_recover_dispatch:
  assumes v: "visiting D (d # ds) s"
  shows "wp (recover_dispatch E d) (\<lambda>_. visiting D ds) any_error s"
proof -
  have stay: "visiting D ds s" using v by (auto simp: visiting_def)
  have failed: "dispatch_life d (d\<lparr>d_status := DS_FAILED\<rparr>)"
    if "d_role d \<noteq> IMPLEMENTER \<and> d_status d = DS_PENDING"
    using that by (intro life_fail) (simp add: dispatch_move_iff)
  have parked: "dispatch_life d (d\<lparr>d_status := DS_RECOVERY_PENDING\<rparr>)"
    if "\<not> d_status d \<notin> {DS_PENDING, DS_RUNNING}"
    using that by (intro life_park) simp
  have tail: "wp (emit E ty ti ro st pl) (\<lambda>_. visiting D ds) any_error s'" if "visiting D ds s'"
    for ty ti ro st pl s'
    using keeps_dispatches_emit by (rule wp_keeps) (use that in \<open>simp_all add: visiting_def\<close>)
  show ?thesis
    unfolding recover_dispatch_def update_dispatch_status_def wp_if wp_bindA wp_ret wp_update_dispatches
      if_bool_eq_conj
    by (intro conjI impI TrueI stay tail; rule visiting_next[OF v];
        (erule failed | rule parked, assumption | simp))
qed

lemma visiting_all:
  assumes "unique_keys d_id (db_dispatches s)"
  shows "visiting (db_dispatches s) (list_all_dispatches s) s"
proof -
  have "distinct (map d_id (list_all_dispatches s)) \<longleftrightarrow> distinct (map d_id (db_dispatches s))"
    unfolding list_all_dispatches_def by (simp add: distinct_map)
  then show ?thesis
    using assms by (auto simp: visiting_def dispatches_move_refl unique_keys_def
        list_all_dispatches_def find_row_unique)
qed

lemma wp_recover_dispatches:
  assumes ids: "unique_keys d_id (db_dispatches s)"
  shows "moves_here s (recover_work E)"
proof -
  have seq: "wp (andThen m k) (\<lambda>_. dmoved s) any_error s'"
    if "wp m (\<lambda>_. dmoved s) any_error s'" "keeps db_dispatches k"
    for m :: "unit cact" and k :: "(entity \<times> string) cact" and s'
    unfolding wp_andThen using that(1)
    by (rule wp_mono) (rule wp_keeps[OF that(2)], simp_all)
  have loop: "wp (forA (list_all_dispatches s') (recover_dispatch E)) (\<lambda>_. dmoved s) any_error s'"
    if "db_dispatches s' = db_dispatches s" for s'
  proof (rule wp_forA_rest[where I = "visiting (db_dispatches s)"])
    show "visiting (db_dispatches s) (list_all_dispatches s') s'"
      using visiting_all[of s'] ids that by simp
  qed (auto intro: wp_recover_dispatch simp: visiting_def)
  have writes: "keeps db_dispatches (update_role_run_status i rst now)"
    "keeps db_dispatches (update_task_run_status i tst now)" for i rst tst now
    unfolding update_role_run_status_def update_task_run_status_def by (intro keeps_rules; simp)+
  have first: "wp (emit E ty ti ro st pl) (\<lambda>_ s'. db_dispatches s' = db_dispatches s) any_error s'"
    if "db_dispatches s' = db_dispatches s" for ty ti ro st pl s'
    using keeps_dispatches_emit by (rule wp_keeps) (use that in simp_all)
  show ?thesis
    unfolding recover_work_def Let_def wp_bindA wp_world
  proof (subst wp_andThen, rule wp_mono[OF first], simp, unfold wp_look, rule seq[OF loop])
    fix s' :: core assume "db_dispatches s' = db_dispatches s"
    then show "db_dispatches s' = db_dispatches s" .
  qed (unfold park_task_def fail_role_run_def fail_run_def roll_back_task_def,
    (intro keeps_rules writes keeps_dispatches_emit keeps_dispatches_task_state; simp)+)
qed

section \<open>Every command\<close>

lemma keeps_dispatches_tasks:
  "keeps db_dispatches (create_project E nm src key)" "keeps db_dispatches (create_task E pid title src key ds rc pol)"
  "keeps db_dispatches (transition E tid st' src key)" "keeps db_dispatches (resume E tid src key)"
  "keeps db_dispatches (start_role E tid ro src key)" "keeps db_dispatches (complete_role E rid src key)"
  "keeps db_dispatches (fail_role E rid src dt key)" "keeps db_dispatches (start_task_run E tid src key)"
  "keeps db_dispatches (complete_task_run E rid src key)"
  "keeps db_dispatches (fail_task_run E rid src key)"
  "keeps db_dispatches (add_finding E tid sv tx src key)"
  "keeps db_dispatches (resolve_finding E fid src key)"
  "keeps db_dispatches (record_test_run E tid re src dt key)"
  "keeps db_dispatches (record_review E tid vd src dt key)"
  "keeps db_dispatches (record_decision E tid dec src dt key)"
  unfolding task_command_defs insert_defs update_defs
  by (intro keeps_rules keeps_idempotent; simp)+

lemma keeps_dispatches_expiry: "on_expired E e = Some k \<Longrightarrow> keeps db_dispatches k"
  by (drule on_expired_Some)
     (auto simp: expire_and_release_def apply_transition_def update_defs
       intro!: keeps_rules keeps_dispatches_emit)

lemma keeps_dispatches_gates:
  "keeps db_dispatches (request_action E tid a sc ro src key)"
  "keeps db_dispatches (approve E aid src tid a sc key)"
  "keeps db_dispatches (reject E aid src tid a sc key)"
  "keeps db_dispatches (execute_approved E aid src tid a sc key)"
  unfolding gate_command_defs apply_transition_def insert_defs update_defs
  by (intro keeps_rules keeps_idempotent; (erule keeps_dispatches_expiry | simp)?)+

theorem command_dispatches:
  assumes "unique_keys d_id (db_dispatches s)"
  shows "dispatches_move (db_dispatches s) (db_dispatches (after E c s))"
proof (cases c)
  case (Recover src key)
  have "dmoved s (snd (idempotent E key c2 args (recover_work E) (\<lambda>_. ret rep) s))" for c2 args rep
    by (rule dmoved_idempotent[OF wp_recover_dispatches[OF assms] keeps_intros(1)])
  then have "wp (recover E src key) (\<lambda>_. dmoved s) (\<lambda>_. dmoved s) s"
    unfolding recover_def wp_guards by (simp add: dispatches_move_refl wp_snd split: sum.split)
  then show ?thesis by (simp add: Recover after_def wp_snd)
qed (simp_all only: after_def run_command.simps dispatches_create dispatches_bind
      dispatches_mark_failed dispatches_receive[OF assms]
      moved_keeps_dispatches[OF keeps_dispatches_tasks(1)] moved_keeps_dispatches[OF keeps_dispatches_tasks(2)]
      moved_keeps_dispatches[OF keeps_dispatches_tasks(3)] moved_keeps_dispatches[OF keeps_dispatches_tasks(4)]
      moved_keeps_dispatches[OF keeps_dispatches_tasks(5)] moved_keeps_dispatches[OF keeps_dispatches_tasks(6)]
      moved_keeps_dispatches[OF keeps_dispatches_tasks(7)] moved_keeps_dispatches[OF keeps_dispatches_tasks(8)]
      moved_keeps_dispatches[OF keeps_dispatches_tasks(9)] moved_keeps_dispatches[OF keeps_dispatches_tasks(10)]
      moved_keeps_dispatches[OF keeps_dispatches_tasks(11)] moved_keeps_dispatches[OF keeps_dispatches_tasks(12)]
      moved_keeps_dispatches[OF keeps_dispatches_tasks(13)] moved_keeps_dispatches[OF keeps_dispatches_tasks(14)]
      moved_keeps_dispatches[OF keeps_dispatches_tasks(15)] moved_keeps_dispatches[OF keeps_dispatches_gates(1)]
      moved_keeps_dispatches[OF keeps_dispatches_gates(2)] moved_keeps_dispatches[OF keeps_dispatches_gates(3)]
      moved_keeps_dispatches[OF keeps_dispatches_gates(4)])

lemma run_dispatches:
  "tables_ok s \<Longrightarrow> dispatches_move (db_dispatches s) (db_dispatches (run_commands E cs s))"
proof (induction cs arbitrary: s)
  case (Cons c cs)
  have "tables_ok (after E c s)" using Cons.prems tables.after_R by blast
  moreover have "unique_keys d_id (db_dispatches s)"
    using Cons.prems by (simp add: tables_ok_def dispatch_rows_ok_def)
  ultimately show ?case using Cons by (auto intro: dispatches_move_trans command_dispatches)
qed (simp add: dispatches_move_refl)

lemma reachable_dispatches: "reachable E s \<Longrightarrow> dispatches_move [] (db_dispatches s)"
proof (induction rule: reachable.induct)
  case initial
  show ?case by (simp add: empty_core_def dispatches_move_refl)
next
  case (command s c)
  moreover have "unique_keys d_id (db_dispatches s)"
    using reachable_tables_ok[OF command.hyps] by (simp add: tables_ok_def dispatch_rows_ok_def)
  ultimately show ?case by (blast intro: dispatches_move_trans command_dispatches)
qed

section \<open>A dispatch that runs\<close>

definition served_env :: env where
  "served_env = plain_env\<lparr>env_registry :=
     \<lparr>mr_providers = [(''openai'', \<lparr>pe_enabled = True, pe_availability_state = ''AVAILABLE''\<rparr>)],
      mr_models = [(''gpt-5.6-sol'',
        \<lparr>me_provider_id = ''openai'', me_enabled = True, me_lifecycle_state = ''ACTIVE''\<rparr>)]\<rparr>\<rparr>"

definition dispatched_run :: "command list" where
  "dispatched_run = demo_start @ [StartTaskRun ''0'' ''role:lead'' None,
     CreateDispatch ''0'' ''00000'' ''lead'' 0 1 SEQ_STANDARD None ''role:lead'' None None None,
     BindSpawnResult ''000000'' ''session'' ''run'' ''openai'' ''gpt-5.6-sol'' ''high'' ''role:lead'' None]"

definition dispatched_state :: core where
  "dispatched_state = run_commands served_env dispatched_run empty_core"

lemma dispatched_reachable: "reachable served_env dispatched_state"
  unfolding dispatched_state_def by (intro reachable_run_commands reachable.initial)

lemma dispatched_row:
  "map_option (\<lambda>d. (d_status d, d_role d)) (get_dispatch ''000000'' dispatched_state) = Some (DS_RUNNING, LEAD)"
  unfolding dispatched_state_def dispatched_run_def demo_start_def by code_simp

section \<open>Properties\<close>

text \<open>C7: from any reachable database, whatever commands follow, a dispatch is never lost, keeps
  everything it was created with, and moves only along its status machine: no result is consumed
  and no failure recorded before a run was bound to it, only a read-only role's pending dispatch
  is dropped by \<open>recover()\<close>, and a dispatch that is consumed, failed, rejected or quarantined is
  never written again, so its result is the one that was accepted.\<close>

theorem dispatch_life_run:
  assumes "reachable E s" "get_dispatch i s = Some d"
  shows "\<exists>d'. get_dispatch i (run_commands E cs s) = Some d' \<and>
     dispatch_identity d' = dispatch_identity d \<and>
     (dispatch_move (d_role d))\<^sup>*\<^sup>* (d_status d) (d_status d') \<and>
     (dispatch_final (d_status d) \<longrightarrow> d' = d)"
  using run_dispatches[OF reachable_tables_ok[OF assms(1)]] assms(2)
  unfolding dispatches_move_def get_dispatch_find dispatch_life_def by blast

definition failed_state :: core where
  "failed_state = after served_env
     (MarkAgentFailed ''000000'' ''crash'' ''role:lead'' None None None) dispatched_state"

lemma failed_row: "map_option d_status (get_dispatch ''000000'' failed_state) = Some DS_FAILED"
  unfolding failed_state_def dispatched_state_def dispatched_run_def demo_start_def by code_simp

theorem dispatch_life_run_witness:
  "get_dispatch ''000000'' (run_commands served_env
     [ReceiveAgentResult ''000000'' (PDict []) (PDict []) ''role:lead'' None,
      Recover ''owner:authenticated'' None] failed_state) = get_dispatch ''000000'' failed_state"
proof -
  obtain d where d: "get_dispatch ''000000'' failed_state = Some d" "dispatch_final (d_status d)"
    using failed_row by (cases "get_dispatch ''000000'' failed_state") (auto simp: dispatch_final_def)
  have "reachable served_env failed_state"
    unfolding failed_state_def by (intro reachable.command dispatched_reachable)
  from dispatch_life_run[OF this d(1)] d show ?thesis by metis
qed

text \<open>C8: in a reachable database a running or consumed dispatch is bound to a session and a run
  that were started with exactly the provider, model and thinking tier it was created for, and a
  dispatch has a result exactly if it was consumed, which is also the only successful attempt.\<close>

theorem dispatch_binding:
  assumes "reachable E s" "get_dispatch i s = Some d"
  shows "(d_status d \<in> {DS_RUNNING, DS_CONSUMED} \<longrightarrow> d_child_session_id d \<noteq> None \<and>
       d_openclaw_run_id d \<noteq> None \<and> d_actual_provider d = Some (d_expected_agent_class d) \<and>
       d_actual_model d = Some (d_expected_model_class d) \<and>
       d_thinking_tier d = Some (d_expected_thinking_tier d)) \<and>
     (d_result d \<noteq> None \<longleftrightarrow> d_status d = DS_CONSUMED) \<and>
     (d_status d = DS_CONSUMED \<longrightarrow> d_attempt_outcome d = Some ''SUCCESS'' \<and> d_consumed_at d \<noteq> None)"
proof -
  have "bound_ok d"
    using reachable_dispatches[OF assms(1)] assms(2)
    unfolding dispatches_move_def get_dispatch_find by simp
  then show ?thesis
    by (cases "d_status d") (simp_all add: bound_ok_def runs_as_expected_def)
qed

theorem dispatch_binding_witness:
  "\<exists>d. get_dispatch ''000000'' dispatched_state = Some d \<and> d_child_session_id d \<noteq> None \<and> d_result d = None"
proof -
  obtain d where d: "get_dispatch ''000000'' dispatched_state = Some d" "d_status d = DS_RUNNING"
    using dispatched_row by (cases "get_dispatch ''000000'' dispatched_state") auto
  from dispatch_binding[OF dispatched_reachable d(1)] d show ?thesis by simp
qed

end
