(* ===== verification/Resource_Recovery.thy ===== *)
theory Resource_Recovery
  imports Job_State
begin

text \<open>
  \<open>argent_core/resource_failure.py\<close> and \<open>argent_core/resource_recovery.py\<close>: from the evidence a
  terminated process leaves behind to one of ten termination classes, from there to a failure
  class, and from a failure class and the number of attempts to a recovery decision.  The
  columns that travel as strings (the termination class, the decision, the reason code) are
  strings here too where the code parses them.
\<close>

section \<open>Termination classes\<close>

datatype termination_class =
    TC_NORMAL_EXIT | TC_NONZERO_EXIT | TC_TIMEOUT | TC_OOM_KILL | TC_MEMORY_LIMIT
  | TC_SCOPE_CREATION_FAILED | TC_SCOPE_VERIFICATION_FAILED | TC_ENFORCEMENT_UNAVAILABLE
  | TC_SCOPE_CLEANUP_UNVERIFIED | TC_UNKNOWN_TERMINATION

primrec termination_class_value :: "termination_class \<Rightarrow> string" where
  "termination_class_value TC_NORMAL_EXIT = ''NORMAL_EXIT''"
| "termination_class_value TC_NONZERO_EXIT = ''NONZERO_EXIT''"
| "termination_class_value TC_TIMEOUT = ''TIMEOUT''"
| "termination_class_value TC_OOM_KILL = ''OOM_KILL''"
| "termination_class_value TC_MEMORY_LIMIT = ''MEMORY_LIMIT''"
| "termination_class_value TC_SCOPE_CREATION_FAILED = ''SCOPE_CREATION_FAILED''"
| "termination_class_value TC_SCOPE_VERIFICATION_FAILED = ''SCOPE_VERIFICATION_FAILED''"
| "termination_class_value TC_ENFORCEMENT_UNAVAILABLE = ''ENFORCEMENT_UNAVAILABLE''"
| "termination_class_value TC_SCOPE_CLEANUP_UNVERIFIED = ''SCOPE_CLEANUP_UNVERIFIED''"
| "termination_class_value TC_UNKNOWN_TERMINATION = ''UNKNOWN_TERMINATION''"

definition TERMINATION_CLASSES :: "termination_class list" where
  "TERMINATION_CLASSES = [TC_NORMAL_EXIT, TC_NONZERO_EXIT, TC_TIMEOUT, TC_OOM_KILL,
     TC_MEMORY_LIMIT, TC_SCOPE_CREATION_FAILED, TC_SCOPE_VERIFICATION_FAILED,
     TC_ENFORCEMENT_UNAVAILABLE, TC_SCOPE_CLEANUP_UNVERIFIED, TC_UNKNOWN_TERMINATION]"

definition termination_class_of_value :: "string \<Rightarrow> termination_class option" where
  "termination_class_of_value v = find (\<lambda>c. termination_class_value c = v) TERMINATION_CLASSES"

definition ENFORCEMENT_FAILURES :: "termination_class list" where
  "ENFORCEMENT_FAILURES =
     [TC_SCOPE_CREATION_FAILED, TC_SCOPE_VERIFICATION_FAILED, TC_ENFORCEMENT_UNAVAILABLE]"

text \<open>A counter of \<open>memory.events\<close>: only a positive int is evidence.  A bool is not an int here
  (\<open>isinstance(raw, bool)\<close>), although it is one in Python.\<close>

definition counter :: "py \<Rightarrow> string \<Rightarrow> int" where
  "counter v k = (case v of PDict kvs \<Rightarrow> (case py_get kvs k of PInt i \<Rightarrow> i | _ \<Rightarrow> 0) | _ \<Rightarrow> 0)"

definition delta :: "py \<Rightarrow> string \<Rightarrow> int" where
  "delta scope_events k = max 0 (counter scope_events k)"

definition memory_events_delta :: "py \<Rightarrow> py \<Rightarrow> (string \<times> int) list" where
  "memory_events_delta baseline current =
     map (\<lambda>k. (k, max 0 (counter current k - counter baseline k)))
       [''oom_kill'', ''oom_group_kill'', ''max'', ''high'']"

definition classify_termination ::
  "int option \<Rightarrow> py \<Rightarrow> bool \<Rightarrow> string option \<Rightarrow> termination_class" where
  "classify_termination exit_code scope_events timed_out enforcement_status =
     (let enforced = Option.bind enforcement_status
            (\<lambda>st. find (\<lambda>c. termination_class_value c = st) ENFORCEMENT_FAILURES) in
      case enforced of
        Some c \<Rightarrow> c
      | None \<Rightarrow>
          if enforcement_status = Some ''TIMEOUT'' then TC_TIMEOUT
          else if timed_out then TC_TIMEOUT
          else if delta scope_events ''oom_kill'' > 0 \<or> delta scope_events ''oom_group_kill'' > 0
          then TC_OOM_KILL
          else if delta scope_events ''max'' > 0 \<or> delta scope_events ''high'' > 0
          then TC_MEMORY_LIMIT
          else if exit_code = Some 0 then TC_NORMAL_EXIT
          else if exit_code \<noteq> None then TC_NONZERO_EXIT
          else TC_UNKNOWN_TERMINATION)"

section \<open>Failure classes and recovery decisions\<close>

datatype failure_class =
    FC_NORMAL_EXIT | FC_CODE_OR_PROCESS_FAILURE | FC_OOM | FC_MEMORY_LIMIT | FC_TIMEOUT
  | FC_ENFORCEMENT_FAILURE | FC_CAPACITY_FAILURE | FC_CLEANUP_UNVERIFIED | FC_UNKNOWN_TERMINATION

datatype recovery_decision =
    RD_COMPLETE | RD_RETRY_BOUNDED | RD_DEFER_RESOURCE | RD_BLOCK_RESOURCE | RD_PREFER_EXTERNAL
  | RD_QUARANTINE_LOST | RD_FAIL_NONRESOURCE

primrec failure_class_value :: "failure_class \<Rightarrow> string" where
  "failure_class_value FC_NORMAL_EXIT = ''NORMAL_EXIT''"
| "failure_class_value FC_CODE_OR_PROCESS_FAILURE = ''CODE_OR_PROCESS_FAILURE''"
| "failure_class_value FC_OOM = ''RESOURCE_OOM''"
| "failure_class_value FC_MEMORY_LIMIT = ''RESOURCE_MEMORY_LIMIT''"
| "failure_class_value FC_TIMEOUT = ''RESOURCE_TIMEOUT''"
| "failure_class_value FC_ENFORCEMENT_FAILURE = ''RESOURCE_ENFORCEMENT_FAILURE''"
| "failure_class_value FC_CAPACITY_FAILURE = ''RESOURCE_CAPACITY_FAILURE''"
| "failure_class_value FC_CLEANUP_UNVERIFIED = ''SCOPE_CLEANUP_UNVERIFIED''"
| "failure_class_value FC_UNKNOWN_TERMINATION = ''UNKNOWN_TERMINATION''"

primrec recovery_decision_value :: "recovery_decision \<Rightarrow> string" where
  "recovery_decision_value RD_COMPLETE = ''COMPLETE''"
| "recovery_decision_value RD_RETRY_BOUNDED = ''RETRY_BOUNDED''"
| "recovery_decision_value RD_DEFER_RESOURCE = ''DEFER_RESOURCE''"
| "recovery_decision_value RD_BLOCK_RESOURCE = ''BLOCK_RESOURCE''"
| "recovery_decision_value RD_PREFER_EXTERNAL = ''PREFER_EXTERNAL''"
| "recovery_decision_value RD_QUARANTINE_LOST = ''QUARANTINE_LOST''"
| "recovery_decision_value RD_FAIL_NONRESOURCE = ''FAIL_NONRESOURCE''"

definition RECOVERY_REASON_CODES :: "string list" where
  "RECOVERY_REASON_CODES = [''RESOURCE_OOM'', ''RESOURCE_MEMORY_LIMIT'', ''RESOURCE_TIMEOUT'',
     ''RESOURCE_ENFORCEMENT_UNAVAILABLE'', ''RESOURCE_ENFORCEMENT_UNVERIFIED'',
     ''RESOURCE_CAPACITY_INSUFFICIENT'', ''RESOURCE_PRESSURE'', ''SCOPE_CLEANUP_UNVERIFIED'',
     ''RESOURCE_EVIDENCE_UNKNOWN'']"

primrec TERMINATION_TO_FAILURE :: "termination_class \<Rightarrow> failure_class" where
  "TERMINATION_TO_FAILURE TC_NORMAL_EXIT = FC_NORMAL_EXIT"
| "TERMINATION_TO_FAILURE TC_NONZERO_EXIT = FC_CODE_OR_PROCESS_FAILURE"
| "TERMINATION_TO_FAILURE TC_TIMEOUT = FC_TIMEOUT"
| "TERMINATION_TO_FAILURE TC_OOM_KILL = FC_OOM"
| "TERMINATION_TO_FAILURE TC_MEMORY_LIMIT = FC_MEMORY_LIMIT"
| "TERMINATION_TO_FAILURE TC_SCOPE_CREATION_FAILED = FC_ENFORCEMENT_FAILURE"
| "TERMINATION_TO_FAILURE TC_SCOPE_VERIFICATION_FAILED = FC_ENFORCEMENT_FAILURE"
| "TERMINATION_TO_FAILURE TC_ENFORCEMENT_UNAVAILABLE = FC_ENFORCEMENT_FAILURE"
| "TERMINATION_TO_FAILURE TC_SCOPE_CLEANUP_UNVERIFIED = FC_CLEANUP_UNVERIFIED"
| "TERMINATION_TO_FAILURE TC_UNKNOWN_TERMINATION = FC_UNKNOWN_TERMINATION"

text \<open>A termination class as it is stored: unknown and missing ones fail closed.\<close>

definition failure_class_from_termination :: "string option \<Rightarrow> failure_class" where
  "failure_class_from_termination tc =
     (case Option.bind tc termination_class_of_value of
        None \<Rightarrow> FC_UNKNOWN_TERMINATION
      | Some c \<Rightarrow> TERMINATION_TO_FAILURE c)"

definition failure_class_from_enforcement_status :: "string option \<Rightarrow> failure_class" where
  "failure_class_from_enforcement_status status =
     (if status = Some ''SCOPE_CLEANUP_UNVERIFIED'' then FC_CLEANUP_UNVERIFIED
      else if status \<in> Some ` {''SCOPE_CREATION_FAILED'', ''SCOPE_VERIFICATION_FAILED'',
             ''ENFORCEMENT_UNAVAILABLE''} then FC_ENFORCEMENT_FAILURE
      else FC_UNKNOWN_TERMINATION)"

definition failure_class_from_admission :: "string option \<Rightarrow> failure_class" where
  "failure_class_from_admission verdict =
     (if verdict \<in> Some ` {''DEFER'', ''DENY_LOCAL''} then FC_CAPACITY_FAILURE else FC_NORMAL_EXIT)"

definition classify_failure ::
  "string option \<Rightarrow> int option \<Rightarrow> bool \<Rightarrow> py \<Rightarrow> failure_class" where
  "classify_failure termination_class exit_code timed_out scope_events =
     (case termination_class of
        None \<Rightarrow> TERMINATION_TO_FAILURE (classify_termination exit_code scope_events timed_out None)
      | Some v \<Rightarrow> TERMINATION_TO_FAILURE
          (case termination_class_of_value v of None \<Rightarrow> TC_UNKNOWN_TERMINATION | Some c \<Rightarrow> c))"

definition is_resource_failure :: "failure_class \<Rightarrow> bool" where
  "is_resource_failure fc \<longleftrightarrow> fc \<notin> {FC_NORMAL_EXIT, FC_CODE_OR_PROCESS_FAILURE}"

primrec reason_code_for_failure :: "failure_class \<Rightarrow> string" where
  "reason_code_for_failure FC_NORMAL_EXIT = ''RESOURCE_EVIDENCE_UNKNOWN''"
| "reason_code_for_failure FC_CODE_OR_PROCESS_FAILURE = ''RESOURCE_EVIDENCE_UNKNOWN''"
| "reason_code_for_failure FC_OOM = ''RESOURCE_OOM''"
| "reason_code_for_failure FC_MEMORY_LIMIT = ''RESOURCE_MEMORY_LIMIT''"
| "reason_code_for_failure FC_TIMEOUT = ''RESOURCE_TIMEOUT''"
| "reason_code_for_failure FC_ENFORCEMENT_FAILURE = ''RESOURCE_ENFORCEMENT_UNAVAILABLE''"
| "reason_code_for_failure FC_CAPACITY_FAILURE = ''RESOURCE_CAPACITY_INSUFFICIENT''"
| "reason_code_for_failure FC_CLEANUP_UNVERIFIED = ''SCOPE_CLEANUP_UNVERIFIED''"
| "reason_code_for_failure FC_UNKNOWN_TERMINATION = ''RESOURCE_EVIDENCE_UNKNOWN''"

primrec ALLOWED_RECOVERY_PAIRS :: "failure_class \<Rightarrow> recovery_decision set" where
  "ALLOWED_RECOVERY_PAIRS FC_NORMAL_EXIT = {RD_COMPLETE}"
| "ALLOWED_RECOVERY_PAIRS FC_CODE_OR_PROCESS_FAILURE = {RD_FAIL_NONRESOURCE}"
| "ALLOWED_RECOVERY_PAIRS FC_OOM = {RD_BLOCK_RESOURCE, RD_PREFER_EXTERNAL}"
| "ALLOWED_RECOVERY_PAIRS FC_MEMORY_LIMIT = {RD_BLOCK_RESOURCE, RD_DEFER_RESOURCE}"
| "ALLOWED_RECOVERY_PAIRS FC_TIMEOUT = {RD_RETRY_BOUNDED, RD_DEFER_RESOURCE, RD_BLOCK_RESOURCE}"
| "ALLOWED_RECOVERY_PAIRS FC_ENFORCEMENT_FAILURE = {RD_DEFER_RESOURCE, RD_QUARANTINE_LOST}"
| "ALLOWED_RECOVERY_PAIRS FC_CAPACITY_FAILURE = {RD_DEFER_RESOURCE, RD_BLOCK_RESOURCE}"
| "ALLOWED_RECOVERY_PAIRS FC_CLEANUP_UNVERIFIED = {RD_QUARANTINE_LOST}"
| "ALLOWED_RECOVERY_PAIRS FC_UNKNOWN_TERMINATION = {RD_QUARANTINE_LOST}"

definition is_valid_recovery_pair :: "failure_class \<Rightarrow> recovery_decision \<Rightarrow> bool" where
  "is_valid_recovery_pair fc dec \<longleftrightarrow> dec \<in> ALLOWED_RECOVERY_PAIRS fc"

definition normalized_reason_code :: "failure_class \<Rightarrow> string option \<Rightarrow> argent_error + string" where
  "normalized_reason_code fc reason_code = (case reason_code of
     None \<Rightarrow> Inr (reason_code_for_failure fc)
   | Some c \<Rightarrow> if c \<in> set RECOVERY_REASON_CODES then Inr c else Inl ValueError)"

section \<open>The policy\<close>

record recovery_policy =
  rp_max_resource_retries :: int
  rp_max_resource_defers :: int
  rp_retry_backoff_seconds :: int
  rp_defer_backoff_seconds :: int
  rp_retryable_failure_classes :: "failure_class list"
  rp_allow_memory_limit_defer :: bool
  rp_allow_enforcement_defer :: bool

definition default_recovery_policy :: recovery_policy where
  "default_recovery_policy = \<lparr>rp_max_resource_retries = 2, rp_max_resource_defers = 2,
     rp_retry_backoff_seconds = 300, rp_defer_backoff_seconds = 300,
     rp_retryable_failure_classes = [FC_CAPACITY_FAILURE, FC_TIMEOUT],
     rp_allow_memory_limit_defer = False, rp_allow_enforcement_defer = True\<rparr>"

text \<open>\<open>__post_init__\<close>: a policy that violates these is never constructed.\<close>

definition recovery_policy_ok :: "recovery_policy \<Rightarrow> bool" where
  "recovery_policy_ok pol \<longleftrightarrow> 0 \<le> rp_max_resource_retries pol \<and> 0 \<le> rp_max_resource_defers pol \<and>
     0 < rp_retry_backoff_seconds pol \<and> 0 < rp_defer_backoff_seconds pol \<and>
     set (rp_retryable_failure_classes pol) \<inter>
       {FC_OOM, FC_CLEANUP_UNVERIFIED, FC_UNKNOWN_TERMINATION} = {}"

definition decide_recovery ::
  "failure_class \<Rightarrow> int \<Rightarrow> recovery_policy \<Rightarrow> bool \<Rightarrow> bool \<Rightarrow> recovery_decision" where
  "decide_recovery fc attempt_no pol evidence_unknown external_available =
     (case fc of
        FC_NORMAL_EXIT \<Rightarrow> RD_COMPLETE
      | FC_CODE_OR_PROCESS_FAILURE \<Rightarrow> RD_FAIL_NONRESOURCE
      | FC_OOM \<Rightarrow> (if external_available then RD_PREFER_EXTERNAL else RD_BLOCK_RESOURCE)
      | FC_MEMORY_LIMIT \<Rightarrow>
          (if rp_allow_memory_limit_defer pol \<and> attempt_no < rp_max_resource_defers pol
           then RD_DEFER_RESOURCE else RD_BLOCK_RESOURCE)
      | FC_TIMEOUT \<Rightarrow>
          (if attempt_no < rp_max_resource_retries pol \<and>
              FC_TIMEOUT \<in> set (rp_retryable_failure_classes pol) then RD_RETRY_BOUNDED
           else if attempt_no < rp_max_resource_defers pol then RD_DEFER_RESOURCE
           else RD_BLOCK_RESOURCE)
      | FC_ENFORCEMENT_FAILURE \<Rightarrow>
          (if evidence_unknown then RD_QUARANTINE_LOST
           else if rp_allow_enforcement_defer pol \<and> attempt_no < rp_max_resource_defers pol
           then RD_DEFER_RESOURCE else RD_QUARANTINE_LOST)
      | FC_CAPACITY_FAILURE \<Rightarrow>
          (if attempt_no < rp_max_resource_defers pol then RD_DEFER_RESOURCE
           else RD_BLOCK_RESOURCE)
      | FC_CLEANUP_UNVERIFIED \<Rightarrow> RD_QUARANTINE_LOST
      | FC_UNKNOWN_TERMINATION \<Rightarrow> RD_QUARANTINE_LOST)"

section \<open>Properties\<close>

text \<open>C39: every decision the recovery policy takes is one that its failure class allows, so the
  commit never refuses it; it is a resource action exactly for the resource failures; only a
  timeout is ever retried, an out-of-memory kill never runs locally again, and a job whose
  attempts reached both budgets is neither retried nor deferred any more.\<close>

theorem recovery_bounded:
  "is_valid_recovery_pair fc (decide_recovery fc n pol unk ext) \<and>
   (decide_recovery fc n pol unk ext \<in> {RD_COMPLETE, RD_FAIL_NONRESOURCE} \<longleftrightarrow> \<not> is_resource_failure fc) \<and>
   (decide_recovery fc n pol unk ext = RD_RETRY_BOUNDED \<longrightarrow>
      fc = FC_TIMEOUT \<and> n < rp_max_resource_retries pol) \<and>
   (decide_recovery fc n pol unk ext = RD_DEFER_RESOURCE \<longrightarrow>
      fc \<noteq> FC_OOM \<and> n < rp_max_resource_defers pol) \<and>
   (fc \<in> {FC_CLEANUP_UNVERIFIED, FC_UNKNOWN_TERMINATION} \<longrightarrow>
      decide_recovery fc n pol unk ext = RD_QUARANTINE_LOST)"
  by (cases fc) (simp_all add: decide_recovery_def is_valid_recovery_pair_def is_resource_failure_def)

theorem recovery_bounded_witness:
  "decide_recovery FC_TIMEOUT 1 default_recovery_policy False False = RD_RETRY_BOUNDED \<and>
   1 < rp_max_resource_retries default_recovery_policy \<and>
   decide_recovery FC_UNKNOWN_TERMINATION 0 default_recovery_policy False True = RD_QUARANTINE_LOST"
proof -
  have "decide_recovery FC_TIMEOUT 1 default_recovery_policy False False = RD_RETRY_BOUNDED"
    by code_simp
  then show ?thesis
    using recovery_bounded[of FC_TIMEOUT 1 default_recovery_policy False False]
      recovery_bounded[of FC_UNKNOWN_TERMINATION 0 default_recovery_policy False True]
    by simp
qed



text \<open>a process is only reported out of memory, or over its limit, or timed out, on evidence
  for that: an exit code, whatever it is, never makes a resource failure.\<close>

theorem exit_code_is_no_evidence:
  "(classify_termination ec ev timed st = TC_OOM_KILL \<longrightarrow>
      counter ev ''oom_kill'' > 0 \<or> counter ev ''oom_group_kill'' > 0) \<and>
   (classify_termination ec ev timed st = TC_MEMORY_LIMIT \<longrightarrow>
      counter ev ''max'' > 0 \<or> counter ev ''high'' > 0) \<and>
   (classify_termination ec ev timed st = TC_TIMEOUT \<longrightarrow> timed \<or> st = Some ''TIMEOUT'') \<and>
   (classify_failure None ec False PNone \<in>
      {FC_NORMAL_EXIT, FC_CODE_OR_PROCESS_FAILURE, FC_UNKNOWN_TERMINATION}) \<and>
   (classify_failure None ec False PNone = FC_NORMAL_EXIT \<longleftrightarrow> ec = Some 0)"
proof -
  define en where "en = Option.bind st
    (\<lambda>v. find (\<lambda>c. termination_class_value c = v) ENFORCEMENT_FAILURES)"
  have en: "en \<notin> Some ` {TC_OOM_KILL, TC_MEMORY_LIMIT, TC_TIMEOUT}"
    by (auto simp: en_def ENFORCEMENT_FAILURES_def find_Some_iff bind_eq_Some_conv nth_Cons'
        split: if_splits)
  have unfold: "classify_termination ec ev timed st = (case en of Some c \<Rightarrow> c | None \<Rightarrow>
      if st = Some ''TIMEOUT'' \<or> timed then TC_TIMEOUT
      else if delta ev ''oom_kill'' > 0 \<or> delta ev ''oom_group_kill'' > 0 then TC_OOM_KILL
      else if delta ev ''max'' > 0 \<or> delta ev ''high'' > 0 then TC_MEMORY_LIMIT
      else if ec = Some 0 then TC_NORMAL_EXIT else if ec \<noteq> None then TC_NONZERO_EXIT
      else TC_UNKNOWN_TERMINATION)"
    unfolding classify_termination_def Let_def en_def by (simp split: option.split)
  have raw: "classify_failure None ec False PNone = (if ec = Some 0 then FC_NORMAL_EXIT
      else if ec \<noteq> None then FC_CODE_OR_PROCESS_FAILURE else FC_UNKNOWN_TERMINATION)"
    by (simp add: classify_failure_def classify_termination_def delta_def counter_def)
  show ?thesis
  proof (cases en)
    case None
    have "0 < delta ev k \<longleftrightarrow> 0 < counter ev k" for k
      by (simp add: delta_def less_max_iff_disj)
    with None show ?thesis unfolding unfold raw by simp
  next
    case (Some c)
    then show ?thesis using en unfolding unfold raw by simp
  qed
qed

theorem exit_code_is_no_evidence_witness:
  "classify_termination (Some 137) (PDict [(''oom_kill'', PInt 1)]) False None = TC_OOM_KILL \<and>
   counter (PDict [(''oom_kill'', PInt 1)]) ''oom_kill'' = 1 \<and>
   classify_failure None (Some 137) False PNone = FC_CODE_OR_PROCESS_FAILURE \<and>
   classify_failure None (Some 0) False PNone = FC_NORMAL_EXIT"
proof -
  have "classify_termination (Some 137) (PDict [(''oom_kill'', PInt 1)]) False None = TC_OOM_KILL"
    "counter (PDict [(''oom_kill'', PInt 1)]) ''oom_kill'' = 1"
    "classify_failure None (Some 137) False PNone = FC_CODE_OR_PROCESS_FAILURE"
    by code_simp+
  then show ?thesis
    using exit_code_is_no_evidence[of "Some 137" "PDict [(''oom_kill'', PInt 1)]" False None]
      exit_code_is_no_evidence[of "Some 0" PNone False None] by simp
qed

end
