(* ===== verification/Lease_Store.thy ===== *)
theory Lease_Store
  imports Resource_Recovery
begin

text \<open>
  The supervisor half of \<open>argent_core/store.py\<close>: the table of jobs with its leases.  A job is
  driven by whoever holds its lease: \<open>owner_instance_id\<close>, the fencing token \<open>lease_epoch\<close> and
  \<open>lease_expires_at\<close>.  The columns of \<open>supervisor_jobs\<close> that none of these operations reads or
  writes (the supervisor's own projection of the workflow) are left out.

  The dict of columns that an UPDATE assigns is a list of typed assignments, \<open>job_column\<close>.
  Timestamps are ISO texts in UTC, which compare like the times they denote, and are integers
  (microseconds) here.
\<close>

section \<open>Rows\<close>

record writer_binding =
  wb_worktree_path :: "string option"
  wb_repo_identity :: "string option"
  wb_base_commit :: "string option"
  wb_branch_identity :: "string option"
  wb_dispatch_id :: "string option"
  wb_owner_instance_id :: "string option"
  wb_lease_epoch :: int
  wb_bound :: bool \<comment> \<open>\<open>writer_binding_mode = 'BOUND'\<close>\<close>
  wb_expected_head :: "string option"
  wb_current_head :: "string option"

record mutation_footprint =
  mf_path_roots :: "string option"
  mf_modules :: "string option"
  mf_external_action_class :: "string option"
  mf_integration_target :: "string option"
  mf_action_scope :: "string option"

record job_audit =
  au_resource_decision :: "string option"
  au_resource_reason_code :: "string option"
  au_resource_snapshot_hash :: "string option"
  au_resource_at :: "timestamp option"
  au_recovery_decision :: "string option"
  au_failure_class :: "string option"
  au_recovery_at :: "timestamp option"
  au_concurrency_reason_code :: "string option"
  au_concurrency_at :: "timestamp option"

record supervisor_job =
  j_id :: string
  j_task_id :: string
  j_status :: string
  j_primary_state :: primary_state
  j_terminal :: "string option"
  j_recovery_state :: string
  j_wait_kind :: string
  j_queue_reason :: string
  j_priority :: int
  j_owner :: "string option"
  j_epoch :: int
  j_expires :: "timestamp option"
  j_next_eligible :: "timestamp option"
  j_error_class :: string
  j_error_code :: "string option"
  j_next_action :: string
  j_next_wake :: "timestamp option"
  j_attempt_no :: int
  j_facts_version :: int
  j_resource_class :: string
  j_depends_on :: "string option"
  j_updated_at :: timestamp
  j_writer :: writer_binding
  j_footprint :: mutation_footprint
  j_audit :: job_audit

record action_lock =
  lk_name :: string
  lk_holder_job :: string
  lk_holder_epoch :: int
  lk_acquired_at :: timestamp
  lk_updated_at :: timestamp

record external_wait =
  w_id :: string
  w_job_id :: string
  w_kind :: string
  w_provider :: string
  w_ref :: string
  w_expected_subject :: "string option"
  w_observed_state :: "string option"
  w_next_check :: timestamp
  w_deadline :: "timestamp option"
  w_check_attempt :: int
  w_event_version :: int
  w_terminal_at :: "timestamp option"
  w_ci_policy :: "string option"
  w_ci_evidence :: "string option"
  w_created_at :: timestamp
  w_updated_at :: timestamp

record supervisor_instance =
  si_instance_id :: string
  si_boot_id :: "string option"
  si_host_id :: "string option"
  si_pid :: "int option"
  si_start_ticks :: "int option"
  si_status :: string
  si_acquired_at :: timestamp
  si_lease_expires_at :: "timestamp option"
  si_heartbeat_at :: "timestamp option"
  si_stopped_at :: "timestamp option"
  si_stop_reason :: "string option"
  si_error_code :: "string option"
  si_updated_at :: timestamp
  si_revision :: int

record supervisor_action =
  sa_id :: string
  sa_job_id :: string
  sa_action_type :: string
  sa_status :: string

text \<open>The rows of the integration queue and of the requests to external systems.\<close>

record integration_candidate =
  ic_id :: string
  ic_repository :: string
  ic_target :: string
  ic_source_job_id :: string
  ic_state :: string
  ic_queue_position :: int
  ic_priority :: int
  ic_depends_on :: "string option"
  ic_base_commit :: "string option"
  ic_source_head :: "string option"
  ic_source_branch :: "string option"
  ic_worktree_path :: "string option"
  ic_branch :: "string option"
  ic_integrated_head :: "string option"
  ic_classification :: "string option"
  ic_conflict_detail :: "string option"
  ic_revision :: int
  ic_holder_owner :: "string option"
  ic_holder_epoch :: int
  ic_result :: "string option"
  ic_error_code :: "string option"
  ic_created_at :: timestamp
  ic_updated_at :: timestamp

record external_request =
  rq_id :: string
  rq_provider :: string
  rq_account :: string
  rq_action :: string
  rq_policy_class :: string
  rq_repository :: string
  rq_resource_ref :: string
  rq_source_job_id :: string
  rq_source_candidate_id :: string
  rq_scope :: string
  rq_parameters :: string
  rq_preconditions :: "string option"
  rq_idempotency_key :: string
  rq_provenance_version :: int
  rq_provenance_hash :: string
  rq_state :: string
  rq_authorization :: "string option"
  rq_revision :: int
  rq_holder_owner :: "string option"
  rq_holder_epoch :: int
  rq_lock_name :: "string option"
  rq_provider_state :: "string option"
  rq_provider_object :: "string option"
  rq_attempts :: int
  rq_next_attempt :: "timestamp option"
  rq_failure_class :: "string option"
  rq_error_code :: "string option"
  rq_expires_at :: "timestamp option"
  rq_created_at :: timestamp
  rq_updated_at :: timestamp

record request_audit =
  ra_id :: string
  ra_request_id :: string
  ra_event_type :: string
  ra_failure_class :: "string option"
  ra_reason_code :: string
  ra_detail :: string
  ra_created_at :: timestamp

text \<open>The armed action fence \<open>_action_fence\<close> is a Python attribute of the store, not a row.\<close>

record leases =
  l_jobs :: "supervisor_job list"
  l_locks :: "action_lock list"
  l_waits :: "external_wait list"
  l_markers :: "(string \<times> string) list" \<comment> \<open>\<open>resource_recovery_markers\<close>\<close>
  l_actions :: "supervisor_action list"
  l_instance :: "supervisor_instance option"
  l_candidates :: "integration_candidate list"
  l_requests :: "external_request list"
  l_audits :: "request_audit list"
  l_commands :: "((string \<times> string) \<times> (string \<times> string)) list"
    \<comment> \<open>\<open>command_idempotency\<close>: (key, command) to (result id, hash of the arguments)\<close>
  l_fence :: "(string \<times> string option \<times> int \<times> int) option"
  l_ticks :: nat

definition empty_leases :: leases where
  "empty_leases = \<lparr>l_jobs = [], l_locks = [], l_waits = [], l_markers = [], l_actions = [],
     l_instance = None, l_candidates = [], l_requests = [], l_audits = [], l_commands = [], l_fence = None,
     l_ticks = 0\<rparr>"

type_synonym 'a lact = "(leases, argent_error, 'a) act"

section \<open>Assignments\<close>

datatype job_column =
    Col_status string | Col_primary_state primary_state | Col_terminal "string option"
  | Col_recovery_state string | Col_wait_kind string | Col_queue_reason string | Col_priority int
  | Col_owner "string option" | Col_epoch int | Col_expires "timestamp option"
  | Col_next_eligible "timestamp option" | Col_error_class string | Col_error_code "string option"
  | Col_next_action string | Col_next_wake "timestamp option" | Col_attempt_no int
  | Col_facts_version int | Col_resource_class string | Col_depends_on "string option"
  | Col_updated_at timestamp | Col_writer "writer_binding \<Rightarrow> writer_binding"
  | Col_footprint "mutation_footprint \<Rightarrow> mutation_footprint" | Col_audit "job_audit \<Rightarrow> job_audit"

primrec set_column :: "job_column \<Rightarrow> supervisor_job \<Rightarrow> supervisor_job" where
  "set_column (Col_status v) j = j\<lparr>j_status := v\<rparr>"
| "set_column (Col_primary_state v) j = j\<lparr>j_primary_state := v\<rparr>"
| "set_column (Col_terminal v) j = j\<lparr>j_terminal := v\<rparr>"
| "set_column (Col_recovery_state v) j = j\<lparr>j_recovery_state := v\<rparr>"
| "set_column (Col_wait_kind v) j = j\<lparr>j_wait_kind := v\<rparr>"
| "set_column (Col_queue_reason v) j = j\<lparr>j_queue_reason := v\<rparr>"
| "set_column (Col_priority v) j = j\<lparr>j_priority := v\<rparr>"
| "set_column (Col_owner v) j = j\<lparr>j_owner := v\<rparr>"
| "set_column (Col_epoch v) j = j\<lparr>j_epoch := v\<rparr>"
| "set_column (Col_expires v) j = j\<lparr>j_expires := v\<rparr>"
| "set_column (Col_next_eligible v) j = j\<lparr>j_next_eligible := v\<rparr>"
| "set_column (Col_error_class v) j = j\<lparr>j_error_class := v\<rparr>"
| "set_column (Col_error_code v) j = j\<lparr>j_error_code := v\<rparr>"
| "set_column (Col_next_action v) j = j\<lparr>j_next_action := v\<rparr>"
| "set_column (Col_next_wake v) j = j\<lparr>j_next_wake := v\<rparr>"
| "set_column (Col_attempt_no v) j = j\<lparr>j_attempt_no := v\<rparr>"
| "set_column (Col_facts_version v) j = j\<lparr>j_facts_version := v\<rparr>"
| "set_column (Col_resource_class v) j = j\<lparr>j_resource_class := v\<rparr>"
| "set_column (Col_depends_on v) j = j\<lparr>j_depends_on := v\<rparr>"
| "set_column (Col_updated_at v) j = j\<lparr>j_updated_at := v\<rparr>"
| "set_column (Col_writer f) j = j\<lparr>j_writer := f (j_writer j)\<rparr>"
| "set_column (Col_footprint f) j = j\<lparr>j_footprint := f (j_footprint j)\<rparr>"
| "set_column (Col_audit f) j = j\<lparr>j_audit := f (j_audit j)\<rparr>"

definition set_columns :: "job_column list \<Rightarrow> supervisor_job \<Rightarrow> supervisor_job" where
  "set_columns cols j = fold set_column cols j"

lemma set_columns_simps [simp]:
  "set_columns [] j = j"
  "set_columns (c # cols) j = set_columns cols (set_column c j)"
  "set_columns (xs @ ys) j = set_columns ys (set_columns xs j)"
  by (simp_all add: set_columns_def)

lemma set_column_ids: "j_id (set_column c j) = j_id j" "j_task_id (set_column c j) = j_task_id j"
  by (cases c; simp)+

lemma set_columns_ids [simp]:
  "j_id (set_columns cols j) = j_id j" "j_task_id (set_columns cols j) = j_task_id j"
  by (induction cols arbitrary: j) (simp_all add: set_column_ids)

definition RESOURCE_CLASS_VALUES :: "string list" where
  "RESOURCE_CLASS_VALUES = [''LIGHT'', ''MEDIUM'', ''HEAVY'', ''EXCLUSIVE'']"

fun enum_column_ok :: "job_column \<Rightarrow> bool" where
  "enum_column_ok (Col_queue_reason v) \<longleftrightarrow> v \<in> set QUEUE_REASONS"
| "enum_column_ok (Col_wait_kind v) \<longleftrightarrow> v \<in> set WAIT_KINDS"
| "enum_column_ok (Col_error_class v) \<longleftrightarrow> v \<in> set ERROR_CLASSES"
| "enum_column_ok (Col_resource_class v) \<longleftrightarrow> v \<in> set RESOURCE_CLASS_VALUES"
| "enum_column_ok _ \<longleftrightarrow> True"

definition validate_enum_fields :: "job_column list \<Rightarrow> bool" where
  "validate_enum_fields cols \<longleftrightarrow> list_all enum_column_ok cols"

section \<open>Constraints of the job table\<close>

definition JOB_STATUSES :: "string list" where
  "JOB_STATUSES = [''ACTIVE'', ''WAITING_RUN'', ''WAITING_GATE'', ''BACKOFF'', ''RECOVERING'',
     ''ERROR'', ''TERMINAL'']"

definition job_row_ok :: "supervisor_job \<Rightarrow> bool" where
  "job_row_ok j \<longleftrightarrow> j_status j \<in> set JOB_STATUSES \<and>
     j_terminal j \<in> {None, Some ''DONE'', Some ''FAILED'', Some ''BLOCKED''} \<and>
     0 \<le> j_attempt_no j \<and> 0 \<le> j_epoch j \<and> 0 \<le> j_facts_version j \<and> 0 \<le> wb_lease_epoch (j_writer j) \<and>
     j_resource_class j \<in> set RESOURCE_CLASS_VALUES \<and>
     (j_terminal j = None \<or> j_status j = ''TERMINAL'' \<and> j_next_action j = ''NONE'')"

text \<open>The two partial unique indexes: one job per task that is not terminal, and one bound writer
  per worktree (\<open>idx_supervisor_jobs_writer_worktree\<close>).\<close>

definition live_writer :: "supervisor_job \<Rightarrow> bool" where
  "live_writer j \<longleftrightarrow> j_terminal j = None \<and> wb_bound (j_writer j) \<and> wb_worktree_path (j_writer j) \<noteq> None"

definition job_rows_ok :: "supervisor_job list \<Rightarrow> bool" where
  "job_rows_ok js \<longleftrightarrow> unique_keys j_id js \<and> list_all job_row_ok js \<and>
     unique_keys j_task_id (filter (\<lambda>j. j_terminal j = None) js) \<and>
     unique_keys (\<lambda>j. wb_worktree_path (j_writer j)) (filter live_writer js)"

section \<open>Statements\<close>

definition clock :: "env \<Rightarrow> timestamp lact" where
  "clock E s = (Inr (env_clock E (l_ticks s)), s\<lparr>l_ticks := Suc (l_ticks s)\<rparr>)"

definition seconds :: "int \<Rightarrow> int" where
  "seconds n = n * 1000000"

definition get_supervisor_job :: "string \<Rightarrow> leases \<Rightarrow> supervisor_job option" where
  "get_supervisor_job i s = find_row j_id i (l_jobs s)"

definition update_jobs ::
  "(supervisor_job \<Rightarrow> bool) \<Rightarrow> (supervisor_job \<Rightarrow> supervisor_job) \<Rightarrow> nat lact" where
  "update_jobs p f s =
     (let rows = update_rows p f (l_jobs s) in
      if job_rows_ok rows then (Inr (row_count p (l_jobs s)), s\<lparr>l_jobs := rows\<rparr>)
      else (Inl IntegrityError, s))"

definition insert_job :: "supervisor_job \<Rightarrow> unit lact" where
  "insert_job j s = (if job_rows_ok (l_jobs s @ [j]) then (Inr (), s\<lparr>l_jobs := l_jobs s @ [j]\<rparr>)
     else (Inl IntegrityError, s))"

text \<open>A write to another table.\<close>

definition put :: "(leases \<Rightarrow> bool) \<Rightarrow> (leases \<Rightarrow> leases) \<Rightarrow> unit lact" where
  "put ok f s = (if ok s then (Inr (), f s) else (Inl IntegrityError, s))"

lemma wp_statements [wp_simps]:
  "wp (clock E) Q X s = Q (env_clock E (l_ticks s)) (s\<lparr>l_ticks := Suc (l_ticks s)\<rparr>)"
  "wp (update_jobs p f) R X s =
     (if job_rows_ok (update_rows p f (l_jobs s))
      then R (row_count p (l_jobs s)) (s\<lparr>l_jobs := update_rows p f (l_jobs s)\<rparr>)
      else X IntegrityError s)"
  "wp (insert_job j) S X s =
     (if job_rows_ok (l_jobs s @ [j]) then S () (s\<lparr>l_jobs := l_jobs s @ [j]\<rparr>) else X IntegrityError s)"
  "wp (put ok g) S X s = (if ok s then S () (g s) else X IntegrityError s)"
  by (simp_all add: wp_def clock_def update_jobs_def insert_job_def put_def Let_def)

section \<open>The action fence and the transaction\<close>

definition fence_action :: "env \<Rightarrow> string \<Rightarrow> string option \<Rightarrow> int \<Rightarrow> int \<Rightarrow> unit lact" where
  "fence_action E job_id owner epoch facts_version =
     (case owner of
        None \<Rightarrow> ret ()
      | Some o' \<Rightarrow>
          fetch (get_supervisor_job job_id) LeaseFencedError (\<lambda>j.
          require (j_owner j = Some o') LeaseFencedError
         (require (j_epoch j = epoch) LeaseFencedError
         (fetch (\<lambda>_. j_expires j) LeaseFencedError (\<lambda>expires.
          bindA (clock E) (\<lambda>now.
          require (expires > now) LeaseFencedError
         (require (j_facts_version j = facts_version) LeaseFencedError (ret ()))))))))"

definition set_action_fence :: "string \<Rightarrow> string option \<Rightarrow> int \<Rightarrow> int \<Rightarrow> unit lact" where
  "set_action_fence job_id owner epoch facts_version =
     put (\<lambda>_. True) (\<lambda>s. s\<lparr>l_fence := Some (job_id, owner, epoch, facts_version)\<rparr>)"

definition clear_action_fence :: "unit lact" where
  "clear_action_fence = put (\<lambda>_. True) (\<lambda>s. s\<lparr>l_fence := None\<rparr>)"

definition check_action_fence :: "env \<Rightarrow> unit lact" where
  "check_action_fence E = look l_fence (\<lambda>fence. case fence of
     None \<Rightarrow> ret ()
   | Some (job_id, owner, epoch, facts_version) \<Rightarrow> fence_action E job_id owner epoch facts_version)"

definition undone :: "leases \<Rightarrow> leases \<Rightarrow> leases" where
  "undone s s' = s\<lparr>l_ticks := l_ticks s'\<rparr>"

definition transaction :: "env \<Rightarrow> 'a lact \<Rightarrow> 'a lact" where
  "transaction E m = transact undone (andThen (check_action_fence E) m)"

section \<open>The central transition\<close>

definition PRIMARY_STATE_STATUSES :: "primary_state \<Rightarrow> string set" where
  "PRIMARY_STATE_STATUSES ps =
     (if ps = QUEUED then {''WAITING_RUN'', ''BACKOFF''} else {primary_state_to_status ps})"

record job_cas =
  cas_primary_state :: "primary_state option"
  cas_owner :: "string option"
  cas_epoch :: "int option"
  cas_unexpired :: bool

definition no_cas :: job_cas where
  "no_cas = \<lparr>cas_primary_state = None, cas_owner = None, cas_epoch = None, cas_unexpired = False\<rparr>"

definition transition_job ::
  "string \<Rightarrow> primary_state \<Rightarrow> string \<Rightarrow> job_column list \<Rightarrow> bool \<Rightarrow> bool \<Rightarrow> job_cas \<Rightarrow> timestamp \<Rightarrow>
   supervisor_job lact" where
  "transition_job job_id to_ps to_status cols owner_authorized bump cas now =
     require (validate_enum_fields cols) ValueError
    (fetch (get_supervisor_job job_id) NotFound (\<lambda>job.
     require (j_terminal job \<notin> {Some ''DONE'', Some ''FAILED''}) LeaseError
    (require ((j_terminal job \<noteq> Some ''BLOCKED'' \<and> j_primary_state job \<noteq> PS_BLOCKED) \<or>
        owner_authorized) LeaseError
    (require (cas_primary_state cas \<in> {None, Some (j_primary_state job)}) LeaseError
    (require (cas_owner cas = None \<or> cas_owner cas = j_owner job) LeaseError
    (require (cas_epoch cas \<in> {None, Some (j_epoch job)}) LeaseError
    (require (\<not> cas_unexpired cas \<or>
        (case j_expires job of None \<Rightarrow> False | Some ex \<Rightarrow> ex > now)) LeaseError
    (require (to_status \<in> PRIMARY_STATE_STATUSES to_ps) ValueError
    (bindA (update_jobs (\<lambda>j. j_id j = job_id) (set_columns
       (cols @ [Col_primary_state to_ps, Col_status to_status] @
        (if bump then [Col_facts_version (j_facts_version job + 1)] else []) @
        [Col_updated_at now]))) (\<lambda>rc.
     require (rc = 1) LeaseError
    (fetch (get_supervisor_job job_id) TypeError ret)))))))))))"

end
