(* ===== verification/Lease_Ops.thy ===== *)
theory Lease_Ops
  imports Lease_Store
begin

text \<open>
  The lease operations of \<open>store.py\<close>, in its order: claiming, renewing and releasing a lease, the
  quarantines, the takeover of a job whose holder is gone, the fencing checks, the binding of a
  worktree, the action locks and the (re-)enqueueing of a job.  Each runs in one transaction.
\<close>

section \<open>Arguments\<close>

definition MAX_LEASE_TTL_SECONDS :: int where
  "MAX_LEASE_TTL_SECONDS = 86400"

definition MAX_POLICY_REF_LEN :: nat where
  "MAX_POLICY_REF_LEN = 256"

definition nonblank :: "string \<Rightarrow> bool" where
  "nonblank v \<longleftrightarrow> str_strip v \<noteq> []"

definition validate_lease_owner :: "string option \<Rightarrow> bool" where
  "validate_lease_owner owner \<longleftrightarrow> (case owner of None \<Rightarrow> False | Some v \<Rightarrow> nonblank v)"

definition validate_ttl :: "int \<Rightarrow> bool" where
  "validate_ttl ttl \<longleftrightarrow> 0 < ttl \<and> ttl \<le> MAX_LEASE_TTL_SECONDS"

text \<open>\<open>expires is not None and expires > now\<close>\<close>

definition unexpired :: "timestamp \<Rightarrow> supervisor_job \<Rightarrow> bool" where
  "unexpired now j \<longleftrightarrow> (case j_expires j of None \<Rightarrow> False | Some ex \<Rightarrow> ex > now)"

section \<open>Claiming\<close>

definition job_is_claimable :: "supervisor_job \<Rightarrow> timestamp \<Rightarrow> bool" where
  "job_is_claimable j now \<longleftrightarrow>
     j_primary_state j = QUEUED \<and>
     (case j_next_eligible j of None \<Rightarrow> True | Some t \<Rightarrow> \<not> t > now) \<and>
     \<not> (j_owner j \<noteq> None \<and> unexpired now j)"

definition do_claim_locked :: "string \<Rightarrow> string \<Rightarrow> int \<Rightarrow> timestamp \<Rightarrow> supervisor_job lact" where
  "do_claim_locked job_id owner ttl now =
     require (validate_lease_owner (Some owner)) ValueError
    (require (validate_ttl ttl) ValueError
    (fetch (get_supervisor_job job_id) NotFound (\<lambda>job.
     require (job_is_claimable job now) LeaseError
    (transition_job job_id RUNNING ''ACTIVE''
       [Col_owner (Some owner), Col_epoch (j_epoch job + 1), Col_expires (Some (now + seconds ttl))]
       False True
       (no_cas\<lparr>cas_primary_state := Some (j_primary_state job), cas_epoch := Some (j_epoch job)\<rparr>) now))))"

definition claim_job :: "env \<Rightarrow> string \<Rightarrow> string \<Rightarrow> int \<Rightarrow> supervisor_job lact" where
  "claim_job E job_id owner ttl =
     bindA (clock E) (\<lambda>now. transaction E (do_claim_locked job_id owner ttl now))"

definition blocked_columns :: "string \<Rightarrow> string \<Rightarrow> job_column list" where
  "blocked_columns error_class error_code =
     [Col_terminal (Some ''BLOCKED''), Col_owner None, Col_expires None, Col_error_class error_class,
      Col_error_code (Some error_code), Col_next_action ''NONE'', Col_next_wake None]"

definition block_missing_dependency :: "supervisor_job \<Rightarrow> timestamp \<Rightarrow> unit lact" where
  "block_missing_dependency job now =
     whenA (j_terminal job = None)
       (bindA (transition_job (j_id job) PS_BLOCKED ''TERMINAL''
          (blocked_columns ''OWNER_REQUIRED'' ''DEPENDENCY_UNKNOWN'') False True
          (no_cas\<lparr>cas_primary_state := Some (j_primary_state job)\<rparr>) now) (\<lambda>_. ret ()))"

text \<open>The loop over the rows that the SELECT returned.\<close>

fun claim_scan ::
  "supervisor_job list \<Rightarrow> string \<Rightarrow> int \<Rightarrow> timestamp \<Rightarrow> supervisor_job option lact" where
  "claim_scan [] owner ttl now = ret None"
| "claim_scan (job # jobs) owner ttl now =
     (if \<not> job_is_claimable job now then claim_scan jobs owner ttl now
      else if or_empty (j_depends_on job) = []
      then bindA (do_claim_locked (j_id job) owner ttl now) (\<lambda>r. ret (Some r))
      else look (get_supervisor_job (or_empty (j_depends_on job))) (\<lambda>dep.
        case dep of
          None \<Rightarrow> andThen (block_missing_dependency job now) (claim_scan jobs owner ttl now)
        | Some d \<Rightarrow>
            if j_terminal d \<noteq> Some ''DONE'' then claim_scan jobs owner ttl now
            else bindA (do_claim_locked (j_id job) owner ttl now) (\<lambda>r. ret (Some r))))"

definition claim_order :: "leases \<Rightarrow> supervisor_job list" where
  "claim_order s = sort_key (\<lambda>j. - j_priority j) (l_jobs s)"

definition claim_next_job :: "env \<Rightarrow> string \<Rightarrow> int \<Rightarrow> supervisor_job option lact" where
  "claim_next_job E owner ttl =
     bindA (clock E) (\<lambda>now. transaction E
       (look claim_order (\<lambda>jobs. claim_scan jobs owner ttl now)))"

section \<open>Keeping and giving up a lease\<close>

text \<open>The guard and the guarded UPDATE that \<open>renew_lease\<close> and \<open>clear_lease\<close> share.\<close>

definition held_by :: "string \<Rightarrow> int \<Rightarrow> timestamp \<Rightarrow> supervisor_job \<Rightarrow> bool" where
  "held_by owner epoch now j \<longleftrightarrow> j_owner j = Some owner \<and> j_epoch j = epoch \<and> unexpired now j"

definition guarded_update ::
  "string \<Rightarrow> string \<Rightarrow> int \<Rightarrow> timestamp \<Rightarrow> (supervisor_job \<Rightarrow> supervisor_job) \<Rightarrow> supervisor_job lact" where
  "guarded_update job_id owner epoch now f =
     fetch (get_supervisor_job job_id) NotFound (\<lambda>job.
     require (j_owner job = Some owner) LeaseError
    (require (j_epoch job = epoch) LeaseError
    (require (unexpired now job) LeaseError
    (bindA (update_jobs (\<lambda>j. j_id j = job_id \<and> held_by owner epoch now j) f) (\<lambda>rc.
     require (rc = 1) LeaseError
    (fetch (get_supervisor_job job_id) TypeError ret))))))"

definition renew_lease :: "env \<Rightarrow> string \<Rightarrow> string \<Rightarrow> int \<Rightarrow> int \<Rightarrow> supervisor_job lact" where
  "renew_lease E job_id owner epoch ttl =
     bindA (clock E) (\<lambda>now.
     require (validate_lease_owner (Some owner)) ValueError
    (require (validate_ttl ttl) ValueError
    (transaction E (guarded_update job_id owner epoch now
       (\<lambda>j. j\<lparr>j_expires := Some (now + seconds ttl), j_updated_at := now\<rparr>)))))"

definition release_lease :: "env \<Rightarrow> string \<Rightarrow> string \<Rightarrow> int \<Rightarrow> supervisor_job lact" where
  "release_lease E job_id owner epoch =
     bindA (clock E) (\<lambda>now.
     require (validate_lease_owner (Some owner)) ValueError
    (transaction E (transition_job job_id QUEUED ''WAITING_RUN''
       [Col_owner None, Col_expires None] False True
       (no_cas\<lparr>cas_owner := Some owner, cas_epoch := Some epoch, cas_unexpired := True\<rparr>) now)))"

definition clear_lease :: "env \<Rightarrow> string \<Rightarrow> string \<Rightarrow> int \<Rightarrow> supervisor_job lact" where
  "clear_lease E job_id owner epoch =
     bindA (clock E) (\<lambda>now.
     require (validate_lease_owner (Some owner)) ValueError
    (transaction E (guarded_update job_id owner epoch now
       (\<lambda>j. j\<lparr>j_owner := None, j_expires := None, j_updated_at := now,
          j_facts_version := j_facts_version j + 1\<rparr>))))"

section \<open>Quarantine and takeover\<close>

text \<open>The fields of a stale-scan snapshot that are compared.\<close>

record job_snapshot =
  sn_primary_state :: primary_state
  sn_owner :: "string option"
  sn_epoch :: int
  sn_expires :: "timestamp option"
  sn_facts_version :: int

definition snapshot_of :: "supervisor_job \<Rightarrow> job_snapshot" where
  "snapshot_of j = \<lparr>sn_primary_state = j_primary_state j, sn_owner = j_owner j, sn_epoch = j_epoch j,
     sn_expires = j_expires j, sn_facts_version = j_facts_version j\<rparr>"

definition snapshot_cas :: "job_snapshot option \<Rightarrow> job_cas" where
  "snapshot_cas expected = (case expected of
     None \<Rightarrow> no_cas
   | Some e \<Rightarrow> no_cas\<lparr>cas_primary_state := Some (sn_primary_state e), cas_owner := sn_owner e,
       cas_epoch := Some (sn_epoch e)\<rparr>)"

definition quarantine_job ::
  "env \<Rightarrow> string \<Rightarrow> job_snapshot option \<Rightarrow> primary_state \<Rightarrow> string \<Rightarrow> job_column list \<Rightarrow>
   supervisor_job option lact" where
  "quarantine_job E job_id expected to_ps to_status cols =
     bindA (clock E) (\<lambda>now. transaction E
       (fetch (get_supervisor_job job_id) NotFound (\<lambda>job.
        if (case expected of None \<Rightarrow> False | Some e \<Rightarrow> snapshot_of job \<noteq> e) then ret None
        else bindA (transition_job job_id to_ps to_status cols False True (snapshot_cas expected) now)
               (\<lambda>j. ret (Some j)))))"

definition lost_columns :: "string \<Rightarrow> job_column list" where
  "lost_columns error_code =
     [Col_owner None, Col_expires None, Col_error_class ''OWNER_REQUIRED'',
      Col_error_code (Some error_code), Col_next_action ''NONE'', Col_next_wake None]"

definition quarantine_lost ::
  "env \<Rightarrow> string \<Rightarrow> string \<Rightarrow> job_snapshot option \<Rightarrow> supervisor_job option lact" where
  "quarantine_lost E job_id error_code expected =
     quarantine_job E job_id expected LOST ''RECOVERING'' (lost_columns error_code)"

definition quarantine_blocked ::
  "env \<Rightarrow> string \<Rightarrow> string \<Rightarrow> string \<Rightarrow> job_snapshot option \<Rightarrow> supervisor_job option lact" where
  "quarantine_blocked E job_id error_code error_class expected =
     quarantine_job E job_id expected PS_BLOCKED ''TERMINAL'' (blocked_columns error_class error_code)"

definition recover_takeover_job ::
  "env \<Rightarrow> string \<Rightarrow> job_snapshot \<Rightarrow> string \<Rightarrow> int \<Rightarrow> bool \<Rightarrow> string option \<Rightarrow> supervisor_job lact" where
  "recover_takeover_job E job_id expected owner ttl process_alive worktree_verdict =
     require (validate_lease_owner (Some owner)) ValueError
    (require (validate_ttl ttl) ValueError
    (bindA (clock E) (\<lambda>now. transaction E
      (fetch (get_supervisor_job job_id) NotFound (\<lambda>job.
       require (snapshot_of job = expected) LeaseError
      (require (j_primary_state job = RUNNING) LeaseError
      (require (j_terminal job = None) LeaseError
      (require (j_expires job \<noteq> None \<and> \<not> unexpired now job) LeaseError
      (require (\<not> process_alive) LeaseError
      (look (\<lambda>s. \<exists>a \<in> set (l_actions s). sa_job_id a = job_id \<and>
           sa_action_type a = ''APPLY_PATCH_SET'' \<and> sa_status a \<in> {''RUNNING'', ''UNCERTAIN''})
        (\<lambda>in_flight.
       require (\<not> in_flight) LeaseError
      (let cas = no_cas\<lparr>cas_primary_state := Some (j_primary_state job),
                        cas_epoch := Some (j_epoch job)\<rparr> in
       if worktree_verdict = Some ''BLOCKED_DIVERGED'' then
         andThen (transition_job job_id PS_BLOCKED ''TERMINAL''
             (blocked_columns ''OWNER_REQUIRED'' ''WORKTREE_DIVERGED'') False True cas now)
           (fetch (get_supervisor_job job_id) TypeError ret)
       else if worktree_verdict \<notin> {Some ''CLEANUP_PENDING'', None} then
         andThen (transition_job job_id LOST ''RECOVERING'' (lost_columns ''AMBIGUOUS_WRITER'')
             False True cas now)
           (fetch (get_supervisor_job job_id) TypeError ret)
       else transition_job job_id RUNNING ''ACTIVE''
         [Col_owner (Some owner), Col_epoch (j_epoch job + 1),
          Col_expires (Some (now + seconds ttl))] False True cas now))))))))))))"

section \<open>Fencing checks\<close>

definition lease_is_current :: "env \<Rightarrow> string \<Rightarrow> string \<Rightarrow> int \<Rightarrow> bool lact" where
  "lease_is_current E job_id owner epoch =
     bindA (clock E) (\<lambda>now. look (get_supervisor_job job_id) (\<lambda>row.
     ret (case row of None \<Rightarrow> False | Some j \<Rightarrow> held_by owner epoch now j)))"

definition assert_lease_current :: "env \<Rightarrow> string \<Rightarrow> string \<Rightarrow> int \<Rightarrow> unit lact" where
  "assert_lease_current E job_id owner epoch =
     bindA (clock E) (\<lambda>now. fetch (get_supervisor_job job_id) LeaseFencedError (\<lambda>j.
     require (j_owner j = Some owner) LeaseFencedError
    (require (j_epoch j = epoch) LeaseFencedError
    (require (unexpired now j) LeaseFencedError (ret ())))))"

text \<open>\<open>_job_holds_current_lease\<close>: the holder is a pair of a job and an epoch.\<close>

definition job_holds_current_lease :: "string \<Rightarrow> int \<Rightarrow> timestamp \<Rightarrow> leases \<Rightarrow> bool" where
  "job_holds_current_lease job_id epoch now s =
     (case get_supervisor_job job_id s of
        None \<Rightarrow> False
      | Some j \<Rightarrow> j_terminal j = None \<and> j_owner j \<noteq> None \<and> j_epoch j = epoch \<and> unexpired now j)"

text \<open>The guard of the operations that only the current holder may run.\<close>

definition holder_only ::
  "string \<Rightarrow> string \<Rightarrow> int \<Rightarrow> timestamp \<Rightarrow> (supervisor_job \<Rightarrow> 'a lact) \<Rightarrow> 'a lact" where
  "holder_only job_id owner epoch now k =
     fetch (get_supervisor_job job_id) NotFound (\<lambda>job.
     require (j_owner job = Some owner) LeaseFencedError
    (require (j_epoch job = epoch) LeaseFencedError
    (require (unexpired now job) LeaseFencedError (k job))))"

section \<open>The projection update\<close>

text \<open>\<open>_update_supervisor_job\<close>, through which the supervisor writes its projection: the primary
  state follows the columns it is derived from unless it is given, and a terminal mark sticks.\<close>

fun projection_column :: "job_column \<Rightarrow> bool" where
  "projection_column (Col_status _) \<longleftrightarrow> True"
| "projection_column (Col_terminal _) \<longleftrightarrow> True"
| "projection_column (Col_recovery_state _) \<longleftrightarrow> True"
| "projection_column (Col_wait_kind _) \<longleftrightarrow> True"
| "projection_column (Col_queue_reason _) \<longleftrightarrow> True"
| "projection_column _ \<longleftrightarrow> False"

fun primary_column :: "job_column \<Rightarrow> bool" where
  "primary_column (Col_primary_state _) \<longleftrightarrow> True"
| "primary_column _ \<longleftrightarrow> False"

definition derive_for_update :: "job_column list \<Rightarrow> supervisor_job option \<Rightarrow> job_column list" where
  "derive_for_update cols row =
     (if list_ex primary_column cols \<or> \<not> list_ex projection_column cols then cols
      else case row of None \<Rightarrow> cols
      | Some cur \<Rightarrow> (let j = set_columns cols cur in
          cols @ [Col_primary_state (derive_primary_state (j_status j) (j_terminal j) (Some (j_wait_kind j)))]))"

definition terminal_update_ok :: "supervisor_job \<Rightarrow> supervisor_job \<Rightarrow> bool" where
  "terminal_update_ok cur new \<longleftrightarrow>
     (case j_terminal cur of
        None \<Rightarrow> True
      | Some t \<Rightarrow>
          if t \<in> {''DONE'', ''FAILED''}
          then j_terminal new = Some t \<and> primary_state_value (j_primary_state new) = t
          else if t = ''BLOCKED''
          then j_terminal new \<notin> {Some ''DONE'', Some ''FAILED'', None} \<and> j_primary_state new = PS_BLOCKED
          else True)"

definition update_supervisor_job :: "string \<Rightarrow> job_column list \<Rightarrow> nat lact" where
  "update_supervisor_job job_id cols =
     (if cols = [] then ret 0
      else require (validate_enum_fields cols) ValueError
        (look (get_supervisor_job job_id) (\<lambda>row.
         let cols' = derive_for_update cols row in
         require (case row of None \<Rightarrow> True | Some cur \<Rightarrow> terminal_update_ok cur (set_columns cols' cur))
           LeaseError
         (update_jobs (\<lambda>j. j_id j = job_id) (set_columns cols')))))"

section \<open>Binding a worktree, recording metadata\<close>

definition bind_writer_worktree ::
  "env \<Rightarrow> string \<Rightarrow> string \<Rightarrow> string \<Rightarrow> int \<Rightarrow> string option \<Rightarrow> string option \<Rightarrow> string option \<Rightarrow>
   string \<Rightarrow> string option \<Rightarrow> string option \<Rightarrow> supervisor_job lact" where
  "bind_writer_worktree E job_id dispatch_id owner epoch repo base branch path expected_head head =
     require (validate_lease_owner (Some owner)) ValueError
    (require (1 \<le> epoch) ValueError
    (require (nonblank dispatch_id) ValueError
    (require (path \<noteq> []) ValueError
    (bindA (clock E) (\<lambda>now. transaction E
      (holder_only job_id owner epoch now (\<lambda>job.
       look (\<lambda>s. \<exists>j \<in> set (l_jobs s). wb_worktree_path (j_writer j) = Some path \<and>
            wb_bound (j_writer j) \<and> j_terminal j = None \<and> j_id j \<noteq> job_id) (\<lambda>conflict.
       require (\<not> conflict) WorktreeConflictError
      (bindA (update_supervisor_job job_id [Col_writer (\<lambda>_. \<lparr>wb_worktree_path = Some path,
          wb_repo_identity = repo, wb_base_commit = base, wb_branch_identity = branch,
          wb_dispatch_id = Some dispatch_id, wb_owner_instance_id = Some owner,
          wb_lease_epoch = epoch, wb_bound = True, wb_expected_head = expected_head,
          wb_current_head = head\<rparr>)]) (\<lambda>_.
       fetch (get_supervisor_job job_id) TypeError ret))))))))))"

text \<open>\<open>set_job_metadata\<close>.  The arguments are the values its validation returned (it runs before
  the transaction and raises \<open>ValueError\<close> without reading or writing a row); \<open>None\<close> leaves a
  column alone.\<close>

definition metadata_columns ::
  "string option \<Rightarrow> string option \<Rightarrow> string option \<Rightarrow> string option \<Rightarrow> string option \<Rightarrow>
   string option \<Rightarrow> string option \<Rightarrow> string option \<Rightarrow> string option \<Rightarrow> job_column list" where
  "metadata_columns roots modules cls target scope depends repo path branch =
     (case roots of None \<Rightarrow> [] | Some v \<Rightarrow> [Col_footprint (\<lambda>m. m\<lparr>mf_path_roots := Some v\<rparr>)]) @
     (case modules of None \<Rightarrow> [] | Some v \<Rightarrow> [Col_footprint (\<lambda>m. m\<lparr>mf_modules := Some v\<rparr>)]) @
     (case cls of None \<Rightarrow> [] | Some v \<Rightarrow> [Col_footprint (\<lambda>m. m\<lparr>mf_external_action_class := Some v\<rparr>)]) @
     (case target of None \<Rightarrow> [] | Some v \<Rightarrow> [Col_footprint (\<lambda>m. m\<lparr>mf_integration_target := Some v\<rparr>)]) @
     (case scope of None \<Rightarrow> [] | Some v \<Rightarrow> [Col_footprint (\<lambda>m. m\<lparr>mf_action_scope := Some v\<rparr>)]) @
     (case depends of None \<Rightarrow> [] | Some v \<Rightarrow> [Col_depends_on (Some v)]) @
     (case repo of None \<Rightarrow> [] | Some v \<Rightarrow> [Col_writer (\<lambda>w. w\<lparr>wb_repo_identity := Some v\<rparr>)]) @
     (case path of None \<Rightarrow> [] | Some v \<Rightarrow> [Col_writer (\<lambda>w. w\<lparr>wb_worktree_path := Some v\<rparr>)]) @
     (case branch of None \<Rightarrow> [] | Some v \<Rightarrow> [Col_writer (\<lambda>w. w\<lparr>wb_branch_identity := Some v\<rparr>)])"

definition set_job_metadata ::
  "env \<Rightarrow> string \<Rightarrow> string \<Rightarrow> int \<Rightarrow> job_column list \<Rightarrow> supervisor_job lact" where
  "set_job_metadata E job_id owner epoch cols =
     require (validate_lease_owner (Some owner)) ValueError
    (require (1 \<le> epoch) ValueError
    (transaction E
      (fetch (get_supervisor_job job_id) NotFound (\<lambda>job.
       require (j_owner job = Some owner) LeaseFencedError
      (require (j_epoch job = epoch) LeaseFencedError
      (bindA (clock E) (\<lambda>now.
       require (unexpired now job) LeaseFencedError
      (andThen (whenA (cols \<noteq> []) (bindA
          (update_supervisor_job job_id (cols @ [Col_facts_version (j_facts_version job + 1)]))
          (\<lambda>_. ret ())))
      (fetch (get_supervisor_job job_id) TypeError ret)))))))))"

section \<open>Dependencies and active jobs\<close>

definition get_dependency_terminal :: "string \<Rightarrow> leases \<Rightarrow> string option" where
  "get_dependency_terminal depends_on s = (case get_supervisor_job depends_on s of
     None \<Rightarrow> Some ''DEPENDENCY_MISSING''
   | Some j \<Rightarrow> j_terminal j)"

definition list_active_job_facts :: "string option \<Rightarrow> leases \<Rightarrow> supervisor_job list" where
  "list_active_job_facts exclude s = filter (\<lambda>j. j_terminal j = None \<and> j_primary_state j = RUNNING \<and>
     exclude \<noteq> Some (j_id j)) (l_jobs s)"

section \<open>Action locks\<close>

definition find_lock :: "string \<Rightarrow> leases \<Rightarrow> action_lock option" where
  "find_lock name s = find_row lk_name name (l_locks s)"

definition try_acquire_action_lock :: "env \<Rightarrow> string \<Rightarrow> string \<Rightarrow> int \<Rightarrow> bool lact" where
  "try_acquire_action_lock E name job_id epoch =
     require (nonblank name) ValueError
    (require (nonblank job_id) ValueError
    (require (1 \<le> epoch) ValueError
    (transaction E (bindA (clock E) (\<lambda>now.
      look (job_holds_current_lease job_id epoch now) (\<lambda>current.
      require current LeaseFencedError
     (look (find_lock name) (\<lambda>row. case row of
        None \<Rightarrow> andThen (put (\<lambda>_. True) (\<lambda>s. s\<lparr>l_locks := l_locks s @ [\<lparr>lk_name = name,
            lk_holder_job = job_id, lk_holder_epoch = epoch, lk_acquired_at = now,
            lk_updated_at = now\<rparr>]\<rparr>)) (ret True)
      | Some lk \<Rightarrow>
          if lk_holder_job lk = job_id \<and> lk_holder_epoch lk = epoch then ret True
          else look (job_holds_current_lease (lk_holder_job lk) (lk_holder_epoch lk) now) (\<lambda>live.
            if live then ret False
            else andThen (put (\<lambda>_. True) (\<lambda>s. s\<lparr>l_locks := update_rows (\<lambda>l. lk_name l = name)
                (\<lambda>l. l\<lparr>lk_holder_job := job_id, lk_holder_epoch := epoch, lk_updated_at := now\<rparr>)
                (l_locks s)\<rparr>)) (ret True))))))))))"

definition delete_lock :: "string \<Rightarrow> unit lact" where
  "delete_lock name = put (\<lambda>_. True) (\<lambda>s. s\<lparr>l_locks := filter (\<lambda>l. lk_name l \<noteq> name) (l_locks s)\<rparr>)"

definition release_action_lock :: "env \<Rightarrow> string \<Rightarrow> string \<Rightarrow> int \<Rightarrow> bool lact" where
  "release_action_lock E name job_id epoch =
     require (nonblank name) ValueError
    (transaction E (look (find_lock name) (\<lambda>row. case row of
        None \<Rightarrow> ret True
      | Some lk \<Rightarrow>
          if lk_holder_job lk \<noteq> job_id \<or> lk_holder_epoch lk \<noteq> epoch then ret False
          else andThen (delete_lock name) (ret True))))"

definition action_lock_held_by :: "string \<Rightarrow> string \<Rightarrow> int \<Rightarrow> leases \<Rightarrow> bool" where
  "action_lock_held_by name job_id epoch s \<longleftrightarrow> nonblank name \<and>
     (case find_lock name s of None \<Rightarrow> False
      | Some lk \<Rightarrow> lk_holder_job lk = job_id \<and> lk_holder_epoch lk = epoch)"

definition action_lock_state :: "string \<Rightarrow> leases \<Rightarrow> (string \<times> int) option" where
  "action_lock_state name s = (if \<not> nonblank name then None
     else map_option (\<lambda>lk. (lk_holder_job lk, lk_holder_epoch lk)) (find_lock name s))"

definition reclaim_stale_action_lock :: "env \<Rightarrow> string \<Rightarrow> bool lact" where
  "reclaim_stale_action_lock E name =
     require (nonblank name) ValueError
    (transaction E (look (find_lock name) (\<lambda>row. case row of
        None \<Rightarrow> ret False
      | Some lk \<Rightarrow> bindA (clock E) (\<lambda>now.
          look (job_holds_current_lease (lk_holder_job lk) (lk_holder_epoch lk) now) (\<lambda>live.
          if live then ret False else andThen (delete_lock name) (ret True))))))"

section \<open>Enqueueing\<close>

text \<open>The audit columns and the resource class are only written where given.\<close>

definition enqueue_job ::
  "env \<Rightarrow> string \<Rightarrow> string \<Rightarrow> int \<Rightarrow> timestamp option \<Rightarrow> string \<Rightarrow> string \<Rightarrow> string option \<Rightarrow> bool \<Rightarrow>
   string option \<Rightarrow> int option \<Rightarrow> bool \<Rightarrow> string option \<Rightarrow> string option \<Rightarrow>
   (job_audit \<Rightarrow> job_audit) option \<Rightarrow> supervisor_job lact" where
  "enqueue_job E job_id queue_reason priority next_eligible wait_kind error_class error_code
       bump_attempt owner epoch owner_authorized policy_ref resource_class audit =
     bindA (clock E) (\<lambda>now.
     let status = status_for_enqueue queue_reason in
     transaction E
      (fetch (get_supervisor_job job_id) NotFound (\<lambda>job.
       require (j_terminal job \<notin> {Some ''DONE'', Some ''FAILED''}) LeaseError
      (let common =
          [Col_queue_reason queue_reason, Col_priority priority, Col_next_eligible next_eligible,
           Col_wait_kind wait_kind, Col_error_class error_class, Col_error_code error_code,
           Col_attempt_no (if bump_attempt then j_attempt_no job + 1 else j_attempt_no job),
           Col_owner None, Col_expires None] @
          (case resource_class of None \<Rightarrow> [] | Some c \<Rightarrow> [Col_resource_class c]) @
          (case audit of None \<Rightarrow> [] | Some f \<Rightarrow> [Col_audit f]) in
       if owner_authorized then
         require (case policy_ref of None \<Rightarrow> False | Some r \<Rightarrow> nonblank r) LeaseError
        (require (length (or_empty policy_ref) \<le> MAX_POLICY_REF_LEN) LeaseError
        (require (j_primary_state job = PS_BLOCKED) LeaseError
        (require (j_terminal job = Some ''BLOCKED'') LeaseError
        (require (j_owner job = None) LeaseError
        (require (j_expires job = None) LeaseError
        (transition_job job_id QUEUED status (common @ [Col_terminal None]) True True no_cas now))))))
       else if owner \<noteq> None \<or> epoch \<noteq> None then
         require (validate_lease_owner owner) ValueError
        (transition_job job_id QUEUED status common False True
           (no_cas\<lparr>cas_owner := owner, cas_epoch := epoch, cas_unexpired := True\<rparr>) now)
       else
         require (j_owner job = None) LeaseError
        (require (j_primary_state job = QUEUED) LeaseError
        (transition_job job_id QUEUED status common False True no_cas now))))))"

definition persist_resource_decision ::
  "env \<Rightarrow> string \<Rightarrow> string \<Rightarrow> int \<Rightarrow> string \<Rightarrow> string \<Rightarrow> string option \<Rightarrow> timestamp option \<Rightarrow>
   supervisor_job lact" where
  "persist_resource_decision E job_id owner epoch decision reason snapshot_hash decided_at =
     require (validate_lease_owner (Some owner)) ValueError
    (bindA (clock E) (\<lambda>now. transaction E
      (fetch (get_supervisor_job job_id) NotFound (\<lambda>job.
       require (j_terminal job = None) LeaseError
      (require (j_primary_state job = RUNNING) LeaseError
      (holder_only job_id owner epoch now (\<lambda>_.
       bindA (update_jobs (\<lambda>j. j_id j = job_id) (set_columns [Col_audit (\<lambda>a. a\<lparr>
           au_resource_decision := Some decision, au_resource_reason_code := Some reason,
           au_resource_snapshot_hash := snapshot_hash, au_resource_at := decided_at\<rparr>), Col_updated_at now]))
         (\<lambda>_. fetch (get_supervisor_job job_id) TypeError ret))))))))"

end
