(* ===== verification/Lease_Waits.thy ===== *)
theory Lease_Waits
  imports Lease_Ops
begin

text \<open>
  The remaining transitions of \<open>store.py\<close>'s job table: the commit of a resource-recovery decision,
  the external waits (entering a wait, updating it, finishing it) and the row of the single active
  supervisor, which fences the writes of a supervisor that was taken over.
\<close>

section \<open>Committing a recovery decision\<close>

definition FAILURE_CLASSES :: "failure_class list" where
  "FAILURE_CLASSES = [FC_NORMAL_EXIT, FC_CODE_OR_PROCESS_FAILURE, FC_OOM, FC_MEMORY_LIMIT, FC_TIMEOUT,
     FC_ENFORCEMENT_FAILURE, FC_CAPACITY_FAILURE, FC_CLEANUP_UNVERIFIED, FC_UNKNOWN_TERMINATION]"

definition RECOVERY_DECISIONS :: "recovery_decision list" where
  "RECOVERY_DECISIONS = [RD_COMPLETE, RD_RETRY_BOUNDED, RD_DEFER_RESOURCE, RD_BLOCK_RESOURCE,
     RD_PREFER_EXTERNAL, RD_QUARANTINE_LOST, RD_FAIL_NONRESOURCE]"

definition failure_class_of_value :: "string \<Rightarrow> failure_class option" where
  "failure_class_of_value v = find (\<lambda>c. failure_class_value c = v) FAILURE_CLASSES"

definition recovery_decision_of_value :: "string \<Rightarrow> recovery_decision option" where
  "recovery_decision_of_value v = find (\<lambda>d. recovery_decision_value d = v) RECOVERY_DECISIONS"

definition recovery_audit ::
  "failure_class \<Rightarrow> recovery_decision \<Rightarrow> timestamp \<Rightarrow> string \<Rightarrow> job_column list" where
  "recovery_audit fc dec now reason =
     [Col_audit (\<lambda>a. a\<lparr>au_recovery_decision := Some (recovery_decision_value dec),
        au_failure_class := Some (failure_class_value fc), au_recovery_at := Some now\<rparr>),
      Col_error_code (Some reason)]"

definition requeue_columns :: "string \<Rightarrow> timestamp option \<Rightarrow> supervisor_job \<Rightarrow> job_column list" where
  "requeue_columns queue_reason next_eligible job =
     [Col_queue_reason queue_reason, Col_next_eligible next_eligible, Col_error_class ''RESOURCE'',
      Col_attempt_no (j_attempt_no job + 1), Col_owner None, Col_expires None]"

text \<open>The state, the status and the columns that the decision moves a running job to.\<close>

definition recovery_move ::
  "recovery_decision \<Rightarrow> timestamp option \<Rightarrow> supervisor_job \<Rightarrow>
   (primary_state \<times> string \<times> job_column list) option" where
  "recovery_move dec next_eligible job =
     (if dec = RD_RETRY_BOUNDED
      then Some (QUEUED, status_for_enqueue ''RETRY_BACKOFF'',
                 requeue_columns ''RETRY_BACKOFF'' next_eligible job)
      else if dec = RD_DEFER_RESOURCE
      then Some (QUEUED, status_for_enqueue ''RESOURCE_DEFERRED'',
                 requeue_columns ''RESOURCE_DEFERRED'' next_eligible job)
      else if dec \<in> {RD_BLOCK_RESOURCE, RD_PREFER_EXTERNAL}
      then Some (PS_BLOCKED, ''TERMINAL'', [Col_terminal (Some ''BLOCKED''), Col_owner None,
                 Col_expires None, Col_error_class ''RESOURCE'', Col_next_action ''NONE'',
                 Col_next_wake None])
      else if dec = RD_QUARANTINE_LOST
      then Some (LOST, ''RECOVERING'', [Col_owner None, Col_expires None,
                 Col_error_class ''OWNER_REQUIRED'', Col_next_action ''NONE'', Col_next_wake None])
      else None)"

text \<open>The marker that a terminal process event was consumed.\<close>

definition consume_marker :: "string \<Rightarrow> string option \<Rightarrow> unit lact" where
  "consume_marker job_id process_id = (case process_id of
     None \<Rightarrow> ret ()
   | Some pid \<Rightarrow>
       look (\<lambda>s. (job_id, pid) \<in> set (l_markers s)) (\<lambda>already.
       require (\<not> already) LeaseFencedError
      (put (\<lambda>_. True) (\<lambda>s. s\<lparr>l_markers := l_markers s @ [(job_id, pid)]\<rparr>))))"

definition commit_recovery_decision ::
  "env \<Rightarrow> string \<Rightarrow> string \<Rightarrow> int \<Rightarrow> string \<Rightarrow> string \<Rightarrow> string option \<Rightarrow> timestamp option \<Rightarrow>
   job_snapshot option \<Rightarrow> string option \<Rightarrow> supervisor_job lact" where
  "commit_recovery_decision E job_id owner epoch fclass decision reason_code next_eligible expected
       process_id =
     fetch (\<lambda>_. failure_class_of_value fclass) ValueError (\<lambda>fc.
     fetch (\<lambda>_. recovery_decision_of_value decision) ValueError (\<lambda>dec.
     require (dec \<notin> {RD_COMPLETE, RD_FAIL_NONRESOURCE}) ValueError
    (require (is_valid_recovery_pair fc dec) ValueError
    (liftR (normalized_reason_code fc reason_code) (\<lambda>reason.
     require (validate_lease_owner (Some owner)) ValueError
    (bindA (clock E) (\<lambda>now. transaction E
      (fetch (get_supervisor_job job_id) NotFound (\<lambda>job.
       require (case expected of None \<Rightarrow> True | Some e \<Rightarrow> snapshot_of job = e) LeaseFencedError
      (require (j_terminal job = None) LeaseError
      (require (j_primary_state job = RUNNING) LeaseError
      (require (j_owner job = Some owner) LeaseFencedError
      (require (j_epoch job = epoch) LeaseFencedError
      (require (unexpired now job) LeaseFencedError
      (andThen (consume_marker job_id process_id)
      (fetch (\<lambda>_. recovery_move dec next_eligible job) ValueError (\<lambda>(ps, status, cols).
       transition_job job_id ps status (recovery_audit fc dec now reason @ cols) False True
         ((snapshot_cas expected)\<lparr>cas_unexpired := True\<rparr>) now)))))))))))))))))"

section \<open>External waits\<close>

datatype wait_column =
    Wc_kind string | Wc_provider string | Wc_ref string | Wc_expected_subject "string option"
  | Wc_observed_state "string option" | Wc_next_check timestamp | Wc_deadline "timestamp option"
  | Wc_check_attempt int | Wc_event_version int | Wc_terminal_at "timestamp option"
  | Wc_ci_policy "string option" | Wc_ci_evidence "string option" | Wc_updated_at timestamp
  | Wc_other string \<comment> \<open>\<open>wait_id\<close>, \<open>created_at\<close> or a name that is no column\<close>

primrec set_wait_column :: "wait_column \<Rightarrow> external_wait \<Rightarrow> external_wait" where
  "set_wait_column (Wc_kind v) w = w\<lparr>w_kind := v\<rparr>"
| "set_wait_column (Wc_provider v) w = w\<lparr>w_provider := v\<rparr>"
| "set_wait_column (Wc_ref v) w = w\<lparr>w_ref := v\<rparr>"
| "set_wait_column (Wc_expected_subject v) w = w\<lparr>w_expected_subject := v\<rparr>"
| "set_wait_column (Wc_observed_state v) w = w\<lparr>w_observed_state := v\<rparr>"
| "set_wait_column (Wc_next_check v) w = w\<lparr>w_next_check := v\<rparr>"
| "set_wait_column (Wc_deadline v) w = w\<lparr>w_deadline := v\<rparr>"
| "set_wait_column (Wc_check_attempt v) w = w\<lparr>w_check_attempt := v\<rparr>"
| "set_wait_column (Wc_event_version v) w = w\<lparr>w_event_version := v\<rparr>"
| "set_wait_column (Wc_terminal_at v) w = w\<lparr>w_terminal_at := v\<rparr>"
| "set_wait_column (Wc_ci_policy v) w = w\<lparr>w_ci_policy := v\<rparr>"
| "set_wait_column (Wc_ci_evidence v) w = w\<lparr>w_ci_evidence := v\<rparr>"
| "set_wait_column (Wc_updated_at v) w = w\<lparr>w_updated_at := v\<rparr>"
| "set_wait_column (Wc_other v) w = w"

fun wait_column_known :: "wait_column \<Rightarrow> bool" where
  "wait_column_known (Wc_other _) \<longleftrightarrow> False"
| "wait_column_known _ \<longleftrightarrow> True"

fun wait_column_open :: "wait_column \<Rightarrow> bool" where
  "wait_column_open (Wc_terminal_at _) \<longleftrightarrow> False"
| "wait_column_open c \<longleftrightarrow> wait_column_known c"

definition WAIT_ROW_KINDS :: "string list" where
  "WAIT_ROW_KINDS = [''CI'', ''UPSTREAM'', ''RATE_LIMIT'', ''NETWORK'', ''TIMER'']"

definition wait_row_ok :: "supervisor_job list \<Rightarrow> external_wait \<Rightarrow> bool" where
  "wait_row_ok js w \<longleftrightarrow> w_kind w \<in> set WAIT_ROW_KINDS \<and> 0 \<le> w_check_attempt w \<and>
     0 \<le> w_event_version w \<and> w_job_id w \<in> j_id ` set js"

definition wait_rows_ok :: "supervisor_job list \<Rightarrow> external_wait list \<Rightarrow> bool" where
  "wait_rows_ok js ws \<longleftrightarrow> unique_keys w_id ws \<and> list_all (wait_row_ok js) ws"

definition get_external_wait :: "string \<Rightarrow> leases \<Rightarrow> external_wait option" where
  "get_external_wait i s = find_row w_id i (l_waits s)"

definition list_external_waits :: "string option \<Rightarrow> leases \<Rightarrow> external_wait list" where
  "list_external_waits job_id s =
     filter (\<lambda>w. case job_id of None \<Rightarrow> True | Some i \<Rightarrow> w_job_id w = i) (l_waits s)"

definition list_due_external_waits ::
  "timestamp \<Rightarrow> nat \<Rightarrow> string option \<Rightarrow> leases \<Rightarrow> external_wait list" where
  "list_due_external_waits now limit kind s =
     take limit (sort_key w_next_check (filter (\<lambda>w. w_terminal_at w = None \<and>
       (w_next_check w \<le> now \<or> (case w_deadline w of None \<Rightarrow> False | Some d \<Rightarrow> d \<le> now)) \<and>
       (case kind of None \<Rightarrow> True | Some k \<Rightarrow> w_kind w = k)) (l_waits s)))"

definition insert_external_wait :: "external_wait \<Rightarrow> unit lact" where
  "insert_external_wait w =
     put (\<lambda>s. wait_rows_ok (l_jobs s) (l_waits s @ [w])) (\<lambda>s. s\<lparr>l_waits := l_waits s @ [w]\<rparr>)"

definition update_waits :: "(external_wait \<Rightarrow> bool) \<Rightarrow> wait_column list \<Rightarrow> nat lact" where
  "update_waits p cols =
     look (\<lambda>s. row_count p (l_waits s)) (\<lambda>n.
     andThen (put (\<lambda>s. wait_rows_ok (l_jobs s) (update_rows p (fold set_wait_column cols) (l_waits s)))
                  (\<lambda>s. s\<lparr>l_waits := update_rows p (fold set_wait_column cols) (l_waits s)\<rparr>))
       (ret n))"

definition update_external_wait :: "string \<Rightarrow> wait_column list \<Rightarrow> nat lact" where
  "update_external_wait wait_id cols =
     require (list_all wait_column_known cols) ValueError
    (if cols = [] then ret 0 else update_waits (\<lambda>w. w_id w = wait_id) cols)"

text \<open>Whether the singleton row still names the expected, active instance.\<close>

definition instance_holds :: "string option \<Rightarrow> leases \<Rightarrow> bool" where
  "instance_holds expected s \<longleftrightarrow> (case expected of
     None \<Rightarrow> True
   | Some i \<Rightarrow> (case l_instance s of None \<Rightarrow> False
       | Some r \<Rightarrow> si_instance_id r = i \<and> si_status r = ''ACTIVE''))"

definition update_external_wait_fenced ::
  "env \<Rightarrow> string \<Rightarrow> string option \<Rightarrow> wait_column list \<Rightarrow> nat lact" where
  "update_external_wait_fenced E wait_id expected_instance cols =
     require (list_all wait_column_open cols) ValueError
    (if cols = [] then ret 0
     else transaction E (look (instance_holds expected_instance) (\<lambda>held.
       if \<not> held then ret 0
       else update_waits (\<lambda>w. w_id w = wait_id \<and> w_terminal_at w = None) cols)))"

definition transition_to_waiting_external ::
  "env \<Rightarrow> string \<Rightarrow> external_wait \<Rightarrow> string \<Rightarrow> int \<Rightarrow> supervisor_job lact" where
  "transition_to_waiting_external E job_id w owner epoch =
     require (validate_lease_owner (Some owner)) ValueError
    (require (validate_enum_fields [Col_wait_kind (w_kind w)]) ValueError
    (bindA (clock E) (\<lambda>now. transaction E
      (fetch (get_supervisor_job job_id) NotFound (\<lambda>job.
       require (j_primary_state job = RUNNING) LeaseError
      (require (j_owner job = Some owner) LeaseError
      (require (j_epoch job = epoch) LeaseError
      (require (unexpired now job) LeaseError
      (andThen (insert_external_wait w)
      (transition_job job_id WAITING_EXTERNAL ''WAITING_RUN''
        [Col_owner None, Col_expires None, Col_wait_kind (w_kind w), Col_next_wake (Some (w_next_check w)),
         Col_next_eligible (Some (w_next_check w)), Col_next_action ''WAIT''] False True
        \<lparr>cas_primary_state = Some RUNNING, cas_owner = Some owner, cas_epoch = Some epoch,
          cas_unexpired = True\<rparr> now))))))))))"

definition wait_result_columns ::
  "timestamp \<Rightarrow> string option \<Rightarrow> int option \<Rightarrow> string option \<Rightarrow> string option \<Rightarrow> wait_column list" where
  "wait_result_columns now observed version ci_policy ci_evidence =
     [Wc_terminal_at (Some now), Wc_updated_at now] @
     (case observed of None \<Rightarrow> [] | Some v \<Rightarrow> [Wc_observed_state (Some v)]) @
     (case version of None \<Rightarrow> [] | Some v \<Rightarrow> [Wc_event_version v]) @
     (case ci_policy of None \<Rightarrow> [] | Some v \<Rightarrow> [Wc_ci_policy (Some v)]) @
     (case ci_evidence of None \<Rightarrow> [] | Some v \<Rightarrow> [Wc_ci_evidence (Some v)])"

text \<open>\<open>now_iso\<close> is the instant the caller gives, or else the clock's.\<close>

definition complete_wait_and_requeue ::
  "env \<Rightarrow> string \<Rightarrow> string \<Rightarrow> string \<Rightarrow> string option \<Rightarrow> int option \<Rightarrow> string option \<Rightarrow> string option \<Rightarrow>
   string option \<Rightarrow> timestamp option \<Rightarrow> supervisor_job option lact" where
  "complete_wait_and_requeue E wait_id queue_reason error_class observed version ci_policy ci_evidence
       expected_instance now_given =
     bindA (case now_given of Some t \<Rightarrow> ret t | None \<Rightarrow> clock E) (\<lambda>now. transaction E
      (look (instance_holds expected_instance) (\<lambda>held.
       if \<not> held then ret None
       else look (get_external_wait wait_id) (\<lambda>wrow. case wrow of
         None \<Rightarrow> ret None
       | Some w \<Rightarrow>
           if w_terminal_at w \<noteq> None then ret None
           else fetch (get_supervisor_job (w_job_id w)) NotFound (\<lambda>j.
             if j_primary_state j \<noteq> WAITING_EXTERNAL then ret None
             else andThen (bindA (update_external_wait wait_id
                 (wait_result_columns now observed version ci_policy ci_evidence)) (\<lambda>_. ret ()))
              (bindA (transition_job (w_job_id w) QUEUED ''WAITING_RUN''
                [Col_queue_reason queue_reason, Col_error_class error_class, Col_wait_kind ''NONE'',
                 Col_owner None, Col_expires None, Col_next_eligible (Some now), Col_next_wake None,
                 Col_next_action ''NONE''] False True
                (no_cas\<lparr>cas_primary_state := Some WAITING_EXTERNAL\<rparr>) now) (\<lambda>j'. ret (Some j'))))))))"

section \<open>The single active supervisor\<close>

definition instance_row_ok :: "supervisor_instance \<Rightarrow> bool" where
  "instance_row_ok r \<longleftrightarrow> (case si_pid r of None \<Rightarrow> True | Some p \<Rightarrow> p > 0) \<and>
     si_status r \<in> {''ACTIVE'', ''RELEASED''} \<and> 0 \<le> si_revision r"

definition put_instance :: "supervisor_instance \<Rightarrow> unit lact" where
  "put_instance r = put (\<lambda>_. instance_row_ok r) (\<lambda>s. s\<lparr>l_instance := Some r\<rparr>)"

definition cas_supervisor_instance ::
  "env \<Rightarrow> supervisor_instance \<Rightarrow> int option \<Rightarrow> bool lact" where
  "cas_supervisor_instance E row expected_revision =
     transaction E (look (\<lambda>s. map_option si_revision (l_instance s)) (\<lambda>cur_rev.
       if cur_rev \<noteq> expected_revision then ret False
       else andThen (put_instance (row\<lparr>si_revision := (case cur_rev of None \<Rightarrow> 0 | Some r \<Rightarrow> r) + 1\<rparr>))
              (ret True)))"

text \<open>\<open>update_supervisor_instance\<close>; its \<open>fields\<close> never hold \<open>revision\<close>.\<close>

definition update_supervisor_instance ::
  "env \<Rightarrow> string \<Rightarrow> (supervisor_instance \<Rightarrow> supervisor_instance) \<Rightarrow> bool lact" where
  "update_supervisor_instance E expected_id f =
     transaction E (look l_instance (\<lambda>cur. case cur of
       None \<Rightarrow> ret False
     | Some r \<Rightarrow>
         if si_instance_id r \<noteq> expected_id then ret False
         else andThen (put_instance ((f r)\<lparr>si_revision := si_revision r + 1\<rparr>)) (ret True)))"

end
