(* ===== verification/Revision_Rows.thy ===== *)
theory Revision_Rows
  imports Lease_Ops "HOL-Library.Product_Lexorder" "HOL-Library.List_Lexorder" "HOL-Library.Char_ord"
begin

text \<open>
  The two tables of \<open>store.py\<close> whose rows carry a revision: the candidates of the integration queue
  and the requests to external systems.  A transition names the state and the revision it was
  decided on; the authoritative form of it re-verifies in the same transaction that the caller
  still holds its job's lease and the named action lock.  The states and the edges between the
  states of a request are those of \<open>integration_candidate.py\<close> and \<open>external_action_broker.py\<close>.
\<close>

section \<open>States\<close>

definition CANDIDATE_STATE_VALUES :: "string list" where
  "CANDIDATE_STATE_VALUES = [''PENDING'', ''READY'', ''INTEGRATING'', ''CONFLICTED'', ''STALE'',
     ''BLOCKED'', ''INTEGRATED'', ''FAILED'']"

definition REQUEST_STATE_VALUES :: "string list" where
  "REQUEST_STATE_VALUES = [''PENDING'', ''AUTHORIZED'', ''EXECUTING'', ''WAITING_EXTERNAL'',
     ''SUCCEEDED'', ''FAILED'', ''BLOCKED'', ''DENIED'']"

definition TERMINAL_REQUEST_STATES :: "string list" where
  "TERMINAL_REQUEST_STATES = [''SUCCEEDED'', ''FAILED'', ''BLOCKED'', ''DENIED'']"

definition REQUEST_TRANSITIONS :: "string \<Rightarrow> string list" where
  "REQUEST_TRANSITIONS st =
     (if st = ''PENDING'' then [''AUTHORIZED'', ''DENIED'', ''BLOCKED'']
      else if st = ''AUTHORIZED'' then [''EXECUTING'', ''DENIED'', ''BLOCKED'']
      else if st = ''EXECUTING'' then [''WAITING_EXTERNAL'', ''SUCCEEDED'', ''FAILED'', ''BLOCKED'']
      else if st = ''WAITING_EXTERNAL'' then [''EXECUTING'', ''SUCCEEDED'', ''FAILED'', ''BLOCKED'']
      else [])"

section \<open>The holder of a transition\<close>

text \<open>The columns that a transition's holder arguments assign.\<close>

definition holder_after ::
  "bool \<Rightarrow> string option \<Rightarrow> int option \<Rightarrow> string option \<times> int \<Rightarrow> string option \<times> int" where
  "holder_after clear owner epoch old =
     (if clear then (None, 0)
      else (case owner of None \<Rightarrow> fst old | Some ow \<Rightarrow> Some ow,
            case epoch of None \<Rightarrow> snd old | Some ep \<Rightarrow> ep))"

text \<open>The fence of the authoritative transitions: the lease and the action lock.\<close>

definition holds_lock_and_lease :: "string \<Rightarrow> string \<Rightarrow> int \<Rightarrow> timestamp \<Rightarrow> leases \<Rightarrow> bool" where
  "holds_lock_and_lease lock_name job_id epoch now s \<longleftrightarrow>
     job_holds_current_lease job_id epoch now s \<and>
     (case find_lock lock_name s of None \<Rightarrow> False
      | Some lk \<Rightarrow> lk_holder_job lk = job_id \<and> lk_holder_epoch lk = epoch)"

definition authoritative ::
  "env \<Rightarrow> string \<Rightarrow> string \<Rightarrow> int \<Rightarrow> (timestamp \<Rightarrow> 'a lact) \<Rightarrow> 'a lact" where
  "authoritative E lock_name job_id epoch body =
     require (nonblank lock_name) ValueError
    (require (nonblank job_id) ValueError
    (require (1 \<le> epoch) ValueError
    (bindA (clock E) (\<lambda>now. transaction E
      (look (holds_lock_and_lease lock_name job_id epoch now) (\<lambda>held.
       require held LeaseFencedError (body now)))))))"

section \<open>Integration candidates\<close>

datatype candidate_column =
    Ic_base_commit "string option" | Ic_source_head "string option" | Ic_source_branch "string option"
  | Ic_worktree_path "string option" | Ic_branch "string option" | Ic_integrated_head "string option"
  | Ic_classification "string option" | Ic_conflict_detail "string option" | Ic_result "string option"
  | Ic_error_code "string option" | Ic_depends_on "string option" | Ic_priority int
  | Ic_queue_position int | Ic_other string \<comment> \<open>not in \<open>_CANDIDATE_WRITABLE_FIELDS\<close>\<close>

primrec set_candidate_column :: "candidate_column \<Rightarrow> integration_candidate \<Rightarrow> integration_candidate" where
  "set_candidate_column (Ic_base_commit v) c = c\<lparr>ic_base_commit := v\<rparr>"
| "set_candidate_column (Ic_source_head v) c = c\<lparr>ic_source_head := v\<rparr>"
| "set_candidate_column (Ic_source_branch v) c = c\<lparr>ic_source_branch := v\<rparr>"
| "set_candidate_column (Ic_worktree_path v) c = c\<lparr>ic_worktree_path := v\<rparr>"
| "set_candidate_column (Ic_branch v) c = c\<lparr>ic_branch := v\<rparr>"
| "set_candidate_column (Ic_integrated_head v) c = c\<lparr>ic_integrated_head := v\<rparr>"
| "set_candidate_column (Ic_classification v) c = c\<lparr>ic_classification := v\<rparr>"
| "set_candidate_column (Ic_conflict_detail v) c = c\<lparr>ic_conflict_detail := v\<rparr>"
| "set_candidate_column (Ic_result v) c = c\<lparr>ic_result := v\<rparr>"
| "set_candidate_column (Ic_error_code v) c = c\<lparr>ic_error_code := v\<rparr>"
| "set_candidate_column (Ic_depends_on v) c = c\<lparr>ic_depends_on := v\<rparr>"
| "set_candidate_column (Ic_priority v) c = c\<lparr>ic_priority := v\<rparr>"
| "set_candidate_column (Ic_queue_position v) c = c\<lparr>ic_queue_position := v\<rparr>"
| "set_candidate_column (Ic_other v) c = c"

fun candidate_column_writable :: "candidate_column \<Rightarrow> bool" where
  "candidate_column_writable (Ic_other _) \<longleftrightarrow> False"
| "candidate_column_writable _ \<longleftrightarrow> True"

definition candidate_row_ok :: "supervisor_job list \<Rightarrow> integration_candidate \<Rightarrow> bool" where
  "candidate_row_ok js c \<longleftrightarrow> ic_state c \<in> set CANDIDATE_STATE_VALUES \<and> 0 \<le> ic_queue_position c \<and>
     0 \<le> ic_revision c \<and> 0 \<le> ic_holder_epoch c \<and> ic_source_job_id c \<in> j_id ` set js"

text \<open>The unique indexes: one candidate per source and target, and at most one candidate that is
  being integrated per repository and target.\<close>

definition candidate_rows_ok :: "supervisor_job list \<Rightarrow> integration_candidate list \<Rightarrow> bool" where
  "candidate_rows_ok js cs \<longleftrightarrow> unique_keys ic_id cs \<and>
     unique_keys (\<lambda>c. (ic_source_job_id c, ic_target c)) cs \<and>
     unique_keys (\<lambda>c. (ic_repository c, ic_target c)) (filter (\<lambda>c. ic_state c = ''INTEGRATING'') cs) \<and>
     list_all (candidate_row_ok js) cs"

definition get_integration_candidate :: "string \<Rightarrow> leases \<Rightarrow> integration_candidate option" where
  "get_integration_candidate i s = find_row ic_id i (l_candidates s)"

definition get_integration_candidate_for_source ::
  "string \<Rightarrow> string \<Rightarrow> leases \<Rightarrow> integration_candidate option" where
  "get_integration_candidate_for_source job_id target s =
     find (\<lambda>c. ic_source_job_id c = job_id \<and> ic_target c = target) (l_candidates s)"

definition list_integration_candidates ::
  "string option \<Rightarrow> string option \<Rightarrow> string option \<Rightarrow> leases \<Rightarrow>
   argent_error + integration_candidate list" where
  "list_integration_candidates repository target st s =
     (if (case st of None \<Rightarrow> False | Some v \<Rightarrow> v \<notin> set CANDIDATE_STATE_VALUES) then Inl ValueError
      else Inr (sort_key (\<lambda>c. (ic_queue_position c, - ic_priority c, ic_id c))
        (filter (\<lambda>c. (case repository of None \<Rightarrow> True | Some v \<Rightarrow> ic_repository c = v) \<and>
           (case target of None \<Rightarrow> True | Some v \<Rightarrow> ic_target c = v) \<and>
           (case st of None \<Rightarrow> True | Some v \<Rightarrow> ic_state c = v)) (l_candidates s))))"

definition put_candidates :: "(integration_candidate list \<Rightarrow> integration_candidate list) \<Rightarrow> unit lact" where
  "put_candidates f = put (\<lambda>s. candidate_rows_ok (l_jobs s) (f (l_candidates s)))
     (\<lambda>s. s\<lparr>l_candidates := f (l_candidates s)\<rparr>)"

text \<open>\<open>create_integration_candidate\<close>.  The repository and the target are the values their validators
  return; the id is the hash \<open>candidate_id_for\<close> of the three identifying values.\<close>

definition next_queue_position :: "string \<Rightarrow> string \<Rightarrow> leases \<Rightarrow> int" where
  "next_queue_position repo target s =
     (let ps = map ic_queue_position
        (filter (\<lambda>c. ic_repository c = repo \<and> ic_target c = target) (l_candidates s)) in
      (if ps = [] then 0 else Max (set ps)) + 1)"

definition create_integration_candidate ::
  "env \<Rightarrow> (string \<Rightarrow> string \<Rightarrow> string \<Rightarrow> string) \<Rightarrow> string option \<Rightarrow> string option \<Rightarrow> string \<Rightarrow>
   string option \<Rightarrow> string option \<Rightarrow> string option \<Rightarrow> string option \<Rightarrow> int \<Rightarrow> int option \<Rightarrow>
   integration_candidate lact" where
  "create_integration_candidate E candidate_id_for repository target source_job_id base head branch
       depends_on priority queue_position =
     fetch (\<lambda>_. repository) ValueError (\<lambda>repo.
     fetch (\<lambda>_. target) ValueError (\<lambda>tgt.
     require (nonblank source_job_id) ValueError
    (let cid = candidate_id_for repo tgt source_job_id in
     bindA (clock E) (\<lambda>now. transaction E
      (look (get_integration_candidate cid) (\<lambda>row. case row of
         Some c \<Rightarrow> ret c
       | None \<Rightarrow> look (\<lambda>s. case queue_position of Some q \<Rightarrow> q | None \<Rightarrow> next_queue_position repo tgt s)
          (\<lambda>position.
           andThen (put_candidates (\<lambda>cs. cs @ [\<lparr>ic_id = cid, ic_repository = repo, ic_target = tgt,
               ic_source_job_id = source_job_id, ic_state = ''PENDING'', ic_queue_position = position,
               ic_priority = priority, ic_depends_on = depends_on, ic_base_commit = base,
               ic_source_head = head, ic_source_branch = branch, ic_worktree_path = None,
               ic_branch = None, ic_integrated_head = None, ic_classification = None,
               ic_conflict_detail = None, ic_revision = 0, ic_holder_owner = None,
               ic_holder_epoch = 0, ic_result = None, ic_error_code = None, ic_created_at = now,
               ic_updated_at = now\<rparr>]))
            (fetch (get_integration_candidate cid) TypeError ret))))))))"

definition transition_candidate_locked ::
  "string \<Rightarrow> string \<Rightarrow> string \<Rightarrow> int \<Rightarrow> timestamp \<Rightarrow> string option \<Rightarrow> int option \<Rightarrow> bool \<Rightarrow>
   candidate_column list \<Rightarrow> integration_candidate lact" where
  "transition_candidate_locked candidate_id from_state to_state expected_revision now owner epoch clear
       cols =
     fetch (get_integration_candidate candidate_id) NotFound (\<lambda>c.
     require (ic_state c = from_state) CandidateRevisionError
    (require (ic_revision c = expected_revision) CandidateRevisionError
    (let h = holder_after clear owner epoch (ic_holder_owner c, ic_holder_epoch c);
         c' = fold set_candidate_column cols (c\<lparr>ic_state := to_state, ic_revision := ic_revision c + 1,
           ic_updated_at := now, ic_holder_owner := fst h, ic_holder_epoch := snd h\<rparr>) in
     andThen (put_candidates (update_rows (\<lambda>r. ic_id r = candidate_id) (\<lambda>_. c')))
       (fetch (get_integration_candidate candidate_id) TypeError ret))))"

definition candidate_arguments_ok :: "string \<Rightarrow> string \<Rightarrow> int \<Rightarrow> candidate_column list \<Rightarrow> bool" where
  "candidate_arguments_ok from_state to_state expected_revision cols \<longleftrightarrow>
     from_state \<in> set CANDIDATE_STATE_VALUES \<and> to_state \<in> set CANDIDATE_STATE_VALUES \<and>
     0 \<le> expected_revision \<and> list_all candidate_column_writable cols"

definition transition_integration_candidate ::
  "env \<Rightarrow> string \<Rightarrow> string \<Rightarrow> string \<Rightarrow> int \<Rightarrow> string option \<Rightarrow> int option \<Rightarrow> bool \<Rightarrow>
   candidate_column list \<Rightarrow> integration_candidate lact" where
  "transition_integration_candidate E candidate_id from_state to_state expected_revision owner epoch
       clear cols =
     require (candidate_arguments_ok from_state to_state expected_revision cols) ValueError
    (bindA (clock E) (\<lambda>now. transaction E
      (transition_candidate_locked candidate_id from_state to_state expected_revision now owner epoch
         clear cols)))"

definition transition_integration_candidate_authoritative ::
  "env \<Rightarrow> string \<Rightarrow> string \<Rightarrow> string \<Rightarrow> int \<Rightarrow> string \<Rightarrow> string \<Rightarrow> int \<Rightarrow> string option \<Rightarrow> bool \<Rightarrow>
   candidate_column list \<Rightarrow> integration_candidate lact" where
  "transition_integration_candidate_authoritative E candidate_id lock_name job_id epoch from_state
       to_state expected_revision owner clear cols =
     require (candidate_arguments_ok from_state to_state expected_revision cols) ValueError
    (authoritative E lock_name job_id epoch (\<lambda>now.
       transition_candidate_locked candidate_id from_state to_state expected_revision now owner
         (Some epoch) clear cols))"

section \<open>Requests to external systems\<close>

datatype request_column =
    Rq_authorization "string option" | Rq_provider_state "string option"
  | Rq_provider_object "string option" | Rq_attempts int | Rq_next_attempt "timestamp option"
  | Rq_failure_class "string option" | Rq_error_code "string option" | Rq_lock_name "string option"
  | Rq_other string \<comment> \<open>not in \<open>_EXTERNAL_ACTION_WRITABLE_FIELDS\<close>\<close>

primrec set_request_column :: "request_column \<Rightarrow> external_request \<Rightarrow> external_request" where
  "set_request_column (Rq_authorization v) r = r\<lparr>rq_authorization := v\<rparr>"
| "set_request_column (Rq_provider_state v) r = r\<lparr>rq_provider_state := v\<rparr>"
| "set_request_column (Rq_provider_object v) r = r\<lparr>rq_provider_object := v\<rparr>"
| "set_request_column (Rq_attempts v) r = r\<lparr>rq_attempts := v\<rparr>"
| "set_request_column (Rq_next_attempt v) r = r\<lparr>rq_next_attempt := v\<rparr>"
| "set_request_column (Rq_failure_class v) r = r\<lparr>rq_failure_class := v\<rparr>"
| "set_request_column (Rq_error_code v) r = r\<lparr>rq_error_code := v\<rparr>"
| "set_request_column (Rq_lock_name v) r = r\<lparr>rq_lock_name := v\<rparr>"
| "set_request_column (Rq_other v) r = r"

fun request_column_writable :: "request_column \<Rightarrow> bool" where
  "request_column_writable (Rq_other _) \<longleftrightarrow> False"
| "request_column_writable _ \<longleftrightarrow> True"

definition request_row_ok :: "external_request \<Rightarrow> bool" where
  "request_row_ok r \<longleftrightarrow> rq_policy_class r \<in> {''READ'', ''BOUNDED_WRITE'', ''SENSITIVE''} \<and>
     0 \<le> rq_provenance_version r \<and> length (rq_provenance_hash r) = 64 \<and>
     rq_state r \<in> set REQUEST_STATE_VALUES \<and> 0 \<le> rq_revision r \<and> 0 \<le> rq_holder_epoch r \<and>
     0 \<le> rq_attempts r"

definition request_rows_ok :: "external_request list \<Rightarrow> bool" where
  "request_rows_ok rs \<longleftrightarrow> unique_keys rq_id rs \<and> unique_keys rq_idempotency_key rs \<and>
     list_all request_row_ok rs"

definition get_external_action_request :: "string \<Rightarrow> leases \<Rightarrow> external_request option" where
  "get_external_action_request i s = find_row rq_id i (l_requests s)"

definition list_external_action_requests ::
  "string option \<Rightarrow> string option \<Rightarrow> string option \<Rightarrow> leases \<Rightarrow> argent_error + external_request list" where
  "list_external_action_requests st repository source_job_id s =
     (if (case st of None \<Rightarrow> False | Some v \<Rightarrow> v \<notin> set REQUEST_STATE_VALUES) then Inl ValueError
      else Inr (sort_key (\<lambda>r. (rq_created_at r, rq_id r))
        (filter (\<lambda>r. (case st of None \<Rightarrow> True | Some v \<Rightarrow> rq_state r = v) \<and>
           (case repository of None \<Rightarrow> True | Some v \<Rightarrow> rq_repository r = v) \<and>
           (case source_job_id of None \<Rightarrow> True | Some v \<Rightarrow> rq_source_job_id r = v)) (l_requests s))))"

definition put_requests :: "(external_request list \<Rightarrow> external_request list) \<Rightarrow> unit lact" where
  "put_requests f = put (\<lambda>s. request_rows_ok (f (l_requests s)))
     (\<lambda>s. s\<lparr>l_requests := f (l_requests s)\<rparr>)"

definition external_request_equivalent :: "external_request \<Rightarrow> external_request \<Rightarrow> bool" where
  "external_request_equivalent old new \<longleftrightarrow> rq_provider old = rq_provider new \<and>
     rq_account old = rq_account new \<and> rq_action old = rq_action new \<and>
     rq_repository old = rq_repository new \<and> rq_resource_ref old = rq_resource_ref new \<and>
     rq_scope old = rq_scope new \<and> rq_parameters old = rq_parameters new"

text \<open>The row that the keyword arguments describe; the other columns start at their defaults.\<close>

definition new_request :: "external_request \<Rightarrow> timestamp \<Rightarrow> external_request" where
  "new_request r now = r\<lparr>rq_authorization := None, rq_revision := 0, rq_holder_owner := None,
     rq_holder_epoch := 0, rq_lock_name := None, rq_provider_state := None,
     rq_provider_object := None, rq_attempts := 0, rq_next_attempt := None,
     rq_failure_class := None, rq_error_code := None, rq_created_at := now, rq_updated_at := now\<rparr>"

definition REQUEST_ID_PREFIX :: string where
  "REQUEST_ID_PREFIX = ''xr_''"

definition create_external_action_request ::
  "env \<Rightarrow> external_request \<Rightarrow> (external_request \<times> bool) lact" where
  "create_external_action_request E r =
     require (take 3 (rq_id r) = REQUEST_ID_PREFIX) ValueError
    (require (rq_state r \<in> set REQUEST_STATE_VALUES) ValueError
    (require (length (rq_provenance_hash r) = 64) ValueError
    (bindA (clock E) (\<lambda>now. transaction E
      (look (get_external_action_request (rq_id r)) (\<lambda>row. case row of
         Some old \<Rightarrow> ret (old, False)
       | None \<Rightarrow> look (\<lambda>s. find_row rq_idempotency_key (rq_idempotency_key r) (l_requests s))
          (\<lambda>existing. case existing of
             Some old \<Rightarrow>
               require (external_request_equivalent old r) IdempotencyConflictError (ret (old, False))
           | None \<Rightarrow> andThen (put_requests (\<lambda>rs. rs @ [new_request r now]))
              (fetch (get_external_action_request (rq_id r)) TypeError (\<lambda>q. ret (q, True))))))))))"

definition transition_request_locked ::
  "string \<Rightarrow> string \<Rightarrow> string \<Rightarrow> int \<Rightarrow> timestamp \<Rightarrow> string option \<Rightarrow> int option \<Rightarrow> bool \<Rightarrow>
   request_column list \<Rightarrow> external_request lact" where
  "transition_request_locked request_id from_state to_state expected_revision now owner epoch clear
       cols =
     fetch (get_external_action_request request_id) NotFound (\<lambda>r.
     require (rq_state r = from_state) RequestRevisionError
    (require (rq_revision r = expected_revision) RequestRevisionError
    (require (to_state \<in> set (REQUEST_TRANSITIONS (rq_state r))) IllegalRequestTransition
    (let h = holder_after clear owner epoch (rq_holder_owner r, rq_holder_epoch r);
         r' = fold set_request_column cols (r\<lparr>rq_state := to_state, rq_revision := rq_revision r + 1,
           rq_updated_at := now, rq_holder_owner := fst h, rq_holder_epoch := snd h\<rparr>) in
     andThen (put_requests (update_rows (\<lambda>q. rq_id q = request_id) (\<lambda>_. r')))
       (fetch (get_external_action_request request_id) TypeError ret)))))"

definition request_arguments_ok :: "string \<Rightarrow> string \<Rightarrow> int \<Rightarrow> request_column list \<Rightarrow> bool" where
  "request_arguments_ok from_state to_state expected_revision cols \<longleftrightarrow>
     from_state \<in> set REQUEST_STATE_VALUES \<and> to_state \<in> set REQUEST_STATE_VALUES \<and>
     0 \<le> expected_revision \<and> list_all request_column_writable cols"

definition transition_external_action_request ::
  "env \<Rightarrow> string \<Rightarrow> string \<Rightarrow> string \<Rightarrow> int \<Rightarrow> string option \<Rightarrow> int option \<Rightarrow> bool \<Rightarrow>
   request_column list \<Rightarrow> external_request lact" where
  "transition_external_action_request E request_id from_state to_state expected_revision owner epoch
       clear cols =
     require (request_arguments_ok from_state to_state expected_revision cols) ValueError
    (bindA (clock E) (\<lambda>now. transaction E
      (transition_request_locked request_id from_state to_state expected_revision now owner epoch
         clear cols)))"

definition transition_external_action_request_authoritative ::
  "env \<Rightarrow> string \<Rightarrow> string \<Rightarrow> string \<Rightarrow> int \<Rightarrow> string \<Rightarrow> string \<Rightarrow> int \<Rightarrow> string option \<Rightarrow> bool \<Rightarrow>
   request_column list \<Rightarrow> external_request lact" where
  "transition_external_action_request_authoritative E request_id lock_name job_id epoch from_state
       to_state expected_revision owner clear cols =
     require (request_arguments_ok from_state to_state expected_revision cols) ValueError
    (authoritative E lock_name job_id epoch (\<lambda>now.
       transition_request_locked request_id from_state to_state expected_revision now owner
         (Some epoch) clear cols))"

end
