(* ===== verification/Lease_Machine.thy ===== *)
theory Lease_Machine
  imports Lease_Waits Revision_Rows
begin

text \<open>
  The creation of a job (\<open>supervisor.py\<close>, \<open>create_job\<close>), and the machine whose commands are all the
  operations on jobs, leases, locks and waits: what an interleaving of the supervisors' calls does
  to the shared tables is a run of it.
\<close>

section \<open>Creating a job\<close>

definition get_supervisor_job_for_task :: "string \<Rightarrow> leases \<Rightarrow> supervisor_job option" where
  "get_supervisor_job_for_task task_id s =
     last_row (\<lambda>j. j_task_id j = task_id \<and> j_terminal j = None) (l_jobs s)"

definition list_supervisor_jobs :: "bool \<Rightarrow> leases \<Rightarrow> supervisor_job list" where
  "list_supervisor_jobs nonterminal_only s =
     filter (\<lambda>j. nonterminal_only \<longrightarrow> j_terminal j = None) (l_jobs s)"

definition no_writer :: writer_binding where
  "no_writer = \<lparr>wb_worktree_path = None, wb_repo_identity = None, wb_base_commit = None,
     wb_branch_identity = None, wb_dispatch_id = None, wb_owner_instance_id = None,
     wb_lease_epoch = 0, wb_bound = False, wb_expected_head = None, wb_current_head = None\<rparr>"

definition no_footprint :: mutation_footprint where
  "no_footprint = \<lparr>mf_path_roots = None, mf_modules = None, mf_external_action_class = None,
     mf_integration_target = None, mf_action_scope = None\<rparr>"

definition no_audit :: job_audit where
  "no_audit = \<lparr>au_resource_decision = None, au_resource_reason_code = None,
     au_resource_snapshot_hash = None, au_resource_at = None, au_recovery_decision = None,
     au_failure_class = None, au_recovery_at = None, au_concurrency_reason_code = None,
     au_concurrency_at = None\<rparr>"

definition new_job :: "string \<Rightarrow> string \<Rightarrow> string \<Rightarrow> timestamp \<Rightarrow> supervisor_job" where
  "new_job job_id task_id rc now =
     \<lparr>j_id = job_id, j_task_id = task_id, j_status = ''WAITING_RUN'', j_primary_state = QUEUED,
      j_terminal = None, j_recovery_state = ''NONE'', j_wait_kind = ''NONE'', j_queue_reason = ''NEW'',
      j_priority = 0, j_owner = None, j_epoch = 0, j_expires = None, j_next_eligible = None,
      j_error_class = ''NONE'', j_error_code = None, j_next_action = ''NONE'', j_next_wake = None,
      j_attempt_no = 0, j_facts_version = 0, j_resource_class = rc, j_depends_on = None,
      j_updated_at = now, j_writer = no_writer, j_footprint = no_footprint, j_audit = no_audit\<rparr>"

definition record_command :: "string \<Rightarrow> string \<Rightarrow> string \<Rightarrow> string \<Rightarrow> unit lact" where
  "record_command key cmd result_id hash =
     put (\<lambda>_. True) (\<lambda>s. if map_of (l_commands s) (key, cmd) = None
        then s\<lparr>l_commands := l_commands s @ [((key, cmd), (result_id, hash))]\<rparr> else s)"

text \<open>Whether the task exists is an argument: the tasks are in the core's tables.\<close>

definition create_job ::
  "env \<Rightarrow> (string \<Rightarrow> string) \<Rightarrow> (string \<Rightarrow> bool) \<Rightarrow> string \<Rightarrow> string \<Rightarrow> string option \<Rightarrow>
   supervisor_job lact" where
  "create_job E args_hash_of task_exists task_id key resource_class =
     (let job_id = ''supervisor:'' @ task_id;
          rc = (case resource_class of None \<Rightarrow> ''LIGHT'' | Some [] \<Rightarrow> ''LIGHT'' | Some c \<Rightarrow> c) in
      require (rc \<in> set RESOURCE_CLASS_VALUES) ValueError
     (transaction E (look (\<lambda>s. map_of (l_commands s) (key, ''create_supervisor_job'')) (\<lambda>existing.
        case existing of
          Some (result_id, stored_hash) \<Rightarrow>
            require (stored_hash = args_hash_of task_id) IdempotencyError
           (fetch (get_supervisor_job result_id) IdempotencyError ret)
        | None \<Rightarrow> look (get_supervisor_job_for_task task_id) (\<lambda>row. case row of
            Some j \<Rightarrow> bindA (clock E) (\<lambda>_. andThen
              (record_command key ''create_supervisor_job'' (j_id j) (args_hash_of task_id)) (ret j))
          | None \<Rightarrow>
              require (task_exists task_id) NotFound
             (bindA (clock E) (\<lambda>now.
              andThen (insert_job (new_job job_id task_id rc now))
             (andThen (record_command key ''create_supervisor_job'' job_id (args_hash_of task_id))
                (ret (new_job job_id task_id rc now))))))))))"

section \<open>Writing the projection\<close>

text \<open>The supervisor's writes of its projection of the workflow (\<open>supervisor.py\<close>: \<open>_commit\<close>,
  \<open>_close_job\<close>, \<open>adapter_exception_decision\<close> and the others): a transaction that re-reads the job
  and calls \<open>_update_supervisor_job\<close>.  They assign these columns only, and an owner only to clear
  it.\<close>

fun projection_write :: "job_column \<Rightarrow> bool" where
  "projection_write (Col_status _) \<longleftrightarrow> True"
| "projection_write (Col_recovery_state _) \<longleftrightarrow> True"
| "projection_write (Col_queue_reason _) \<longleftrightarrow> True"
| "projection_write (Col_terminal _) \<longleftrightarrow> True"
| "projection_write (Col_next_eligible _) \<longleftrightarrow> True"
| "projection_write (Col_owner v) \<longleftrightarrow> v = None"
| "projection_write (Col_expires v) \<longleftrightarrow> v = None"
| "projection_write (Col_error_code _) \<longleftrightarrow> True"
| "projection_write (Col_next_action _) \<longleftrightarrow> True"
| "projection_write (Col_next_wake _) \<longleftrightarrow> True"
| "projection_write (Col_updated_at _) \<longleftrightarrow> True"
| "projection_write _ \<longleftrightarrow> False"

definition project_job :: "env \<Rightarrow> string \<Rightarrow> job_column list \<Rightarrow> bool \<Rightarrow> nat lact" where
  "project_job E job_id cols bump =
     transaction E (fetch (get_supervisor_job job_id) NotFound (\<lambda>job.
       update_supervisor_job job_id
         (cols @ (if bump then [Col_facts_version (j_facts_version job + 1)] else []))))"

section \<open>The machine\<close>

datatype lease_command =
    Create_Job string string "string option"
  | Project_Job string "job_column list" bool
  | Claim_Job string string int
  | Claim_Next_Job string int
  | Renew_Lease string string int int
  | Release_Lease string string int
  | Clear_Lease string string int
  | Quarantine_Lost string string "job_snapshot option"
  | Quarantine_Blocked string string string "job_snapshot option"
  | Takeover_Job string job_snapshot string int bool "string option"
  | Bind_Worktree string string string int "string option" "string option" "string option" string
      "string option" "string option"
  | Set_Metadata string string int "string option" "string option" "string option" "string option"
      "string option" "string option" "string option" "string option" "string option"
  | Acquire_Lock string string int
  | Release_Lock string string int
  | Reclaim_Lock string
  | Enqueue_Job string string int "timestamp option" string string "string option" bool
      "string option" "int option" bool "string option" "string option"
      "(job_audit \<Rightarrow> job_audit) option"
  | Persist_Decision string string int string string "string option" "timestamp option"
  | Commit_Recovery string string int string string "string option" "timestamp option"
      "job_snapshot option" "string option"
  | Enter_Wait string external_wait string int
  | Update_Wait string "string option" "wait_column list"
  | Complete_Wait string string string "string option" "int option" "string option" "string option"
      "string option" "timestamp option"
  | Cas_Instance supervisor_instance "int option"
  | Update_Instance string "supervisor_instance \<Rightarrow> supervisor_instance"
  | Create_Candidate "string option" "string option" string "string option" "string option"
      "string option" "string option" int "int option"
  | Move_Candidate string string string int "string option" "int option" bool "candidate_column list"
  | Move_Candidate_Held string string string int string string int "string option" bool
      "candidate_column list"
  | Create_Request external_request
  | Move_Request string string string int "string option" "int option" bool "request_column list"
  | Move_Request_Held string string string int string string int "string option" bool
      "request_column list"

definition quietly :: "'a lact \<Rightarrow> unit lact" where
  "quietly m = bindA m (\<lambda>_. ret ())"

record outside =
  out_args_hash :: "string \<Rightarrow> string"
  out_task_exists :: "string \<Rightarrow> bool"
  out_candidate_id :: "string \<Rightarrow> string \<Rightarrow> string \<Rightarrow> string"

primrec lease_exec :: "env \<Rightarrow> outside \<Rightarrow> lease_command \<Rightarrow> unit lact" where
  "lease_exec E x (Create_Job t k rc) =
     quietly (create_job E (out_args_hash x) (out_task_exists x) t k rc)"
| "lease_exec E x (Project_Job i cols bump) = quietly (project_job E i cols bump)"
| "lease_exec E x (Claim_Job i ow ttl) = quietly (claim_job E i ow ttl)"
| "lease_exec E x (Claim_Next_Job ow ttl) = quietly (claim_next_job E ow ttl)"
| "lease_exec E x (Renew_Lease i ow e ttl) = quietly (renew_lease E i ow e ttl)"
| "lease_exec E x (Release_Lease i ow e) = quietly (release_lease E i ow e)"
| "lease_exec E x (Clear_Lease i ow e) = quietly (clear_lease E i ow e)"
| "lease_exec E x (Quarantine_Lost i code expected) = quietly (quarantine_lost E i code expected)"
| "lease_exec E x (Quarantine_Blocked i code cls expected) =
     quietly (quarantine_blocked E i code cls expected)"
| "lease_exec E x (Takeover_Job i expected ow ttl alive verdict) =
     quietly (recover_takeover_job E i expected ow ttl alive verdict)"
| "lease_exec E x (Bind_Worktree i d ow e repo base branch path eh ch) =
     quietly (bind_writer_worktree E i d ow e repo base branch path eh ch)"
| "lease_exec E x (Set_Metadata i ow e a b c d f g h k l) =
     quietly (set_job_metadata E i ow e (metadata_columns a b c d f g h k l))"
| "lease_exec E x (Acquire_Lock n i e) = quietly (try_acquire_action_lock E n i e)"
| "lease_exec E x (Release_Lock n i e) = quietly (release_action_lock E n i e)"
| "lease_exec E x (Reclaim_Lock n) = quietly (reclaim_stale_action_lock E n)"
| "lease_exec E x (Enqueue_Job i qr pr ne wk ec code bump ow e auth ref rc au) =
     quietly (enqueue_job E i qr pr ne wk ec code bump ow e auth ref rc au)"
| "lease_exec E x (Persist_Decision i ow e dec rs sh t) =
     quietly (persist_resource_decision E i ow e dec rs sh t)"
| "lease_exec E x (Commit_Recovery i ow e fc dec rs ne expected pid) =
     quietly (commit_recovery_decision E i ow e fc dec rs ne expected pid)"
| "lease_exec E x (Enter_Wait i w ow e) = quietly (transition_to_waiting_external E i w ow e)"
| "lease_exec E x (Update_Wait i inst cols) = quietly (update_external_wait_fenced E i inst cols)"
| "lease_exec E x (Complete_Wait i qr ec ob ver pol ev inst now) =
     quietly (complete_wait_and_requeue E i qr ec ob ver pol ev inst now)"
| "lease_exec E x (Cas_Instance row rv) = quietly (cas_supervisor_instance E row rv)"
| "lease_exec E x (Update_Instance i f) = quietly (update_supervisor_instance E i f)"
| "lease_exec E x (Create_Candidate repo tgt src base head branch dep pr pos) =
     quietly (create_integration_candidate E (out_candidate_id x) repo tgt src base head branch dep pr pos)"
| "lease_exec E x (Move_Candidate i a b rv ow e clear cols) =
     quietly (transition_integration_candidate E i a b rv ow e clear cols)"
| "lease_exec E x (Move_Candidate_Held i n jb e a b rv ow clear cols) =
     quietly (transition_integration_candidate_authoritative E i n jb e a b rv ow clear cols)"
| "lease_exec E x (Create_Request r) = quietly (create_external_action_request E r)"
| "lease_exec E x (Move_Request i a b rv ow e clear cols) =
     quietly (transition_external_action_request E i a b rv ow e clear cols)"
| "lease_exec E x (Move_Request_Held i n jb e a b rv ow clear cols) =
     quietly (transition_external_action_request_authoritative E i n jb e a b rv ow clear cols)"

text \<open>A projection writes the projection's columns; every other command is as its caller gives it.\<close>

fun well_formed :: "lease_command \<Rightarrow> bool" where
  "well_formed (Project_Job i cols bump) \<longleftrightarrow> list_all projection_write cols"
| "well_formed _ \<longleftrightarrow> True"

fun owner_reopens :: "lease_command \<Rightarrow> bool" where
  "owner_reopens (Enqueue_Job i qr pr ne wk ec code bump ow e auth ref rc au) \<longleftrightarrow> auth"
| "owner_reopens _ \<longleftrightarrow> False"

text \<open>A step: a process, whose store has some action fence armed or none, issues a command.  The
  fence is an attribute of that process's store object, the tables are shared.\<close>

type_synonym lease_step = "(string \<times> string option \<times> int \<times> int) option \<times> lease_command"

definition lease_step :: "env \<Rightarrow> outside \<Rightarrow> lease_step \<Rightarrow> unit lact" where
  "lease_step E x st s = lease_exec E x (snd st) (s\<lparr>l_fence := fst st\<rparr>)"

fun run_leases :: "env \<Rightarrow> outside \<Rightarrow> lease_step list \<Rightarrow> leases \<Rightarrow> leases" where
  "run_leases E x [] s = s"
| "run_leases E x (c # cs) s = run_leases E x cs (snd (lease_step E x c s))"

lemma run_leases_append: "run_leases E x (as @ bs) s = run_leases E x bs (run_leases E x as s)"
  by (induction as arbitrary: s) auto

text \<open>A concrete outside world for the examples: the clock advances a second per reading.\<close>

definition demo_env :: env where
  "demo_env = \<lparr>env_clock = (\<lambda>n. seconds (int n)), env_uuid = (\<lambda>n. replicate (Suc n) CHR ''u''),
     env_sha256 = (\<lambda>t. t), env_dumps = (\<lambda>_. []), env_loads = (\<lambda>_. None), env_str = (\<lambda>_. []),
     env_sql_text = (\<lambda>_. []), env_registry = \<lparr>mr_providers = [], mr_models = []\<rparr>\<rparr>"

definition demo_outside :: outside where
  "demo_outside = \<lparr>out_args_hash = (\<lambda>t. t), out_task_exists = (\<lambda>_. True),
     out_candidate_id = (\<lambda>a b c. a @ b @ c)\<rparr>"

lemma mono_demo: "mono (env_clock demo_env)"
  by (simp add: demo_env_def mono_def seconds_def)

end
