(* ===== verification/Lease_Safety.thy ===== *)
theory Lease_Safety
  imports Lease_Machine
begin

text \<open>
  How the rows of the job table may change.  \<open>evolves\<close> is the contract of one row, reflexive and
  transitive; \<open>lease_rel\<close> is the contract of the table, and every command of the machine keeps it.
\<close>

section \<open>The contract of a row\<close>

text \<open>The primary state is the one derived from the projected columns.\<close>

definition coherent :: "supervisor_job \<Rightarrow> bool" where
  "coherent j \<longleftrightarrow> j_primary_state j \<in>
     derive_primary_state (j_status j) (j_terminal j) ` {Some ''NONE'', Some ''CI''}"

lemma derive_wait_kind:
  "derive_primary_state st tm wk \<in> derive_primary_state st tm ` {Some ''NONE'', Some ''CI''}"
proof (cases "or_empty wk \<noteq> [] \<and> wk \<noteq> Some ''NONE''")
  case True
  then have "derive_primary_state st tm wk = derive_primary_state st tm (Some ''CI'')"
    unfolding derive_primary_state_def by (simp add: or_empty_def split: option.splits)
  then show ?thesis by simp
next
  case False
  then have "derive_primary_state st tm wk = derive_primary_state st tm (Some ''NONE'')"
    unfolding derive_primary_state_def by (auto simp: or_empty_def split: option.splits)
  then show ?thesis by simp
qed

text \<open>A lease passes to another holder only with a larger epoch, and under its epoch it is never
  prolonged once it has expired; a final mark stays, and a block stays unless the owner reopens.\<close>

definition evolves :: "bool \<Rightarrow> timestamp \<Rightarrow> supervisor_job \<Rightarrow> supervisor_job \<Rightarrow> bool" where
  "evolves reopen t j j' \<longleftrightarrow> j_id j' = j_id j \<and> j_task_id j' = j_task_id j \<and>
     j_facts_version j \<le> j_facts_version j' \<and>
     (j_epoch j < j_epoch j' \<or> j_epoch j' = j_epoch j \<and>
        (j_owner j' = None \<or> j_owner j' = j_owner j \<and> (unexpired t j' \<longrightarrow> unexpired t j))) \<and>
     (j_terminal j \<in> {Some ''DONE'', Some ''FAILED''} \<longrightarrow> j_terminal j' = j_terminal j) \<and>
     (j_terminal j = Some ''BLOCKED'' \<longrightarrow> j_terminal j' = Some ''BLOCKED'' \<or> reopen) \<and>
     (coherent j \<longrightarrow> coherent j')"

lemma evolves_refl [simp]: "evolves reopen t j j"
  by (simp add: evolves_def)

lemma evolves_trans:
  assumes "evolves reopen t a b" and "evolves reopen t b c"
  shows "evolves reopen t a c"
proof -
  note A = assms(1)[unfolded evolves_def] and B = assms(2)[unfolded evolves_def]
  have "j_epoch a < j_epoch c \<or> j_epoch c = j_epoch a \<and>
      (j_owner c = None \<or> j_owner c = j_owner a \<and> (unexpired t c \<longrightarrow> unexpired t a))"
  proof (cases "j_epoch a < j_epoch b \<or> j_epoch b < j_epoch c")
    case True
    then show ?thesis using A B by linarith
  next
    case False
    with A have a: "j_epoch b = j_epoch a"
        "j_owner b = None \<or> j_owner b = j_owner a \<and> (unexpired t b \<longrightarrow> unexpired t a)" by simp_all
    from False B have b: "j_epoch c = j_epoch b"
        "j_owner c = None \<or> j_owner c = j_owner b \<and> (unexpired t c \<longrightarrow> unexpired t b)" by simp_all
    show ?thesis using a b by metis
  qed
  moreover have "j_terminal a \<in> {Some ''DONE'', Some ''FAILED''} \<longrightarrow> j_terminal c = j_terminal a"
    using A B by metis
  moreover have "j_terminal a = Some ''BLOCKED'' \<longrightarrow> j_terminal c = Some ''BLOCKED'' \<or> reopen"
    using A B by metis
  moreover have "j_facts_version a \<le> j_facts_version c" using A B by linarith
  ultimately show ?thesis using A B unfolding evolves_def by simp
qed

section \<open>The contract of the table\<close>

definition lease_rel :: "env \<Rightarrow> bool \<Rightarrow> timestamp \<Rightarrow> leases \<Rightarrow> leases \<Rightarrow> bool" where
  "lease_rel E reopen t s s' \<longleftrightarrow> (\<forall>k \<ge> l_ticks s. t \<le> env_clock E k) \<longrightarrow>
     l_ticks s \<le> l_ticks s' \<and>
     (\<forall>i. case get_supervisor_job i s of
            Some j \<Rightarrow> (\<exists>j'. get_supervisor_job i s' = Some j' \<and> evolves reopen t j j')
          | None \<Rightarrow> (\<forall>j'. get_supervisor_job i s' = Some j' \<longrightarrow> coherent j'))"

lemma lease_relI:
  assumes "l_ticks s \<le> l_ticks s'"
    and "\<And>i j. get_supervisor_job i s = Some j \<Longrightarrow>
           \<exists>j'. get_supervisor_job i s' = Some j' \<and> evolves reopen t j j'"
    and "\<And>i j'. get_supervisor_job i s = None \<Longrightarrow> get_supervisor_job i s' = Some j' \<Longrightarrow> coherent j'"
  shows "lease_rel E reopen t s s'"
  using assms by (auto simp: lease_rel_def split: option.splits)

lemma lease_relD:
  assumes "lease_rel E reopen t s s'" and "\<forall>k \<ge> l_ticks s. t \<le> env_clock E k"
  shows "l_ticks s \<le> l_ticks s'"
    and "get_supervisor_job i s = Some j \<Longrightarrow>
           \<exists>j'. get_supervisor_job i s' = Some j' \<and> evolves reopen t j j'"
    and "get_supervisor_job i s = None \<Longrightarrow> get_supervisor_job i s' = Some j' \<Longrightarrow> coherent j'"
  using assms unfolding lease_rel_def by (force split: option.splits)+

lemma reflp_lease: "reflp (lease_rel E reopen t)"
  by (rule reflpI) (auto intro: lease_relI)

lemma transp_lease: "transp (lease_rel E reopen t)"
proof (rule transpI)
  fix a b c
  assume ab: "lease_rel E reopen t a b" and bc: "lease_rel E reopen t b c"
  show "lease_rel E reopen t a c"
  proof (cases "\<forall>k \<ge> l_ticks a. t \<le> env_clock E k")
    case True
    note A = lease_relD[OF ab True]
    have "\<forall>k \<ge> l_ticks b. t \<le> env_clock E k" using True A(1) by simp
    note B = lease_relD[OF bc this]
    show ?thesis
    proof (rule lease_relI)
      show "l_ticks a \<le> l_ticks c" using A(1) B(1) by simp
      show "\<exists>j'. get_supervisor_job i c = Some j' \<and> evolves reopen t j j'"
        if "get_supervisor_job i a = Some j" for i j
        using A(2)[OF that] B(2) by (blast intro: evolves_trans)
      show "coherent j'" if "get_supervisor_job i a = None" "get_supervisor_job i c = Some j'" for i j'
      proof (cases "get_supervisor_job i b")
        case None
        then show ?thesis using B(3) that(2) by simp
      next
        case (Some j)
        with A(3) that have "coherent j" by simp
        with B(2)[OF Some] that(2) show ?thesis by (auto simp: evolves_def)
      qed
    qed
  next
    case False
    then show ?thesis unfolding lease_rel_def by blast
  qed
qed

lemma lease_rel_same:
  "l_jobs s' = l_jobs s \<Longrightarrow> l_ticks s \<le> l_ticks s' \<Longrightarrow> lease_rel E reopen t s s'"
  by (rule lease_relI) (auto simp: get_supervisor_job_def)

lemma lease_rel_undone: "lease_rel E reopen t s s' \<Longrightarrow> lease_rel E reopen t s (undone s s')"
  unfolding lease_rel_def undone_def get_supervisor_job_def
  by (auto split: option.splits)

section \<open>Statements keep it\<close>

lemma steps_clock:
  assumes "\<And>now. t \<le> now \<Longrightarrow> steps (lease_rel E reopen t) (k now)"
  shows "steps (lease_rel E reopen t) (bindA (clock E) k)"
proof (rule stepsI)
  fix s :: leases
  let ?s = "s\<lparr>l_ticks := Suc (l_ticks s)\<rparr>" and ?now = "env_clock E (l_ticks s)"
  have run: "bindA (clock E) k s = k ?now ?s" by (simp add: bindA_def clock_def)
  show "lease_rel E reopen t s (snd (bindA (clock E) k s))"
  proof (cases "\<forall>k \<ge> l_ticks s. t \<le> env_clock E k")
    case True
    then have "steps (lease_rel E reopen t) (k ?now)" by (intro assms) simp
    then have "lease_rel E reopen t ?s (snd (k ?now ?s))" by (rule stepsD)
    moreover have "lease_rel E reopen t s ?s" by (rule lease_rel_same) simp_all
    ultimately show ?thesis unfolding run using transp_lease by (blast dest: transpD)
  next
    case False
    then show ?thesis unfolding lease_rel_def by blast
  qed
qed

lemma steps_clock_plain: "steps (lease_rel E reopen t) (clock E)"
  by (rule stepsI) (auto simp: clock_def intro: lease_rel_same)

lemma steps_put:
  "(\<And>s. l_jobs (f s) = l_jobs s) \<Longrightarrow> (\<And>s. l_ticks (f s) = l_ticks s) \<Longrightarrow>
   steps (lease_rel E reopen t) (put ok f)"
  by (rule stepsI) (auto simp: put_def intro: lease_rel_same)

lemma job_rows_okD: "job_rows_ok js \<Longrightarrow> j \<in> set js \<Longrightarrow> job_row_ok j"
  by (simp add: job_rows_ok_def list_all_iff)

lemma update_one_row:
  assumes get: "get_supervisor_job i s = Some j" and q: "q j" and id: "\<And>r. j_id (f r) = j_id r"
    and ok: "job_rows_ok (update_rows (\<lambda>r. j_id r = i \<and> q r) f (l_jobs s))"
    and ev: "job_row_ok (f j) \<Longrightarrow> evolves reopen t j (f j)"
  shows "lease_rel E reopen t s (s\<lparr>l_jobs := update_rows (\<lambda>r. j_id r = i \<and> q r) f (l_jobs s)\<rparr>)"
proof -
  let ?p = "\<lambda>r. j_id r = i \<and> q r"
  have j: "j \<in> set (l_jobs s)" "j_id j = i"
    using get by (auto simp: get_supervisor_job_def dest: find_row_SomeD)
  then have "f j \<in> set (update_rows ?p f (l_jobs s))" using q by (force simp: set_update_rows)
  then have row: "evolves reopen t j (f j)" using ok ev job_rows_okD by blast
  have find: "find_row j_id k (update_rows ?p f (l_jobs s)) =
      map_option (\<lambda>r. if ?p r then f r else r) (find_row j_id k (l_jobs s))" for k
    using id by (rule find_row_update_rows)
  show ?thesis
  proof (rule lease_relI)
    fix k r assume k: "get_supervisor_job k s = Some r"
    show "\<exists>j'. get_supervisor_job k (s\<lparr>l_jobs := update_rows ?p f (l_jobs s)\<rparr>) = Some j' \<and>
        evolves reopen t r j'"
    proof (cases "?p r")
      case True
      then have "k = i" using k by (auto simp: get_supervisor_job_def dest: find_row_SomeD)
      then have "r = j" using k get by simp
      then show ?thesis using k True row by (simp add: get_supervisor_job_def find)
    next
      case False
      then show ?thesis using k by (auto simp: get_supervisor_job_def find)
    qed
  qed (simp_all add: get_supervisor_job_def find)
qed

lemma steps_update_jobs:
  assumes "\<And>r. j_id (f r) = j_id r"
    and "\<And>j. q j \<Longrightarrow> j_id j = i \<Longrightarrow> job_row_ok (f j) \<Longrightarrow> evolves reopen t j (f j)"
  shows "steps (lease_rel E reopen t) (update_jobs (\<lambda>r. j_id r = i \<and> q r) f)"
proof (rule stepsI)
  fix s
  let ?p = "\<lambda>r. j_id r = i \<and> q r"
  show "lease_rel E reopen t s (snd (update_jobs ?p f s))"
  proof (cases "job_rows_ok (update_rows ?p f (l_jobs s))")
    case ok: True
    have run: "snd (update_jobs ?p f s) = s\<lparr>l_jobs := update_rows ?p f (l_jobs s)\<rparr>"
      using ok by (simp add: update_jobs_def Let_def)
    show ?thesis
    proof (cases "\<exists>j. get_supervisor_job i s = Some j \<and> q j")
      case True
      then obtain j where "get_supervisor_job i s = Some j" "q j" by blast
      moreover have "j_id j = i"
        using calculation by (auto simp: get_supervisor_job_def dest: find_row_SomeD)
      ultimately show ?thesis unfolding run using ok assms by (intro update_one_row) auto
    next
      case False
      have "find_row j_id k (update_rows ?p f (l_jobs s)) = find_row j_id k (l_jobs s)" for k
        unfolding find_row_update_rows[where key = j_id, OF assms(1)]
        using False by (cases "find_row j_id k (l_jobs s)")
          (auto simp: get_supervisor_job_def dest: find_row_SomeD)
      then show ?thesis unfolding run lease_rel_def get_supervisor_job_def
        by (auto split: option.splits)
    qed
  next
    case False
    then show ?thesis by (auto simp: update_jobs_def Let_def intro: lease_rel_same)
  qed
qed

lemmas steps_update_id =
  steps_update_jobs[where q = "\<lambda>_. True", unfolded simp_thms]


lemma steps_case_prod:
  "(\<And>a b. x = (a, b) \<Longrightarrow> steps R (m a b)) \<Longrightarrow> steps R (case x of (a, b) \<Rightarrow> m a b)"
  by (cases x) simp

lemma steps_transaction:
  assumes "steps (lease_rel E reopen t) m"
  shows "steps (lease_rel E reopen t) (transaction E m)"
proof -
  have fence: "steps (lease_rel E reopen t) (check_action_fence E)"
    unfolding check_action_fence_def fence_action_def
    by (intro steps_look steps_option steps_case_prod steps_ret steps_fetch steps_require steps_clock
        reflp_lease)
  show ?thesis unfolding transaction_def
    by (intro steps_transact steps_andThen fence assms transp_lease lease_rel_undone)
qed

section \<open>The central transition keeps it\<close>

lemma steps_transition_job:
  assumes "\<And>job new. j_terminal job \<notin> {Some ''DONE'', Some ''FAILED''} \<Longrightarrow>
      j_terminal job \<noteq> Some ''BLOCKED'' \<or> auth \<Longrightarrow>
      cas_primary_state cas \<in> {None, Some (j_primary_state job)} \<Longrightarrow>
      cas_owner cas = None \<or> cas_owner cas = j_owner job \<Longrightarrow>
      cas_epoch cas \<in> {None, Some (j_epoch job)} \<Longrightarrow>
      \<not> cas_unexpired cas \<or> unexpired now job \<Longrightarrow>
      st \<in> PRIMARY_STATE_STATUSES ps \<Longrightarrow>
      new = set_columns (cols @ [Col_primary_state ps, Col_status st] @
        (if bump then [Col_facts_version (j_facts_version job + 1)] else []) @
        [Col_updated_at now]) job \<Longrightarrow>
      job_row_ok new \<Longrightarrow> evolves reopen t job new"
  shows "steps (lease_rel E reopen t) (transition_job job_id ps st cols auth bump cas now)"
proof (rule stepsI)
  fix s :: leases
  let ?m = "transition_job job_id ps st cols auth bump cas now"
  show "lease_rel E reopen t s (snd (?m s))"
  proof (cases "get_supervisor_job job_id s")
    case None
    then show ?thesis
      by (auto simp: transition_job_def require_def fetch_def intro: lease_rel_same)
  next
    case (Some job)
    define f where "f = set_columns (cols @ [Col_primary_state ps, Col_status st] @
        (if bump then [Col_facts_version (j_facts_version job + 1)] else []) @ [Col_updated_at now])"
    let ?s' = "s\<lparr>l_jobs := update_rows (\<lambda>r. j_id r = job_id) f (l_jobs s)\<rparr>"
    define P where "P = lease_rel E reopen t s"
    have same: "P s" unfolding P_def by (rule lease_rel_same) simp_all
    have moved: "P ?s'" if "job_rows_ok (l_jobs ?s')"
        "j_terminal job \<notin> {Some ''DONE'', Some ''FAILED''}"
        "j_terminal job \<noteq> Some ''BLOCKED'' \<or> auth"
        "cas_primary_state cas \<in> {None, Some (j_primary_state job)}"
        "cas_owner cas = None \<or> cas_owner cas = j_owner job"
        "cas_epoch cas \<in> {None, Some (j_epoch job)}"
        "\<not> cas_unexpired cas \<or> unexpired now job" "st \<in> PRIMARY_STATE_STATUSES ps"
      unfolding P_def using that Some
      by (intro update_one_row[where q = "\<lambda>_. True", unfolded simp_thms] assms)
         (auto simp: f_def)
    have "wp ?m (\<lambda>_. P) (\<lambda>_. P) s"
      unfolding transition_job_def
      by (simp only: wp_simps Some option.case f_def[symmetric] unexpired_def[symmetric])
         (intro if_bool_eq_conj[THEN iffD2] conjI impI same; auto intro!: moved split: option.split)
    then show ?thesis unfolding P_def by (simp add: wp_snd)
  qed
qed

section \<open>The operations keep it\<close>

lemmas lease_steps =
  steps_clock steps_transaction
  steps_bindA[OF transp_lease] steps_andThen[OF transp_lease]
  steps_ret[OF reflp_lease] steps_raise[OF reflp_lease] steps_require[OF reflp_lease]
  steps_look steps_whenA[OF reflp_lease] steps_fetch[OF reflp_lease] steps_liftR[OF reflp_lease]
  steps_if steps_option steps_case_prod steps_clock_plain

lemmas derive_defs = derive_primary_state_def TERMINAL_TO_PRIMARY_def STATUS_TO_PRIMARY_def

lemma derive_open:
  "derive_primary_state ''WAITING_RUN'' None (Some ''NONE'') = QUEUED"
  "derive_primary_state ''WAITING_RUN'' None (Some ''CI'') = WAITING_EXTERNAL"
  "derive_primary_state ''BACKOFF'' None wk = QUEUED"
  "derive_primary_state ''ACTIVE'' None wk = RUNNING"
  "derive_primary_state ''RECOVERING'' None wk = LOST"
  "derive_primary_state st (Some ''BLOCKED'') wk = PS_BLOCKED"
  by (simp_all add: derive_defs or_empty_def)

lemma row_open:
  "job_row_ok j \<Longrightarrow> j_terminal j \<notin> {Some ''DONE'', Some ''FAILED''} \<Longrightarrow> j_terminal j \<noteq> Some ''BLOCKED'' \<Longrightarrow>
   j_terminal j = None"
  by (auto simp: job_row_ok_def)

lemmas transition_simps = evolves_def coherent_def derive_open unexpired_def no_cas_def

lemma steps_do_claim:
  "t \<le> now \<Longrightarrow> steps (lease_rel E reopen t) (do_claim_locked i ow ttl now)"
  unfolding do_claim_locked_def
  by (intro lease_steps steps_transition_job) (auto simp: transition_simps job_row_ok_def)

lemma steps_claim_job: "steps (lease_rel E reopen t) (claim_job E i ow ttl)"
  unfolding claim_job_def by (intro lease_steps steps_do_claim)

lemma steps_block_missing:
  "steps (lease_rel E reopen t) (block_missing_dependency job now)"
  unfolding block_missing_dependency_def blocked_columns_def
  by (intro lease_steps steps_transition_job) (auto simp: transition_simps)

lemma steps_claim_scan:
  "t \<le> now \<Longrightarrow> steps (lease_rel E reopen t) (claim_scan jobs ow ttl now)"
  by (induction jobs) (auto intro!: lease_steps steps_do_claim steps_block_missing)

lemma steps_claim_next_job: "steps (lease_rel E reopen t) (claim_next_job E ow ttl)"
  unfolding claim_next_job_def by (intro lease_steps steps_claim_scan)

lemma steps_guarded_update:
  assumes "\<And>r. j_id (f r) = j_id r"
    and "\<And>j. held_by ow e now j \<Longrightarrow> evolves reopen t j (f j)"
  shows "steps (lease_rel E reopen t) (guarded_update i ow e now f)"
  unfolding guarded_update_def using assms by (intro lease_steps steps_update_jobs) auto

lemma steps_renew: "steps (lease_rel E reopen t) (renew_lease E i ow e ttl)"
  unfolding renew_lease_def
  by (intro lease_steps steps_guarded_update)
     (auto simp: transition_simps held_by_def split: option.splits)

lemma steps_release: "steps (lease_rel E reopen t) (release_lease E i ow e)"
  unfolding release_lease_def
  by (intro lease_steps steps_transition_job) (auto simp: transition_simps job_row_ok_def)

lemma steps_clear: "steps (lease_rel E reopen t) (clear_lease E i ow e)"
  unfolding clear_lease_def
  by (intro lease_steps steps_guarded_update) (auto simp: transition_simps)

lemma steps_quarantine_lost: "steps (lease_rel E reopen t) (quarantine_lost E i code expected)"
  unfolding quarantine_lost_def quarantine_job_def lost_columns_def
  by (intro lease_steps steps_transition_job) (auto simp: transition_simps job_row_ok_def)

lemma steps_quarantine_blocked:
  "steps (lease_rel E reopen t) (quarantine_blocked E i code cls expected)"
  unfolding quarantine_blocked_def quarantine_job_def blocked_columns_def
  by (intro lease_steps steps_transition_job) (auto simp: transition_simps)

lemma steps_takeover:
  "steps (lease_rel E reopen t) (recover_takeover_job E i expected ow ttl alive verdict)"
  unfolding recover_takeover_job_def Let_def blocked_columns_def lost_columns_def
  by (intro lease_steps steps_transition_job) (auto simp: transition_simps job_row_ok_def)

section \<open>The projection update keeps it\<close>

text \<open>Columns that leave epoch, facts version and primary state alone, and clear an owner at most.\<close>

fun tame_column :: "job_column \<Rightarrow> bool" where
  "tame_column (Col_writer _) \<longleftrightarrow> True"
| "tame_column (Col_footprint _) \<longleftrightarrow> True"
| "tame_column (Col_depends_on _) \<longleftrightarrow> True"
| "tame_column c \<longleftrightarrow> projection_write c"

lemma tame_projection: "projection_write c \<Longrightarrow> tame_column c"
  by (cases c) auto

lemma tame_column_step:
  "tame_column c \<Longrightarrow> j_epoch (set_column c j) = j_epoch j \<and>
     j_facts_version (set_column c j) = j_facts_version j \<and>
     j_primary_state (set_column c j) = j_primary_state j \<and>
     (j_owner (set_column c j) = None \<or> j_owner (set_column c j) = j_owner j) \<and>
     (j_expires (set_column c j) = None \<or> j_expires (set_column c j) = j_expires j)"
  by (cases c) auto

lemma tame_columns:
  "list_all tame_column cols \<Longrightarrow> j_epoch (set_columns cols j) = j_epoch j \<and>
     j_facts_version (set_columns cols j) = j_facts_version j \<and>
     j_primary_state (set_columns cols j) = j_primary_state j \<and>
     (j_owner (set_columns cols j) = None \<or> j_owner (set_columns cols j) = j_owner j) \<and>
     (j_expires (set_columns cols j) = None \<or> j_expires (set_columns cols j) = j_expires j)"
proof (induction cols arbitrary: j)
  case (Cons c cols)
  then show ?case using tame_column_step[of c j] Cons.IH[of "set_column c j"] by fastforce
qed simp

lemma no_projection_column:
  "\<not> list_ex projection_column cols \<Longrightarrow> j_status (set_columns cols j) = j_status j \<and>
     j_terminal (set_columns cols j) = j_terminal j"
proof (induction cols arbitrary: j)
  case (Cons c cols)
  have "j_status (set_column c j) = j_status j \<and> j_terminal (set_column c j) = j_terminal j"
    using Cons.prems by (cases c) auto
  with Cons show ?case by simp
qed simp

lemma tame_primary: "list_all tame_column cols \<Longrightarrow> \<not> list_ex primary_column cols"
proof (induction cols)
  case (Cons c cols)
  then show ?case by (cases c) auto
qed simp

text \<open>The columns of one such update: tame ones, and perhaps the next facts version.\<close>

definition bumped :: "job_column list \<Rightarrow> bool \<Rightarrow> supervisor_job \<Rightarrow> job_column list" where
  "bumped cols bump j = cols @ (if bump then [Col_facts_version (j_facts_version j + 1)] else [])"

lemma evolves_update:
  assumes tame: "list_all tame_column cols"
    and new: "new = set_columns (derive_for_update (bumped cols bump j) (Some j)) j"
    and ok: "terminal_update_ok j new" and row: "job_row_ok new"
  shows "evolves reopen t j new"
proof -
  let ?m = "set_columns (bumped cols bump j) j"
  have m: "j_epoch ?m = j_epoch j" "j_facts_version j \<le> j_facts_version ?m"
      "j_primary_state ?m = j_primary_state j"
      "j_owner ?m = None \<or> j_owner ?m = j_owner j" "j_expires ?m = None \<or> j_expires ?m = j_expires j"
    using tame_columns[OF tame, of j] by (auto simp: bumped_def)
  have noprim: "\<not> list_ex primary_column (bumped cols bump j)"
    using tame_primary[OF tame] by (simp add: bumped_def)
  have n: "j_epoch new = j_epoch ?m" "j_facts_version new = j_facts_version ?m"
      "j_owner new = j_owner ?m" "j_expires new = j_expires ?m" "j_terminal new = j_terminal ?m"
      "j_status new = j_status ?m" "j_id new = j_id j" "j_task_id new = j_task_id j"
    unfolding new derive_for_update_def by (simp_all add: Let_def)
  have coh: "coherent j \<longrightarrow> coherent new"
  proof (cases "list_ex projection_column (bumped cols bump j)")
    case True
    then have "j_primary_state new =
        derive_primary_state (j_status ?m) (j_terminal ?m) (Some (j_wait_kind ?m))"
      unfolding new derive_for_update_def using noprim by (simp add: Let_def)
    then show ?thesis unfolding coherent_def n using derive_wait_kind by simp
  next
    case False
    then have "new = ?m" unfolding new derive_for_update_def by simp
    then show ?thesis using no_projection_column[OF False, of j] m(3) by (simp add: coherent_def)
  qed
  have "j_terminal j \<in> {Some ''DONE'', Some ''FAILED''} \<longrightarrow> j_terminal new = j_terminal j"
    using ok by (auto simp: terminal_update_ok_def)
  moreover have "j_terminal j = Some ''BLOCKED'' \<longrightarrow> j_terminal new = Some ''BLOCKED''"
    using ok row by (auto simp: terminal_update_ok_def job_row_ok_def)
  ultimately show ?thesis
    using m coh n by (auto simp: evolves_def unexpired_def split: option.splits)
qed

lemma update_supervisor_job_rel:
  assumes get: "get_supervisor_job i s = Some j" and tame: "list_all tame_column cols"
  shows "lease_rel E reopen t s (snd (update_supervisor_job i (bumped cols bump j) s))"
proof -
  let ?cols = "derive_for_update (bumped cols bump j) (Some j)"
  have same: "lease_rel E reopen t s s" by (rule lease_rel_same) simp_all
  have "lease_rel E reopen t s
      (s\<lparr>l_jobs := update_rows (\<lambda>r. j_id r = i) (set_columns ?cols) (l_jobs s)\<rparr>)"
    if "terminal_update_ok j (set_columns ?cols j)"
      "job_rows_ok (update_rows (\<lambda>r. j_id r = i) (set_columns ?cols) (l_jobs s))"
    using that get tame
    by (intro update_one_row[where q = "\<lambda>_. True", unfolded simp_thms])
       (auto intro!: evolves_update)
  then have "wp (update_supervisor_job i (bumped cols bump j)) (\<lambda>_. lease_rel E reopen t s)
      (\<lambda>_. lease_rel E reopen t s) s"
    using same by (auto simp: update_supervisor_job_def wp_simps get Let_def)
  then show ?thesis by (simp add: wp_snd)
qed

lemma steps_update_supervisor_job:
  assumes "list_all tame_column cols"
  shows "steps (lease_rel E reopen t) (update_supervisor_job i cols)"
proof (rule stepsI)
  fix s :: leases
  show "lease_rel E reopen t s (snd (update_supervisor_job i cols s))"
  proof (cases "get_supervisor_job i s")
    case None
    then have "update_rows (\<lambda>r. j_id r = i) f (l_jobs s) = l_jobs s" for f
      by (intro update_rows_cong_id) (auto simp: get_supervisor_job_def find_row_None_iff)
    then have "wp (update_supervisor_job i cols) (\<lambda>_ s'. s' = s) (\<lambda>_ s'. s' = s) s"
      using None by (simp add: update_supervisor_job_def wp_simps Let_def)
    then have "snd (update_supervisor_job i cols s) = s" by (simp add: wp_snd)
    then show ?thesis by (simp add: lease_rel_same)
  next
    case (Some j)
    then show ?thesis
      using update_supervisor_job_rel[OF Some assms, where bump = False] by (simp add: bumped_def)
  qed
qed

lemma steps_fetch_update:
  assumes "list_all tame_column cols"
  shows "steps (lease_rel E reopen t)
    (fetch (get_supervisor_job i) e (\<lambda>job. update_supervisor_job i (bumped cols bump job)))"
proof (rule stepsI)
  fix s :: leases
  show "lease_rel E reopen t s (snd (fetch (get_supervisor_job i) e
      (\<lambda>job. update_supervisor_job i (bumped cols bump job)) s))"
    using update_supervisor_job_rel[OF _ assms]
    by (auto simp: fetch_def lease_rel_same split: option.splits)
qed

lemma steps_project: "list_all projection_write cols \<Longrightarrow> steps (lease_rel E reopen t) (project_job E i cols bump)"
  unfolding project_job_def bumped_def[symmetric]
  by (intro lease_steps(2) steps_fetch_update) (auto simp: list_all_iff intro: tame_projection)

lemma steps_bind: "steps (lease_rel E reopen t) (bind_writer_worktree E i d ow e a b c path eh ch)"
  unfolding bind_writer_worktree_def holder_only_def
  by (intro lease_steps steps_update_supervisor_job) simp_all

lemma tame_metadata: "list_all tame_column (metadata_columns a b c d f g h k l)"
  by (simp add: metadata_columns_def split: option.splits)

lemma steps_metadata:
  "steps (lease_rel E reopen t) (set_job_metadata E i ow e (metadata_columns a b c d f g h k l))"
proof -
  let ?cols = "metadata_columns a b c d f g h k l"
  have inner: "lease_rel E reopen t s (snd (bindA (clock E) (\<lambda>now.
      require (unexpired now job) LeaseFencedError (andThen (whenA (?cols \<noteq> []) (bindA
        (update_supervisor_job i (bumped ?cols True job)) (\<lambda>_. ret ())))
      (fetch (get_supervisor_job i) TypeError ret))) s))"
    if get: "get_supervisor_job i s = Some job" for s job
  proof -
    let ?s = "s\<lparr>l_ticks := Suc (l_ticks s)\<rparr>"
    define P where "P = lease_rel E reopen t s"
    have tick: "lease_rel E reopen t s ?s" by (rule lease_rel_same) simp_all
    have "get_supervisor_job i ?s = Some job" using get by (simp add: get_supervisor_job_def)
    from update_supervisor_job_rel[OF this tame_metadata, where bump = True]
    have "P (snd (update_supervisor_job i (bumped ?cols True job) ?s))"
      unfolding P_def using tick transp_lease by (blast dest: transpD)
    then have upd: "wp (update_supervisor_job i (bumped ?cols True job)) (\<lambda>_. P) (\<lambda>_. P) ?s"
      by (simp add: wp_snd)
    have "P ?s" unfolding P_def by (rule tick)
    then have "wp (bindA (clock E) (\<lambda>now.
      require (unexpired now job) LeaseFencedError (andThen (whenA (?cols \<noteq> []) (bindA
        (update_supervisor_job i (bumped ?cols True job)) (\<lambda>_. ret ())))
      (fetch (get_supervisor_job i) TypeError ret)))) (\<lambda>_. P) (\<lambda>_. P) s"
      by (auto simp: wp_simps split: option.splits intro!: wp_mono[OF upd])
    then show ?thesis by (simp add: wp_snd P_def)
  qed
  have same: "lease_rel E reopen t s s" for s by (rule lease_rel_same) simp_all
  show ?thesis
    unfolding set_job_metadata_def bumped_def[symmetric]
      bumped_def[where bump = True, simplified, symmetric]
    by (intro lease_steps(2) steps_require reflp_lease, rule stepsI)
       (auto simp: fetch_def require_def same split: option.splits intro: inner)
qed

section \<open>Locks, queueing, recovery, waits and instances keep it\<close>

lemma steps_locks:
  "steps (lease_rel E reopen t) (try_acquire_action_lock E n i e)"
  "steps (lease_rel E reopen t) (release_action_lock E n i e)"
  "steps (lease_rel E reopen t) (reclaim_stale_action_lock E n)"
  unfolding try_acquire_action_lock_def release_action_lock_def reclaim_stale_action_lock_def
    delete_lock_def
  by (intro lease_steps steps_put; simp)+

lemma steps_enqueue:
  "auth \<longrightarrow> reopen \<Longrightarrow>
   steps (lease_rel E reopen t) (enqueue_job E i qr pr ne wk ec code bump ow e auth ref rc au)"
  unfolding enqueue_job_def Let_def
  by (intro lease_steps steps_transition_job)
     (auto simp: transition_simps job_row_ok_def status_for_enqueue_def split: option.splits)

lemma steps_persist: "steps (lease_rel E reopen t) (persist_resource_decision E i ow e dec rs sh d)"
  unfolding persist_resource_decision_def holder_only_def
  by (intro lease_steps steps_update_id) (auto simp: transition_simps)

lemma steps_consume: "steps (lease_rel E reopen t) (consume_marker i pid)"
  unfolding consume_marker_def by (intro lease_steps steps_put) simp_all

lemma steps_fetch_const:
  "(\<And>a. v = Some a \<Longrightarrow> steps (lease_rel E reopen t) (k a)) \<Longrightarrow>
   steps (lease_rel E reopen t) (fetch (\<lambda>_. v) err k)"
  by (rule stepsI) (auto simp: fetch_def lease_rel_same dest: stepsD split: option.splits)

text \<open>The four moves; none of them needs to be authorized.\<close>

lemma recovery_move_cases:
  assumes "recovery_move dec ne job = Some (ps, st, cols)"
  obtains (requeue) reason where "ps = QUEUED" "st = status_for_enqueue reason"
      "cols = requeue_columns reason ne job"
  | (block) "ps = PS_BLOCKED" "cols = [Col_terminal (Some ''BLOCKED''), Col_owner None,
      Col_expires None, Col_error_class ''RESOURCE'', Col_next_action ''NONE'', Col_next_wake None]"
  | (lost) "ps = LOST" "st = ''RECOVERING''" "cols = [Col_owner None, Col_expires None,
      Col_error_class ''OWNER_REQUIRED'', Col_next_action ''NONE'', Col_next_wake None]"
  using assms unfolding recovery_move_def by (auto split: if_splits)

lemma steps_recovery_move:
  assumes "recovery_move dec ne j0 = Some (ps, st, cols)"
  shows "steps (lease_rel E reopen t) (transition_job i ps st (recovery_audit fc dec' now' rs @ cols)
    False True cas now)"
  using assms
proof (cases rule: recovery_move_cases)
  case (requeue reason)
  then show ?thesis
    by (intro steps_transition_job)
       (auto simp: transition_simps job_row_ok_def recovery_audit_def requeue_columns_def
          status_for_enqueue_def)
next
  case block
  then show ?thesis
    by (intro steps_transition_job) (auto simp: transition_simps recovery_audit_def)
next
  case lost
  then show ?thesis
    by (intro steps_transition_job) (auto simp: transition_simps job_row_ok_def recovery_audit_def)
qed

lemma steps_recovery:
  "steps (lease_rel E reopen t) (commit_recovery_decision E i ow e fc dec rs ne expected pid)"
  unfolding commit_recovery_decision_def
  by (intro steps_fetch_const lease_steps steps_consume steps_recovery_move) blast

lemma steps_update_waits: "steps (lease_rel E reopen t) (update_waits p cols)"
  unfolding update_waits_def by (intro lease_steps steps_put) simp_all

lemma steps_waits:
  "steps (lease_rel E reopen t) (transition_to_waiting_external E i w ow e)"
  "steps (lease_rel E reopen t) (update_external_wait_fenced E wid inst cols)"
  "steps (lease_rel E reopen t) (complete_wait_and_requeue E wid qr ec ob ver pol ev inst now)"
  unfolding transition_to_waiting_external_def insert_external_wait_def
    update_external_wait_fenced_def complete_wait_and_requeue_def update_external_wait_def
  by (intro lease_steps steps_put steps_update_waits steps_transition_job;
      auto simp: transition_simps job_row_ok_def)+

lemma steps_instances:
  "steps (lease_rel E reopen t) (cas_supervisor_instance E row rv)"
  "steps (lease_rel E reopen t) (update_supervisor_instance E i f)"
  unfolding cas_supervisor_instance_def update_supervisor_instance_def put_instance_def
  by (intro lease_steps steps_put; simp)+

lemma steps_revisions:
  "steps (lease_rel E reopen t)
     (create_integration_candidate E cid repo tgt src base head branch dep pr pos)"
  "steps (lease_rel E reopen t) (transition_integration_candidate E i a b rv ow e clear ccols)"
  "steps (lease_rel E reopen t)
     (transition_integration_candidate_authoritative E i n jb e' a b rv ow clear ccols)"
  "steps (lease_rel E reopen t) (create_external_action_request E r)"
  "steps (lease_rel E reopen t) (transition_external_action_request E i a b rv ow e clear rcols)"
  "steps (lease_rel E reopen t)
     (transition_external_action_request_authoritative E i n jb e' a b rv ow clear rcols)"
  unfolding create_integration_candidate_def transition_integration_candidate_def
    transition_integration_candidate_authoritative_def create_external_action_request_def
    transition_external_action_request_def transition_external_action_request_authoritative_def
    authoritative_def transition_candidate_locked_def transition_request_locked_def Let_def
    put_candidates_def put_requests_def
  by (intro lease_steps steps_put; simp)+

lemma steps_create_job: "steps (lease_rel E reopen t) (create_job E h ex task key rc)"
proof -
  have insert: "steps (lease_rel E reopen t) (insert_job (new_job i task c now))" for i c now
  proof (rule stepsI)
    fix s :: leases
    have "coherent (new_job i task c now)" by (simp add: coherent_def new_job_def derive_open)
    then show "lease_rel E reopen t s (snd (insert_job (new_job i task c now) s))"
      by (auto simp: insert_job_def get_supervisor_job_def find_row_append find_row_Cons
          intro!: lease_relI split: option.splits if_splits)
  qed
  show ?thesis unfolding create_job_def Let_def record_command_def
    by (intro lease_steps steps_put insert) simp_all
qed

section \<open>Every command keeps it\<close>

lemma steps_quietly: "steps (lease_rel E reopen t) m \<Longrightarrow> steps (lease_rel E reopen t) (quietly m)"
  unfolding quietly_def by (intro lease_steps)

lemmas steps_operations =
  steps_create_job steps_claim_job steps_claim_next_job steps_renew steps_release steps_clear
  steps_quarantine_lost steps_quarantine_blocked steps_takeover steps_bind steps_metadata
  steps_locks steps_persist steps_recovery steps_waits steps_instances steps_revisions

lemma steps_lease_exec:
  assumes "well_formed c" and "owner_reopens c \<longrightarrow> reopen"
  shows "steps (lease_rel E reopen t) (lease_exec E x c)"
  using assms
  by (cases c) (auto intro!: steps_quietly steps_operations steps_project steps_enqueue)

lemma lease_step_rel:
  assumes "well_formed (snd c)" and "owner_reopens (snd c) \<longrightarrow> reopen"
  shows "lease_rel E reopen t s (snd (lease_step E x c s))"
proof -
  have "lease_rel E reopen t (s\<lparr>l_fence := fst c\<rparr>) (snd (lease_step E x c s))"
    unfolding lease_step_def using steps_lease_exec[OF assms] by (rule stepsD)
  moreover have "lease_rel E reopen t s (s\<lparr>l_fence := fst c\<rparr>)" by (rule lease_rel_same) simp_all
  ultimately show ?thesis using transp_lease by (blast dest: transpD)
qed

lemma run_leases_rel:
  assumes "\<And>c. c \<in> set cs \<Longrightarrow> well_formed (snd c)"
    and "\<And>c. c \<in> set cs \<Longrightarrow> owner_reopens (snd c) \<longrightarrow> reopen"
  shows "lease_rel E reopen t s (run_leases E x cs s)"
  using assms
proof (induction cs arbitrary: s)
  case Nil
  then show ?case by (simp add: lease_rel_same)
next
  case (Cons c cs)
  have "lease_rel E reopen t s (snd (lease_step E x c s))"
    using Cons.prems(1)[of c] Cons.prems(2)[of c] by (intro lease_step_rel) simp_all
  moreover have "lease_rel E reopen t (snd (lease_step E x c s)) (run_leases E x (c # cs) s)"
    unfolding run_leases.simps using Cons.prems by (intro Cons.IH) auto
  ultimately show ?case using transp_lease by (blast dest: transpD)
qed

end
