(* ===== verification/Lease_Tables.thy ===== *)
theory Lease_Tables
  imports Lease_Machine
begin

text \<open>
  What each statement of \<open>store.py\<close> on the lease tables guarantees, as the interface
  \<open>lease_statements\<close> between the statements and the operations: a relation that every statement
  keeps is kept by every operation, every command and every run.  It is interpreted for the
  constraints of the schema, for the life of the requests and of the candidates, and for the
  tables that only grow.
\<close>

section \<open>The interface\<close>

definition append_lock :: "string \<Rightarrow> string \<Rightarrow> int \<Rightarrow> timestamp \<Rightarrow> leases \<Rightarrow> leases" where
  "append_lock name job_id epoch now s = s\<lparr>l_locks := l_locks s @ [\<lparr>lk_name = name,
     lk_holder_job = job_id, lk_holder_epoch = epoch, lk_acquired_at = now, lk_updated_at = now\<rparr>]\<rparr>"

definition reassign_lock :: "string \<Rightarrow> string \<Rightarrow> int \<Rightarrow> timestamp \<Rightarrow> leases \<Rightarrow> leases" where
  "reassign_lock name job_id epoch now s = s\<lparr>l_locks := update_rows (\<lambda>l. lk_name l = name)
     (\<lambda>l. l\<lparr>lk_holder_job := job_id, lk_holder_epoch := epoch, lk_updated_at := now\<rparr>) (l_locks s)\<rparr>"

definition next_revision :: "supervisor_instance option \<Rightarrow> int" where
  "next_revision cur = (case cur of None \<Rightarrow> 0 | Some r \<Rightarrow> si_revision r) + 1"

locale lease_statements =
  fixes R :: "leases \<Rightarrow> leases \<Rightarrow> bool"
  assumes reflR: "reflp R" and transR: "transp R"
    and undoneR: "R s s' \<Longrightarrow> R s (undone s s')"
    and fenceR: "R s (s\<lparr>l_fence := f\<rparr>)"
    and clockR: "steps R (clock E)"
    and update_jobsR: "(\<And>j. j_id (g j) = j_id j) \<Longrightarrow> steps R (update_jobs p g)"
    and insert_jobR: "steps R (insert_job j)"
    and insert_waitR: "steps R (insert_external_wait w)"
    and update_waitsR: "Wc_terminal_at None \<notin> set cols \<Longrightarrow> steps R (update_waits q cols)"
    and put_instanceR: "si_revision row = next_revision (l_instance s) \<Longrightarrow> R s (snd (put_instance row s))"
    and lockR: "find_lock n s = None \<Longrightarrow> R s (append_lock n i e now s)"
      "R s (reassign_lock n i e now s)" "steps R (delete_lock n)"
    and consumeR: "steps R (consume_marker i pid)"
    and recordR: "steps R (record_command key cmd rid hash)"
    and insert_candidateR: "ic_id c = cid \<Longrightarrow> ic_revision c = 0 \<Longrightarrow>
      get_integration_candidate cid s = None \<Longrightarrow> R s (snd (put_candidates (\<lambda>cs. cs @ [c]) s))"
    and move_candidateR:
      "candidate_arguments_ok a b cv ccols \<Longrightarrow>
       steps R (transition_candidate_locked cid a b cv now ow ep clear ccols)"
    and insert_requestR: "get_external_action_request (rq_id r) s = None \<Longrightarrow>
      R s (snd (put_requests (\<lambda>rs. rs @ [new_request r now]) s))"
    and move_requestR:
      "request_arguments_ok a b qv rcols \<Longrightarrow>
       steps R (transition_request_locked rid a b qv now ow ep clear rcols)"
begin

lemmas stepR =
  steps_bindA[OF transR] steps_andThen[OF transR] steps_ret[OF reflR] steps_raise[OF reflR]
  steps_require[OF reflR] steps_look steps_whenA[OF reflR] steps_fetch[OF reflR]
  steps_liftR[OF reflR] steps_if steps_option clockR update_jobsR insert_jobR insert_waitR
  update_waitsR lockR(3) consumeR recordR

lemma steps_prodR: "(\<And>a b. steps R (m a b)) \<Longrightarrow> steps R (case x of (a, b) \<Rightarrow> m a b)"
  by (cases x) simp

lemma transactionR: "steps R m \<Longrightarrow> steps R (transaction E m)"
  unfolding transaction_def check_action_fence_def fence_action_def
  by (intro steps_transact undoneR stepR steps_prodR)

lemma instanceR:
  "steps R (cas_supervisor_instance E row rv)" "steps R (update_supervisor_instance E iid h)"
proof -
  have put: "R s (snd (andThen (put_instance r) (ret True) s))"
    if "si_revision r = next_revision (l_instance s)" for r and s :: leases
    using put_instanceR[OF that]
    by (auto simp: andThen_def bindA_def ret_def split: prod.splits sum.splits)
  have "R s (snd (look (\<lambda>s. map_option si_revision (l_instance s)) (\<lambda>cur_rev.
       if cur_rev \<noteq> rv then ret False
       else andThen (put_instance
         (row\<lparr>si_revision := (case cur_rev of None \<Rightarrow> 0 | Some r \<Rightarrow> r) + 1\<rparr>)) (ret True)) s))"
    for s :: leases
    using reflR put by (auto simp: look_def ret_def reflp_def next_revision_def split: option.splits)
  then show "steps R (cas_supervisor_instance E row rv)"
    unfolding cas_supervisor_instance_def by (intro transactionR stepsI)
  have "R s (snd (look l_instance (\<lambda>cur. case cur of
       None \<Rightarrow> ret False
     | Some r \<Rightarrow>
         if si_instance_id r \<noteq> iid then ret False
         else andThen (put_instance ((h r)\<lparr>si_revision := si_revision r + 1\<rparr>)) (ret True)) s))"
    for s :: leases
    using reflR put by (auto simp: look_def ret_def reflp_def next_revision_def split: option.splits)
  then show "steps R (update_supervisor_instance E iid h)"
    unfolding update_supervisor_instance_def by (intro transactionR stepsI)
qed

lemma transition_jobR: "steps R (transition_job i ps st cols auth bump cas now)"
  unfolding transition_job_def by (intro stepR) simp

lemma update_supervisor_jobR: "steps R (update_supervisor_job i cols)"
  unfolding update_supervisor_job_def Let_def by (intro stepR) simp

lemma do_claimR: "steps R (do_claim_locked i ow ttl now)"
  unfolding do_claim_locked_def by (intro stepR transition_jobR)

lemma claim_scanR: "steps R (claim_scan jobs ow ttl now)"
  by (induction jobs)
     (auto simp: block_missing_dependency_def intro!: stepR transition_jobR do_claimR)

lemma claimsR: "steps R (claim_job E i ow ttl)" "steps R (claim_next_job E ow ttl)"
  unfolding claim_job_def claim_next_job_def by (intro stepR transactionR do_claimR claim_scanR)+

lemma guarded_updateR: "(\<And>j. j_id (g j) = j_id j) \<Longrightarrow> steps R (guarded_update i ow e now g)"
  unfolding guarded_update_def by (intro stepR)

lemma leaseR:
  "steps R (renew_lease E i ow e ttl)" "steps R (release_lease E i ow e)"
  "steps R (clear_lease E i ow e)" "steps R (quarantine_lost E i code expected)"
  "steps R (quarantine_blocked E i code cls expected)"
  unfolding renew_lease_def release_lease_def clear_lease_def quarantine_lost_def
    quarantine_blocked_def quarantine_job_def
  by (intro stepR transactionR guarded_updateR transition_jobR; simp)+

lemma takeoverR: "steps R (recover_takeover_job E i snap ow ttl alive verdict)"
  unfolding recover_takeover_job_def Let_def by (intro stepR transactionR transition_jobR)

lemma holderR:
  "steps R (bind_writer_worktree E i d ow e repo base branch path eh ch)"
  "steps R (set_job_metadata E i ow e cols)"
  "steps R (persist_resource_decision E i ow e dec rs sh at_time)"
  "steps R (project_job E i cols bump)"
  unfolding bind_writer_worktree_def set_job_metadata_def persist_resource_decision_def
    project_job_def holder_only_def
  by (intro stepR transactionR update_supervisor_jobR; simp)+

lemma enqueueR:
  "steps R (enqueue_job E i qr pr ne wk ec code bump ow e auth ref rc au)"
  unfolding enqueue_job_def Let_def by (intro stepR transactionR transition_jobR)

lemma recoveryR: "steps R (commit_recovery_decision E i ow e fc dec rs ne expected pid)"
  unfolding commit_recovery_decision_def
  by (intro stepR transactionR transition_jobR steps_prodR)

lemma waitsR:
  "steps R (transition_to_waiting_external E i w ow e)"
  "steps R (update_external_wait_fenced E wid inst cols)"
  "steps R (complete_wait_and_requeue E wid qr ec ob ver pol ev inst now)"
  unfolding transition_to_waiting_external_def update_external_wait_fenced_def
    complete_wait_and_requeue_def update_external_wait_def
  by (intro stepR transactionR transition_jobR;
      auto simp: list_all_iff wait_result_columns_def split: option.splits)+

lemma acquire_lockR: "steps R (try_acquire_action_lock E n i e)"
proof -
  have body: "steps R (look (find_lock n) (\<lambda>row. case row of
        None \<Rightarrow> andThen (put (\<lambda>_. True) (append_lock n i e now)) (ret True)
      | Some lk \<Rightarrow>
          if lk_holder_job lk = i \<and> lk_holder_epoch lk = e then ret True
          else look (job_holds_current_lease (lk_holder_job lk) (lk_holder_epoch lk) now) (\<lambda>live.
            if live then ret False
            else andThen (put (\<lambda>_. True) (reassign_lock n i e now)) (ret True))))" for now
    using lockR(1,2) reflR
    by (auto simp: steps_def look_def andThen_def bindA_def put_def ret_def reflp_def
        split: option.splits)
  then show ?thesis
    unfolding try_acquire_action_lock_def append_lock_def[abs_def, symmetric]
      append_lock_def[symmetric] reassign_lock_def[symmetric]
    by (intro body stepR transactionR)
qed

lemma locksR:
  "steps R (release_action_lock E n i e)" "steps R (reclaim_stale_action_lock E n)"
  unfolding release_action_lock_def reclaim_stale_action_lock_def by (intro stepR transactionR)+

lemma create_jobR: "steps R (create_job E h ex task key rc)"
  unfolding create_job_def Let_def by (intro stepR transactionR steps_prodR)

lemma create_candidateR:
  "steps R (create_integration_candidate E cidf repo tgt src base head branch dep pr pos)"
proof -
  have insert: "steps R (look (get_integration_candidate cid) (\<lambda>row. case row of
         Some c \<Rightarrow> ret c
       | None \<Rightarrow> look f (\<lambda>position. andThen (put_candidates (\<lambda>cs. cs @ [c position]))
            (fetch (get_integration_candidate cid) TypeError ret))))"
    if "\<And>p. ic_id (c p) = cid" "\<And>p. ic_revision (c p) = 0" for cid f c
  proof (rule stepsI)
    fix s :: leases
    show "R s (snd (look (get_integration_candidate cid) (\<lambda>row. case row of
         Some c \<Rightarrow> ret c
       | None \<Rightarrow> look f (\<lambda>position. andThen (put_candidates (\<lambda>cs. cs @ [c position]))
            (fetch (get_integration_candidate cid) TypeError ret))) s))"
      using insert_candidateR[OF that] reflR
      by (auto simp: look_def andThen_def bindA_def ret_def fetch_def reflp_def
          split: option.splits prod.splits sum.splits) (metis snd_conv)+
  qed
  show ?thesis unfolding create_integration_candidate_def Let_def
    by (intro stepR transactionR insert) simp_all
qed

lemma create_requestR: "steps R (create_external_action_request E r)"
proof -
  have body: "steps R (look (get_external_action_request (rq_id r)) (\<lambda>row. case row of
         Some old \<Rightarrow> ret (old, False)
       | None \<Rightarrow> look (\<lambda>s. find_row rq_idempotency_key (rq_idempotency_key r) (l_requests s))
          (\<lambda>existing. case existing of
             Some old \<Rightarrow>
               require (external_request_equivalent old r) IdempotencyConflictError (ret (old, False))
           | None \<Rightarrow> andThen (put_requests (\<lambda>rs. rs @ [new_request r now]))
              (fetch (get_external_action_request (rq_id r)) TypeError (\<lambda>q. ret (q, True))))))"
    for now
  proof (rule stepsI)
    fix s :: leases
    show "R s (snd (look (get_external_action_request (rq_id r)) (\<lambda>row. case row of
         Some old \<Rightarrow> ret (old, False)
       | None \<Rightarrow> look (\<lambda>s. find_row rq_idempotency_key (rq_idempotency_key r) (l_requests s))
          (\<lambda>existing. case existing of
             Some old \<Rightarrow>
               require (external_request_equivalent old r) IdempotencyConflictError (ret (old, False))
           | None \<Rightarrow> andThen (put_requests (\<lambda>rs. rs @ [new_request r now]))
              (fetch (get_external_action_request (rq_id r)) TypeError (\<lambda>q. ret (q, True))))) s))"
      using insert_requestR[of r s now] reflR
      by (auto simp: look_def andThen_def bindA_def ret_def fetch_def require_def reflp_def
          split: option.splits prod.splits sum.splits)
  qed
  then show ?thesis unfolding create_external_action_request_def
    by (intro body stepR transactionR)
qed

lemma revisionsR:
  "steps R (transition_integration_candidate E i a b rv ow e clear ccols)"
  "steps R (transition_integration_candidate_authoritative E i n jb e' a b rv ow clear ccols)"
  "steps R (transition_external_action_request E i a b rv ow e clear rcols)"
  "steps R (transition_external_action_request_authoritative E i n jb e' a b rv ow clear rcols)"
  unfolding transition_integration_candidate_def transition_integration_candidate_authoritative_def
    transition_external_action_request_def transition_external_action_request_authoritative_def
    authoritative_def
  by (intro stepR transactionR move_candidateR move_requestR; assumption)+

lemma quietlyR: "steps R m \<Longrightarrow> steps R (quietly m)"
  unfolding quietly_def by (intro stepR)

text \<open>Every command, every step and every run.\<close>

lemma execR: "steps R (lease_exec E x c)"
  by (cases c)
     (auto intro!: quietlyR instanceR claimsR leaseR takeoverR holderR enqueueR recoveryR waitsR
        acquire_lockR locksR create_jobR create_candidateR create_requestR revisionsR)

lemma stepR1: "R s (snd (lease_step E x c s))"
proof -
  have "R (s\<lparr>l_fence := fst c\<rparr>) (snd (lease_step E x c s))"
    unfolding lease_step_def using execR by (rule stepsD)
  with fenceR transR show ?thesis by (blast dest: transpD)
qed

lemma runR: "R s (run_leases E x cs s)"
proof (induction cs arbitrary: s)
  case Nil
  then show ?case using reflR by (simp add: reflpD)
next
  case (Cons c cs)
  with stepR1[of s E x c] transR show ?case by (auto dest: transpD)
qed

end

section \<open>The constraints of the schema\<close>

definition tables_ok :: "leases \<Rightarrow> bool" where
  "tables_ok s \<longleftrightarrow> job_rows_ok (l_jobs s) \<and> wait_rows_ok (l_jobs s) (l_waits s) \<and>
     candidate_rows_ok (l_jobs s) (l_candidates s) \<and> request_rows_ok (l_requests s) \<and>
     unique_keys lk_name (l_locks s)"

lemma rows_ok_more:
  "wait_rows_ok js ws \<Longrightarrow> j_id ` set js \<subseteq> j_id ` set js' \<Longrightarrow> wait_rows_ok js' ws"
  "candidate_rows_ok js cs \<Longrightarrow> j_id ` set js \<subseteq> j_id ` set js' \<Longrightarrow> candidate_rows_ok js' cs"
  unfolding wait_rows_ok_def wait_row_ok_def candidate_rows_ok_def candidate_row_ok_def
  by (auto simp: list_all_iff)

lemma ids_update: "(\<And>j. j_id (g j) = j_id j) \<Longrightarrow> j_id ` set (update_rows p g js) = j_id ` set js"
  using map_key_update_rows[of j_id g p js] by (metis set_map)

lemma tables_ok_cong:
  "l_jobs s' = l_jobs s \<Longrightarrow> l_waits s' = l_waits s \<Longrightarrow> l_candidates s' = l_candidates s \<Longrightarrow>
   l_requests s' = l_requests s \<Longrightarrow> l_locks s' = l_locks s \<Longrightarrow> tables_ok s' = tables_ok s"
  by (simp add: tables_ok_def)

definition ok_rel :: "leases \<Rightarrow> leases \<Rightarrow> bool" where
  "ok_rel s s' \<longleftrightarrow> (tables_ok s \<longrightarrow> tables_ok s')"

lemma ok_put:
  "(\<And>s. tables_ok s \<Longrightarrow> ok s \<Longrightarrow> tables_ok (f s)) \<Longrightarrow> steps ok_rel (put ok f)"
  by (auto simp: steps_def put_def ok_rel_def)

interpretation constraints: lease_statements ok_rel
proof
  show refl: "reflp ok_rel" by (simp add: reflp_def ok_rel_def)
  show trans: "transp ok_rel" by (simp add: transp_def ok_rel_def)
  show "ok_rel s (undone s s')" for s s'
    by (simp add: ok_rel_def undone_def tables_ok_def)
  show "ok_rel s (s\<lparr>l_fence := f\<rparr>)" for s f by (simp add: ok_rel_def tables_ok_def)
  show "steps ok_rel (clock E)" for E
    by (simp add: steps_def clock_def ok_rel_def tables_ok_def)
  show "steps ok_rel (update_jobs p g)" if "\<And>j. j_id (g j) = j_id j" for p g
    using rows_ok_more[where js' = "update_rows p g js" and js = js for js] ids_update[OF that]
    by (auto simp: steps_def update_jobs_def Let_def ok_rel_def tables_ok_def)
  show "steps ok_rel (insert_job j)" for j
    using rows_ok_more[where js' = "js @ [j]" and js = js for js]
    by (auto simp: steps_def insert_job_def ok_rel_def tables_ok_def)
  show "steps ok_rel (insert_external_wait w)" for w
    unfolding insert_external_wait_def by (rule ok_put) (simp add: tables_ok_def)
  show "steps ok_rel (update_waits q cols)" for q cols
    unfolding update_waits_def
    by (intro steps_look steps_andThen trans ok_put steps_ret refl) (simp add: tables_ok_def)
  have "steps ok_rel (put_instance row)" for row
    unfolding put_instance_def by (rule ok_put) (simp add: tables_ok_def)
  then show "ok_rel s (snd (put_instance row s))" for row s by (rule stepsD)
  show "ok_rel s (append_lock n i e now s)" if "find_lock n s = None" for n s i e now
    using that by (simp add: ok_rel_def append_lock_def tables_ok_def unique_keys_snoc find_lock_def)
  show "ok_rel s (reassign_lock n i e now s)" for n s i e now
    by (simp add: ok_rel_def reassign_lock_def tables_ok_def)
  show "steps ok_rel (delete_lock n)" for n
    unfolding delete_lock_def
    by (rule ok_put) (auto simp: tables_ok_def unique_keys_def intro: distinct_map_filter)
  show "steps ok_rel (consume_marker i pid)" for i pid
    unfolding consume_marker_def
    by (intro steps_option steps_look steps_require steps_ret refl ok_put) (simp add: tables_ok_def)
  show "steps ok_rel (record_command key cmd r h)" for key cmd r h
    unfolding record_command_def by (rule ok_put) (simp add: tables_ok_def)
  have put_candidates: "steps ok_rel (put_candidates f)" for f
    unfolding put_candidates_def by (rule ok_put) (simp add: tables_ok_def)
  then show "ok_rel s (snd (put_candidates (\<lambda>cs. cs @ [c]) s))" for s c by (rule stepsD)
  show "steps ok_rel (transition_candidate_locked cid a b cv now ow ep clear ccols)"
    for cid a b cv now ow ep clear ccols
    unfolding transition_candidate_locked_def Let_def
    by (intro steps_fetch steps_require steps_andThen steps_ret refl trans put_candidates)
  have put_requests: "steps ok_rel (put_requests f)" for f
    unfolding put_requests_def by (rule ok_put) (simp add: tables_ok_def)
  then show "ok_rel s (snd (put_requests (\<lambda>rs. rs @ [new_request r now]) s))" for s r now
    by (rule stepsD)
  show "steps ok_rel (transition_request_locked rid a b qv now ow ep clear rcols)"
    for rid a b qv now ow ep clear rcols
    unfolding transition_request_locked_def Let_def
    by (intro steps_fetch steps_require steps_andThen steps_ret refl trans put_requests)
qed

section \<open>Requests and candidates\<close>

text \<open>What a request is about never changes, and each revision of it is one edge of the closed map of
  states.\<close>

definition request_edge :: "string \<Rightarrow> string \<Rightarrow> bool" where
  "request_edge a b \<longleftrightarrow> b \<in> set (REQUEST_TRANSITIONS a)"

definition request_subject :: "external_request \<Rightarrow> string list" where
  "request_subject r = [rq_id r, rq_provider r, rq_account r, rq_action r, rq_policy_class r,
     rq_repository r, rq_resource_ref r, rq_source_job_id r, rq_source_candidate_id r, rq_scope r,
     rq_parameters r, rq_idempotency_key r, rq_provenance_hash r]"

definition request_life :: "external_request \<Rightarrow> external_request \<Rightarrow> bool" where
  "request_life r r' \<longleftrightarrow> request_subject r' = request_subject r \<and> rq_revision r \<le> rq_revision r' \<and>
     (request_edge ^^ nat (rq_revision r' - rq_revision r)) (rq_state r) (rq_state r') \<and>
     (rq_revision r' = rq_revision r \<longrightarrow> r' = r)"

definition candidate_life :: "integration_candidate \<Rightarrow> integration_candidate \<Rightarrow> bool" where
  "candidate_life c c' \<longleftrightarrow> ic_id c' = ic_id c \<and> ic_repository c' = ic_repository c \<and>
     ic_target c' = ic_target c \<and> ic_source_job_id c' = ic_source_job_id c \<and>
     ic_revision c \<le> ic_revision c' \<and> (ic_revision c' = ic_revision c \<longrightarrow> c' = c)"

definition instance_life :: "supervisor_instance option \<Rightarrow> supervisor_instance option \<Rightarrow> bool" where
  "instance_life o1 o2 \<longleftrightarrow> (case o1 of None \<Rightarrow> True | Some r \<Rightarrow> (case o2 of None \<Rightarrow> False
     | Some r' \<Rightarrow> si_revision r \<le> si_revision r' \<and> (si_revision r' = si_revision r \<longrightarrow> r' = r)))"

lemma request_life_refl [simp]: "request_life r r"
  by (simp add: request_life_def)

lemma request_life_trans: "request_life a b \<Longrightarrow> request_life b c \<Longrightarrow> request_life a c"
proof -
  assume ab: "request_life a b" and bc: "request_life b c"
  let ?n = "nat (rq_revision b - rq_revision a)" and ?m = "nat (rq_revision c - rq_revision b)"
  have "(request_edge ^^ (?n + ?m)) (rq_state a) (rq_state c)"
    using ab bc unfolding request_life_def relpowp_add by (blast intro: relcomppI)
  moreover have "?n + ?m = nat (rq_revision c - rq_revision a)"
    using ab bc by (simp add: request_life_def flip: nat_add_distrib)
  ultimately show "request_life a c"
    using ab bc by (auto simp: request_life_def)
qed

lemma candidate_life_refl [simp]: "candidate_life c c"
  by (simp add: candidate_life_def)

lemma candidate_life_trans: "candidate_life a b \<Longrightarrow> candidate_life b c \<Longrightarrow> candidate_life a c"
  by (auto simp: candidate_life_def)

lemma instance_life_refl [simp]: "instance_life i i"
  by (simp add: instance_life_def split: option.splits)

lemma instance_life_trans: "instance_life a b \<Longrightarrow> instance_life b c \<Longrightarrow> instance_life a c"
  by (auto simp: instance_life_def split: option.splits)

definition finished_wait :: "string \<Rightarrow> leases \<Rightarrow> bool" where
  "finished_wait i s \<longleftrightarrow> (case get_external_wait i s of None \<Rightarrow> False
     | Some w \<Rightarrow> w_terminal_at w \<noteq> None)"

definition ledger_rel :: "leases \<Rightarrow> leases \<Rightarrow> bool" where
  "ledger_rel s s' \<longleftrightarrow>
     (\<forall>i r. get_external_action_request i s = Some r \<longrightarrow>
        (\<exists>r'. get_external_action_request i s' = Some r' \<and> request_life r r')) \<and>
     (\<forall>i c. get_integration_candidate i s = Some c \<longrightarrow>
        (\<exists>c'. get_integration_candidate i s' = Some c' \<and> candidate_life c c')) \<and>
     instance_life (l_instance s) (l_instance s') \<and>
     (\<forall>i. finished_wait i s \<longrightarrow> finished_wait i s') \<and>
     set (l_markers s) \<subseteq> set (l_markers s') \<and> map_of (l_commands s) \<subseteq>\<^sub>m map_of (l_commands s')"

lemma finished_cong:
  "l_waits s' = l_waits s \<Longrightarrow> finished_wait i s' = finished_wait i s"
  by (simp add: finished_wait_def get_external_wait_def)

lemma ledger_frame:
  "l_requests s' = l_requests s \<Longrightarrow> l_candidates s' = l_candidates s \<Longrightarrow>
   l_instance s' = l_instance s \<Longrightarrow> l_waits s' = l_waits s \<Longrightarrow> set (l_markers s) \<subseteq> set (l_markers s') \<Longrightarrow>
   map_of (l_commands s) \<subseteq>\<^sub>m map_of (l_commands s') \<Longrightarrow> ledger_rel s s'"
  unfolding ledger_rel_def get_external_action_request_def get_integration_candidate_def
  by (simp add: finished_cong[of s' s])

lemma ledger_refl: "reflp ledger_rel"
  by (rule reflpI) (simp add: ledger_frame)

lemma ledger_trans: "transp ledger_rel"
proof (rule transpI)
  fix a b c
  assume ab: "ledger_rel a b" and bc: "ledger_rel b c"
  show "ledger_rel a c"
    unfolding ledger_rel_def
  proof (intro conjI allI impI)
    fix i r assume "get_external_action_request i a = Some r"
    then obtain r1 where r1: "get_external_action_request i b = Some r1" "request_life r r1"
      using ab unfolding ledger_rel_def by blast
    then obtain r2 where "get_external_action_request i c = Some r2" "request_life r1 r2"
      using bc unfolding ledger_rel_def by blast
    with r1(2) show "\<exists>r'. get_external_action_request i c = Some r' \<and> request_life r r'"
      by (blast intro: request_life_trans)
  next
    fix i r assume "get_integration_candidate i a = Some r"
    then obtain r1 where r1: "get_integration_candidate i b = Some r1" "candidate_life r r1"
      using ab unfolding ledger_rel_def by blast
    then obtain r2 where "get_integration_candidate i c = Some r2" "candidate_life r1 r2"
      using bc unfolding ledger_rel_def by blast
    with r1(2) show "\<exists>c'. get_integration_candidate i c = Some c' \<and> candidate_life r c'"
      by (blast intro: candidate_life_trans)
  next
    show "instance_life (l_instance a) (l_instance c)"
      using ab bc unfolding ledger_rel_def by (blast intro: instance_life_trans)
    show "finished_wait i c" if "finished_wait i a" for i
      using ab bc that unfolding ledger_rel_def by blast
    show "set (l_markers a) \<subseteq> set (l_markers c)"
      using ab bc unfolding ledger_rel_def by blast
    show "map_of (l_commands a) \<subseteq>\<^sub>m map_of (l_commands c)"
      using ab bc unfolding ledger_rel_def by (blast intro: map_le_trans)
  qed
qed

lemma ledger_put:
  "(\<And>s. l_requests (f s) = l_requests s) \<Longrightarrow> (\<And>s. l_candidates (f s) = l_candidates s) \<Longrightarrow>
   (\<And>s. l_instance (f s) = l_instance s) \<Longrightarrow> (\<And>s. l_waits (f s) = l_waits s) \<Longrightarrow> (\<And>s. set (l_markers s) \<subseteq> set (l_markers (f s))) \<Longrightarrow>
   (\<And>s. map_of (l_commands s) \<subseteq>\<^sub>m map_of (l_commands (f s))) \<Longrightarrow> steps ledger_rel (put ok f)"
  unfolding steps_def put_def by (simp add: ledger_frame reflpD[OF ledger_refl])

text \<open>Writing one row.\<close>

lemma ledger_candidates:
  assumes "\<And>i c. get_integration_candidate i s = Some c \<Longrightarrow>
      \<exists>c'. find_row ic_id i cs = Some c' \<and> candidate_life c c'"
  shows "ledger_rel s (s\<lparr>l_candidates := cs\<rparr>)"
  using assms
  by (simp add: ledger_rel_def get_external_action_request_def get_integration_candidate_def
      finished_wait_def get_external_wait_def)

lemma ledger_requests:
  assumes "\<And>i c. get_external_action_request i s = Some c \<Longrightarrow>
      \<exists>c'. find_row rq_id i cs = Some c' \<and> request_life c c'"
  shows "ledger_rel s (s\<lparr>l_requests := cs\<rparr>)"
  using assms
  by (simp add: ledger_rel_def get_external_action_request_def get_integration_candidate_def
      finished_wait_def get_external_wait_def)

lemma ledger_waits:
  assumes "\<And>i. finished_wait i s \<Longrightarrow> finished_wait i (s\<lparr>l_waits := ws\<rparr>)"
  shows "ledger_rel s (s\<lparr>l_waits := ws\<rparr>)"
  using assms
  by (simp add: ledger_rel_def get_external_action_request_def get_integration_candidate_def)

lemma wait_columns_keep:
  "w_id (fold set_wait_column cols w) = w_id w \<and>
   (Wc_terminal_at None \<notin> set cols \<longrightarrow> w_terminal_at w \<noteq> None \<longrightarrow>
      w_terminal_at (fold set_wait_column cols w) \<noteq> None)"
proof (induction cols arbitrary: w)
  case (Cons k cols)
  have "w_id (set_wait_column k w) = w_id w \<and> (k \<noteq> Wc_terminal_at None \<longrightarrow> w_terminal_at w \<noteq> None \<longrightarrow>
      w_terminal_at (set_wait_column k w) \<noteq> None)" by (cases k) auto
  with Cons show ?case by auto
qed simp

lemma ledger_update_waits:
  assumes "Wc_terminal_at None \<notin> set cols"
  shows "ledger_rel s (s\<lparr>l_waits := update_rows q (fold set_wait_column cols) (l_waits s)\<rparr>)"
  using wait_columns_keep assms
  by (intro ledger_waits) (auto simp: finished_wait_def get_external_wait_def
      find_row_update_rows split: option.splits)

lemma candidate_columns_keep:
  "ic_id (fold set_candidate_column cols c) = ic_id c \<and>
   ic_repository (fold set_candidate_column cols c) = ic_repository c \<and>
   ic_target (fold set_candidate_column cols c) = ic_target c \<and>
   ic_source_job_id (fold set_candidate_column cols c) = ic_source_job_id c \<and>
   ic_state (fold set_candidate_column cols c) = ic_state c \<and>
   ic_revision (fold set_candidate_column cols c) = ic_revision c"
proof (induction cols arbitrary: c)
  case (Cons k cols)
  have "ic_id (set_candidate_column k c) = ic_id c \<and>
      ic_repository (set_candidate_column k c) = ic_repository c \<and>
      ic_target (set_candidate_column k c) = ic_target c \<and>
      ic_source_job_id (set_candidate_column k c) = ic_source_job_id c \<and>
      ic_state (set_candidate_column k c) = ic_state c \<and>
      ic_revision (set_candidate_column k c) = ic_revision c"
    by (cases k) simp_all
  with Cons show ?case by simp
qed simp

lemma request_columns_keep:
  "request_subject (fold set_request_column cols r) = request_subject r \<and>
   rq_state (fold set_request_column cols r) = rq_state r \<and>
   rq_revision (fold set_request_column cols r) = rq_revision r"
proof (induction cols arbitrary: r)
  case (Cons k cols)
  have "request_subject (set_request_column k r) = request_subject r \<and>
      rq_state (set_request_column k r) = rq_state r \<and>
      rq_revision (set_request_column k r) = rq_revision r"
    by (cases k) (simp_all add: request_subject_def)
  with Cons show ?case by simp
qed simp

lemma replace_row:
  assumes "find_row key i rs = Some r" and "key r' = i" and "find_row key k rs = Some q"
  shows "find_row key k (update_rows (\<lambda>x. key x = i) (\<lambda>_. r') rs) = Some (if k = i then r' else q)"
proof -
  let ?f = "\<lambda>x. if key x = i then r' else x"
  have "update_rows (\<lambda>x. key x = i) (\<lambda>_. r') rs = update_rows (\<lambda>x. key x = i) ?f rs"
    by (simp add: update_rows_def)
  moreover have "find_row key k (update_rows (\<lambda>x. key x = i) ?f rs) =
      map_option (\<lambda>x. if key x = i then ?f x else x) (find_row key k rs)"
    using assms(2) by (intro find_row_update_rows) simp
  ultimately show ?thesis using assms by (auto dest: find_row_SomeD)
qed

lemma ledger_move_candidate:
  "candidate_arguments_ok a b cv cols \<Longrightarrow>
   steps ledger_rel (transition_candidate_locked cid a b cv now ow ep clear cols)"
proof (rule stepsI)
  fix s :: leases
  let ?m = "transition_candidate_locked cid a b cv now ow ep clear cols"
  have same: "ledger_rel s s" using ledger_refl by (rule reflpD)
  show "ledger_rel s (snd (?m s))"
  proof (cases "get_integration_candidate cid s")
    case None
    then show ?thesis using same by (simp add: transition_candidate_locked_def fetch_def)
  next
    case (Some c)
    have "ledger_rel s (s\<lparr>l_candidates := update_rows (\<lambda>r. ic_id r = cid)
        (\<lambda>_. fold set_candidate_column cols (c\<lparr>ic_state := b, ic_revision := ic_revision c + 1,
           ic_updated_at := now, ic_holder_owner := h1, ic_holder_epoch := h2\<rparr>)) (l_candidates s)\<rparr>)"
      for h1 h2
    proof (rule ledger_candidates)
      fix k q assume q: "get_integration_candidate k s = Some q"
      have id: "ic_id c = cid" "find_row ic_id cid (l_candidates s) = Some c"
        using Some by (auto simp: get_integration_candidate_def dest: find_row_SomeD)
      show "\<exists>c'. find_row ic_id k (update_rows (\<lambda>r. ic_id r = cid)
        (\<lambda>_. fold set_candidate_column cols (c\<lparr>ic_state := b, ic_revision := ic_revision c + 1,
           ic_updated_at := now, ic_holder_owner := h1, ic_holder_epoch := h2\<rparr>)) (l_candidates s)) =
          Some c' \<and> candidate_life q c'"
        using q id by (subst replace_row)
          (auto simp: get_integration_candidate_def candidate_columns_keep candidate_life_def)
    qed
    then have "wp ?m (\<lambda>_. ledger_rel s) (\<lambda>_. ledger_rel s) s"
      using Some same unfolding transition_candidate_locked_def put_candidates_def Let_def
      by (auto simp: wp_simps split: option.splits)
    then show ?thesis by (simp add: wp_snd)
  qed
qed

lemma ledger_move_request:
  "request_arguments_ok a b qv cols \<Longrightarrow>
   steps ledger_rel (transition_request_locked rid a b qv now ow ep clear cols)"
proof (rule stepsI)
  fix s :: leases
  let ?m = "transition_request_locked rid a b qv now ow ep clear cols"
  have same: "ledger_rel s s" using ledger_refl by (rule reflpD)
  show "ledger_rel s (snd (?m s))"
  proof (cases "get_external_action_request rid s")
    case None
    then show ?thesis using same by (simp add: transition_request_locked_def fetch_def)
  next
    case (Some c)
    let ?new = "\<lambda>h1 h2. fold set_request_column cols (c\<lparr>rq_state := b, rq_revision := rq_revision c + 1,
           rq_updated_at := now, rq_holder_owner := h1, rq_holder_epoch := h2\<rparr>)"
    have subj: "request_subject (?new h1 h2) = request_subject c" for h1 h2
      using request_columns_keep by (simp add: request_subject_def)
    then have rid: "rq_id (?new h1 h2) = rq_id c" for h1 h2
      by (simp add: request_subject_def)
    have id: "rq_id c = rid" "find_row rq_id rid (l_requests s) = Some c"
      using Some by (auto simp: get_external_action_request_def dest: find_row_SomeD)
    have moved: "ledger_rel s (s\<lparr>l_requests := update_rows (\<lambda>r. rq_id r = rid) (\<lambda>_. ?new h1 h2)
        (l_requests s)\<rparr>)" if "b \<in> set (REQUEST_TRANSITIONS (rq_state c))" for h1 h2
    proof (rule ledger_requests)
      fix k q assume q: "get_external_action_request k s = Some q"
      have life: "request_life c (?new h1 h2)"
        using that subj request_columns_keep by (auto simp: request_life_def request_edge_def)
      show "\<exists>c'. find_row rq_id k (update_rows (\<lambda>r. rq_id r = rid) (\<lambda>_. ?new h1 h2) (l_requests s)) =
          Some c' \<and> request_life q c'"
        using q id rid life by (subst replace_row) (auto simp: get_external_action_request_def)
    qed
    then have "wp ?m (\<lambda>_. ledger_rel s) (\<lambda>_. ledger_rel s) s"
      using Some same unfolding transition_request_locked_def put_requests_def Let_def
      by (auto simp: wp_simps split: option.splits)
    then show ?thesis by (simp add: wp_snd)
  qed
qed

interpretation ledgers: lease_statements ledger_rel
proof
  show refl: "reflp ledger_rel" by (rule ledger_refl)
  show trans: "transp ledger_rel" by (rule ledger_trans)
  show "ledger_rel s (undone s s')" for s s' by (simp add: undone_def ledger_frame)
  show "ledger_rel s (s\<lparr>l_fence := f\<rparr>)" for s f by (simp add: ledger_frame)
  show "steps ledger_rel (clock E)" for E
    by (simp add: steps_def clock_def ledger_frame)
  show "steps ledger_rel (update_jobs p g)" for p g
    by (auto simp: steps_def update_jobs_def Let_def intro!: ledger_frame)
  show "steps ledger_rel (insert_job j)" for j
    by (auto simp: steps_def insert_job_def intro!: ledger_frame)
  show "steps ledger_rel (insert_external_wait w)" for w
    by (rule stepsI) (auto simp: insert_external_wait_def put_def finished_wait_def
        get_external_wait_def find_row_append intro!: ledger_waits ledger_frame split: option.splits)
  show "steps ledger_rel (update_waits q cols)" if "Wc_terminal_at None \<notin> set cols" for q cols
    using ledger_update_waits[OF that]
    by (auto simp: steps_def update_waits_def look_def andThen_def bindA_def put_def ret_def
        intro: ledger_frame)
  show "ledger_rel s (snd (put_instance row s))" if "si_revision row = next_revision (l_instance s)"
    for row s
    using that
    by (auto simp: put_instance_def put_def ledger_rel_def instance_life_def next_revision_def
        get_external_action_request_def get_integration_candidate_def finished_wait_def
        get_external_wait_def split: option.splits)
  show "ledger_rel s (append_lock n i e now s)" for n s i e now
    by (simp add: append_lock_def ledger_frame)
  show "ledger_rel s (reassign_lock n i e now s)" for n s i e now
    by (simp add: reassign_lock_def ledger_frame)
  show "steps ledger_rel (delete_lock n)" for n
    unfolding delete_lock_def by (rule ledger_put) simp_all
  show "steps ledger_rel (consume_marker i pid)" for i pid
    unfolding consume_marker_def
    by (intro steps_option steps_look steps_require steps_ret refl ledger_put) auto
  show "steps ledger_rel (record_command key cmd r h)" for key cmd r h
    unfolding record_command_def
    by (rule ledger_put) (auto simp: map_le_def map_add_def split: option.splits)
  show "ledger_rel s (snd (put_candidates (\<lambda>cs. cs @ [c]) s))" for s c
    by (auto simp: put_candidates_def put_def find_row_append get_integration_candidate_def
        intro!: ledger_candidates ledger_frame)
  show "steps ledger_rel (transition_candidate_locked cid a b cv now ow ep clear ccols)"
    if "candidate_arguments_ok a b cv ccols" for cid a b cv now ow ep clear ccols
    using that by (rule ledger_move_candidate)
  show "ledger_rel s (snd (put_requests (\<lambda>rs. rs @ [new_request r now]) s))" for s r now
    by (auto simp: put_requests_def put_def find_row_append get_external_action_request_def
        intro!: ledger_requests ledger_frame)
  show "steps ledger_rel (transition_request_locked rid a b qv now ow ep clear rcols)"
    if "request_arguments_ok a b qv rcols" for rid a b qv now ow ep clear rcols
    using that by (rule ledger_move_request)
qed

end
