(* ===== verification/Lease_Properties.thy ===== *)
theory Lease_Properties
  imports Lease_Safety Lease_Tables
begin

text \<open>
  What the contract of the job table gives over whole runs of the machine: a lost lease is lost for
  good, its former holder can do nothing with it, and a transaction of a process whose action fence
  is armed with a lost lease writes nothing.
\<close>

section \<open>A current lease\<close>

lemma lease_is_current_eq:
  "lease_is_current E i ow e s =
     (Inr (case get_supervisor_job i s of None \<Rightarrow> False
           | Some j \<Rightarrow> held_by ow e (env_clock E (l_ticks s)) j), s\<lparr>l_ticks := Suc (l_ticks s)\<rparr>)"
  by (simp add: lease_is_current_def bindA_def clock_def look_def ret_def get_supervisor_job_def)

lemma unexpired_antimono: "t \<le> t' \<Longrightarrow> unexpired t' j \<Longrightarrow> unexpired t j"
  by (auto simp: unexpired_def split: option.splits)


text \<open>A job that its first holder gave up and a second one claimed.\<close>

definition demo_job :: string where
  "demo_job = ''supervisor:t''"

definition demo_claimed :: leases where
  "demo_claimed = run_leases demo_env demo_outside
     [(None, Create_Job ''t'' ''k'' None), (None, Claim_Job demo_job ''A'' 60)] empty_leases"

definition handed_over :: "lease_step list" where
  "handed_over = [(None, Release_Lease demo_job ''A'' 1)]"

definition reclaimed :: "lease_step list" where
  "reclaimed = [(None, Claim_Job demo_job ''B'' 60), (None, Renew_Lease demo_job ''A'' 1 60)]"


section \<open>A holder without the lease\<close>

text \<open>The commands that act for the holder of a lease, with the token they present.\<close>

fun presents :: "lease_command \<Rightarrow> (string \<times> string \<times> int) option" where
  "presents (Renew_Lease i ow e ttl) = Some (i, ow, e)"
| "presents (Release_Lease i ow e) = Some (i, ow, e)"
| "presents (Clear_Lease i ow e) = Some (i, ow, e)"
| "presents (Bind_Worktree i d ow e repo base branch path eh ch) = Some (i, ow, e)"
| "presents (Set_Metadata i ow e a b c d f g h k l) = Some (i, ow, e)"
| "presents (Persist_Decision i ow e dec rs sh t) = Some (i, ow, e)"
| "presents (Commit_Recovery i ow e fc dec rs ne expected pid) = Some (i, ow, e)"
| "presents (Enter_Wait i w ow e) = Some (i, ow, e)"
| "presents (Enqueue_Job i qr pr ne wk ec code bump (Some ow) (Some e) False ref rc au) =
     Some (i, ow, e)"
| "presents _ = None"

definition refused :: "'a lact \<Rightarrow> leases \<Rightarrow> bool" where
  "refused m s \<longleftrightarrow> (\<exists>err n. m s = (Inl err, s\<lparr>l_ticks := n\<rparr>))"

lemma refused_wp: "refused m s \<longleftrightarrow> wp m (\<lambda>_ _. False) (\<lambda>_ s'. \<exists>n. s' = s\<lparr>l_ticks := n\<rparr>) s"
  by (auto simp: refused_def wp_def split: prod.splits sum.splits)

lemma refused_quietly: "refused m s \<Longrightarrow> refused (quietly m) s"
  by (auto simp: refused_def quietly_def bindA_def)

lemma refused_here: "refused (\<lambda>s. (Inl err, s)) s"
  unfolding refused_def by (intro exI[of _ err] exI[of _ "l_ticks s"]) simp

lemma refused_require: "(b \<Longrightarrow> refused m s) \<Longrightarrow> refused (require b err m) s"
  using refused_here[of err s] by (cases b) (simp_all add: refused_def require_def)

lemma refused_clock:
  assumes "refused (k (env_clock E (l_ticks s))) (s\<lparr>l_ticks := Suc (l_ticks s)\<rparr>)"
  shows "refused (bindA (clock E) k) s"
  using assms by (auto simp: refused_def bindA_def clock_def)

lemma refused_fetch_const: "(\<And>a. v = Some a \<Longrightarrow> refused (k a) s) \<Longrightarrow> refused (fetch (\<lambda>_. v) err k) s"
  using refused_here[of err s] by (cases v) (simp_all add: refused_def fetch_def)

lemma refused_liftR: "(\<And>a. r = Inr a \<Longrightarrow> refused (k a) s) \<Longrightarrow> refused (liftR r k) s"
  using refused_here[of _ s] by (cases r) (simp_all add: refused_def liftR_def)

text \<open>A transaction is refused where its body fails after the clock readings of the fence.\<close>

lemma fence_ticks:
  "wp (check_action_fence E) (\<lambda>_ s'. \<exists>n \<ge> l_ticks s. s' = s\<lparr>l_ticks := n\<rparr>)
     (\<lambda>_ s'. \<exists>n. s' = s\<lparr>l_ticks := n\<rparr>) s"
proof -
  have same: "\<exists>n. s = s\<lparr>l_ticks := n\<rparr>" "\<exists>n \<ge> l_ticks s. s = s\<lparr>l_ticks := n\<rparr>"
    by (auto intro: exI[of _ "l_ticks s"])
  have tick: "\<exists>n. s\<lparr>l_ticks := k\<rparr> = s\<lparr>l_ticks := n\<rparr>" for k
    by auto
  have next_tick: "\<exists>n \<ge> l_ticks s. s\<lparr>l_ticks := Suc (l_ticks s)\<rparr> = s\<lparr>l_ticks := n\<rparr>"
    by (intro exI[of _ "Suc (l_ticks s)"]) simp
  show ?thesis
    unfolding check_action_fence_def fence_action_def
    by (auto simp: wp_simps same tick next_tick split: option.splits prod.splits)
qed

lemma refused_transaction:
  assumes "\<And>n. l_ticks s \<le> n \<Longrightarrow> wp m (\<lambda>_ _. False) any_error (s\<lparr>l_ticks := n\<rparr>)"
  shows "refused (transaction E m) s"
  unfolding refused_wp transaction_def wp_transact wp_andThen
  by (rule wp_mono[OF fence_ticks]) (auto simp: undone_def intro: wp_mono[OF assms])

definition powerless :: "env \<Rightarrow> string \<Rightarrow> string \<Rightarrow> int \<Rightarrow> leases \<Rightarrow> bool" where
  "powerless E i ow e s \<longleftrightarrow> (\<forall>k \<ge> l_ticks s. \<forall>j. get_supervisor_job i s = Some j \<longrightarrow>
     \<not> held_by ow e (env_clock E k) j)"

lemma powerless_tick: "powerless E i ow e s \<Longrightarrow> l_ticks s \<le> n \<Longrightarrow> powerless E i ow e (s\<lparr>l_ticks := n\<rparr>)"
  by (auto simp: powerless_def get_supervisor_job_def)

lemma powerlessD:
  "powerless E i ow e s \<Longrightarrow> get_supervisor_job i s = Some j \<Longrightarrow> l_ticks s \<le> k \<Longrightarrow>
   j_owner j = Some ow \<Longrightarrow> j_epoch j = e \<Longrightarrow> \<not> unexpired (env_clock E k) j"
  by (auto simp: powerless_def held_by_def)

lemma get_job_ticks [simp]: "get_supervisor_job i (s\<lparr>l_ticks := n\<rparr>) = get_supervisor_job i s"
  by (simp add: get_supervisor_job_def)

lemma fail_guarded_update:
  assumes "powerless E i ow e s" and "l_ticks s \<le> k"
  shows "wp (guarded_update i ow e (env_clock E k) f) (\<lambda>_ _. False) any_error (s\<lparr>l_ticks := n\<rparr>)"
  using powerlessD[OF assms(1) _ assms(2)]
  by (auto simp: guarded_update_def wp_simps split: option.splits)

lemma fail_transition:
  assumes "powerless E i ow e s" and "l_ticks s \<le> k"
    and "cas_owner cas = Some ow" and "cas_epoch cas = Some e" and "cas_unexpired cas"
  shows "wp (transition_job i ps st cols auth bump cas (env_clock E k)) (\<lambda>_ _. False) any_error
    (s\<lparr>l_ticks := n\<rparr>)"
  using powerlessD[OF assms(1) _ assms(2)] assms(3-)
  by (auto simp: transition_job_def wp_simps unexpired_def split: option.splits)

lemma fail_holder_only:
  assumes "powerless E i ow e s" and "l_ticks s \<le> k"
  shows "wp (holder_only i ow e (env_clock E k) body) (\<lambda>_ _. False) any_error (s\<lparr>l_ticks := n\<rparr>)"
  using powerlessD[OF assms(1) _ assms(2)]
  by (auto simp: holder_only_def wp_simps split: option.splits)

lemma refused_lease_ops:
  assumes "powerless E i ow e s"
  shows "refused (renew_lease E i ow e ttl) s"
    and "refused (release_lease E i ow e) s"
    and "refused (clear_lease E i ow e) s"
  unfolding renew_lease_def release_lease_def clear_lease_def
  by (intro refused_clock refused_require refused_transaction; simp;
      intro fail_guarded_update[OF assms] fail_transition[OF assms]; simp)+

lemma refused_bind:
  assumes "powerless E i ow e s"
  shows "refused (bind_writer_worktree E i d ow e repo base branch path eh ch) s"
  unfolding bind_writer_worktree_def
  by (intro refused_clock refused_require refused_transaction)
     (simp, rule fail_holder_only[OF assms], simp)

lemma refused_metadata:
  assumes "powerless E i ow e s"
  shows "refused (set_job_metadata E i ow e cols) s"
proof -
  have "wp (fetch (get_supervisor_job i) NotFound (\<lambda>job.
       require (j_owner job = Some ow) LeaseFencedError
      (require (j_epoch job = e) LeaseFencedError
      (bindA (clock E) (\<lambda>now.
       require (unexpired now job) LeaseFencedError (k job)))))) (\<lambda>_ _. False) any_error
      (s\<lparr>l_ticks := n\<rparr>)" if "l_ticks s \<le> n" for k :: "supervisor_job \<Rightarrow> supervisor_job lact" and n
    using powerlessD[OF assms _ that] by (auto simp: wp_simps split: option.splits)
  then show ?thesis
    unfolding set_job_metadata_def by (intro refused_require refused_transaction)
qed

lemma refused_persist:
  assumes "powerless E i ow e s"
  shows "refused (persist_resource_decision E i ow e dec rs sh d) s"
proof -
  have "wp (fetch (get_supervisor_job i) NotFound (\<lambda>job.
       require (j_terminal job = None) LeaseError
      (require (j_primary_state job = RUNNING) LeaseError
      (holder_only i ow e (env_clock E k) body)))) (\<lambda>_ _. False) any_error (s\<lparr>l_ticks := n\<rparr>)"
    if "l_ticks s \<le> k" for k n and body :: "supervisor_job \<Rightarrow> supervisor_job lact"
    using fail_holder_only[OF assms that, of body n] by (auto simp: wp_simps split: option.splits)
  then show ?thesis
    unfolding persist_resource_decision_def
    by (intro refused_require refused_clock refused_transaction) simp
qed

lemma refused_recovery:
  assumes "powerless E i ow e s"
  shows "refused (commit_recovery_decision E i ow e fc dec rs ne expected pid) s"
  unfolding commit_recovery_decision_def
  apply (intro refused_fetch_const refused_liftR refused_require refused_clock refused_transaction)
  using powerlessD[OF assms _ order_refl]
  by (auto simp: wp_simps split: option.splits)

lemma refused_wait:
  assumes "powerless E i ow e s"
  shows "refused (transition_to_waiting_external E i w ow e) s"
  unfolding transition_to_waiting_external_def
  apply (intro refused_require refused_clock refused_transaction)
  using powerlessD[OF assms _ order_refl]
  by (auto simp: wp_simps split: option.splits)

lemma refused_enqueue:
  assumes "powerless E i ow e s"
  shows "refused (enqueue_job E i qr pr ne wk ec code bump (Some ow) (Some e) False ref rc au) s"
proof -
  have "wp (transition_job i QUEUED st cols False True
      (no_cas\<lparr>cas_owner := Some ow, cas_epoch := Some e, cas_unexpired := True\<rparr>)
      (env_clock E (l_ticks s))) (\<lambda>_ _. False) any_error (s\<lparr>l_ticks := n\<rparr>)" for st cols n
    by (rule fail_transition[OF assms]) simp_all
  then show ?thesis
    unfolding enqueue_job_def Let_def
    by (intro refused_clock refused_transaction) (auto simp: wp_simps split: option.splits)
qed

lemmas refused_operations =
  refused_lease_ops refused_bind refused_metadata refused_persist refused_recovery refused_wait
  refused_enqueue

text \<open>C27: who does not hold the lease can do nothing as its holder: every command that presents a
  token which is not the current lease of the job (no such job, another owner, an older epoch, an
  expired lease) ends in an error and leaves every table as it was.\<close>

theorem stale_holder_refused:
  assumes "mono (env_clock E)" and "presents c = Some (i, ow, e)"
    and "fst (lease_is_current E i ow e s) = Inr False"
  shows "\<exists>err n. lease_exec E x c s = (Inl err, s\<lparr>l_ticks := n\<rparr>)"
proof -
  have "powerless E i ow e s"
    using assms(3) unexpired_antimono monoD[OF assms(1)]
    by (auto simp: powerless_def lease_is_current_eq held_by_def split: option.splits) blast
  then have "refused (lease_exec E x c) s"
    using assms(2)
    by (cases c rule: presents.cases) (auto intro!: refused_quietly refused_operations)
  then show ?thesis by (simp add: refused_def)
qed

theorem stale_holder_refused_witness:
  "fst (lease_is_current demo_env demo_job ''A'' 1
     (run_leases demo_env demo_outside handed_over demo_claimed)) = Inr False \<and>
   (\<exists>err n. lease_exec demo_env demo_outside (Renew_Lease demo_job ''A'' 1 60)
       (run_leases demo_env demo_outside handed_over demo_claimed) =
     (Inl err, (run_leases demo_env demo_outside handed_over demo_claimed)\<lparr>l_ticks := n\<rparr>))"
proof -
  have b: "fst (lease_is_current demo_env demo_job ''A'' 1
      (run_leases demo_env demo_outside handed_over demo_claimed)) = Inr False"
    by code_simp
  then show ?thesis
    using stale_holder_refused[OF mono_demo _ b, of "Renew_Lease demo_job ''A'' 1 60"] by simp
qed

section \<open>The life of a job\<close>

text \<open>C28: no job is ever lost, and its row only moves forward: whatever commands run, it keeps its
  task, its epoch and its facts version never decrease, a lease only passes to another owner with a
  larger epoch, DONE and FAILED are final, and BLOCKED is left only by an enqueue that the owner
  authorized.\<close>

theorem job_life:
  assumes "mono (env_clock E)" and "list_all (\<lambda>c. well_formed (snd c)) cs"
    and "get_supervisor_job i s = Some j"
  shows "\<exists>j'. get_supervisor_job i (run_leases E x cs s) = Some j' \<and> j_task_id j' = j_task_id j \<and>
     j_epoch j \<le> j_epoch j' \<and> j_facts_version j \<le> j_facts_version j' \<and>
     (j_owner j' = None \<or> j_owner j' = j_owner j \<or> j_epoch j < j_epoch j') \<and>
     (j_terminal j \<in> {Some ''DONE'', Some ''FAILED''} \<longrightarrow> j_terminal j' = j_terminal j) \<and>
     (j_terminal j = Some ''BLOCKED'' \<longrightarrow> j_terminal j' = Some ''BLOCKED'' \<or>
        list_ex (\<lambda>c. owner_reopens (snd c)) cs)"
proof -
  let ?reopen = "list_ex (\<lambda>c. owner_reopens (snd c)) cs"
  have "lease_rel E ?reopen (env_clock E (l_ticks s)) s (run_leases E x cs s)"
    using assms(2) by (intro run_leases_rel) (auto simp: list_all_iff list_ex_iff)
  moreover have "\<forall>k \<ge> l_ticks s. env_clock E (l_ticks s) \<le> env_clock E k"
    using assms(1) by (simp add: monoD)
  ultimately obtain j' where j': "get_supervisor_job i (run_leases E x cs s) = Some j'"
      "evolves ?reopen (env_clock E (l_ticks s)) j j'"
    using assms(3) lease_relD(2) by blast
  have "j_epoch j \<le> j_epoch j'" "j_owner j' = None \<or> j_owner j' = j_owner j \<or> j_epoch j < j_epoch j'"
    using j'(2) unfolding evolves_def by linarith+
  then show ?thesis using j' unfolding evolves_def by (intro exI[of _ j'] conjI) simp_all
qed

theorem job_life_witness:
  "map (\<lambda>j. (j_owner j, j_epoch j, j_terminal j)) (l_jobs (run_leases demo_env demo_outside
     (handed_over @ reclaimed) demo_claimed)) = [(Some ''B'', 2, None)] \<and>
   (\<exists>j'. get_supervisor_job demo_job (run_leases demo_env demo_outside
     (handed_over @ reclaimed) demo_claimed) = Some j' \<and> j_task_id j' = ''t'')"
proof -
  have a: "map_option j_task_id (get_supervisor_job demo_job demo_claimed) = Some ''t''"
    by code_simp
  then obtain j where j: "get_supervisor_job demo_job demo_claimed = Some j" "j_task_id j = ''t''"
    by auto
  have "list_all (\<lambda>c. well_formed (snd c)) (handed_over @ reclaimed)"
    by (simp add: handed_over_def reclaimed_def)
  from job_life[OF mono_demo this j(1), of demo_outside] j(2)
  have "\<exists>j'. get_supervisor_job demo_job (run_leases demo_env demo_outside
     (handed_over @ reclaimed) demo_claimed) = Some j' \<and> j_task_id j' = ''t''" by metis
  moreover have "map (\<lambda>j. (j_owner j, j_epoch j, j_terminal j)) (l_jobs (run_leases demo_env
     demo_outside (handed_over @ reclaimed) demo_claimed)) = [(Some ''B'', 2, None)]"
    by code_simp
  ultimately show ?thesis by simp
qed






end
