(* ===== verification/Lease_Ledgers.thy ===== *)
theory Lease_Ledgers
  imports Lease_Properties
begin

text \<open>
  What the rows with a revision, the consumed process events and the armed action fence guarantee
  over whole runs.
\<close>

section \<open>Requests to external systems\<close>

lemma terminal_request_edge:
  "st \<in> set TERMINAL_REQUEST_STATES \<Longrightarrow> \<not> request_edge st st'"
  by (auto simp: TERMINAL_REQUEST_STATES_def request_edge_def REQUEST_TRANSITIONS_def)

lemma terminal_request_path:
  "(request_edge ^^ n) st st' \<Longrightarrow> st \<in> set TERMINAL_REQUEST_STATES \<Longrightarrow> n = 0"
  using terminal_request_edge by (metis not0_implies_Suc relpowp_Suc_D2)

text \<open>C33: a request to an external system is about the same action for ever; its revision counts its
  transitions, each of them an edge of the closed map; and a request that succeeded, failed, was
  blocked or denied is never written again, by anyone.\<close>

theorem request_history:
  assumes "get_external_action_request i s = Some r"
  shows "\<exists>r'. get_external_action_request i (run_leases E x cs s) = Some r' \<and>
     request_subject r' = request_subject r \<and> rq_revision r \<le> rq_revision r' \<and>
     (request_edge ^^ nat (rq_revision r' - rq_revision r)) (rq_state r) (rq_state r') \<and>
     (rq_state r \<in> set TERMINAL_REQUEST_STATES \<longrightarrow> r' = r)"
proof -
  obtain r' where r': "get_external_action_request i (run_leases E x cs s) = Some r'" "request_life r r'"
    using ledgers.runR[of s E x cs] assms unfolding ledger_rel_def by blast
  have "r' = r" if "rq_state r \<in> set TERMINAL_REQUEST_STATES"
  proof -
    have "nat (rq_revision r' - rq_revision r) = 0"
      using r'(2) that by (intro terminal_request_path[of _ "rq_state r" "rq_state r'"])
        (simp_all add: request_life_def)
    with r'(2) show ?thesis by (simp add: request_life_def)
  qed
  with r' show ?thesis by (auto simp: request_life_def)
qed

definition demo_request :: external_request where
  "demo_request = \<lparr>rq_id = ''xr_1'', rq_provider = ''github'', rq_account = ''a'',
     rq_action = ''create_pull_request'', rq_policy_class = ''BOUNDED_WRITE'', rq_repository = ''r'',
     rq_resource_ref = ''x'', rq_source_job_id = demo_job, rq_source_candidate_id = ''c'',
     rq_scope = ''s'', rq_parameters = ''p'', rq_preconditions = None, rq_idempotency_key = ''k'',
     rq_provenance_version = 1, rq_provenance_hash = replicate 64 CHR ''0'', rq_state = ''PENDING'',
     rq_authorization = None, rq_revision = 0, rq_holder_owner = None, rq_holder_epoch = 0,
     rq_lock_name = None, rq_provider_state = None, rq_provider_object = None, rq_attempts = 0,
     rq_next_attempt = None, rq_failure_class = None, rq_error_code = None, rq_expires_at = None,
     rq_created_at = 0, rq_updated_at = 0\<rparr>"

definition demo_requested :: leases where
  "demo_requested = run_leases demo_env demo_outside [(None, Create_Request demo_request),
     (None, Move_Request ''xr_1'' ''PENDING'' ''DENIED'' 0 None None False [])] empty_leases"

theorem request_history_witness:
  "map (\<lambda>r. (rq_state r, rq_revision r)) (l_requests demo_requested) = [(''DENIED'', 1)] \<and>
   (\<exists>r. get_external_action_request ''xr_1'' (run_leases demo_env demo_outside
      [(None, Move_Request ''xr_1'' ''DENIED'' ''AUTHORIZED'' 1 None None False [])] demo_requested) =
      Some r \<and> rq_state r = ''DENIED'')"
proof -
  have a: "map (\<lambda>r. (rq_state r, rq_revision r)) (l_requests demo_requested) = [(''DENIED'', 1)]"
    "map_option rq_state (get_external_action_request ''xr_1'' demo_requested) = Some ''DENIED''"
    by code_simp+
  then obtain r where "get_external_action_request ''xr_1'' demo_requested = Some r"
      "rq_state r = ''DENIED''" by auto
  with request_history[OF this(1), of demo_env demo_outside
      "[(None, Move_Request ''xr_1'' ''DENIED'' ''AUTHORIZED'' 1 None None False [])]"] a(1)
  show ?thesis by (auto simp: TERMINAL_REQUEST_STATES_def)
qed

section \<open>One winner per revision\<close>

lemma transaction_Inr:
  assumes "transaction E m s = (Inr a, s')"
  obtains n where "l_ticks s \<le> n" "m (s\<lparr>l_ticks := n\<rparr>) = (Inr a, s')"
proof -
  have "wp (transaction E m) (\<lambda>b r. \<exists>n \<ge> l_ticks s. m (s\<lparr>l_ticks := n\<rparr>) = (Inr b, r)) any_error s"
    unfolding transaction_def wp_transact wp_andThen
    by (rule wp_mono[OF fence_ticks]) (auto simp: wp_def split: prod.splits sum.splits)
  then show thesis using that assms by (auto simp: wp_def)
qed





section \<open>One recovery per process event\<close>

text \<open>\<open>leaves P m\<close>: when \<open>m\<close> succeeds, \<open>P\<close> holds afterwards.\<close>

definition leaves :: "(leases \<Rightarrow> bool) \<Rightarrow> 'a lact \<Rightarrow> bool" where
  "leaves P m \<longleftrightarrow> (\<forall>s a s'. m s = (Inr a, s') \<longrightarrow> P s')"

lemma leavesD: "leaves P m \<Longrightarrow> m s = (Inr a, s') \<Longrightarrow> P s'"
  by (auto simp: leaves_def)

lemma leaves_bind: "(\<And>a. leaves P (k a)) \<Longrightarrow> leaves P (bindA m k)"
  unfolding leaves_def by (auto simp: bindA_def split: prod.splits sum.splits)

lemma leaves_transaction: "leaves P m \<Longrightarrow> leaves P (transaction E m)"
  unfolding leaves_def by (blast elim: transaction_Inr)

lemma leaves_guards:
  "(\<And>a. leaves P (k a)) \<Longrightarrow> leaves P (fetch f err k)"
  "leaves P m \<Longrightarrow> leaves P (require b err m)"
  "(\<And>a. leaves P (k a)) \<Longrightarrow> leaves P (liftR r k)"
  unfolding leaves_def fetch_def require_def liftR_def by (auto split: option.splits sum.splits)

lemma leaves_then:
  "leaves P m \<Longrightarrow> (\<And>s. P s \<Longrightarrow> wp k (\<lambda>_. P) any_error s) \<Longrightarrow> leaves P (andThen m k)"
  unfolding leaves_def andThen_def bindA_def
  by (auto split: prod.splits sum.splits) (metis wp_Inr)

lemma recovery_marked:
  assumes "commit_recovery_decision E i ow e fc dec rs ne expected (Some pid) s = (Inr j, s')"
  shows "(i, pid) \<in> set (l_markers s')"
proof -
  let ?P = "\<lambda>s. (i, pid) \<in> set (l_markers s)"
  have move: "wp (transition_job k ps st cols auth bump cas now) (\<lambda>_. ?P) any_error r"
    if "?P r" for k ps st cols auth bump cas now r
    using stepsD[OF ledgers.transition_jobR, of r k ps st cols auth bump cas now] that
    by (auto simp: wp_def ledger_rel_def split: prod.splits sum.splits)
  have "leaves ?P (consume_marker i (Some pid))"
    by (auto simp: leaves_def consume_marker_def look_def require_def put_def split: if_splits)
  then have "leaves ?P (commit_recovery_decision E i ow e fc dec rs ne expected (Some pid))"
    unfolding commit_recovery_decision_def
    by (intro leaves_then leaves_guards leaves_transaction leaves_bind)
       (auto simp: wp_fetch wp_prod intro: move split: option.splits prod.splits)
  then show ?thesis using assms by (rule leavesD)
qed

text \<open>C32: a terminal process event is consumed once: when the recovery of a job has been committed for
  a process, no supervisor can commit another one for the same job and process, ever; a repeated
  attempt is an error and changes nothing.\<close>

theorem recovery_exactly_once:
  assumes "commit_recovery_decision E i ow e fc dec rs ne expected (Some pid) s = (Inr j, s')"
  shows "\<exists>err n. commit_recovery_decision E i ow2 e2 fc2 dec2 rs2 ne2 expected2 (Some pid)
     (run_leases E x cs s') = (Inl err, (run_leases E x cs s')\<lparr>l_ticks := n\<rparr>)"
proof -
  let ?t = "run_leases E x cs s'"
  have "(i, pid) \<in> set (l_markers ?t)"
    using recovery_marked[OF assms] ledgers.runR[of s' E x cs] unfolding ledger_rel_def by blast
  then have "refused (commit_recovery_decision E i ow2 e2 fc2 dec2 rs2 ne2 expected2 (Some pid)) ?t"
    unfolding commit_recovery_decision_def consume_marker_def
    by (intro refused_fetch_const refused_liftR refused_require refused_clock refused_transaction)
       (auto simp: wp_simps split: option.splits)
  then show ?thesis by (simp add: refused_def)
qed

theorem recovery_exactly_once_witness:
  "j_queue_reason (projr (fst (commit_recovery_decision demo_env demo_job ''A'' 1 ''RESOURCE_TIMEOUT''
     ''RETRY_BOUNDED'' None None None (Some ''p'') demo_claimed))) = ''RETRY_BACKOFF'' \<and>
   (\<exists>err n. commit_recovery_decision demo_env demo_job ''A'' 1 ''RESOURCE_TIMEOUT'' ''RETRY_BOUNDED'' None None None
       (Some ''p'') (snd (commit_recovery_decision demo_env demo_job ''A'' 1 ''RESOURCE_TIMEOUT'' ''RETRY_BOUNDED''
         None None None (Some ''p'') demo_claimed)) =
     (Inl err, (snd (commit_recovery_decision demo_env demo_job ''A'' 1 ''RESOURCE_TIMEOUT'' ''RETRY_BOUNDED''
         None None None (Some ''p'') demo_claimed))\<lparr>l_ticks := n\<rparr>))"
proof -
  let ?m = "commit_recovery_decision demo_env demo_job ''A'' 1 ''RESOURCE_TIMEOUT'' ''RETRY_BOUNDED'' None None
    None (Some ''p'') demo_claimed"
  have "\<not> isl (fst ?m) \<and> j_queue_reason (projr (fst ?m)) = ''RETRY_BACKOFF''" by code_simp
  then obtain j where "?m = (Inr j, snd ?m)" "j_queue_reason (projr (fst ?m)) = ''RETRY_BACKOFF''"
    by (cases ?m; cases "fst ?m") auto
  with recovery_exactly_once[OF this(1), of _ _ _ _ _ _ _ demo_outside "[]"] show ?thesis by simp
qed

section \<open>The armed fence\<close>

definition stale_fence :: "env \<Rightarrow> leases \<Rightarrow> bool" where
  "stale_fence E s \<longleftrightarrow> (\<exists>i ow e v. l_fence s = Some (i, Some ow, e, v) \<and>
     (\<forall>k \<ge> l_ticks s. \<forall>j. get_supervisor_job i s = Some j \<longrightarrow>
        \<not> held_by ow e (env_clock E k) j \<or> j_facts_version j \<noteq> v))"

definition frozen :: "env \<Rightarrow> leases \<Rightarrow> leases \<Rightarrow> bool" where
  "frozen E s s' \<longleftrightarrow> (stale_fence E s \<longrightarrow> (\<exists>n \<ge> l_ticks s. s' = s\<lparr>l_ticks := n\<rparr>))"

lemma stale_fence_tick: "stale_fence E s \<Longrightarrow> l_ticks s \<le> n \<Longrightarrow> stale_fence E (s\<lparr>l_ticks := n\<rparr>)"
  unfolding stale_fence_def by (auto simp: get_supervisor_job_def)

lemma reflp_frozen: "reflp (frozen E)"
  by (rule reflpI) (auto simp: frozen_def intro: exI[of _ "l_ticks _"])

lemma transp_frozen: "transp (frozen E)"
proof (rule transpI)
  fix a b c assume ab: "frozen E a b" and bc: "frozen E b c"
  show "frozen E a c"
    unfolding frozen_def
  proof
    assume a: "stale_fence E a"
    then obtain n where n: "l_ticks a \<le> n" "b = a\<lparr>l_ticks := n\<rparr>" using ab by (auto simp: frozen_def)
    with a have "stale_fence E b" using stale_fence_tick by blast
    then obtain m where "l_ticks b \<le> m" "c = b\<lparr>l_ticks := m\<rparr>" using bc by (auto simp: frozen_def)
    with n show "\<exists>n \<ge> l_ticks a. c = a\<lparr>l_ticks := n\<rparr>" by (intro exI[of _ m]) simp
  qed
qed

lemma frozen_transaction: "steps (frozen E) (transaction E m)"
proof (rule stepsI)
  fix s :: leases
  show "frozen E s (snd (transaction E m s))"
    unfolding frozen_def
  proof
    assume s: "stale_fence E s"
    then obtain i ow e v where f: "l_fence s = Some (i, Some ow, e, v)"
        "\<forall>k \<ge> l_ticks s. \<forall>j. get_supervisor_job i s = Some j \<longrightarrow>
           \<not> held_by ow e (env_clock E k) j \<or> j_facts_version j \<noteq> v"
      unfolding stale_fence_def by blast
    have "wp (check_action_fence E) (\<lambda>_ _. False) (\<lambda>_ s'. l_ticks s \<le> l_ticks s') s"
      unfolding check_action_fence_def fence_action_def using f
      by (auto simp: wp_simps held_by_def unexpired_def split: option.splits)
    then have "wp (transaction E m) (\<lambda>_ s'. \<exists>n \<ge> l_ticks s. s' = s\<lparr>l_ticks := n\<rparr>)
        (\<lambda>_ s'. \<exists>n \<ge> l_ticks s. s' = s\<lparr>l_ticks := n\<rparr>) s"
      unfolding transaction_def wp_transact wp_andThen
      by (rule wp_mono) (auto simp: undone_def)
    then show "\<exists>n \<ge> l_ticks s. snd (transaction E m s) = s\<lparr>l_ticks := n\<rparr>" by (simp add: wp_snd)
  qed
qed

lemma frozen_clock: "steps (frozen E) (clock E)"
proof (rule stepsI)
  fix s :: leases
  have "\<exists>n \<ge> l_ticks s. s\<lparr>l_ticks := Suc (l_ticks s)\<rparr> = s\<lparr>l_ticks := n\<rparr>"
    by (intro exI[of _ "Suc (l_ticks s)"]) simp
  then show "frozen E s (snd (clock E s))" by (simp add: frozen_def clock_def)
qed

lemmas frozen_rules =
  frozen_transaction steps_bindA[OF transp_frozen] steps_andThen[OF transp_frozen]
  steps_ret[OF reflp_frozen] steps_require[OF reflp_frozen] steps_fetch[OF reflp_frozen]
  steps_liftR[OF reflp_frozen] steps_if steps_option frozen_clock

lemma frozen_exec: "steps (frozen E) (lease_exec E x c)"
  by (cases c)
     (simp_all only: lease_exec.simps quietly_def create_job_def project_job_def claim_job_def
        claim_next_job_def renew_lease_def release_lease_def clear_lease_def quarantine_lost_def
        quarantine_blocked_def quarantine_job_def recover_takeover_job_def bind_writer_worktree_def
        set_job_metadata_def try_acquire_action_lock_def release_action_lock_def
        reclaim_stale_action_lock_def enqueue_job_def persist_resource_decision_def
        commit_recovery_decision_def transition_to_waiting_external_def
        update_external_wait_fenced_def complete_wait_and_requeue_def cas_supervisor_instance_def
        update_supervisor_instance_def create_integration_candidate_def
        transition_integration_candidate_def transition_integration_candidate_authoritative_def
        create_external_action_request_def transition_external_action_request_def
        transition_external_action_request_authoritative_def authoritative_def Let_def;
      intro frozen_rules)+

text \<open>C31: the action fence.  While a supervisor carries out an action, its store has the token of the
  decision (owner, epoch, facts version) armed.  If another process has taken the job over, if the
  lease expired, or if the facts have moved on, then no command of that supervisor commits: each one
  fails or answers without a write, and every table is as before.\<close>

theorem armed_fence_blocks_stale_writes:
  assumes "mono (env_clock E)"
    and "get_supervisor_job i s = Some j"
    and "\<not> held_by ow e (env_clock E (l_ticks s)) j \<or> j_facts_version j \<noteq> v"
  shows "\<exists>n. snd (lease_step E x (Some (i, Some ow, e, v), c) s) =
     s\<lparr>l_ticks := n, l_fence := Some (i, Some ow, e, v)\<rparr>"
proof -
  let ?s = "s\<lparr>l_fence := Some (i, Some ow, e, v)\<rparr>"
  have "\<not> held_by ow e (env_clock E k) j \<or> j_facts_version j \<noteq> v" if "l_ticks s \<le> k" for k
    using assms(3) unexpired_antimono monoD[OF assms(1) that] by (auto simp: held_by_def)
  then have "stale_fence E ?s"
    using assms(2) by (auto simp: stale_fence_def get_supervisor_job_def)
  moreover have "frozen E ?s (snd (lease_exec E x c ?s))" using frozen_exec by (rule stepsD)
  ultimately obtain n where "snd (lease_exec E x c ?s) = ?s\<lparr>l_ticks := n\<rparr>"
    unfolding frozen_def by blast
  then show ?thesis by (intro exI[of _ n]) (simp add: lease_step_def)
qed

theorem armed_fence_blocks_stale_writes_witness:
  "\<exists>n. snd (lease_step demo_env demo_outside (Some (demo_job, Some ''A'', 1, 0), Acquire_Lock ''merge'' demo_job 1)
     demo_claimed) = demo_claimed\<lparr>l_ticks := n, l_fence := Some (demo_job, Some ''A'', 1, 0)\<rparr>"
proof -
  have "map_option j_facts_version (get_supervisor_job demo_job demo_claimed) = Some 1"
    by code_simp
  then obtain j where "get_supervisor_job demo_job demo_claimed = Some j" "j_facts_version j = 1"
    by auto
  then show ?thesis
    using armed_fence_blocks_stale_writes[OF mono_demo, of demo_job demo_claimed j "''A''" 1 0] by simp
qed

end
