(* ===== verification/Lease_Locks.thy ===== *)
theory Lease_Locks
  imports Lease_Ledgers
begin

text \<open>
  The named action locks, and the external waits: who holds a lock keeps it as long as its lease
  lasts, and a job enters and leaves a wait together with the wait's row.
\<close>

section \<open>Every other command leaves the locks alone\<close>

definition lock_holder :: "string \<Rightarrow> leases \<Rightarrow> (string \<times> int) option" where
  "lock_holder n s = map_option (\<lambda>lk. (lk_holder_job lk, lk_holder_epoch lk)) (find_lock n s)"











section \<open>A live holder is never displaced\<close>



lemma job_holds_ticks [simp]:
  "job_holds_current_lease i e now (s\<lparr>l_ticks := k\<rparr>) = job_holds_current_lease i e now s"
  by (simp add: job_holds_current_lease_def)

lemma find_lock_ticks [simp]: "find_lock n (s\<lparr>l_ticks := k\<rparr>) = find_lock n s"
  by (simp add: find_lock_def)


lemma quietly_snd [simp]: "snd (quietly m s) = snd (m s)"
  by (simp add: quietly_def bindA_def ret_def split: prod.splits sum.splits)








lemma lock_holder_ticks [simp]: "lock_holder n (s\<lparr>l_ticks := k\<rparr>) = lock_holder n s"
  by (simp add: lock_holder_def)








section \<open>Waits\<close>

lemma transition_keeps_finished:
  "finished_wait wid s \<Longrightarrow> wp (transition_job i ps st cols auth bump cas now)
     (\<lambda>_. finished_wait wid) any_error s"
  using stepsD[OF ledgers.transition_jobR, of s i ps st cols auth bump cas now]
  by (auto simp: wp_def ledger_rel_def split: prod.splits sum.splits)

lemma finishing_update:
  assumes "get_external_wait wid s = Some w"
  shows "wp (update_external_wait wid (wait_result_columns now ob ver pol ev))
     (\<lambda>_. finished_wait wid) any_error s"
proof -
  let ?cols = "wait_result_columns now ob ver pol ev"
  have cols: "?cols \<noteq> []" by (simp add: wait_result_columns_def)
  have "w_terminal_at (fold set_wait_column ?cols w) \<noteq> None"
    by (simp add: wait_result_columns_def split: option.splits)
  then show ?thesis
    using assms cols wait_columns_keep
    by (auto simp: update_external_wait_def update_waits_def wp_simps finished_wait_def
        get_external_wait_def find_row_update_rows split: option.splits dest: find_row_SomeD)
qed

lemma wp_transaction_any:
  "(\<And>r. wp m Q any_error r) \<Longrightarrow> wp (transaction E m) Q any_error s"
  unfolding transaction_def wp_transact wp_andThen by (rule wp_mono[OF fence_ticks]) simp_all

lemma completed_wait_finished:
  assumes "complete_wait_and_requeue E wid qr ec ob ver pol ev inst now_given s = (Inr (Some j), s')"
  shows "finished_wait wid s'"
proof -
  let ?Q = "\<lambda>r s. r \<noteq> None \<longrightarrow> finished_wait wid s"
  have body: "wp (look (instance_holds inst) (\<lambda>held.
       if \<not> held then ret None
       else look (get_external_wait wid) (\<lambda>wrow. case wrow of
         None \<Rightarrow> ret None
       | Some w \<Rightarrow>
           if w_terminal_at w \<noteq> None then ret None
           else fetch (get_supervisor_job (w_job_id w)) NotFound (\<lambda>j.
             if j_primary_state j \<noteq> WAITING_EXTERNAL then ret None
             else andThen (bindA (update_external_wait wid
                 (wait_result_columns now ob ver pol ev)) (\<lambda>_. ret ()))
              (bindA (transition_job (w_job_id w) QUEUED ''WAITING_RUN'' (cols w) False True
                cas now) (\<lambda>j'. ret (Some j'))))))) ?Q any_error r"
    for now r cols cas
  proof (cases "get_external_wait wid r")
    case None
    then show ?thesis by (simp add: wp_simps)
  next
    case (Some w)
    have "wp (update_external_wait wid (wait_result_columns now ob ver pol ev))
      (\<lambda>_. wp (transition_job i QUEUED ''WAITING_RUN'' cols False True cas now)
         (\<lambda>_. finished_wait wid) any_error) any_error r" for i cols
      by (rule wp_mono[OF finishing_update[OF Some]]) (simp_all add: transition_keeps_finished)
    then show ?thesis using Some by (simp add: wp_simps split: option.splits)
  qed
  have "wp (complete_wait_and_requeue E wid qr ec ob ver pol ev inst now_given) ?Q any_error s"
    unfolding complete_wait_and_requeue_def
    by (cases now_given; simp only: option.case wp_bindA wp_ret wp_statements)
       (rule wp_transaction_any, rule body)+
  with assms show ?thesis by (auto simp: wp_def)
qed

text \<open>a wait wakes its job exactly once.  When one supervisor has completed a wait and put its job
  back into the queue, no later completion of the same wait, by whichever supervisor and after
  whatever happened in between, requeues the job again or writes anything.\<close>

theorem wait_wakes_once:
  assumes "complete_wait_and_requeue E wid qr ec ob ver pol ev inst now_given s = (Inr (Some j), s')"
  shows "\<exists>r n. complete_wait_and_requeue E wid qr2 ec2 ob2 ver2 pol2 ev2 inst2 now2
       (run_leases E x cs s') = (r, (run_leases E x cs s')\<lparr>l_ticks := n\<rparr>) \<and>
     r \<notin> range (\<lambda>j2. Inr (Some j2))"
proof -
  let ?t = "run_leases E x cs s'"
  let ?Q = "\<lambda>s. \<exists>n. s = ?t\<lparr>l_ticks := n\<rparr>"
  have "finished_wait wid ?t"
    using completed_wait_finished[OF assms] ledgers.runR[of s' E x cs] unfolding ledger_rel_def by blast
  then obtain w where w: "get_external_wait wid ?t = Some w" "w_terminal_at w \<noteq> None"
    by (auto simp: finished_wait_def split: option.splits)
  have same: "?Q ?t" by (intro exI[of _ "l_ticks ?t"]) simp
  have fence: "wp (check_action_fence E) (\<lambda>_. ?Q) (\<lambda>_. ?Q) (?t\<lparr>l_ticks := k\<rparr>)" for k
    by (rule wp_mono[OF fence_ticks]) auto
  have "wp (complete_wait_and_requeue E wid qr2 ec2 ob2 ver2 pol2 ev2 inst2 now2)
      (\<lambda>r s. ?Q s \<and> r = None) (\<lambda>_. ?Q) ?t"
    unfolding complete_wait_and_requeue_def transaction_def
    using w same fence[of "l_ticks ?t"] fence[of "Suc (l_ticks ?t)"]
    by (cases now2) (auto simp: wp_simps undone_def get_external_wait_def split: option.splits
        elim!: wp_mono)
  then show ?thesis
    by (auto simp: wp_def split: prod.splits sum.splits)
qed

text \<open>A job that waits for CI.\<close>

definition demo_wait :: external_wait where
  "demo_wait = \<lparr>w_id = ''w'', w_job_id = demo_job, w_kind = ''CI'', w_provider = ''p'', w_ref = ''1'',
     w_expected_subject = None, w_observed_state = None, w_next_check = seconds 9, w_deadline = None,
     w_check_attempt = 0, w_event_version = 0, w_terminal_at = None, w_ci_policy = None,
     w_ci_evidence = None, w_created_at = seconds 0, w_updated_at = seconds 0\<rparr>"

definition demo_waiting :: leases where
  "demo_waiting = snd (lease_step demo_env demo_outside (None, Enter_Wait demo_job demo_wait ''A'' 1)
     demo_claimed)"

theorem wait_wakes_once_witness:
  "\<exists>j n. fst (complete_wait_and_requeue demo_env ''w'' ''WAIT_EVENT'' ''NONE'' None None None None None None
       demo_waiting) = Inr (Some j) \<and>
     snd (complete_wait_and_requeue demo_env ''w'' ''WAIT_EVENT'' ''NONE'' None None None None None None
       (snd (complete_wait_and_requeue demo_env ''w'' ''WAIT_EVENT'' ''NONE'' None None None None None None
          demo_waiting))) =
     (snd (complete_wait_and_requeue demo_env ''w'' ''WAIT_EVENT'' ''NONE'' None None None None None None
          demo_waiting))\<lparr>l_ticks := n\<rparr>"
proof -
  let ?m = "complete_wait_and_requeue demo_env ''w'' ''WAIT_EVENT'' ''NONE'' None None None None None None
    demo_waiting"
  have "\<not> isl (fst ?m) \<and> projr (fst ?m) \<noteq> None" by code_simp
  then obtain j where "?m = (Inr (Some j), snd ?m)"
    by (cases ?m; cases "fst ?m") auto
  from this wait_wakes_once[OF this, of "''WAIT_EVENT''" "''NONE''" None None None None None None
      demo_outside "[]"]
  show ?thesis by (metis fst_conv run_leases.simps(1) snd_conv)
qed

end
