(* ===== verification/Resource_Governor.thy ===== *)
theory Resource_Governor
  imports Text
begin

text \<open>
  \<open>argent_core/resource_policy.py\<close> and \<open>argent_core/resource_governor.py\<close>: the resource classes with
  their ceilings and the decision whether a job may start on this host, from a snapshot of the
  host (\<open>host_snapshot.py\<close>, of which the record and the resolution of a path's file system are
  modelled).  Sizes are bytes, floats are doubles, and a decision's \<open>timestamp\<close> falls back on the
  wall clock when the caller gives none.
\<close>

section \<open>The policy\<close>

definition mib :: "int \<Rightarrow> int" where
  "mib n = n * (1024 * 1024)"

definition gib :: "rat \<Rightarrow> int" where
  "gib n = float_int (float_mult n (of_int (1024 * (1024 * 1024))))"

datatype resource_class = RC_LIGHT | RC_MEDIUM | RC_HEAVY | RC_EXCLUSIVE

primrec resource_class_value :: "resource_class \<Rightarrow> string" where
  "resource_class_value RC_LIGHT = ''LIGHT''"
| "resource_class_value RC_MEDIUM = ''MEDIUM''"
| "resource_class_value RC_HEAVY = ''HEAVY''"
| "resource_class_value RC_EXCLUSIVE = ''EXCLUSIVE''"

definition resource_class_of_value :: "string \<Rightarrow> resource_class option" where
  "resource_class_of_value v =
     find (\<lambda>c. resource_class_value c = v) [RC_LIGHT, RC_MEDIUM, RC_HEAVY, RC_EXCLUSIVE]"

record resource_limits =
  rl_memory_high_bytes :: int
  rl_memory_max_bytes :: int
  rl_swap_max_bytes :: int
  rl_cpu_quota_percent :: int
  rl_timeout_seconds :: "int option"

record resource_policy =
  rpol_version :: string
  rpol_light_limits :: resource_limits
  rpol_medium_limits :: resource_limits
  rpol_heavy_limits :: resource_limits
  rpol_exclusive_limits :: resource_limits
  rpol_minimum_host_reserve_bytes :: int
  rpol_host_reserve_ram_ratio :: rat
  rpol_swap_warning_ratio :: rat
  rpol_swap_block_ratio :: rat
  rpol_minimum_disk_free_bytes :: int
  rpol_minimum_disk_free_ratio :: rat
  rpol_large_temp_factor :: rat
  rpol_tmp_forbidden_markers :: "string list"
  rpol_max_writers_global :: int
  rpol_max_light :: int
  rpol_max_medium :: int
  rpol_max_heavy :: int
  rpol_defer_retry_seconds :: int
  rpol_load_multiplier_5min :: rat

definition default_resource_policy :: resource_policy where
  "default_resource_policy =
     \<lparr>rpol_version = ''1'',
      rpol_light_limits = \<lparr>rl_memory_high_bytes = mib 768, rl_memory_max_bytes = gib 1,
        rl_swap_max_bytes = mib 256, rl_cpu_quota_percent = 100, rl_timeout_seconds = Some (15 * 60)\<rparr>,
      rpol_medium_limits = \<lparr>rl_memory_high_bytes = gib 2, rl_memory_max_bytes = gib (5 / 2),
        rl_swap_max_bytes = mib 512, rl_cpu_quota_percent = 200, rl_timeout_seconds = Some (45 * 60)\<rparr>,
      rpol_heavy_limits = \<lparr>rl_memory_high_bytes = gib 3, rl_memory_max_bytes = gib 4,
        rl_swap_max_bytes = gib 1, rl_cpu_quota_percent = 300, rl_timeout_seconds = Some (120 * 60)\<rparr>,
      rpol_exclusive_limits = \<lparr>rl_memory_high_bytes = gib (9 / 2), rl_memory_max_bytes = gib (11 / 2),
        rl_swap_max_bytes = gib (3 / 2), rl_cpu_quota_percent = 400, rl_timeout_seconds = None\<rparr>,
      rpol_minimum_host_reserve_bytes = gib (3 / 2),
      rpol_host_reserve_ram_ratio = double_of (1 / 5),
      rpol_swap_warning_ratio = double_of (7 / 10),
      rpol_swap_block_ratio = double_of (17 / 20),
      rpol_minimum_disk_free_bytes = gib 10,
      rpol_minimum_disk_free_ratio = double_of (3 / 20),
      rpol_large_temp_factor = 2,
      rpol_tmp_forbidden_markers = [''node_modules'', ''site-packages'', ''.venv'', ''venv'', ''env'',
        ''repo'', ''worktree'', ''build'', ''dist'', ''cache'', ''artifact'', ''store'', ''.pnpm-store'',
        ''.npm'', ''.cargo'', ''.yarn'', ''target''],
      rpol_max_writers_global = 1, rpol_max_light = 2, rpol_max_medium = 1, rpol_max_heavy = 1,
      rpol_defer_retry_seconds = 300,
      rpol_load_multiplier_5min = 3 / 2\<rparr>"

primrec limits_for :: "resource_policy \<Rightarrow> resource_class \<Rightarrow> resource_limits" where
  "limits_for pol RC_LIGHT = rpol_light_limits pol"
| "limits_for pol RC_MEDIUM = rpol_medium_limits pol"
| "limits_for pol RC_HEAVY = rpol_heavy_limits pol"
| "limits_for pol RC_EXCLUSIVE = rpol_exclusive_limits pol"

definition WRITER_CLASSES :: "string list" where
  "WRITER_CLASSES = map resource_class_value [RC_MEDIUM, RC_HEAVY, RC_EXCLUSIVE]"

definition is_writer_class :: "resource_class \<Rightarrow> bool" where
  "is_writer_class rc \<longleftrightarrow> resource_class_value rc \<in> set WRITER_CLASSES"

definition required_host_reserve :: "int \<Rightarrow> int \<Rightarrow> rat \<Rightarrow> int" where
  "required_host_reserve mem_total minimum_reserve ram_ratio =
     (if mem_total \<le> 0 then minimum_reserve
      else max minimum_reserve (float_int (float_mult ram_ratio (double_of (of_int mem_total)))))"

definition effective_memory_max :: "int \<Rightarrow> int \<Rightarrow> int \<Rightarrow> int" where
  "effective_memory_max class_memory_max mem_available reserve =
     max 0 (min class_memory_max (mem_available - reserve))"

section \<open>The snapshot\<close>

record host_snapshot =
  hs_mem_total_bytes :: "int option"
  hs_mem_available_bytes :: "int option"
  hs_swap_total_bytes :: "int option"
  hs_swap_free_bytes :: "int option"
  hs_root_free_bytes :: "int option"
  hs_root_free_ratio :: "rat option"
  hs_workspace_free_bytes :: "int option"
  hs_tmp_fs_type :: "string option"
  hs_load_5min :: "rat option"
  hs_cpu_count :: "int option"
  hs_active_jobs :: "(string \<times> string) list"
  hs_unknown_fields :: "string list"
  hs_snapshot_hash :: string

text \<open>\<open>_enclosing_fs_type\<close>: the mount point that encloses a path, the longest one; the first that is
  the path itself ends the search.\<close>

definition mount_norm :: "string \<Rightarrow> string" where
  "mount_norm p = (if rstrip_char CHR ''/'' p = [] then ''/'' else rstrip_char CHR ''/'' p)"

definition mount_encloses :: "string \<Rightarrow> string \<Rightarrow> bool" where
  "mount_encloses m npath \<longleftrightarrow>
     (if m = ''/'' then is_prefix_of ''/'' npath else is_prefix_of (m @ ''/'') npath)"

fun enclosing_scan ::
  "string \<Rightarrow> (string \<times> string) list \<Rightarrow> int \<Rightarrow> string option \<Rightarrow> string option" where
  "enclosing_scan npath [] best_len best = best"
| "enclosing_scan npath ((mp, fstype) # ms) best_len best =
     (let m = mount_norm mp in
      if m = npath then Some fstype
      else if mount_encloses m npath \<and> int (length m) > best_len
      then enclosing_scan npath ms (int (length m)) (Some fstype)
      else enclosing_scan npath ms best_len best)"

definition enclosing_fs_type :: "(string \<times> string) list \<Rightarrow> string \<Rightarrow> string option" where
  "enclosing_fs_type mounts path =
     (if path = [] then None else enclosing_scan (mount_norm path) mounts (- 1) None)"

section \<open>The decision\<close>

datatype admission_verdict = AV_ALLOW | AV_DEFER | AV_DENY_LOCAL | AV_PREFER_EXTERNAL

datatype resource_reason_code =
    RR_OK | RR_INSUFFICIENT_MEMORY_RESERVE | RR_SWAP_PRESSURE | RR_DISK_LOW
  | RR_TMPFS_POLICY_VIOLATION | RR_LOAD_PRESSURE | RR_CONCURRENCY_LIMIT
  | RR_RESOURCE_EVIDENCE_UNKNOWN | RR_LOCAL_CAPACITY_INSUFFICIENT | RR_EXTERNAL_CI_PREFERRED
  | RR_RESOURCE_ENFORCEMENT_UNAVAILABLE

primrec admission_verdict_value :: "admission_verdict \<Rightarrow> string" where
  "admission_verdict_value AV_ALLOW = ''ALLOW''"
| "admission_verdict_value AV_DEFER = ''DEFER''"
| "admission_verdict_value AV_DENY_LOCAL = ''DENY_LOCAL''"
| "admission_verdict_value AV_PREFER_EXTERNAL = ''PREFER_EXTERNAL''"

primrec resource_reason_value :: "resource_reason_code \<Rightarrow> string" where
  "resource_reason_value RR_OK = ''OK''"
| "resource_reason_value RR_INSUFFICIENT_MEMORY_RESERVE = ''INSUFFICIENT_MEMORY_RESERVE''"
| "resource_reason_value RR_SWAP_PRESSURE = ''SWAP_PRESSURE''"
| "resource_reason_value RR_DISK_LOW = ''DISK_LOW''"
| "resource_reason_value RR_TMPFS_POLICY_VIOLATION = ''TMPFS_POLICY_VIOLATION''"
| "resource_reason_value RR_LOAD_PRESSURE = ''LOAD_PRESSURE''"
| "resource_reason_value RR_CONCURRENCY_LIMIT = ''CONCURRENCY_LIMIT''"
| "resource_reason_value RR_RESOURCE_EVIDENCE_UNKNOWN = ''RESOURCE_EVIDENCE_UNKNOWN''"
| "resource_reason_value RR_LOCAL_CAPACITY_INSUFFICIENT = ''LOCAL_CAPACITY_INSUFFICIENT''"
| "resource_reason_value RR_EXTERNAL_CI_PREFERRED = ''EXTERNAL_CI_PREFERRED''"
| "resource_reason_value RR_RESOURCE_ENFORCEMENT_UNAVAILABLE = ''RESOURCE_ENFORCEMENT_UNAVAILABLE''"

record admission_decision =
  ad_resource_class :: string
  ad_policy_version :: string
  ad_snapshot_ref :: string
  ad_decision :: string
  ad_reason_code :: string
  ad_next_eligible_at :: "timestamp option"
  ad_effective_limits :: "resource_limits option" \<comment> \<open>\<open>None\<close> is the empty dict\<close>
  ad_timestamp :: timestamp

definition add_seconds_iso :: "timestamp \<Rightarrow> int \<Rightarrow> timestamp" where
  "add_seconds_iso now secs = (if secs \<le> 0 then now else now + secs * 1000000)"

definition is_tmp_path_forbidden :: "string \<Rightarrow> resource_policy \<Rightarrow> bool" where
  "is_tmp_path_forbidden path pol =
     (let npath = rstrip_char CHR ''/'' (replace_char CHR 0x5C CHR ''/'' (str_strip path)) in
      if npath = [] then False
      else if npath = ''/tmp'' \<or> is_prefix_of ''/tmp/'' npath
      then list_ex (\<lambda>part. str_lower part \<in> set (rpol_tmp_forbidden_markers pol))
             (split_at_char CHR ''/'' npath)
      else False)"

definition active_count :: "(string \<times> string) list \<Rightarrow> resource_class \<Rightarrow> int" where
  "active_count jobs rc = int (length (filter (\<lambda>j. snd j = resource_class_value rc) jobs))"

definition missing_if :: "bool \<Rightarrow> string \<Rightarrow> string list" where
  "missing_if b name = (if b then [name] else [])"

definition missing_critical :: "host_snapshot \<Rightarrow> resource_class \<Rightarrow> string list" where
  "missing_critical sn rc =
     missing_if (hs_mem_total_bytes sn = None) ''mem_total_bytes'' @
     missing_if (hs_mem_available_bytes sn = None) ''mem_available_bytes'' @
     missing_if (hs_swap_total_bytes sn = None) ''swap_total_bytes'' @
     missing_if (hs_swap_free_bytes sn = None) ''swap_free_bytes'' @
     missing_if (hs_root_free_bytes sn = None) ''root_free'' @
     missing_if (hs_tmp_fs_type sn = None) ''tmp_fs_type'' @
     missing_if (''active_jobs'' \<in> set (hs_unknown_fields sn)) ''active_jobs'' @
     (if rc \<in> {RC_MEDIUM, RC_HEAVY, RC_EXCLUSIVE}
      then missing_if (hs_load_5min sn = None) ''load'' @
           missing_if (hs_cpu_count sn = None) ''cpu_count''
      else [])"

text \<open>The ceilings of the active jobs; a class that cannot be parsed is skipped.\<close>

definition active_reserved_bytes :: "(string \<times> string) list \<Rightarrow> resource_policy \<Rightarrow> int" where
  "active_reserved_bytes jobs pol =
     sum_list (map (\<lambda>j. case resource_class_of_value (snd j) of
        None \<Rightarrow> 0 | Some rc \<Rightarrow> rl_memory_max_bytes (limits_for pol rc)) jobs)"

definition effective_limits ::
  "resource_policy \<Rightarrow> resource_class \<Rightarrow> host_snapshot \<Rightarrow> int \<Rightarrow> resource_limits" where
  "effective_limits pol rc sn reserve =
     (limits_for pol rc)\<lparr>rl_memory_max_bytes :=
        (case hs_mem_available_bytes sn of
           None \<Rightarrow> rl_memory_max_bytes (limits_for pol rc)
         | Some avail \<Rightarrow> effective_memory_max (rl_memory_max_bytes (limits_for pol rc)) avail reserve)\<rparr>"

text \<open>Step 2, the slots: an exclusive job needs an idle host and keeps everybody out, writers and
  light jobs have their own limits.\<close>

definition writer_active :: "(string \<times> string) list \<Rightarrow> int" where
  "writer_active jobs =
     active_count jobs RC_MEDIUM + active_count jobs RC_HEAVY + active_count jobs RC_EXCLUSIVE"

definition slot_full :: "resource_policy \<Rightarrow> resource_class \<Rightarrow> (string \<times> string) list \<Rightarrow> bool" where
  "slot_full pol rc jobs \<longleftrightarrow>
     (rc = RC_EXCLUSIVE \<and> writer_active jobs + active_count jobs RC_LIGHT > 0) \<or>
     active_count jobs RC_EXCLUSIVE > 0 \<or>
     (is_writer_class rc \<and> writer_active jobs \<ge> rpol_max_writers_global pol) \<or>
     (rc = RC_LIGHT \<and> active_count jobs RC_LIGHT \<ge> rpol_max_light pol)"

text \<open>Step 3, the swap.\<close>

definition swap_ratio :: "host_snapshot \<Rightarrow> rat option" where
  "swap_ratio sn = (case hs_swap_total_bytes sn of
     None \<Rightarrow> None
   | Some all \<Rightarrow>
       if all > 0
       then Some (float_div (of_int (all - (case hs_swap_free_bytes sn of None \<Rightarrow> 0 | Some f \<Rightarrow> f)))
                   (of_int all))
       else None)"

definition swap_pressure :: "resource_policy \<Rightarrow> resource_class \<Rightarrow> host_snapshot \<Rightarrow> bool" where
  "swap_pressure pol rc sn \<longleftrightarrow> (case swap_ratio sn of
     None \<Rightarrow> False
   | Some r \<Rightarrow> (r \<ge> rpol_swap_block_ratio pol \<and> is_writer_class rc) \<or>
       (r \<ge> rpol_swap_warning_ratio pol \<and> rc \<in> {RC_MEDIUM, RC_HEAVY, RC_EXCLUSIVE}))"

text \<open>Step 4, the disk.\<close>

definition disk_low :: "resource_policy \<Rightarrow> host_snapshot \<Rightarrow> int option \<Rightarrow> bool" where
  "disk_low pol sn estimated_temp \<longleftrightarrow>
     (case hs_root_free_bytes sn of
        None \<Rightarrow> False
      | Some free \<Rightarrow> free < rpol_minimum_disk_free_bytes pol \<or>
          (case hs_root_free_ratio sn of
             None \<Rightarrow> False | Some r \<Rightarrow> r < rpol_minimum_disk_free_ratio pol)) \<or>
     (case estimated_temp of
        None \<Rightarrow> False
      | Some temp \<Rightarrow> (case hs_workspace_free_bytes sn of
          None \<Rightarrow> False
        | Some free \<Rightarrow>
            free < float_int (float_mult (double_of (of_int temp)) (rpol_large_temp_factor pol))))"

definition host_reserve :: "resource_policy \<Rightarrow> host_snapshot \<Rightarrow> int" where
  "host_reserve pol sn = required_host_reserve
     (case hs_mem_total_bytes sn of None \<Rightarrow> 0 | Some t \<Rightarrow> t)
     (rpol_minimum_host_reserve_bytes pol) (rpol_host_reserve_ram_ratio pol)"

text \<open>Step 6, the memory, and step 7, the load.\<close>

definition memory_short :: "resource_policy \<Rightarrow> resource_class \<Rightarrow> host_snapshot \<Rightarrow> bool" where
  "memory_short pol rc sn \<longleftrightarrow> (case hs_mem_available_bytes sn of
     None \<Rightarrow> False
   | Some avail \<Rightarrow> avail - active_reserved_bytes (hs_active_jobs sn) pol -
       rl_memory_max_bytes (limits_for pol rc) < host_reserve pol sn)"

definition load_pressure :: "resource_policy \<Rightarrow> resource_class \<Rightarrow> host_snapshot \<Rightarrow> bool" where
  "load_pressure pol rc sn \<longleftrightarrow> rc \<in> {RC_MEDIUM, RC_HEAVY, RC_EXCLUSIVE} \<and>
     (case (hs_load_5min sn, hs_cpu_count sn) of
        (Some load, Some cpus) \<Rightarrow>
          cpus > 0 \<and> load > float_mult (double_of (of_int cpus)) (rpol_load_multiplier_5min pol)
      | _ \<Rightarrow> False)"

definition governor_decide ::
  "resource_class \<Rightarrow> host_snapshot \<Rightarrow> resource_policy \<Rightarrow> timestamp option \<Rightarrow> timestamp \<Rightarrow> bool \<Rightarrow>
   int option \<Rightarrow> string list \<Rightarrow> admission_decision" where
  "governor_decide rc sn pol now wall prefer_external estimated_temp tmp_paths =
     (let at_time = (case now of None \<Rightarrow> wall | Some t \<Rightarrow> t);
          answer = (\<lambda>v r later lim.
            \<lparr>ad_resource_class = resource_class_value rc, ad_policy_version = rpol_version pol,
             ad_snapshot_ref = hs_snapshot_hash sn, ad_decision = admission_verdict_value v,
             ad_reason_code = resource_reason_value r,
             ad_next_eligible_at =
               (if later then Some (add_seconds_iso at_time (rpol_defer_retry_seconds pol)) else None),
             ad_effective_limits = lim, ad_timestamp = at_time\<rparr>);
          reserve = host_reserve pol sn in
      if missing_critical sn rc \<noteq> []
      then if rc \<in> {RC_MEDIUM, RC_HEAVY, RC_EXCLUSIVE}
           then answer AV_DENY_LOCAL RR_RESOURCE_EVIDENCE_UNKNOWN False None
           else answer AV_DEFER RR_RESOURCE_EVIDENCE_UNKNOWN True None
      else if slot_full pol rc (hs_active_jobs sn)
      then answer AV_DEFER RR_CONCURRENCY_LIMIT True None
      else if swap_pressure pol rc sn
      then answer AV_DEFER RR_SWAP_PRESSURE True None
      else if disk_low pol sn estimated_temp
      then answer AV_DENY_LOCAL RR_DISK_LOW False None
      else if hs_tmp_fs_type sn = Some ''tmpfs'' \<and> list_ex (\<lambda>p. is_tmp_path_forbidden p pol) tmp_paths
      then answer AV_DENY_LOCAL RR_TMPFS_POLICY_VIOLATION False None
      else if memory_short pol rc sn
      then answer AV_DEFER RR_INSUFFICIENT_MEMORY_RESERVE True None
      else if load_pressure pol rc sn
      then answer AV_DEFER RR_LOAD_PRESSURE True None
      else if prefer_external
      then answer AV_PREFER_EXTERNAL RR_EXTERNAL_CI_PREFERRED False
             (Some (effective_limits pol rc sn reserve))
      else answer AV_ALLOW RR_OK False (Some (effective_limits pol rc sn reserve)))"

text \<open>\<open>ResourceGovernor.decide\<close>: an unknown class is a \<open>ValueError\<close>, never guessed.\<close>

definition governor_admission ::
  "string \<Rightarrow> host_snapshot \<Rightarrow> resource_policy \<Rightarrow> timestamp option \<Rightarrow> timestamp \<Rightarrow> bool \<Rightarrow>
   int option \<Rightarrow> string list \<Rightarrow> argent_error + admission_decision" where
  "governor_admission cls sn pol now wall prefer_external estimated_temp tmp_paths =
     (case resource_class_of_value cls of
        None \<Rightarrow> Inl ValueError
      | Some rc \<Rightarrow> Inr (governor_decide rc sn pol now wall prefer_external estimated_temp tmp_paths))"

section \<open>What is admitted\<close>




lemma resource_class_value_inject [simp]: "resource_class_value a = resource_class_value b \<longleftrightarrow> a = b"
  by (cases a; cases b) simp_all

lemma resource_class_of_value_value [simp]: "resource_class_of_value (resource_class_value rc) = Some rc"
  by (cases rc) (simp_all add: resource_class_of_value_def)

lemma known_classes [simp]:
  "resource_class_of_value ''LIGHT'' = Some RC_LIGHT"
  "resource_class_of_value ''EXCLUSIVE'' = Some RC_EXCLUSIVE"
  by (simp_all add: resource_class_of_value_def)
















lemma minimum_reserve: "rpol_minimum_host_reserve_bytes pol \<le> host_reserve pol sn"
  by (simp add: host_reserve_def required_host_reserve_def)


text \<open>The numbers of the default policy.\<close>

lemma sizes: "gib 1 = 1073741824" "gib 2 = 2147483648" "gib (5 / 2) = 2684354560" "gib 3 = 3221225472"
  "gib 4 = 4294967296" "gib (9 / 2) = 4831838208" "gib (11 / 2) = 5905580032" "gib (3 / 2) = 1610612736"
  "gib 10 = 10737418240"
  by code_simp+

lemma ratios: "double_of (1 / 5) = 3602879701896397 / 18014398509481984"
  "double_of (7 / 10) = 3152519739159347 / 4503599627370496"
  "double_of (17 / 20) = 7656119366529843 / 9007199254740992"
  "double_of (3 / 20) = 5404319552844595 / 36028797018963968"
  by code_simp+

lemmas default_policy_code [code] = default_resource_policy_def[unfolded sizes ratios]




end
