(* ===== verification/Concurrency.thy ===== *)
theory Concurrency
  imports Resource_Governor
begin

text \<open>
  \<open>argent_core/concurrency_policy.py\<close>: whether a job may run beside the jobs that are running, from
  what each of them is going to change.  Paths are compared by their text, the file system is never
  asked.  The free text \<open>detail\<close> of a decision is left out.
\<close>

section \<open>Footprints and facts\<close>

datatype concurrency_verdict = CV_ALLOW_PARALLEL | CV_SERIALIZE | CV_DEFER | CV_BLOCK

primrec concurrency_verdict_value :: "concurrency_verdict \<Rightarrow> string" where
  "concurrency_verdict_value CV_ALLOW_PARALLEL = ''ALLOW_PARALLEL''"
| "concurrency_verdict_value CV_SERIALIZE = ''SERIALIZE''"
| "concurrency_verdict_value CV_DEFER = ''DEFER''"
| "concurrency_verdict_value CV_BLOCK = ''BLOCK''"

datatype concurrency_reason =
    CR_READONLY_SAFE | CR_DISTINCT_WORKTREE | CR_DISTINCT_REPO | CR_WORKTREE_CONFLICT
  | CR_REPO_OVERLAP | CR_UNKNOWN_OVERLAP | CR_DEPENDENCY_NOT_MET | CR_DEPENDENCY_UNKNOWN
  | CR_ACTION_GLOBAL_SERIALIZE | CR_WRITER_SLOT_FULL | CR_HEAVY_ALONE | CR_EXCLUSIVE_ALONE
  | CR_LIGHT_SLOT_FULL | CR_RESOURCE_RESERVE

primrec concurrency_reason_value :: "concurrency_reason \<Rightarrow> string" where
  "concurrency_reason_value CR_READONLY_SAFE = ''READONLY_SAFE''"
| "concurrency_reason_value CR_DISTINCT_WORKTREE = ''DISTINCT_WORKTREE''"
| "concurrency_reason_value CR_DISTINCT_REPO = ''DISTINCT_REPO''"
| "concurrency_reason_value CR_WORKTREE_CONFLICT = ''WORKTREE_CONFLICT''"
| "concurrency_reason_value CR_REPO_OVERLAP = ''REPO_OVERLAP''"
| "concurrency_reason_value CR_UNKNOWN_OVERLAP = ''UNKNOWN_OVERLAP''"
| "concurrency_reason_value CR_DEPENDENCY_NOT_MET = ''DEPENDENCY_NOT_MET''"
| "concurrency_reason_value CR_DEPENDENCY_UNKNOWN = ''DEPENDENCY_UNKNOWN''"
| "concurrency_reason_value CR_ACTION_GLOBAL_SERIALIZE = ''ACTION_GLOBAL_SERIALIZE''"
| "concurrency_reason_value CR_WRITER_SLOT_FULL = ''WRITER_SLOT_FULL''"
| "concurrency_reason_value CR_HEAVY_ALONE = ''HEAVY_ALONE''"
| "concurrency_reason_value CR_EXCLUSIVE_ALONE = ''EXCLUSIVE_ALONE''"
| "concurrency_reason_value CR_LIGHT_SLOT_FULL = ''LIGHT_SLOT_FULL''"
| "concurrency_reason_value CR_RESOURCE_RESERVE = ''RESOURCE_RESERVE''"

definition DEPENDENCY_SATISFIED_TERMINALS :: "string list" where
  "DEPENDENCY_SATISFIED_TERMINALS = [''DONE'']"

definition READONLY_ROLES :: "string list" where
  "READONLY_ROLES = [''lead'', ''analyst'', ''reviewer'']"

definition WRITE_ROLES :: "string list" where
  "WRITE_ROLES = [''implementer'', ''qa'']"

definition DEPENDENCY_MISSING :: string where
  "DEPENDENCY_MISSING = ''MISSING''"

record footprint =
  fp_repo_identity :: "string option"
  fp_worktree_path :: "string option"
  fp_branch_identity :: "string option"
  fp_path_roots :: "string list"
  fp_modules :: "string list"
  fp_external_action_class :: "string option"
  fp_integration_target :: "string option"

record job_facts =
  jf_job_id :: string
  jf_role :: "string option"
  jf_resource_class :: string
  jf_footprint :: footprint
  jf_depends_on :: "string option"
  jf_dependency_terminal :: "string option"
  jf_action_class :: "string option"

definition is_writer :: "job_facts \<Rightarrow> bool" where
  "is_writer f \<longleftrightarrow>
     (if jf_role f \<in> Some ` set WRITE_ROLES then True
      else (case resource_class_of_value (jf_resource_class f) of
        None \<Rightarrow> False | Some rc \<Rightarrow> is_writer_class rc))"

definition is_readonly :: "job_facts \<Rightarrow> bool" where
  "is_readonly f \<longleftrightarrow> (if is_writer f then False else jf_role f \<in> Some ` set READONLY_ROLES)"

record concurrency_decision =
  cd_verdict :: string
  cd_reason_code :: string
  cd_conflict_job_id :: "string option"

definition concurrency_answer ::
  "concurrency_verdict \<Rightarrow> concurrency_reason \<Rightarrow> string option \<Rightarrow> concurrency_decision" where
  "concurrency_answer v r conflict = \<lparr>cd_verdict = concurrency_verdict_value v,
     cd_reason_code = concurrency_reason_value r, cd_conflict_job_id = conflict\<rparr>"

section \<open>Paths\<close>

text \<open>\<open>_norm_rel\<close>: the loop over the segments; the parts are kept in reverse.\<close>

fun norm_segments :: "string list \<Rightarrow> string list \<Rightarrow> string list" where
  "norm_segments [] parts = rev parts"
| "norm_segments (seg # segs) parts =
     (if seg \<in> {'''', ''.''} then norm_segments segs parts
      else if seg = ''..'' then norm_segments segs (if parts = [] then [] else tl parts)
      else norm_segments segs (seg # parts))"

definition norm_rel :: "string \<Rightarrow> string" where
  "norm_rel path = (let p = str_strip (replace_char CHR 0x5C CHR ''/'' path) in
     rstrip_char CHR ''/'' (join_with ''/'' (norm_segments (split_at_char CHR ''/'' p) [])))"

text \<open>\<open>_validate_rel_root\<close>: \<open>None\<close> when a segment leaves the repository.\<close>

fun root_segments :: "string list \<Rightarrow> string list \<Rightarrow> string list option" where
  "root_segments [] out = Some (rev out)"
| "root_segments (seg # segs) out =
     (if seg \<in> {'''', ''.''} then root_segments segs out
      else if seg = ''..'' then (if out = [] then None else root_segments segs (tl out))
      else root_segments segs (seg # out))"

definition drive_letter :: "string \<Rightarrow> bool" where
  "drive_letter raw \<longleftrightarrow> (case raw of a # b # rest \<Rightarrow> is_alpha a \<and> b = CHR '':'' | _ \<Rightarrow> False)"

definition validate_rel_root :: "string \<Rightarrow> argent_error + string" where
  "validate_rel_root path = (let raw = str_strip path in
     if raw = [] then Inl ValueError
     else if is_prefix_of ''/'' raw \<or> is_prefix_of [CHR 0x5C] raw then Inl ValueError
     else if drive_letter raw then Inl ValueError
     else (case root_segments (split_at_char CHR ''/'' (replace_char CHR 0x5C CHR ''/'' raw)) [] of
         None \<Rightarrow> Inl ValueError
       | Some out \<Rightarrow>
           (let npath = join_with ''/'' out in
            if npath = [] then Inl ValueError
            else if npath = ''..'' \<or> is_prefix_of ''../'' npath then Inl ValueError
            else Inr npath)))"

definition is_prefix_path :: "string \<Rightarrow> string \<Rightarrow> bool" where
  "is_prefix_path pre path \<longleftrightarrow>
     (if pre = [] then False else if pre = path then True else is_prefix_of (pre @ ''/'') path)"

text \<open>The roots are compared in pairs; the code drops duplicates and empty roots first.\<close>

definition path_roots_conflict :: "string list \<Rightarrow> string list \<Rightarrow> bool" where
  "path_roots_conflict roots_a roots_b =
     (let ra = removeAll [] (remdups (map norm_rel roots_a));
          rb = removeAll [] (remdups (map norm_rel roots_b)) in
      list_ex (\<lambda>a. list_ex (\<lambda>b. is_prefix_path a b \<or> is_prefix_path b a) rb) ra)"

section \<open>Overlap\<close>

datatype overlap = FP_OVERLAP | FP_DISJOINT | FP_UNKNOWN

definition nonempty :: "string option \<Rightarrow> bool" where
  "nonempty s \<longleftrightarrow> s \<noteq> None \<and> s \<noteq> Some []"

definition footprint_overlap :: "footprint \<Rightarrow> footprint \<Rightarrow> overlap" where
  "footprint_overlap a b =
     (if \<not> nonempty (fp_repo_identity a) \<or> \<not> nonempty (fp_repo_identity b) then FP_UNKNOWN
      else if fp_repo_identity a \<noteq> fp_repo_identity b then FP_DISJOINT
      else if nonempty (fp_branch_identity a) \<and> nonempty (fp_branch_identity b) \<and>
        fp_branch_identity a = fp_branch_identity b then FP_OVERLAP
      else if nonempty (fp_integration_target a) \<and> nonempty (fp_integration_target b) \<and>
        fp_integration_target a = fp_integration_target b then FP_OVERLAP
      else if fp_path_roots a = [] \<or> fp_path_roots b = [] then FP_UNKNOWN
      else if path_roots_conflict (fp_path_roots a) (fp_path_roots b) then FP_OVERLAP
      else FP_DISJOINT)"

section \<open>The decision\<close>

definition same_repo :: "job_facts \<Rightarrow> job_facts \<Rightarrow> bool" where
  "same_repo active candidate \<longleftrightarrow> fp_repo_identity (jf_footprint active) \<noteq> None \<and>
     fp_repo_identity (jf_footprint active) = fp_repo_identity (jf_footprint candidate)"

text \<open>The dependency gate.\<close>

definition dependency_gate :: "job_facts \<Rightarrow> concurrency_decision option" where
  "dependency_gate candidate = (case jf_depends_on candidate of
     None \<Rightarrow> None
   | Some dep \<Rightarrow>
       if jf_dependency_terminal candidate = Some DEPENDENCY_MISSING
       then Some (concurrency_answer CV_BLOCK CR_DEPENDENCY_UNKNOWN None)
       else if jf_dependency_terminal candidate \<notin> Some ` set DEPENDENCY_SATISFIED_TERMINALS
       then Some (concurrency_answer CV_DEFER CR_DEPENDENCY_NOT_MET None)
       else None)"

text \<open>The first active job that a global action of the candidate, or one of its own, keeps apart
  from the candidate.\<close>

definition action_conflict :: "job_facts \<Rightarrow> job_facts list \<Rightarrow> job_facts option" where
  "action_conflict candidate active =
     (case (if jf_action_class candidate = Some ''GLOBAL''
            then (case active of [] \<Rightarrow> None | a # as \<Rightarrow> Some a)
            else if jf_action_class candidate = Some ''REPO_GLOBAL''
            then find (\<lambda>a. same_repo a candidate) active
            else None) of
        Some a \<Rightarrow> Some a
      | None \<Rightarrow> find (\<lambda>a. jf_action_class a = Some ''GLOBAL'' \<or>
          (jf_action_class a = Some ''REPO_GLOBAL'' \<and> same_repo a candidate)) active)"

text \<open>The loop over the active writers, for a candidate that writes.\<close>

fun writer_conflict :: "job_facts \<Rightarrow> job_facts list \<Rightarrow> concurrency_decision option" where
  "writer_conflict candidate [] = None"
| "writer_conflict candidate (a # active) =
     (if \<not> is_writer a then writer_conflict candidate active
      else if nonempty (fp_worktree_path (jf_footprint candidate)) \<and>
        nonempty (fp_worktree_path (jf_footprint a)) \<and>
        fp_worktree_path (jf_footprint candidate) = fp_worktree_path (jf_footprint a)
      then Some (concurrency_answer CV_SERIALIZE CR_WORKTREE_CONFLICT (Some (jf_job_id a)))
      else (case footprint_overlap (jf_footprint candidate) (jf_footprint a) of
         FP_OVERLAP \<Rightarrow> Some (concurrency_answer CV_SERIALIZE CR_REPO_OVERLAP (Some (jf_job_id a)))
       | FP_UNKNOWN \<Rightarrow> Some (concurrency_answer CV_SERIALIZE CR_UNKNOWN_OVERLAP (Some (jf_job_id a)))
       | FP_DISJOINT \<Rightarrow> writer_conflict candidate active))"

definition in_other_repo :: "job_facts \<Rightarrow> job_facts \<Rightarrow> bool" where
  "in_other_repo candidate a \<longleftrightarrow> fp_repo_identity (jf_footprint candidate) \<noteq> None \<and>
     fp_repo_identity (jf_footprint a) \<noteq> None \<and>
     fp_repo_identity (jf_footprint candidate) \<noteq> fp_repo_identity (jf_footprint a)"

definition decide_concurrency :: "job_facts \<Rightarrow> job_facts list \<Rightarrow> concurrency_decision" where
  "decide_concurrency candidate active =
     (case dependency_gate candidate of
        Some d \<Rightarrow> d
      | None \<Rightarrow> (case action_conflict candidate active of
          Some a \<Rightarrow> concurrency_answer CV_SERIALIZE CR_ACTION_GLOBAL_SERIALIZE (Some (jf_job_id a))
        | None \<Rightarrow>
            if is_writer candidate
            then (case writer_conflict candidate active of
                Some d \<Rightarrow> d
              | None \<Rightarrow>
                  if list_ex (\<lambda>a. is_writer a \<and> in_other_repo candidate a) active
                  then concurrency_answer CV_ALLOW_PARALLEL CR_DISTINCT_REPO None
                  else concurrency_answer CV_ALLOW_PARALLEL CR_DISTINCT_WORKTREE None)
            else concurrency_answer CV_ALLOW_PARALLEL CR_READONLY_SAFE None))"

section \<open>Storing a footprint\<close>

definition MAX_PATH_ROOTS :: nat where "MAX_PATH_ROOTS = 64"
definition MAX_MODULES :: nat where "MAX_MODULES = 64"
definition MAX_ROOT_LEN :: nat where "MAX_ROOT_LEN = 512"
definition MAX_MODULE_LEN :: nat where "MAX_MODULE_LEN = 256"

fun footprint_roots :: "py list \<Rightarrow> argent_error + py list" where
  "footprint_roots [] = Inr []"
| "footprint_roots (r # rs) = (case r of
     PStr s \<Rightarrow>
       if str_strip s = [] then Inl ValueError
       else (case validate_rel_root s of
           Inl err \<Rightarrow> Inl err
         | Inr npath \<Rightarrow>
             if length npath > MAX_ROOT_LEN then Inl ValueError
             else (case footprint_roots rs of Inl err \<Rightarrow> Inl err | Inr out \<Rightarrow> Inr (PStr npath # out)))
   | _ \<Rightarrow> Inl ValueError)"

definition serialize_footprint_paths :: "env \<Rightarrow> py \<Rightarrow> argent_error + string option" where
  "serialize_footprint_paths E roots = (case roots of
     PNone \<Rightarrow> Inr None
   | PList rs \<Rightarrow>
       if length rs > MAX_PATH_ROOTS then Inl ValueError
       else (case footprint_roots rs of
           Inl err \<Rightarrow> Inl err | Inr out \<Rightarrow> Inr (Some (env_dumps E (PList out))))
   | _ \<Rightarrow> Inl ValueError)"

fun footprint_modules :: "py list \<Rightarrow> argent_error + py list" where
  "footprint_modules [] = Inr []"
| "footprint_modules (m # ms) = (case m of
     PStr s \<Rightarrow>
       if str_strip s = [] then Inl ValueError
       else if length s > MAX_MODULE_LEN then Inl ValueError
       else (case footprint_modules ms of Inl err \<Rightarrow> Inl err | Inr out \<Rightarrow> Inr (PStr (str_strip s) # out))
   | _ \<Rightarrow> Inl ValueError)"

definition serialize_footprint_modules :: "env \<Rightarrow> py \<Rightarrow> argent_error + string option" where
  "serialize_footprint_modules E modules = (case modules of
     PNone \<Rightarrow> Inr None
   | PList ms \<Rightarrow>
       if length ms > MAX_MODULES then Inl ValueError
       else (case footprint_modules ms of
           Inl err \<Rightarrow> Inl err | Inr out \<Rightarrow> Inr (Some (env_dumps E (PList out))))
   | _ \<Rightarrow> Inl ValueError)"

definition parse_footprint_list :: "env \<Rightarrow> string option \<Rightarrow> string list" where
  "parse_footprint_list E raw = (case raw of
     None \<Rightarrow> []
   | Some text \<Rightarrow>
       if text = [] then []
       else (case env_loads E text of
           Some (PList items) \<Rightarrow>
             concat (map (\<lambda>v. case v of
                PStr s \<Rightarrow> if str_strip s \<noteq> [] then [s] else [] | _ \<Rightarrow> []) items)
         | _ \<Rightarrow> []))"

definition action_lock_name :: "string \<Rightarrow> string option \<Rightarrow> string \<Rightarrow> argent_error + string" where
  "action_lock_name action_class repo name =
     (if action_class = ''GLOBAL'' then Inr (''global:'' @ name)
      else if action_class = ''REPO_GLOBAL''
      then (case repo of
          None \<Rightarrow> Inl ValueError
        | Some r \<Rightarrow> if r = [] then Inl ValueError else Inr (''repo:'' @ r @ '':'' @ name))
      else Inl ValueError)"

section \<open>What a root stands for\<close>

text \<open>A path lies under a root when its segments begin with those of the root.\<close>

definition lies_under :: "string \<Rightarrow> string \<Rightarrow> bool" where
  "lies_under dir path \<longleftrightarrow>
     (\<exists>rest. split_at_char CHR ''/'' path = split_at_char CHR ''/'' dir @ rest)"















section \<open>The decision as a relation between pairs\<close>

definition compatible :: "job_facts \<Rightarrow> job_facts \<Rightarrow> bool" where
  "compatible a b \<longleftrightarrow> jf_action_class a \<noteq> Some ''GLOBAL'' \<and> jf_action_class b \<noteq> Some ''GLOBAL'' \<and>
     \<not> (same_repo a b \<and> (jf_action_class a = Some ''REPO_GLOBAL'' \<or> jf_action_class b = Some ''REPO_GLOBAL'')) \<and>
     (is_writer a \<and> is_writer b \<longrightarrow>
        \<not> (nonempty (fp_worktree_path (jf_footprint a)) \<and>
           fp_worktree_path (jf_footprint a) = fp_worktree_path (jf_footprint b)) \<and>
        footprint_overlap (jf_footprint a) (jf_footprint b) = FP_DISJOINT)"

lemma conflict_sym: "path_roots_conflict ra rb = path_roots_conflict rb ra"
  unfolding path_roots_conflict_def Let_def list_ex_iff by blast

lemma overlap_sym: "footprint_overlap a b = footprint_overlap b a"
  using conflict_sym[of "fp_path_roots a" "fp_path_roots b"]
  unfolding footprint_overlap_def
  by (cases "fp_repo_identity a = fp_repo_identity b") (auto split: if_split)

lemma compatible_sym: "compatible a b = compatible b a"
  using overlap_sym[of "jf_footprint a" "jf_footprint b"]
  unfolding compatible_def same_repo_def by auto

lemma writer_conflict_None:
  "writer_conflict c active = None \<longleftrightarrow>
   (\<forall>a \<in> set active. is_writer a \<longrightarrow>
      \<not> (nonempty (fp_worktree_path (jf_footprint c)) \<and>
         fp_worktree_path (jf_footprint c) = fp_worktree_path (jf_footprint a)) \<and>
      footprint_overlap (jf_footprint c) (jf_footprint a) = FP_DISJOINT)"
  by (induction active) (auto split: overlap.splits)

lemma writer_conflict_verdict:
  "writer_conflict c active = Some d \<Longrightarrow> cd_verdict d \<noteq> ''ALLOW_PARALLEL''"
  by (induction active) (auto simp: concurrency_answer_def split: if_splits overlap.splits)

lemma action_conflict_None:
  "action_conflict c active = None \<longleftrightarrow> (\<forall>a \<in> set active. jf_action_class c \<noteq> Some ''GLOBAL'' \<and>
     jf_action_class a \<noteq> Some ''GLOBAL'' \<and>
     \<not> (same_repo c a \<and> (jf_action_class c = Some ''REPO_GLOBAL'' \<or> jf_action_class a = Some ''REPO_GLOBAL'')))"
proof -
  have first: "(case x of None \<Rightarrow> y | Some a \<Rightarrow> Some a) = None \<longleftrightarrow> x = None \<and> y = None" for x y :: "'z option"
    by (cases x) auto
  show ?thesis
    unfolding action_conflict_def first
    by (cases active) (auto simp: find_None_iff same_repo_def)
qed

text \<open>The decision is a symmetric relation between pairs of jobs: a job may run beside the active
  ones exactly if its dependency is satisfied and it is compatible with each of them, whatever
  their order, and compatible jobs could have been admitted in the other order as well.\<close>

theorem parallel_allowed_iff:
  "(cd_verdict (decide_concurrency c active) = ''ALLOW_PARALLEL'' \<longleftrightarrow>
      (jf_depends_on c = None \<or> jf_dependency_terminal c = Some ''DONE'') \<and>
      list_all (compatible c) active) \<and>
   compatible c d = compatible d c"
proof -
  have dep: "dependency_gate c = None \<longleftrightarrow> jf_depends_on c = None \<or> jf_dependency_terminal c = Some ''DONE''"
    "\<And>d. dependency_gate c = Some d \<Longrightarrow> cd_verdict d \<noteq> ''ALLOW_PARALLEL''"
    by (auto simp: dependency_gate_def DEPENDENCY_MISSING_def DEPENDENCY_SATISFIED_TERMINALS_def
        concurrency_answer_def split: option.splits if_splits)
  have verdict: "cd_verdict (decide_concurrency c active) = ''ALLOW_PARALLEL'' \<longleftrightarrow>
      dependency_gate c = None \<and> action_conflict c active = None \<and>
      (is_writer c \<longrightarrow> writer_conflict c active = None)"
    using dep(2) writer_conflict_verdict
    by (auto simp: decide_concurrency_def concurrency_answer_def split: option.splits if_splits)
  show ?thesis
    unfolding verdict dep(1) action_conflict_None compatible_sym[of c d]
    by (cases "is_writer c") (auto simp: writer_conflict_None compatible_def list_all_iff)
qed

section \<open>Parallel writers\<close>








definition demo_facts :: "string \<Rightarrow> string \<Rightarrow> string \<Rightarrow> job_facts" where
  "demo_facts i branch dir = \<lparr>jf_job_id = i, jf_role = Some ''implementer'', jf_resource_class = ''LIGHT'',
     jf_footprint = \<lparr>fp_repo_identity = Some ''r'', fp_worktree_path = Some i, fp_branch_identity = Some branch,
       fp_path_roots = [dir], fp_modules = [], fp_external_action_class = None,
       fp_integration_target = None\<rparr>,
     jf_depends_on = None, jf_dependency_terminal = None, jf_action_class = None\<rparr>"



text \<open>The restriction to roots without white space at their ends is needed: \<open>_validate_rel_root\<close>
  turns \<open>a /.\<close> into a root that ends in a blank, which the comparison then strips.  The two roots
  below overlap, and the policy lets their writers run in parallel.\<close>

theorem blank_root_escapes:
  "validate_rel_root ''a /.'' = Inr ''a '' \<and> validate_rel_root ''a /b'' = Inr ''a /b'' \<and>
   lies_under ''a '' ''a /b'' \<and>
   cd_verdict (decide_concurrency (demo_facts ''2'' ''x'' ''a '') [demo_facts ''1'' ''y'' ''a /b'']) = ''ALLOW_PARALLEL''"
proof -
  have "split_at_char CHR ''/'' ''a /b'' = split_at_char CHR ''/'' ''a '' @ [''b'']" by code_simp
  then have "lies_under ''a '' ''a /b''" unfolding lies_under_def by blast
  moreover have "validate_rel_root ''a /.'' = Inr ''a ''" "validate_rel_root ''a /b'' = Inr ''a /b''"
    "cd_verdict (decide_concurrency (demo_facts ''2'' ''x'' ''a '') [demo_facts ''1'' ''y'' ''a /b'']) = ''ALLOW_PARALLEL''"
    by code_simp+
  ultimately show ?thesis by blast
qed

end
