(* ===== verification/Supervisor_Journal.thy ===== *)
theory Supervisor_Journal
  imports Runtime
begin

text \<open>
  The supervisor's action journal (\<open>supervisor.py\<close>: \<open>_begin_action\<close>, \<open>_begin_apply_action\<close>,
  \<open>_finish_action\<close>, \<open>_apply_patch_set_locked\<close>, \<open>_invoke_broker_locked\<close>, \<open>_close_job\<close>; \<open>store.py\<close>: the tables
  \<open>supervisor_actions\<close> and \<open>dispatch_write_intents\<close>).  Every external effect is announced in the
  journal before it happens; after a crash the journal decides what may be done again.  \<open>now\<close> is the
  supervisor's clock at the call; the action fence of a transaction is part of the lease machine.
\<close>

section \<open>The two tables\<close>

record action_row =
  aj_id :: string
  aj_job_id :: string
  aj_dispatch_id :: "string option"
  aj_type :: string
  aj_key :: string
  aj_args_hash :: string
  aj_input_hash :: "string option"
  aj_precondition_hash :: "string option"
  aj_effect_hash :: "string option"
  aj_patch_set_json :: "string option"
  aj_status :: string
  aj_attempt_count :: int
  aj_next_attempt_at :: "timestamp option"
  aj_started_at :: "timestamp option"
  aj_finished_at :: "timestamp option"
  aj_last_error_code :: "string option"
  aj_created_at :: timestamp
  aj_updated_at :: timestamp

record write_intent =
  wi_dispatch_id :: string
  wi_canonical_input_hash :: string
  wi_intent_action_id :: string
  wi_created_at :: timestamp
  wi_updated_at :: timestamp

record journal =
  jn_actions :: "action_row list"
  jn_intents :: "write_intent list"

type_synonym 'a jact = "(journal, argent_error, 'a) act"

definition ACTION_TYPES :: "string list" where
  "ACTION_TYPES = [''START_ROLE'', ''CREATE_DISPATCH'', ''SPAWN_RUN'', ''BIND_RUN'', ''APPLY_PATCH_SET'',
     ''RUN_SANDBOX_TESTS'', ''RECORD_TEST_RESULT'', ''CONSUME_RESULT'', ''MARK_RUN_FAILED'',
     ''CORE_RECOVER'', ''PRESENT_OWNER_GATE'', ''CLOSE_JOB'']"

definition ACTION_STATUSES :: "string list" where
  "ACTION_STATUSES = [''PLANNED'', ''RUNNING'', ''SUCCEEDED'', ''FAILED'', ''UNCERTAIN'']"

definition action_rows_ok :: "action_row list \<Rightarrow> bool" where
  "action_rows_ok rows \<longleftrightarrow> unique_keys aj_id rows \<and> unique_keys aj_key rows \<and>
     list_all (\<lambda>a. aj_type a \<in> set ACTION_TYPES \<and> aj_status a \<in> set ACTION_STATUSES \<and>
       0 \<le> aj_attempt_count a) rows \<and>
     unique_keys aj_dispatch_id
       (filter (\<lambda>a. aj_type a = ''SPAWN_RUN'' \<and> aj_dispatch_id a \<noteq> None) rows)"

definition get_supervisor_action :: "string \<Rightarrow> journal \<Rightarrow> action_row option" where
  "get_supervisor_action i s = find_row aj_id i (jn_actions s)"

definition get_supervisor_action_by_key :: "string \<Rightarrow> journal \<Rightarrow> action_row option" where
  "get_supervisor_action_by_key k s = find_row aj_key k (jn_actions s)"

definition list_supervisor_actions :: "string option \<Rightarrow> journal \<Rightarrow> action_row list" where
  "list_supervisor_actions job_id s =
     filter (\<lambda>a. case job_id of None \<Rightarrow> True | Some i \<Rightarrow> aj_job_id a = i) (jn_actions s)"

definition write_actions :: "(action_row list \<Rightarrow> action_row list) \<Rightarrow> unit jact" where
  "write_actions f s = (if action_rows_ok (f (jn_actions s))
     then (Inr (), s\<lparr>jn_actions := f (jn_actions s)\<rparr>) else (Inl IntegrityError, s))"

definition insert_supervisor_action :: "action_row \<Rightarrow> unit jact" where
  "insert_supervisor_action row = write_actions (\<lambda>rows. rows @ [row])"

definition update_supervisor_action :: "string \<Rightarrow> (action_row \<Rightarrow> action_row) \<Rightarrow> unit jact" where
  "update_supervisor_action i f = write_actions (update_rows (\<lambda>a. aj_id a = i) f)"

definition get_dispatch_write_intent :: "string \<Rightarrow> journal \<Rightarrow> write_intent option" where
  "get_dispatch_write_intent d s = find_row wi_dispatch_id d (jn_intents s)"

definition insert_dispatch_write_intent :: "write_intent \<Rightarrow> unit jact" where
  "insert_dispatch_write_intent row s =
     (if find_row wi_dispatch_id (wi_dispatch_id row) (jn_intents s) = None
      then (Inr (), s\<lparr>jn_intents := jn_intents s @ [row]\<rparr>) else (Inl IntegrityError, s))"

text \<open>A transaction that raises leaves the tables as they were.\<close>

definition journaled :: "'a jact \<Rightarrow> 'a jact" where
  "journaled m = transact (\<lambda>s s'. s) m"

section \<open>Beginning and finishing an action\<close>

definition MAX_ACTION_RETRIES :: int where "MAX_ACTION_RETRIES = 5"

record action_hashes =
  ah_input :: "string option"
  ah_precondition :: "string option"
  ah_effect :: "string option"
  ah_patch_set :: "string option"

definition no_hashes :: action_hashes where
  "no_hashes = \<lparr>ah_input = None, ah_precondition = None, ah_effect = None, ah_patch_set = None\<rparr>"

definition or_else :: "'a option \<Rightarrow> 'a option \<Rightarrow> 'a option" where
  "or_else a b = (case a of None \<Rightarrow> b | Some v \<Rightarrow> Some v)"

text \<open>The UPDATE of a retry: a hash that is not given keeps its stored value.\<close>

definition restarted :: "timestamp \<Rightarrow> action_hashes \<Rightarrow> action_row \<Rightarrow> action_row" where
  "restarted now h a = a\<lparr>aj_status := ''RUNNING'', aj_attempt_count := aj_attempt_count a + 1,
     aj_started_at := Some now, aj_updated_at := now,
     aj_input_hash := or_else (ah_input h) (aj_input_hash a),
     aj_precondition_hash := or_else (ah_precondition h) (aj_precondition_hash a),
     aj_effect_hash := or_else (ah_effect h) (aj_effect_hash a),
     aj_patch_set_json := or_else (ah_patch_set h) (aj_patch_set_json a)\<rparr>"

definition new_action_row ::
  "env \<Rightarrow> string \<Rightarrow> string \<Rightarrow> string \<Rightarrow> string option \<Rightarrow> string \<Rightarrow> timestamp \<Rightarrow> action_hashes \<Rightarrow>
   action_row" where
  "new_action_row E key atype job_id dispatch_id args now h =
     \<lparr>aj_id = take 32 (env_sha256 E key), aj_job_id = job_id, aj_dispatch_id = dispatch_id,
      aj_type = atype, aj_key = key, aj_args_hash = args, aj_input_hash = ah_input h,
      aj_precondition_hash = ah_precondition h, aj_effect_hash = ah_effect h,
      aj_patch_set_json = ah_patch_set h, aj_status = ''RUNNING'', aj_attempt_count = 1,
      aj_next_attempt_at = None,
      aj_started_at = Some now, aj_finished_at = None, aj_last_error_code = None,
      aj_created_at = now, aj_updated_at = now\<rparr>"

definition create_action :: "action_row \<Rightarrow> (action_row \<times> string) jact" where
  "create_action row = andThen (insert_supervisor_action row) (ret (row, ''new''))"

definition begin_action_locked ::
  "env \<Rightarrow> string \<Rightarrow> string \<Rightarrow> string \<Rightarrow> string option \<Rightarrow> string \<Rightarrow> timestamp \<Rightarrow> action_hashes \<Rightarrow>
   (action_row \<times> string) jact" where
  "begin_action_locked E key atype job_id dispatch_id args now h =
     look (get_supervisor_action_by_key key) (\<lambda>existing. case existing of
       Some a \<Rightarrow>
         require (aj_args_hash a = args) IdempotencyError
        (if aj_status a = ''SUCCEEDED'' then ret (a, ''succeeded'')
         else if aj_status a \<in> {''RUNNING'', ''UNCERTAIN''} then ret (a, ''running'')
         else if aj_status a \<in> {''PLANNED'', ''FAILED''} then
           (if aj_attempt_count a \<ge> MAX_ACTION_RETRIES then ret (a, ''exhausted'')
            else andThen (update_supervisor_action (aj_id a) (restarted now h))
              (fetch (get_supervisor_action (aj_id a)) TypeError (\<lambda>r. ret (r, ''retry''))))
         else create_action (new_action_row E key atype job_id dispatch_id args now h))
     | None \<Rightarrow> create_action (new_action_row E key atype job_id dispatch_id args now h))"

definition begin_action ::
  "env \<Rightarrow> string \<Rightarrow> string \<Rightarrow> string \<Rightarrow> string option \<Rightarrow> string \<Rightarrow> timestamp \<Rightarrow> action_hashes \<Rightarrow>
   (action_row \<times> string) jact" where
  "begin_action E key atype job_id dispatch_id args now h =
     journaled (begin_action_locked E key atype job_id dispatch_id args now h)"

text \<open>The result of claiming the write intent of a dispatch: whether another result owns it, the
  owner's hash and action, and the journal row with its outcome if it is ours.\<close>

definition begin_apply_action ::
  "env \<Rightarrow> string \<Rightarrow> string \<Rightarrow> string \<Rightarrow> string \<Rightarrow> string \<Rightarrow> timestamp \<Rightarrow> action_hashes \<Rightarrow>
   (bool \<times> string \<times> string \<times> (action_row \<times> string) option) jact" where
  "begin_apply_action E key job_id dispatch_id canonical args now h =
     journaled (look (get_dispatch_write_intent dispatch_id) (\<lambda>winner. case winner of
       Some w \<Rightarrow>
         if wi_canonical_input_hash w \<noteq> canonical
         then ret (True, wi_canonical_input_hash w, wi_intent_action_id w, None)
         else bindA (begin_action_locked E key ''APPLY_PATCH_SET'' job_id (Some dispatch_id) args now h)
           (\<lambda>ro. ret (False, wi_canonical_input_hash w, wi_intent_action_id w, Some ro))
     | None \<Rightarrow>
         bindA (begin_action_locked E key ''APPLY_PATCH_SET'' job_id (Some dispatch_id) args now h) (\<lambda>ro.
         andThen (insert_dispatch_write_intent \<lparr>wi_dispatch_id = dispatch_id,
             wi_canonical_input_hash = canonical, wi_intent_action_id = aj_id (fst ro),
             wi_created_at = now, wi_updated_at = now\<rparr>)
           (ret (False, canonical, aj_id (fst ro), Some ro)))))"

definition finish_action :: "string \<Rightarrow> string \<Rightarrow> string option \<Rightarrow> timestamp \<Rightarrow> unit jact" where
  "finish_action action_id status error_code now =
     journaled (update_supervisor_action action_id (\<lambda>a. a\<lparr>aj_status := status,
       aj_finished_at := Some now, aj_last_error_code := error_code, aj_updated_at := now\<rparr>))"

text \<open>The journal part of \<open>_close_job\<close>.\<close>

definition close_key :: "string \<Rightarrow> string \<Rightarrow> string" where
  "close_key job_id ending = ''supervisor:'' @ job_id @ '':close:'' @ ending"

definition close_action :: "env \<Rightarrow> string \<Rightarrow> string \<Rightarrow> timestamp \<Rightarrow> unit jact" where
  "close_action E job_id terminal now =
     (let key = close_key job_id terminal;
          args = env_sha256 E (env_dumps E (PDict [(''terminal'', PStr terminal)])) in
      journaled (look (get_supervisor_action_by_key key) (\<lambda>existing. case existing of
        Some a \<Rightarrow>
          require (aj_args_hash a = args) IdempotencyError
         (whenA (aj_status a \<noteq> ''SUCCEEDED'')
           (update_supervisor_action (aj_id a) (\<lambda>a. a\<lparr>aj_status := ''SUCCEEDED'',
              aj_finished_at := Some now, aj_last_error_code := None, aj_updated_at := now\<rparr>)))
      | None \<Rightarrow> insert_supervisor_action
          ((new_action_row E key ''CLOSE_JOB'' job_id None args now no_hashes)
             \<lparr>aj_status := ''SUCCEEDED'', aj_finished_at := Some now\<rparr>))))"

section \<open>Reading the journal\<close>

definition action_succeeded :: "string \<Rightarrow> string \<Rightarrow> journal \<Rightarrow> bool" where
  "action_succeeded dispatch_id atype s = list_ex (\<lambda>a. aj_dispatch_id a = Some dispatch_id \<and>
     aj_type a = atype \<and> aj_status a = ''SUCCEEDED'') (list_supervisor_actions None s)"

text \<open>\<open>max\<close> by the time of creation keeps the first of the greatest.\<close>

fun latest_by :: "('a \<Rightarrow> int) \<Rightarrow> 'a \<Rightarrow> 'a list \<Rightarrow> 'a" where
  "latest_by f best [] = best"
| "latest_by f best (a # as) = latest_by f (if f a > f best then a else best) as"

definition latest_action :: "string \<Rightarrow> string \<Rightarrow> journal \<Rightarrow> action_row option" where
  "latest_action dispatch_id atype s =
     (case filter (\<lambda>a. aj_dispatch_id a = Some dispatch_id \<and> aj_type a = atype)
            (list_supervisor_actions None s) of
        [] \<Rightarrow> None | a # as \<Rightarrow> Some (latest_by aj_created_at a as))"

definition spawn_action :: "string \<Rightarrow> journal \<Rightarrow> action_row option" where
  "spawn_action dispatch_id =
     get_supervisor_action_by_key (''supervisor:dispatch:'' @ dispatch_id @ '':spawn'')"

definition consume_action :: "string \<Rightarrow> journal \<Rightarrow> action_row option" where
  "consume_action dispatch_id = latest_action dispatch_id ''CONSUME_RESULT''"

definition committed_apply_intents :: "string \<Rightarrow> journal \<Rightarrow> action_row list" where
  "committed_apply_intents dispatch_id s = filter (\<lambda>a. aj_dispatch_id a = Some dispatch_id \<and>
     aj_type a = ''APPLY_PATCH_SET'' \<and> aj_status a \<in> {''RUNNING'', ''UNCERTAIN'', ''SUCCEEDED''})
     (list_supervisor_actions None s)"

definition diverged_apply_intent :: "string \<Rightarrow> journal \<Rightarrow> action_row option" where
  "diverged_apply_intent dispatch_id s =
     find (\<lambda>a. aj_status a = ''UNCERTAIN'' \<and> aj_last_error_code a = Some ''workspace_diverged'')
       (committed_apply_intents dispatch_id s)"

definition frozen_write_result_hash :: "string \<Rightarrow> journal \<Rightarrow> string option" where
  "frozen_write_result_hash dispatch_id s =
     (case get_dispatch_write_intent dispatch_id s of
        Some w \<Rightarrow> Some (wi_canonical_input_hash w)
      | None \<Rightarrow> (case committed_apply_intents dispatch_id s of [] \<Rightarrow> None | a # as \<Rightarrow> aj_input_hash a))"

section \<open>The critical section of the write\<close>

text \<open>\<open>_apply_patch_set_locked\<close>, under the lock of the dispatch: what to do with the persisted row at
  the present hash of the workspace (\<open>None\<close> without a workspace).  \<open>Apply_broker\<close> stands for
  \<open>_invoke_broker_locked\<close>.\<close>

datatype apply_answer =
  Apply_done | Apply_failed string | Apply_skipped | Apply_adopt | Apply_broker | Apply_diverged

definition apply_choice :: "action_row \<Rightarrow> string option \<Rightarrow> apply_answer" where
  "apply_choice row current =
     (if aj_status row = ''SUCCEEDED'' then Apply_done
      else if aj_status row \<noteq> ''RUNNING'' then
        (if aj_status row = ''UNCERTAIN'' then Apply_failed ''workspace_diverged''
         else Apply_failed (case aj_last_error_code row of
            None \<Rightarrow> ''broker_failed'' | Some c \<Rightarrow> if c = [] then ''broker_failed'' else c))
      else if current = None then Apply_skipped
      else if current = aj_effect_hash row then Apply_adopt
      else if current = aj_precondition_hash row then Apply_broker
      else Apply_diverged)"

text \<open>One visit of the critical section: the persisted row, the hash of the workspace, and how often
  a patch set was written completely.  What the visit meets in \<open>_invoke_broker_locked\<close> is an
  argument: the persisted patch set is missing, the broker is not reached (its identity check, its
  guard or its fence refuses, or the controller is killed before it), the broker answers with errors
  after it left the workspace at some hash, it is killed in the middle or after the last file, or it
  answers without errors.\<close>

datatype broker_end = No_patch_set | Not_reached | Broker_errors string string
  | Killed_during string | Killed_after | Broker_ok string

record writing =
  wr_row :: action_row
  wr_disk :: string
  wr_count :: nat

definition finished :: "string \<Rightarrow> string option \<Rightarrow> timestamp \<Rightarrow> action_row \<Rightarrow> action_row" where
  "finished status error_code now a = a\<lparr>aj_status := status, aj_finished_at := Some now,
     aj_last_error_code := error_code, aj_updated_at := now\<rparr>"

definition invoke_broker :: "broker_end \<Rightarrow> timestamp \<Rightarrow> writing \<Rightarrow> writing" where
  "invoke_broker meets now s = (case meets of
     No_patch_set \<Rightarrow> s\<lparr>wr_row := finished ''UNCERTAIN'' (Some ''workspace_diverged'') now (wr_row s)\<rparr>
   | Not_reached \<Rightarrow> s
   | Broker_errors code disk \<Rightarrow>
       s\<lparr>wr_row := finished ''FAILED'' (Some (''broker:'' @ code)) now (wr_row s), wr_disk := disk\<rparr>
   | Killed_during disk \<Rightarrow> s\<lparr>wr_disk := disk\<rparr>
   | Killed_after \<Rightarrow> (case aj_effect_hash (wr_row s) of
       None \<Rightarrow> s | Some e \<Rightarrow> s\<lparr>wr_disk := e, wr_count := Suc (wr_count s)\<rparr>)
   | Broker_ok disk \<Rightarrow>
       s\<lparr>wr_row := (if Some disk \<noteq> aj_effect_hash (wr_row s)
            then finished ''UNCERTAIN'' (Some ''workspace_diverged'') now (wr_row s)
            else finished ''SUCCEEDED'' None now (wr_row s)),
         wr_disk := disk, wr_count := Suc (wr_count s)\<rparr>)"

definition apply_patch_set_locked :: "broker_end \<Rightarrow> timestamp \<Rightarrow> writing \<Rightarrow> writing" where
  "apply_patch_set_locked meets now s = (case apply_choice (wr_row s) (Some (wr_disk s)) of
     Apply_adopt \<Rightarrow> s\<lparr>wr_row := finished ''SUCCEEDED'' None now (wr_row s)\<rparr>
   | Apply_broker \<Rightarrow> invoke_broker meets now s
   | Apply_diverged \<Rightarrow>
       s\<lparr>wr_row := finished ''UNCERTAIN'' (Some ''workspace_diverged'') now (wr_row s)\<rparr>
   | _ \<Rightarrow> s)"

text \<open>\<open>_validate_patch_set\<close>.\<close>

definition patch_key_ok :: "string \<Rightarrow> bool" where
  "patch_key_ok k \<longleftrightarrow> k \<in> {''op'', ''path'', ''content''}"

definition patch_error :: "py \<Rightarrow> string option" where
  "patch_error patch = (case patch of
     PDict kvs \<Rightarrow>
       if \<not> list_all (\<lambda>kv. patch_key_ok (fst kv)) kvs then Some ''invalid_patch_key''
       else if py_get kvs ''op'' \<notin> {PStr ''write'', PStr ''delete''} then Some ''invalid_patch_op''
       else if (case py_get kvs ''path'' of PStr p \<Rightarrow> p = [] | _ \<Rightarrow> True) then Some ''invalid_patch_path''
       else if py_get kvs ''op'' = PStr ''write'' \<and>
         (case py_get kvs ''content'' of PStr c \<Rightarrow> c = [] | _ \<Rightarrow> True) then Some ''invalid_patch_content''
       else None
   | _ \<Rightarrow> Some ''invalid_patch_entry_type'')"

fun validate_patch_set :: "py list \<Rightarrow> string option" where
  "validate_patch_set [] = None"
| "validate_patch_set (p # ps) =
     (case patch_error p of Some err \<Rightarrow> Some err | None \<Rightarrow> validate_patch_set ps)"

end
