(* ===== verification/Supervisor_Observe.thy ===== *)
theory Supervisor_Observe
  imports Workflow Text
begin

text \<open>
  What the supervisor sees of an agent's run (\<open>supervisor.py\<close>: \<open>RunLookup\<close>, \<open>RunObservation\<close>,
  \<open>TrajectoryRunStatusProvider.observe\<close> and its helpers, \<open>_guarded_observe\<close>).  The trajectory and the
  session file are untrusted data; the file system and the parsers of ISO times and of float literals
  are the record \<open>session_files\<close>.  Decoded values are compared as JSON values; where Python would
  identify \<open>1\<close> with \<open>True\<close> the lookup has already required a string.
\<close>

section \<open>Observations\<close>

datatype run_status =
    RS_NOT_FOUND | RS_RUNNING | RS_SUCCEEDED | RS_FAILED | RS_CANCELLED | RS_UNKNOWN | RS_CONFLICT

primrec run_status_value :: "run_status \<Rightarrow> string" where
  "run_status_value RS_NOT_FOUND = ''NOT_FOUND''"
| "run_status_value RS_RUNNING = ''RUNNING''"
| "run_status_value RS_SUCCEEDED = ''SUCCEEDED''"
| "run_status_value RS_FAILED = ''FAILED''"
| "run_status_value RS_CANCELLED = ''CANCELLED''"
| "run_status_value RS_UNKNOWN = ''UNKNOWN''"
| "run_status_value RS_CONFLICT = ''CONFLICT''"

record run_lookup =
  lk_dispatch_id :: string
  lk_agent_id :: string
  lk_expected_session_label :: string
  lk_bound_session_id :: "string option"
  lk_bound_run_id :: "string option"
  lk_expected_provider :: "string option"
  lk_expected_model :: "string option"
  lk_expected_thinking_tier :: "string option"

text \<open>A field that is copied from the rows is a JSON value, \<open>PNone\<close> for \<open>None\<close>.\<close>

record run_observation =
  ro_status :: run_status
  ro_agent_id :: "string option"
  ro_session_id :: "string option"
  ro_run_id :: "string option"
  ro_provider :: py
  ro_model :: py
  ro_thinking_tier :: py
  ro_started_at :: py
  ro_finished_at :: py
  ro_result :: py
  ro_result_hash :: "string option"
  ro_authoritative_not_found :: bool
  ro_evidence_id :: string
  ro_error_code :: "string option"
  ro_adapter_exception :: "string option"

definition session_key_for :: "string \<Rightarrow> string \<Rightarrow> string" where
  "session_key_for agent_id dispatch_id =
     ''agent:'' @ agent_id @ '':explicit:dispatch-'' @ dispatch_id"

definition no_evidence :: "run_status \<Rightarrow> run_lookup \<Rightarrow> string \<Rightarrow> string option \<Rightarrow> run_observation" where
  "no_evidence st lk evidence code =
     \<lparr>ro_status = st, ro_agent_id = Some (lk_agent_id lk), ro_session_id = None, ro_run_id = None,
      ro_provider = PNone, ro_model = PNone, ro_thinking_tier = PNone, ro_started_at = PNone,
      ro_finished_at = PNone, ro_result = PNone, ro_result_hash = None,
      ro_authoritative_not_found = False, ro_evidence_id = evidence, ro_error_code = code,
      ro_adapter_exception = None\<rparr>"

definition observed_unknown :: "run_lookup \<Rightarrow> string \<Rightarrow> run_observation" where
  "observed_unknown lk code = no_evidence RS_UNKNOWN lk code (Some code)"

definition observed_conflict :: "run_lookup \<Rightarrow> string \<Rightarrow> run_observation" where
  "observed_conflict lk code = no_evidence RS_CONFLICT lk code (Some code)"

section \<open>The rows of a trajectory\<close>

type_synonym json_row = "(string \<times> py) list"

text \<open>\<open>str.splitlines\<close> on Latin-1.\<close>

definition line_end :: "char \<Rightarrow> bool" where
  "line_end c \<longleftrightarrow> c \<in> {CHR 0x0A, CHR 0x0B, CHR 0x0C, CHR 0x0D, CHR 0x1C, CHR 0x1D, CHR 0x1E, CHR 0x85}"

fun split_lines_aux :: "bool \<Rightarrow> string \<Rightarrow> string \<Rightarrow> string list" where
  "split_lines_aux cr [] w = (if w = [] then [] else [rev w])"
| "split_lines_aux cr (c # cs) w =
     (if cr \<and> c = CHR 0x0A then split_lines_aux False cs []
      else if line_end c then rev w # split_lines_aux (c = CHR 0x0D) cs []
      else split_lines_aux False cs (c # w))"

definition split_lines :: "string \<Rightarrow> string list" where
  "split_lines s = split_lines_aux False s []"

text \<open>Decoding stops at the first line that is no JSON object, with the code of the observation.\<close>

fun decode_rows :: "env \<Rightarrow> string list \<Rightarrow> string + json_row list" where
  "decode_rows E [] = Inr []"
| "decode_rows E (l # ls) =
     (if str_strip l = [] then decode_rows E ls
      else (case env_loads E l of
          None \<Rightarrow> Inl ''malformed_jsonl''
        | Some (PDict kvs) \<Rightarrow> (case decode_rows E ls of Inl e \<Rightarrow> Inl e | Inr rows \<Rightarrow> Inr (kvs # rows))
        | Some _ \<Rightarrow> Inl ''malformed_row''))"

definition row_type :: "string \<Rightarrow> json_row \<Rightarrow> bool" where
  "row_type ty o' \<longleftrightarrow> py_get o' ''type'' = PStr ty"

definition dict_of :: "py \<Rightarrow> json_row" where
  "dict_of v = (case v of PDict kvs \<Rightarrow> kvs | _ \<Rightarrow> [])"

definition malformed_data :: "json_row \<Rightarrow> bool" where
  "malformed_data o' \<longleftrightarrow> (case map_of o' ''data'' of None \<Rightarrow> False | Some (PDict _) \<Rightarrow> False | Some _ \<Rightarrow> True)"

definition row_data :: "json_row \<Rightarrow> json_row" where
  "row_data o' = dict_of (py_get o' ''data'')"

text \<open>The checks of a row, in their order: the code of the first that fails.\<close>

definition start_conflict :: "run_lookup \<Rightarrow> json_row \<Rightarrow> string option" where
  "start_conflict lk o' =
     (if py_get o' ''sessionId'' \<noteq> PStr (lk_expected_session_label lk)
      then Some ''start_session_label_mismatch''
      else if \<not> py_truth (py_get o' ''runId'') then Some ''start_missing_run_id''
      else if (case py_get o' ''runId'' of PStr _ \<Rightarrow> False | _ \<Rightarrow> True) then Some ''start_run_id_not_string''
      else if py_get o' ''sessionKey'' \<noteq> PStr (session_key_for (lk_agent_id lk) (lk_dispatch_id lk))
      then Some ''start_session_key_mismatch''
      else if malformed_data o' then Some ''start_malformed_data''
      else if map_of (row_data o') ''agentId'' = None then Some ''start_missing_agent_id''
      else if py_get (row_data o') ''agentId'' \<noteq> PStr (lk_agent_id lk) then Some ''start_agent_id_mismatch''
      else if lk_expected_provider lk \<noteq> None \<and>
        py_get o' ''provider'' \<noteq> PStr (the (lk_expected_provider lk))
      then Some ''start_provider_binding_mismatch''
      else if lk_expected_model lk \<noteq> None \<and>
        py_get o' ''modelId'' \<noteq> PStr (the (lk_expected_model lk))
      then Some ''start_model_binding_mismatch''
      else None)"

definition terminal_conflict :: "run_lookup \<Rightarrow> string \<Rightarrow> py \<Rightarrow> py \<Rightarrow> json_row \<Rightarrow> string option" where
  "terminal_conflict lk run_id provider model e =
     (if (case py_get e ''runId'' of PStr r \<Rightarrow> r = [] | _ \<Rightarrow> True) then Some ''terminal_run_id_not_string''
      else if py_get e ''runId'' \<noteq> PStr run_id then Some ''terminal_run_id_mismatch''
      else if py_get e ''sessionId'' \<noteq> PStr (lk_expected_session_label lk)
      then Some ''terminal_session_label_mismatch''
      else if py_get e ''sessionKey'' \<noteq> PStr (session_key_for (lk_agent_id lk) (lk_dispatch_id lk))
      then Some ''terminal_session_key_mismatch''
      else if malformed_data e then Some ''terminal_malformed_data''
      else if map_of (row_data e) ''agentId'' = None then Some ''terminal_missing_agent_id''
      else if py_get (row_data e) ''agentId'' \<noteq> PStr (lk_agent_id lk) then Some ''terminal_agent_id_mismatch''
      else if py_get e ''provider'' \<noteq> provider then Some ''terminal_provider_mismatch''
      else if py_get e ''modelId'' \<noteq> model then Some ''terminal_model_mismatch''
      else if lk_expected_provider lk \<noteq> None \<and>
        py_get e ''provider'' \<noteq> PStr (the (lk_expected_provider lk))
      then Some ''terminal_provider_binding_mismatch''
      else if lk_expected_model lk \<noteq> None \<and>
        py_get e ''modelId'' \<noteq> PStr (the (lk_expected_model lk))
      then Some ''terminal_model_binding_mismatch''
      else None)"

fun first_conflict :: "(json_row \<Rightarrow> string option) \<Rightarrow> json_row list \<Rightarrow> string option" where
  "first_conflict f [] = None"
| "first_conflict f (o' # os) = (case f o' of Some code \<Rightarrow> Some code | None \<Rightarrow> first_conflict f os)"

definition terminal_error_code :: "json_row \<Rightarrow> string option" where
  "terminal_error_code e = (case py_get e ''data'' of
     PDict kvs \<Rightarrow> (case py_get kvs ''errorCode'' of
        PStr code \<Rightarrow> if str_strip code = [] then None else Some (str_strip code) | _ \<Rightarrow> None)
   | _ \<Rightarrow> None)"

definition terminal_status :: "json_row \<Rightarrow> run_status" where
  "terminal_status e = (case py_get e ''data'' of
     PDict kvs \<Rightarrow>
       if py_get kvs ''status'' = PStr ''success'' then RS_SUCCEEDED
       else if py_truth (py_get kvs ''aborted'') \<or> py_truth (py_get kvs ''externalAbort'') then RS_CANCELLED
       else if py_truth (py_get kvs ''timedOut'') then RS_FAILED
       else if py_get kvs ''status'' \<in> {PStr ''failed'', PStr ''error'', PStr ''timeout'', PStr ''cancel''}
       then (if py_get kvs ''status'' = PStr ''cancel'' then RS_CANCELLED else RS_FAILED)
       else RS_UNKNOWN
   | _ \<Rightarrow> RS_UNKNOWN)"

definition metadata_malformed :: "json_row \<Rightarrow> bool" where
  "metadata_malformed m \<longleftrightarrow> malformed_data m \<or>
     (case map_of (row_data m) ''model'' of None \<Rightarrow> False | Some (PDict _) \<Rightarrow> False | Some _ \<Rightarrow> True)"

fun thinking_tier_of :: "json_row list \<Rightarrow> string \<Rightarrow> py \<Rightarrow> py \<Rightarrow> py" where
  "thinking_tier_of [] run_id provider model =
     (if provider = PStr ''openai'' \<and> model = PStr ''gpt-5.6-sol'' then PStr ''high'' else PNone)"
| "thinking_tier_of (m # ms) run_id provider model =
     (if metadata_malformed m \<or> py_get m ''runId'' \<noteq> PStr run_id
      then thinking_tier_of ms run_id provider model
      else (case py_get (row_data m) ''model'' of
          PDict md \<Rightarrow>
            if py_truth (py_get md ''thinkLevel'') then py_get md ''thinkLevel''
            else thinking_tier_of ms run_id provider model
        | _ \<Rightarrow> thinking_tier_of ms run_id provider model))"

section \<open>The result of a run\<close>

record session_files =
  sf_dir_exists :: bool
  sf_trajectory_path :: string
  sf_trajectory :: "string option option" \<comment> \<open>\<open>None\<close>: no such file; \<open>Some None\<close>: not readable\<close>
  sf_active :: bool \<comment> \<open>the session file or its lock exists\<close>
  sf_session_name :: string
  sf_session_text :: "string \<Rightarrow> string option" \<comment> \<open>the text of a readable file below the session directory\<close>
  sf_parse_iso :: "string \<Rightarrow> rat option" \<comment> \<open>\<open>_parse_iso\<close>, \<open>None\<close> where it raises\<close>
  sf_parse_float :: "string \<Rightarrow> py_float option" \<comment> \<open>\<open>float(s)\<close>, \<open>None\<close> where it raises\<close>

text \<open>\<open>extract_balanced_json\<close>: the text from the first brace to the one that closes it, outside the
  string literals.\<close>

fun scan_object :: "string \<Rightarrow> int \<Rightarrow> bool \<Rightarrow> bool \<Rightarrow> string option" where
  "scan_object [] depth in_str esc = None"
| "scan_object (c # cs) depth in_str esc = map_option ((#) c)
     (if in_str then
        (if esc then scan_object cs depth True False
         else if c = CHR 0x5C then scan_object cs depth True True
         else scan_object cs depth (c \<noteq> CHR 0x22) False)
      else if c = CHR 0x22 then scan_object cs depth True False
      else if c = CHR 0x7B then scan_object cs (depth + 1) False False
      else if c = CHR 0x7D then
        (if depth - 1 = 0 then Some [] else scan_object cs (depth - 1) False False)
      else scan_object cs depth False False)"

definition extract_balanced_json :: "env \<Rightarrow> string \<Rightarrow> py option" where
  "extract_balanced_json E text =
     (case scan_object (dropWhile (\<lambda>c. c \<noteq> CHR 0x7B) text) 0 False False of
        None \<Rightarrow> None | Some obj \<Rightarrow> env_loads E obj)"

definition assistant_text :: "json_row \<Rightarrow> string option" where
  "assistant_text msg = (case py_get msg ''content'' of
     PStr s \<Rightarrow> Some s
   | PList bs \<Rightarrow>
       (case List.map_filter (\<lambda>b. case b of
            PDict kvs \<Rightarrow> if py_get kvs ''type'' = PStr ''text''
              then (case py_get kvs ''text'' of PStr t \<Rightarrow> Some t | _ \<Rightarrow> None) else None
          | _ \<Rightarrow> None) bs of
          [] \<Rightarrow> None | t # ts \<Rightarrow> Some (join_with [CHR 0x0A] (t # ts)))
   | _ \<Rightarrow> None)"

text \<open>Times.  \<open>float(i)\<close> of an integer beyond the doubles raises \<open>OverflowError\<close>.\<close>

definition safe_parse_iso :: "session_files \<Rightarrow> py \<Rightarrow> rat option" where
  "safe_parse_iso W ts = (case ts of PStr s \<Rightarrow> sf_parse_iso W s | _ \<Rightarrow> None)"

definition over_thousand :: "py_float \<Rightarrow> py_float" where
  "over_thousand f = (case f of FFinite q \<Rightarrow> FFinite (float_div q 1000) | _ \<Rightarrow> f)"

definition safe_ms_to_seconds :: "session_files \<Rightarrow> py \<Rightarrow> argent_error + py_float option" where
  "safe_ms_to_seconds W ts = (case ts of
     PInt i \<Rightarrow> (if \<bar>i\<bar> < 2 ^ 1024 - 2 ^ 970 then Inr (Some (over_thousand (FFinite (double_of (of_int i)))))
                else Inl OverflowError)
   | PFloat f \<Rightarrow> Inr (Some (over_thousand f))
   | PStr s \<Rightarrow> Inr (map_option over_thousand (sf_parse_float W s))
   | _ \<Rightarrow> Inr None)"

definition before :: "py_float \<Rightarrow> rat option \<Rightarrow> bool" where
  "before f bound = (case bound of None \<Rightarrow> False
   | Some s \<Rightarrow> (case f of FFinite q \<Rightarrow> q < s | FNegInf \<Rightarrow> True | _ \<Rightarrow> False))"

definition after :: "py_float \<Rightarrow> rat option \<Rightarrow> bool" where
  "after f bound = (case bound of None \<Rightarrow> False
   | Some s \<Rightarrow> (case f of FFinite q \<Rightarrow> q > s | FPosInf \<Rightarrow> True | _ \<Rightarrow> False))"

text \<open>The texts of the assistant's messages between the two times.\<close>

definition message_text ::
  "session_files \<Rightarrow> rat option \<Rightarrow> rat option \<Rightarrow> py option \<Rightarrow> argent_error + string option" where
  "message_text W start_s end_s decoded = (case decoded of
     Some (PDict o') \<Rightarrow>
       (if \<not> row_type ''message'' o' then Inr None
        else (case py_get o' ''message'' of
            PDict msg \<Rightarrow>
              if py_get msg ''role'' \<noteq> PStr ''assistant'' then Inr None
              else (case safe_ms_to_seconds W (py_get msg ''timestamp'') of
                  Inl err \<Rightarrow> Inl err
                | Inr (Some t) \<Rightarrow> if before t start_s \<or> after t end_s then Inr None else Inr (assistant_text msg)
                | Inr None \<Rightarrow> Inr (assistant_text msg))
          | _ \<Rightarrow> Inr None))
   | _ \<Rightarrow> Inr None)"

fun assistant_texts ::
  "env \<Rightarrow> session_files \<Rightarrow> rat option \<Rightarrow> rat option \<Rightarrow> string list \<Rightarrow> argent_error + string list" where
  "assistant_texts E W start_s end_s [] = Inr []"
| "assistant_texts E W start_s end_s (l # ls) =
     (case (if str_strip l = [] then Inr None else message_text W start_s end_s (env_loads E l)) of
        Inl err \<Rightarrow> Inl err
      | Inr t \<Rightarrow> (case assistant_texts E W start_s end_s ls of
          Inl err \<Rightarrow> Inl err
        | Inr ts \<Rightarrow> Inr (case t of None \<Rightarrow> ts | Some s \<Rightarrow> s # ts)))"

definition extract_result ::
  "env \<Rightarrow> session_files \<Rightarrow> json_row \<Rightarrow> py \<Rightarrow> argent_error + py \<times> string option" where
  "extract_result E W started finished_at = (case py_get (row_data started) ''sessionFile'' of
     PStr path \<Rightarrow>
       (if path = [] then Inr (PNone, None)
        else (case sf_session_text W path of
            None \<Rightarrow> Inr (PNone, None)
          | Some raw \<Rightarrow>
              (case assistant_texts E W (safe_parse_iso W (py_get started ''ts''))
                   (safe_parse_iso W finished_at) (split_lines raw) of
                 Inl err \<Rightarrow> Inl err
               | Inr [] \<Rightarrow> Inr (PNone, None)
               | Inr (t # ts) \<Rightarrow> (case extract_balanced_json E (last (t # ts)) of
                   None \<Rightarrow> Inr (PNone, None)
                 | Some r \<Rightarrow> Inr (r, Some (env_sha256 E (env_dumps E r)))))))
   | _ \<Rightarrow> Inr (PNone, None))"

section \<open>Observing\<close>

text \<open>What the terminal rows say: several of them must agree.\<close>

definition terminal_verdict :: "json_row list \<Rightarrow> (run_status \<times> py) option" where
  "terminal_verdict ended = (case ended of
     [] \<Rightarrow> Some (RS_RUNNING, PNone)
   | e # es \<Rightarrow>
       if list_all (\<lambda>x. terminal_status x = terminal_status e) es
       then Some (terminal_status e, py_get (last ended) ''ts'') else None)"

definition run_id_of :: "json_row \<Rightarrow> string" where
  "run_id_of o' = (case py_get o' ''runId'' of PStr r \<Rightarrow> r | _ \<Rightarrow> [])"

definition bound_conflict :: "run_lookup \<Rightarrow> json_row list \<Rightarrow> json_row list \<Rightarrow> string option" where
  "bound_conflict lk started metadata =
     (let s = hd started; run_id = run_id_of s; key = session_key_for (lk_agent_id lk) (lk_dispatch_id lk);
          provider = py_get s ''provider''; model = py_get s ''modelId'';
          thinking = thinking_tier_of metadata run_id provider model in
      if \<not> list_all (\<lambda>o'. run_id_of o' = run_id) started then Some ''multiple_run_ids''
      else if lk_bound_run_id lk \<noteq> None \<and> lk_bound_run_id lk \<noteq> Some run_id then Some ''foreign_run_id''
      else if lk_bound_session_id lk \<noteq> None \<and> lk_bound_session_id lk \<noteq> Some key
      then Some ''foreign_bound_session_id''
      else if \<not> list_all (\<lambda>o'. py_get o' ''provider'' = provider) started then Some ''start_provider_mismatch''
      else if \<not> list_all (\<lambda>o'. py_get o' ''modelId'' = model) started then Some ''start_model_mismatch''
      else if list_ex metadata_malformed metadata then Some ''metadata_malformed''
      else if lk_expected_thinking_tier lk \<noteq> None \<and> thinking \<noteq> PNone \<and>
        thinking \<noteq> PStr (the (lk_expected_thinking_tier lk)) then Some ''thinking_tier_binding_mismatch''
      else None)"

definition observe_rows ::
  "env \<Rightarrow> session_files \<Rightarrow> run_lookup \<Rightarrow> json_row list \<Rightarrow> argent_error + run_observation" where
  "observe_rows E W lk rows =
     (let started = filter (row_type ''session.started'') rows;
          ended = filter (row_type ''session.ended'') rows;
          metadata = filter (row_type ''trace.metadata'') rows in
      if started = [] then Inr (observed_unknown lk ''no_session_started'')
      else (case first_conflict (start_conflict lk) started of
        Some code \<Rightarrow> Inr (observed_conflict lk code)
      | None \<Rightarrow> (case bound_conflict lk started metadata of
        Some code \<Rightarrow> Inr (observed_conflict lk code)
      | None \<Rightarrow>
         let s = hd started; run_id = run_id_of s; provider = py_get s ''provider''; model = py_get s ''modelId'' in
         (case first_conflict (terminal_conflict lk run_id provider model) ended of
            Some code \<Rightarrow> Inr (observed_conflict lk code)
          | None \<Rightarrow> (case terminal_verdict ended of
            None \<Rightarrow> Inr (observed_conflict lk ''conflicting_terminal'')
          | Some (st, finished_at) \<Rightarrow>
             (case extract_result E W s finished_at of
                Inl err \<Rightarrow> Inl err
              | Inr (result, hash) \<Rightarrow> Inr
                 \<lparr>ro_status = st, ro_agent_id = Some (lk_agent_id lk),
                  ro_session_id = Some (session_key_for (lk_agent_id lk) (lk_dispatch_id lk)),
                  ro_run_id = Some run_id, ro_provider = provider, ro_model = model,
                  ro_thinking_tier = thinking_tier_of metadata run_id provider model,
                  ro_started_at = py_get s ''ts'', ro_finished_at = finished_at, ro_result = result,
                  ro_result_hash = hash, ro_authoritative_not_found = False,
                  ro_evidence_id = sf_trajectory_path W,
                  ro_error_code = (if ended = [] then None else terminal_error_code (last ended)),
                  ro_adapter_exception = None\<rparr>))))))"

definition observe :: "env \<Rightarrow> session_files \<Rightarrow> run_lookup \<Rightarrow> argent_error + run_observation" where
  "observe E W lk =
     (if \<not> sf_dir_exists W then Inr (observed_unknown lk ''session_dir_missing'')
      else (case sf_trajectory W of
        None \<Rightarrow>
          if sf_active W
          then Inr ((no_evidence RS_RUNNING lk (''active_session:'' @ sf_session_name W) None)
             \<lparr>ro_session_id := Some (session_key_for (lk_agent_id lk) (lk_dispatch_id lk))\<rparr>)
          else Inr ((no_evidence RS_NOT_FOUND lk (''missing:'' @ sf_trajectory_path W) None)
             \<lparr>ro_authoritative_not_found := True\<rparr>)
      | Some None \<Rightarrow> Inr (observed_unknown lk ''trajectory_io_error'')
      | Some (Some raw) \<Rightarrow> (case decode_rows E (split_lines raw) of
          Inl code \<Rightarrow> Inr (observed_unknown lk code)
        | Inr rows \<Rightarrow> observe_rows E W lk rows)))"

text \<open>\<open>_guarded_observe\<close>: only these four exceptions of a provider become a conflict.\<close>

definition guarded_observe ::
  "run_lookup \<Rightarrow> argent_error + run_observation \<Rightarrow> argent_error + run_observation" where
  "guarded_observe lk answer = (case answer of
     Inr obs \<Rightarrow> Inr obs
   | Inl err \<Rightarrow>
       (case (if err = TypeError then Some ''TypeError'' else if err = AttributeError then Some ''AttributeError''
              else if err = ValueError then Some ''ValueError'' else if err = KeyError then Some ''KeyError''
              else None) of
          Some name \<Rightarrow> Inr ((no_evidence RS_CONFLICT lk (''adapter_exception:'' @ name)
             (Some ''malformed_runtime_data''))\<lparr>ro_adapter_exception := Some name\<rparr>)
        | None \<Rightarrow> Inl err))"

end
