(* ===== verification/Supervisor_Decide.thy ===== *)
theory Supervisor_Decide
  imports Core_Base Supervisor_Journal Supervisor_Observe "HOL-Library.List_Lexorder" "HOL-Library.Char_ord"
begin

text \<open>
  The decision of the supervisor (\<open>supervisor.py\<close>: \<open>_Snapshot\<close>, \<open>_read_core_facts\<close>, \<open>_snapshot_key\<close>,
  \<open>_decide\<close> and its branches): from a snapshot of the persisted facts and an observation of the
  agent's run to one plan.  \<open>now\<close> is the supervisor's clock, in microseconds.
\<close>

section \<open>Constants\<close>

definition RUNNING_POLL_SECONDS :: int where "RUNNING_POLL_SECONDS = 2"
definition MAX_SNAPSHOT_RETRIES :: nat where "MAX_SNAPSHOT_RETRIES = 3"
definition MAX_RUNTIME_UNKNOWN :: int where "MAX_RUNTIME_UNKNOWN = 5"
definition MISSING_BOUND_RUN_CONFIRMATIONS :: int where "MISSING_BOUND_RUN_CONFIRMATIONS = 8"
definition MISSING_UNBOUND_SPAWN_CONFIRMATIONS :: int where "MISSING_UNBOUND_SPAWN_CONFIRMATIONS = 15"
definition MAX_DISPATCH_ATTEMPTS_PER_STEP :: int where "MAX_DISPATCH_ATTEMPTS_PER_STEP = 3"

datatype reconcile_action =
    RA_NONE | RA_WAIT | RA_START_ROLE | RA_CREATE_DISPATCH | RA_SPAWN_RUN | RA_BIND_RUN
  | RA_APPLY_PATCH_SET | RA_RUN_SANDBOX_TESTS | RA_RECORD_TEST_RESULT | RA_CONSUME_RESULT
  | RA_MARK_RUN_FAILED | RA_CORE_RECOVER | RA_PRESENT_OWNER_GATE | RA_CLOSE_DONE | RA_CLOSE_FAILED
  | RA_CLOSE_BLOCKED | RA_PERSISTENT_ERROR

primrec reconcile_action_value :: "reconcile_action \<Rightarrow> string" where
  "reconcile_action_value RA_NONE = ''NONE''"
| "reconcile_action_value RA_WAIT = ''WAIT''"
| "reconcile_action_value RA_START_ROLE = ''START_ROLE''"
| "reconcile_action_value RA_CREATE_DISPATCH = ''CREATE_DISPATCH''"
| "reconcile_action_value RA_SPAWN_RUN = ''SPAWN_RUN''"
| "reconcile_action_value RA_BIND_RUN = ''BIND_RUN''"
| "reconcile_action_value RA_APPLY_PATCH_SET = ''APPLY_PATCH_SET''"
| "reconcile_action_value RA_RUN_SANDBOX_TESTS = ''RUN_SANDBOX_TESTS''"
| "reconcile_action_value RA_RECORD_TEST_RESULT = ''RECORD_TEST_RESULT''"
| "reconcile_action_value RA_CONSUME_RESULT = ''CONSUME_RESULT''"
| "reconcile_action_value RA_MARK_RUN_FAILED = ''MARK_RUN_FAILED''"
| "reconcile_action_value RA_CORE_RECOVER = ''CORE_RECOVER''"
| "reconcile_action_value RA_PRESENT_OWNER_GATE = ''PRESENT_OWNER_GATE''"
| "reconcile_action_value RA_CLOSE_DONE = ''CLOSE_DONE''"
| "reconcile_action_value RA_CLOSE_FAILED = ''CLOSE_FAILED''"
| "reconcile_action_value RA_CLOSE_BLOCKED = ''CLOSE_BLOCKED''"
| "reconcile_action_value RA_PERSISTENT_ERROR = ''PERSISTENT_ERROR''"

definition is_implementer :: "role \<Rightarrow> bool" where
  "is_implementer r \<longleftrightarrow> r = IMPLEMENTER"

definition is_write_role :: "role \<Rightarrow> bool" where
  "is_write_role r \<longleftrightarrow> r \<in> {IMPLEMENTER, QA}"

text \<open>\<open>AGENT_IDS\<close>.\<close>

primrec agent_id_of :: "role \<Rightarrow> string" where
  "agent_id_of LEAD = ''argent-lead''"
| "agent_id_of ANALYST = ''argent-analyst''"
| "agent_id_of IMPLEMENTER = ''argent-implementer''"
| "agent_id_of QA = ''argent-qa''"
| "agent_id_of REVIEWER = ''argent-reviewer''"

text \<open>\<open>min(1.0 * 2.0 ** max(r, 0), 30.0)\<close> in seconds.  The power is a float: beyond the range of the
  doubles Python raises instead of answering infinity.\<close>

definition backoff_seconds :: "int \<Rightarrow> argent_error + int" where
  "backoff_seconds retry_count =
     (if max retry_count 0 \<ge> 1024 then Inl OverflowError
      else Inr (min (2 ^ nat (max retry_count 0)) 30))"

definition in_seconds :: "timestamp \<Rightarrow> int \<Rightarrow> timestamp" where
  "in_seconds now secs = now + secs * 1000000"

section \<open>The row of a job, as the loop reads and writes it\<close>

record projection =
  pj_workflow_state :: string
  pj_expected_role :: "string option"
  pj_expected_dispatch_id :: "string option"
  pj_agent_id :: "string option"
  pj_session_id :: "string option"
  pj_run_id :: "string option"
  pj_attempt_no :: int
  pj_dispatch_status :: "dispatch_status option"
  pj_result_status :: string
  pj_result_consumed :: bool
  pj_current_handoff_id :: "string option"
  pj_open_findings_count :: nat
  pj_rework_cycle :: int
  pj_owner_gate_id :: "string option"
  pj_gate_status :: "approval_status option"
  pj_gate_scope :: "string option"
  pj_gate_closed :: bool

record loop_job =
  lj_id :: string
  lj_task_id :: string
  lj_status :: string
  lj_terminal :: "string option"
  lj_recovery_state :: string
  lj_queue_reason :: string
  lj_owner :: "string option"
  lj_epoch :: int
  lj_expires :: "timestamp option"
  lj_next_eligible :: "timestamp option"
  lj_next_action :: string
  lj_next_wake :: "timestamp option"
  lj_retry_count :: int
  lj_missing_confirmations :: int
  lj_owner_prompted_at :: "timestamp option"
  lj_owner_prompted_gate_id :: "string option"
  lj_last_error_code :: "string option"
  lj_last_progress_at :: timestamp
  lj_facts_version :: int
  lj_updated_at :: timestamp
  lj_projection :: projection

section \<open>The snapshot\<close>

text \<open>\<open>SupervisorStore._current_dispatch\<close>, \<open>_dispatch_at_frontier\<close>, \<open>_max_cycle\<close>, \<open>_current_gate\<close>.\<close>

definition current_dispatch :: "string \<Rightarrow> core \<Rightarrow> agent_dispatch option" where
  "current_dispatch tid s = find dispatch_active (list_dispatches tid s)"

definition dispatches_at :: "string \<Rightarrow> workflow_frontier \<Rightarrow> core \<Rightarrow> agent_dispatch list" where
  "dispatches_at tid fr s =
     filter (\<lambda>d. d_cycle_no d = wf_cycle_no fr \<and> d_position d = wf_position fr) (list_dispatches tid s)"

definition dispatch_at_frontier :: "string \<Rightarrow> workflow_frontier \<Rightarrow> core \<Rightarrow> agent_dispatch option" where
  "dispatch_at_frontier tid fr s = (case dispatches_at tid fr s of
     [] \<Rightarrow> None | d # ds \<Rightarrow> Some (latest_by d_attempt_no d ds))"

definition max_cycle_of :: "string \<Rightarrow> core \<Rightarrow> int" where
  "max_cycle_of tid s = (case list_dispatches tid s of
     [] \<Rightarrow> 1 | d # ds \<Rightarrow> fold max (map d_cycle_no ds) (d_cycle_no d))"

definition current_gate :: "string \<Rightarrow> core \<Rightarrow> owner_approval option \<times> nat" where
  "current_gate tid s =
     (let approvals = list_approvals tid s; active = filter approval_active approvals in
      case active of
        a # as \<Rightarrow> (Some a, length active)
      | [] \<Rightarrow> (if approvals \<noteq> [] then (Some (last approvals), 0) else (None, 0)))"

record snapshot =
  sn_job :: loop_job
  sn_task :: task
  sn_frontier :: workflow_frontier
  sn_active_dispatch :: "agent_dispatch option"
  sn_dispatch_at_frontier :: "agent_dispatch option"
  sn_max_attempt :: int
  sn_active_role_run :: "role_run option"
  sn_gate :: "owner_approval option"
  sn_open_gates_count :: nat
  sn_open_findings_count :: nat
  sn_latest_handoff_id :: "string option"
  sn_journal :: "(string \<times> string \<times> int) list"

definition open_findings_count :: "string \<Rightarrow> core \<Rightarrow> nat" where
  "open_findings_count tid s = length (filter (\<lambda>f. f_status f = FI_OPEN) (list_findings tid s))"

text \<open>\<open>_read_core_facts\<close>; \<open>None\<close> when the task is gone.\<close>

definition read_core_facts :: "env \<Rightarrow> core \<Rightarrow> journal \<Rightarrow> loop_job \<Rightarrow> snapshot option" where
  "read_core_facts E s jn job = (case get_task (lj_task_id job) s of
     None \<Rightarrow> None
   | Some t \<Rightarrow>
       let fr = workflow_frontier E (t_id t) s in
       Some \<lparr>sn_job = job, sn_task = t, sn_frontier = fr,
         sn_active_dispatch = current_dispatch (t_id t) s,
         sn_dispatch_at_frontier = dispatch_at_frontier (t_id t) fr s,
         sn_max_attempt = (case dispatches_at (t_id t) fr s of
            [] \<Rightarrow> 0 | d # ds \<Rightarrow> fold max (map d_attempt_no ds) (d_attempt_no d)),
         sn_active_role_run = get_active_role_run (t_id t) s,
         sn_gate = fst (current_gate (t_id t) s),
         sn_open_gates_count = snd (current_gate (t_id t) s),
         sn_open_findings_count = open_findings_count (t_id t) s,
         sn_latest_handoff_id = map_option h_id (get_latest_handoff (t_id t) s),
         sn_journal = sort (map (\<lambda>a. (aj_key a, aj_status a, aj_attempt_count a))
            (list_supervisor_actions (Some (lj_id job)) jn))\<rparr>)"

text \<open>\<open>_snapshot_key\<close>: the facts that a commit compares with those of the snapshot it decided on.\<close>

definition dispatch_key where
  "dispatch_key d = (d_id d, d_status d, d_openclaw_run_id d, d_child_session_id d, d_role d,
     d_cycle_no d, d_position d, d_attempt_no d, d_handoff_id d, d_actual_provider d, d_actual_model d)"

definition snapshot_key where
  "snapshot_key sn = (
     (lj_facts_version (sn_job sn), lj_status (sn_job sn), lj_retry_count (sn_job sn),
      lj_missing_confirmations (sn_job sn), lj_owner_prompted_at (sn_job sn),
      lj_owner_prompted_gate_id (sn_job sn)),
     (t_state (sn_task sn), t_resume_state (sn_task sn)),
     (wf_cycle_no (sn_frontier sn), wf_position (sn_frontier sn), wf_sequence_kind (sn_frontier sn),
      wf_expected_role (sn_frontier sn), wf_include_reviewer (sn_frontier sn)),
     map_option dispatch_key (sn_active_dispatch sn),
     map_option (\<lambda>d. (d_id d, d_status d, d_attempt_no d)) (sn_dispatch_at_frontier sn),
     map_option (\<lambda>r. (rr_id r, rr_role r, rr_status r)) (sn_active_role_run sn),
     map_option (\<lambda>a. (ap_id a, ap_status a, ap_closed_at a, ap_binding_hash a)) (sn_gate sn),
     sn_open_gates_count sn, sn_open_findings_count sn, sn_latest_handoff_id sn,
     sn_max_attempt sn, sn_journal sn)"

definition build_lookup :: "agent_dispatch \<Rightarrow> run_lookup" where
  "build_lookup d =
     \<lparr>lk_dispatch_id = d_id d, lk_agent_id = agent_id_of (d_role d),
      lk_expected_session_label = ''dispatch-'' @ d_id d,
      lk_bound_session_id = d_child_session_id d, lk_bound_run_id = d_openclaw_run_id d,
      lk_expected_provider = or_else (d_actual_provider d) (Some (d_expected_agent_class d)),
      lk_expected_model = or_else (d_actual_model d) (Some (d_expected_model_class d)),
      lk_expected_thinking_tier = or_else (d_thinking_tier d) (Some (d_expected_thinking_tier d))\<rparr>"

section \<open>Plans\<close>

record plan =
  pl_action :: reconcile_action
  pl_reason :: string
  pl_dispatch_id :: "string option"
  pl_wake_at :: "timestamp option"
  pl_status :: "string option"
  pl_recovery_state :: "string option"
  pl_retry_count :: "int option"
  pl_missing_confirmations :: "int option"
  pl_last_error_code :: "string option"
  pl_terminal :: "string option"

definition plan_of :: "reconcile_action \<Rightarrow> string \<Rightarrow> plan" where
  "plan_of a reason = \<lparr>pl_action = a, pl_reason = reason, pl_dispatch_id = None, pl_wake_at = None,
     pl_status = None, pl_recovery_state = None, pl_retry_count = None,
     pl_missing_confirmations = None, pl_last_error_code = None, pl_terminal = None\<rparr>"

definition error_plan :: "string \<Rightarrow> string option \<Rightarrow> string \<Rightarrow> plan" where
  "error_plan reason did code = (plan_of RA_PERSISTENT_ERROR reason)
     \<lparr>pl_dispatch_id := did, pl_status := Some ''ERROR'', pl_last_error_code := Some code\<rparr>"

definition poll_plan :: "string \<Rightarrow> string \<Rightarrow> timestamp \<Rightarrow> plan" where
  "poll_plan reason status now = (plan_of RA_WAIT reason)
     \<lparr>pl_status := Some status, pl_wake_at := Some (in_seconds now RUNNING_POLL_SECONDS)\<rparr>"

definition after_backoff :: "timestamp \<Rightarrow> int \<Rightarrow> plan \<Rightarrow> argent_error + plan" where
  "after_backoff now retry p = (case backoff_seconds retry of
     Inl err \<Rightarrow> Inl err
   | Inr secs \<Rightarrow> Inr (p\<lparr>pl_wake_at := Some (in_seconds now secs)\<rparr>))"

text \<open>\<open>_wait_missing\<close> and the two confirmation waits share this shape.\<close>

definition missing_plan ::
  "timestamp \<Rightarrow> loop_job \<Rightarrow> agent_dispatch \<Rightarrow> string \<Rightarrow> argent_error + plan" where
  "missing_plan now job ad reason = after_backoff now (lj_retry_count job)
     ((plan_of RA_WAIT reason)\<lparr>pl_dispatch_id := Some (d_id ad), pl_status := Some ''ACTIVE'',
        pl_recovery_state := Some ''DISCOVERING_RUN'',
        pl_missing_confirmations := Some (lj_missing_confirmations job + 1),
        pl_retry_count := Some (lj_retry_count job + 1)\<rparr>)"

text \<open>\<open>_adapter_backoff\<close>, \<open>_write_hash_mismatch_plan\<close> and \<open>_apply_diverged_plan\<close> share this one.\<close>

definition bounded_backoff ::
  "timestamp \<Rightarrow> loop_job \<Rightarrow> agent_dispatch \<Rightarrow> string \<Rightarrow> argent_error + plan" where
  "bounded_backoff now job ad reason =
     (let retry = lj_retry_count job + 1 in
      if retry \<ge> MAX_RUNTIME_UNKNOWN
      then Inr ((error_plan reason (Some (d_id ad)) reason)
        \<lparr>pl_recovery_state := Some ''PERSISTENT_ERROR'', pl_retry_count := Some retry\<rparr>)
      else after_backoff now retry
        ((plan_of RA_WAIT reason)\<lparr>pl_dispatch_id := Some (d_id ad), pl_status := Some ''BACKOFF'',
           pl_recovery_state := Some ''RUNTIME_UNKNOWN'', pl_retry_count := Some retry\<rparr>))"

definition adapter_backoff ::
  "timestamp \<Rightarrow> loop_job \<Rightarrow> agent_dispatch \<Rightarrow> run_observation \<Rightarrow> argent_error + plan" where
  "adapter_backoff now job ad obs =
     bounded_backoff now job ad (''adapter_'' @ str_lower (run_status_value (ro_status obs)))"

definition write_hash_mismatch_plan ::
  "timestamp \<Rightarrow> loop_job \<Rightarrow> agent_dispatch \<Rightarrow> argent_error + plan" where
  "write_hash_mismatch_plan now job ad = bounded_backoff now job ad ''write_result_hash_mismatch''"

definition apply_diverged_plan ::
  "timestamp \<Rightarrow> loop_job \<Rightarrow> agent_dispatch \<Rightarrow> argent_error + plan" where
  "apply_diverged_plan now job ad = bounded_backoff now job ad ''workspace_diverged''"

definition step_plan :: "reconcile_action \<Rightarrow> string \<Rightarrow> agent_dispatch \<Rightarrow> string \<Rightarrow> plan" where
  "step_plan a reason ad recovery = (plan_of a reason)
     \<lparr>pl_dispatch_id := Some (d_id ad), pl_recovery_state := Some recovery\<rparr>"

section \<open>The decision\<close>

definition decide_gate :: "timestamp \<Rightarrow> snapshot \<Rightarrow> plan option" where
  "decide_gate now sn =
     (if sn_open_gates_count sn > 1 then Some (error_plan ''multiple_active_gates'' None ''multiple_active_gates'')
      else if t_state (sn_task sn) = OWNER_APPROVAL_REQUIRED then
        (case sn_gate sn of
           None \<Rightarrow> Some (error_plan ''gate_task_inconsistent_no_gate'' None ''gate_task_inconsistent'')
         | Some gate \<Rightarrow>
             if ap_status gate = AP_PENDING then
               (if lj_owner_prompted_at (sn_job sn) = None \<or>
                   lj_owner_prompted_gate_id (sn_job sn) \<noteq> Some (ap_id gate)
                then Some ((plan_of RA_PRESENT_OWNER_GATE ''present_gate'')\<lparr>pl_status := Some ''WAITING_GATE''\<rparr>)
                else Some (poll_plan ''waiting_gate'' ''WAITING_GATE'' now))
             else if ap_status gate = AP_APPROVED
             then Some (poll_plan ''gate_approved_waiting_execution'' ''WAITING_GATE'' now)
             else Some (error_plan ''gate_task_inconsistent_no_gate'' None ''gate_task_inconsistent''))
      else (case sn_gate sn of
           Some gate \<Rightarrow>
             if approval_active gate
             then Some (error_plan ''gate_task_inconsistent_active_gate'' None ''gate_task_inconsistent'')
             else None
         | None \<Rightarrow> None))"

definition decide_no_active :: "snapshot \<Rightarrow> role \<Rightarrow> plan" where
  "decide_no_active sn role =
     (let latest = sn_dispatch_at_frontier sn; did = map_option d_id latest in
      if (case latest of None \<Rightarrow> False
          | Some d \<Rightarrow> d_status d \<in> {DS_FAILED, DS_REJECTED} \<and> d_attempt_no d \<ge> MAX_DISPATCH_ATTEMPTS_PER_STEP)
      then plan_of RA_CLOSE_FAILED ''max_attempts''
      else if (case sn_active_role_run sn of None \<Rightarrow> True | Some rr \<Rightarrow> rr_role rr \<noteq> role)
      then (plan_of RA_START_ROLE ''need_role'')\<lparr>pl_dispatch_id := did\<rparr>
      else (plan_of RA_CREATE_DISPATCH ''need_dispatch'')
        \<lparr>pl_dispatch_id := did, pl_missing_confirmations := Some 0, pl_retry_count := Some 0\<rparr>)"

definition exhausted :: "action_row option \<Rightarrow> bool" where
  "exhausted act = (case act of None \<Rightarrow> False
   | Some a \<Rightarrow> aj_status a = ''FAILED'' \<and> aj_attempt_count a \<ge> MAX_ACTION_RETRIES)"

definition decide_unbound ::
  "timestamp \<Rightarrow> journal \<Rightarrow> snapshot \<Rightarrow> run_observation option \<Rightarrow> role \<Rightarrow> agent_dispatch \<Rightarrow>
   argent_error + plan" where
  "decide_unbound now jn sn obs role ad = (case obs of
     None \<Rightarrow> Inr (poll_plan ''no_observation'' ''ACTIVE'' now)
   | Some ob \<Rightarrow>
       if ro_status ob \<in> {RS_RUNNING, RS_SUCCEEDED, RS_FAILED, RS_CANCELLED} then
         (if ro_run_id ob = None \<or> ro_session_id ob = None
          then Inr ((poll_plan ''run_active_no_binding_values'' ''ACTIVE'' now)
            \<lparr>pl_dispatch_id := Some (d_id ad), pl_recovery_state := Some ''DISCOVERING_RUN''\<rparr>)
          else Inr ((step_plan RA_BIND_RUN ''bind_observed_run'' ad ''RESTORING_BINDING'')
            \<lparr>pl_missing_confirmations := Some 0\<rparr>))
       else if ro_status ob = RS_NOT_FOUND then
         (let spawn = spawn_action (d_id ad) jn in
          if exhausted spawn
          then Inr ((error_plan ''spawn_run_exhausted'' (Some (d_id ad)) ''spawn_run_exhausted'')
            \<lparr>pl_recovery_state := Some ''PERSISTENT_ERROR''\<rparr>)
          else if \<not> ro_authoritative_not_found ob
          then missing_plan now (sn_job sn) ad ''not_found_non_authoritative''
          else if spawn = None
          then Inr (step_plan RA_SPAWN_RUN ''spawn_run'' ad ''DISCOVERING_RUN'')
          else if lj_missing_confirmations (sn_job sn) + 1 \<ge> MISSING_UNBOUND_SPAWN_CONFIRMATIONS
          then Inr ((plan_of RA_CLOSE_BLOCKED ''spawn_unresolvable'')
            \<lparr>pl_recovery_state := (if is_implementer role then Some ''AMBIGUOUS_WRITER'' else None)\<rparr>)
          else missing_plan now (sn_job sn) ad ''spawn_pending'')
       else adapter_backoff now (sn_job sn) ad ob)"

definition canonical_full_result_hash :: "env \<Rightarrow> py \<Rightarrow> string" where
  "canonical_full_result_hash E result =
     env_sha256 E (env_dumps E (if py_truth result then result else PDict []))"

definition PIPELINE :: "string list" where
  "PIPELINE = [''APPLY_PATCH_SET'', ''RUN_SANDBOX_TESTS'', ''RECORD_TEST_RESULT'', ''CONSUME_RESULT'']"

definition decide_write_preconditions ::
  "env \<Rightarrow> timestamp \<Rightarrow> journal \<Rightarrow> snapshot \<Rightarrow> run_observation \<Rightarrow> agent_dispatch \<Rightarrow> argent_error + plan" where
  "decide_write_preconditions E now jn sn ob ad =
     (case find (\<lambda>atype. exhausted (latest_action (d_id ad) atype jn)) PIPELINE of
        Some atype \<Rightarrow> Inr ((error_plan (str_lower atype @ ''_exhausted'') (Some (d_id ad))
            (str_lower atype @ ''_exhausted''))\<lparr>pl_recovery_state := Some ''PERSISTENT_ERROR''\<rparr>)
      | None \<Rightarrow>
          if diverged_apply_intent (d_id ad) jn \<noteq> None then apply_diverged_plan now (sn_job sn) ad
          else if \<not> action_succeeded (d_id ad) ''APPLY_PATCH_SET'' jn
          then Inr (step_plan RA_APPLY_PATCH_SET ''apply_patch_set'' ad ''CONSUMING_RESULT'')
          else if frozen_write_result_hash (d_id ad) jn \<notin> {None, Some (canonical_full_result_hash E (ro_result ob))}
          then write_hash_mismatch_plan now (sn_job sn) ad
          else if \<not> action_succeeded (d_id ad) ''RUN_SANDBOX_TESTS'' jn
          then Inr (step_plan RA_RUN_SANDBOX_TESTS ''run_sandbox_tests'' ad ''CONSUMING_RESULT'')
          else if \<not> action_succeeded (d_id ad) ''RECORD_TEST_RESULT'' jn
          then Inr (step_plan RA_RECORD_TEST_RESULT ''record_test_result'' ad ''CONSUMING_RESULT'')
          else Inr (step_plan RA_CONSUME_RESULT ''consume_result'' ad ''CONSUMING_RESULT''))"

definition decide_bound ::
  "env \<Rightarrow> timestamp \<Rightarrow> journal \<Rightarrow> snapshot \<Rightarrow> run_observation option \<Rightarrow> role \<Rightarrow> agent_dispatch \<Rightarrow>
   argent_error + plan" where
  "decide_bound E now jn sn obs role ad = (case obs of
     None \<Rightarrow> Inr (poll_plan ''no_observation'' ''ACTIVE'' now)
   | Some ob \<Rightarrow>
       if ro_status ob = RS_RUNNING
       then Inr ((poll_plan ''run_running'' ''ACTIVE'' now)
         \<lparr>pl_dispatch_id := Some (d_id ad), pl_retry_count := Some 0\<rparr>)
       else if ro_status ob = RS_SUCCEEDED then
         (if is_write_role role then decide_write_preconditions E now jn sn ob ad
          else if exhausted (consume_action (d_id ad) jn)
          then Inr (step_plan RA_MARK_RUN_FAILED ''consume_unresolvable'' ad ''RETRYING_STEP'')
          else Inr (step_plan RA_CONSUME_RESULT ''consume_result'' ad ''CONSUMING_RESULT''))
       else if ro_status ob \<in> {RS_FAILED, RS_CANCELLED}
       then Inr (step_plan RA_MARK_RUN_FAILED ''run_failed'' ad ''RETRYING_STEP'')
       else if ro_status ob = RS_NOT_FOUND then
         (if lj_missing_confirmations (sn_job sn) + 1 \<ge> MISSING_BOUND_RUN_CONFIRMATIONS
          then Inr (if is_implementer role
            then (plan_of RA_CLOSE_BLOCKED ''ambiguous_writer'')\<lparr>pl_recovery_state := Some ''AMBIGUOUS_WRITER''\<rparr>
            else step_plan RA_MARK_RUN_FAILED ''missing_bound_run'' ad ''CORE_RECOVERY_REQUIRED'')
          else missing_plan now (sn_job sn) ad ''bound_run_missing'')
       else adapter_backoff now (sn_job sn) ad ob)"

definition off_frontier :: "snapshot \<Rightarrow> role \<Rightarrow> agent_dispatch \<Rightarrow> bool" where
  "off_frontier sn role ad \<longleftrightarrow> d_cycle_no ad \<noteq> wf_cycle_no (sn_frontier sn) \<or>
     d_position ad \<noteq> wf_position (sn_frontier sn) \<or> d_role ad \<noteq> role"

definition unbound :: "agent_dispatch \<Rightarrow> bool" where
  "unbound ad \<longleftrightarrow> d_status ad = DS_PENDING \<or>
     (d_status ad = DS_RECOVERY_PENDING \<and> d_child_session_id ad = None)"

definition decide ::
  "env \<Rightarrow> timestamp \<Rightarrow> journal \<Rightarrow> snapshot \<Rightarrow> run_observation option \<Rightarrow> argent_error + plan" where
  "decide E now jn sn obs =
     (if lj_terminal (sn_job sn) \<noteq> None then Inr (plan_of RA_NONE ''job_terminal'')
      else if lj_status (sn_job sn) = ''ERROR'' then Inr (plan_of RA_NONE ''error_state'')
      else if t_state (sn_task sn) = DONE then Inr (plan_of RA_CLOSE_DONE ''task_done'')
      else if t_state (sn_task sn) \<in> {FAILED, CANCELLED}
      then Inr (plan_of RA_CLOSE_FAILED ''task_failed_cancelled'')
      else if t_state (sn_task sn) = BLOCKED then Inr (plan_of RA_CLOSE_BLOCKED ''task_blocked'')
      else (case decide_gate now sn of
        Some p \<Rightarrow> Inr p
      | None \<Rightarrow> (case wf_expected_role (sn_frontier sn) of
          None \<Rightarrow> Inr (error_plan ''frontier_exhausted'' None ''frontier_exhausted'')
        | Some role \<Rightarrow> (case sn_active_dispatch sn of
            None \<Rightarrow> Inr (decide_no_active sn role)
          | Some ad \<Rightarrow>
              if off_frontier sn role ad
              then Inr (error_plan ''ledger_conflict_active_dispatch'' (Some (d_id ad))
                ''ledger_conflict_active_dispatch'')
              else if unbound ad then decide_unbound now jn sn obs role ad
              else decide_bound E now jn sn obs role ad))))"

end
