(* ===== verification/Supervisor_Loop.thy ===== *)
theory Supervisor_Loop
  imports Supervisor_Decide
begin

text \<open>
  The supervisor's loop around its decision (\<open>supervisor.py\<close>: \<open>_enforce_lease_fence\<close>, \<open>_commit\<close>,
  \<open>reconcile\<close>, \<open>_backoff_decision\<close>, \<open>_persist_error\<close>, \<open>adapter_exception_decision\<close>,
  \<open>perform_next_safe_action_if_required\<close>, \<open>run_once\<close>).  A commit re-reads every fact under the write
  lock and decides on what it read; the notifications it enqueues are not modelled, and the primary
  state that the store derives from these columns is part of \<open>Lease_Store\<close>.
\<close>

record loop_state =
  ls_core :: core
  ls_journal :: journal
  ls_jobs :: "loop_job list"

type_synonym 'a loopact = "(loop_state, argent_error, 'a) act"

definition in_transaction :: "'a loopact \<Rightarrow> 'a loopact" where
  "in_transaction m = transact (\<lambda>s s'. s) m"

definition job_row :: "string \<Rightarrow> loop_state \<Rightarrow> loop_job option" where
  "job_row i s = find_row lj_id i (ls_jobs s)"

definition write_job :: "string \<Rightarrow> (loop_job \<Rightarrow> loop_job) \<Rightarrow> unit loopact" where
  "write_job i f s = (Inr (), s\<lparr>ls_jobs := update_rows (\<lambda>j. lj_id j = i) f (ls_jobs s)\<rparr>)"

definition facts_of :: "env \<Rightarrow> loop_job \<Rightarrow> loop_state \<Rightarrow> snapshot option" where
  "facts_of E job s = read_core_facts E (ls_core s) (ls_journal s) job"

text \<open>The lease that this supervisor holds, if any, against the row: an unleased job passes.\<close>

definition lease_fence_ok :: "(string \<times> int) option \<Rightarrow> timestamp \<Rightarrow> loop_job \<Rightarrow> bool" where
  "lease_fence_ok holder now job \<longleftrightarrow> (case lj_owner job of
     None \<Rightarrow> True
   | Some owner \<Rightarrow> holder = Some (owner, lj_epoch job) \<and>
       (case lj_expires job of None \<Rightarrow> False | Some e \<Rightarrow> now < e))"

definition enforce_lease_fence ::
  "(string \<times> int) option \<Rightarrow> timestamp \<Rightarrow> loop_job \<Rightarrow> 'a loopact \<Rightarrow> 'a loopact" where
  "enforce_lease_fence holder now job k = require (lease_fence_ok holder now job) LeaseFencedError k"

section \<open>Committing a decision\<close>

record reconcile_decision =
  dn_job_id :: string
  dn_facts_version :: int
  dn_action :: reconcile_action
  dn_reason :: string
  dn_dispatch_id :: "string option"
  dn_wake_at :: "timestamp option"
  dn_owner :: "string option"
  dn_epoch :: "int option"

definition dispatch_status_value :: "dispatch_status \<Rightarrow> string" where
  "dispatch_status_value st = (case st of DS_PENDING \<Rightarrow> ''PENDING'' | DS_RUNNING \<Rightarrow> ''RUNNING''
     | DS_CONSUMED \<Rightarrow> ''CONSUMED'' | DS_FAILED \<Rightarrow> ''FAILED'' | DS_REJECTED \<Rightarrow> ''REJECTED''
     | DS_QUARANTINED \<Rightarrow> ''QUARANTINED'' | DS_RECOVERY_PENDING \<Rightarrow> ''RECOVERY_PENDING'')"

definition projection_fields ::
  "core \<Rightarrow> snapshot \<Rightarrow> run_observation option \<Rightarrow> projection" where
  "projection_fields s sn obs =
     (let role = wf_expected_role (sn_frontier sn);
          disp = or_else (sn_active_dispatch sn) (sn_dispatch_at_frontier sn);
          tid = t_id (sn_task sn) in
      \<lparr>pj_workflow_state = task_state_value (t_state (sn_task sn)),
       pj_expected_role = map_option role_value role,
       pj_expected_dispatch_id = map_option d_id disp,
       pj_agent_id = map_option agent_id_of role,
       pj_session_id = Option.bind disp d_child_session_id,
       pj_run_id = Option.bind disp d_openclaw_run_id,
       pj_attempt_no = (case disp of None \<Rightarrow> 0 | Some d \<Rightarrow> d_attempt_no d),
       pj_dispatch_status = map_option d_status disp,
       pj_result_status = (case obs of None \<Rightarrow> ''NOT_OBSERVED'' | Some ob \<Rightarrow> run_status_value (ro_status ob)),
       pj_result_consumed = (case disp of None \<Rightarrow> False
         | Some d \<Rightarrow> d_status d = DS_CONSUMED \<and> d_consumed_at d \<noteq> None),
       pj_current_handoff_id = map_option h_id (get_latest_handoff tid s),
       pj_open_findings_count = open_findings_count tid s,
       pj_rework_cycle = max_cycle_of tid s,
       pj_owner_gate_id = map_option ap_id (sn_gate sn),
       pj_gate_status = map_option ap_status (sn_gate sn),
       pj_gate_scope = map_option ap_scope (sn_gate sn),
       pj_gate_closed = (case sn_gate sn of None \<Rightarrow> False | Some g \<Rightarrow> ap_closed_at g \<noteq> None)\<rparr>)"

definition given :: "'a option \<Rightarrow> 'a \<Rightarrow> 'a" where
  "given v old = (case v of None \<Rightarrow> old | Some new \<Rightarrow> new)"

definition progresses :: "reconcile_action \<Rightarrow> bool" where
  "progresses a \<longleftrightarrow> a \<in> {RA_START_ROLE, RA_CREATE_DISPATCH, RA_SPAWN_RUN, RA_BIND_RUN, RA_APPLY_PATCH_SET,
     RA_RUN_SANDBOX_TESTS, RA_RECORD_TEST_RESULT, RA_CONSUME_RESULT, RA_MARK_RUN_FAILED, RA_CORE_RECOVER,
     RA_PRESENT_OWNER_GATE}"

text \<open>The columns a plan writes.  A backoff also gives the lease back and delays the admission.\<close>

definition planned :: "plan \<Rightarrow> loop_job \<Rightarrow> loop_job" where
  "planned p job = job\<lparr>
     lj_next_action := reconcile_action_value (pl_action p), lj_next_wake := pl_wake_at p,
     lj_status := given (pl_status p) (lj_status job),
     lj_recovery_state := given (pl_recovery_state p) (lj_recovery_state job),
     lj_retry_count := given (pl_retry_count p) (lj_retry_count job),
     lj_missing_confirmations := given (pl_missing_confirmations p) (lj_missing_confirmations job),
     lj_last_error_code := or_else (pl_last_error_code p) (lj_last_error_code job)\<rparr>"

definition delayed :: "plan \<Rightarrow> loop_job \<Rightarrow> loop_job" where
  "delayed p job = (if pl_status p = Some ''BACKOFF''
     then job\<lparr>lj_queue_reason := ''RETRY_BACKOFF'',
       lj_next_eligible := or_else (pl_wake_at p) (lj_next_eligible job),
       lj_owner := None, lj_expires := None\<rparr>
     else job)"

definition ended :: "plan \<Rightarrow> loop_job \<Rightarrow> loop_job" where
  "ended p job = (case pl_terminal p of None \<Rightarrow> job
   | Some t \<Rightarrow> job\<lparr>lj_terminal := Some t, lj_status := ''TERMINAL'',
       lj_next_action := ''NONE'', lj_next_wake := None\<rparr>)"

definition stamped :: "timestamp \<Rightarrow> plan \<Rightarrow> projection \<Rightarrow> loop_job \<Rightarrow> loop_job" where
  "stamped now p proj job = job\<lparr>lj_projection := proj, lj_facts_version := lj_facts_version job + 1,
     lj_updated_at := now,
     lj_last_progress_at := (if progresses (pl_action p) then now else lj_last_progress_at job)\<rparr>"

definition apply_plan :: "timestamp \<Rightarrow> plan \<Rightarrow> projection \<Rightarrow> loop_job \<Rightarrow> loop_job" where
  "apply_plan now p proj job = stamped now p proj (ended p (delayed p (planned p job)))"

definition decision_of :: "plan \<Rightarrow> loop_job \<Rightarrow> reconcile_decision" where
  "decision_of p job =
     \<lparr>dn_job_id = lj_id job, dn_facts_version = lj_facts_version job + 1, dn_action = pl_action p,
      dn_reason = pl_reason p, dn_dispatch_id = pl_dispatch_id p, dn_wake_at = pl_wake_at p,
      dn_owner = lj_owner job,
      dn_epoch = (if lj_owner job = None then None else Some (lj_epoch job))\<rparr>"

text \<open>\<open>_commit\<close>: \<open>None\<close> is the sentinel that asks for another snapshot.\<close>

definition commit ::
  "env \<Rightarrow> (string \<times> int) option \<Rightarrow> timestamp \<Rightarrow> string \<Rightarrow> snapshot \<Rightarrow> run_observation option \<Rightarrow>
   reconcile_decision option loopact" where
  "commit E holder now job_id snap obs = in_transaction
     (fetch (job_row job_id) NotFound (\<lambda>job.
      enforce_lease_fence holder now job
     (if lj_facts_version job \<noteq> lj_facts_version (sn_job snap) then ret None
      else look (facts_of E job) (\<lambda>facts. case facts of
          None \<Rightarrow> ret None
        | Some latest \<Rightarrow>
            if snapshot_key latest \<noteq> snapshot_key snap then ret None
            else look ls_journal (\<lambda>jn. liftR (decide E now jn latest obs) (\<lambda>p.
              look ls_core (\<lambda>c. andThen
                (write_job job_id (apply_plan now p (projection_fields c latest obs)))
                (ret (Some (decision_of p job))))))))))"

definition backoff_decision ::
  "(string \<times> int) option \<Rightarrow> timestamp \<Rightarrow> string \<Rightarrow> reconcile_decision loopact" where
  "backoff_decision holder now job_id = in_transaction
     (fetch (job_row job_id) NotFound (\<lambda>job.
      enforce_lease_fence holder now job
     (liftR (backoff_seconds (lj_retry_count job)) (\<lambda>secs.
      andThen (write_job job_id (\<lambda>j. j\<lparr>lj_status := ''BACKOFF'', lj_queue_reason := ''RETRY_BACKOFF'',
          lj_next_action := ''WAIT'', lj_next_wake := Some (in_seconds now secs),
          lj_next_eligible := Some (in_seconds now secs),
          lj_owner := None, lj_expires := (if lj_owner j = None then lj_expires j else None),
          lj_facts_version := lj_facts_version j + 1, lj_updated_at := now\<rparr>))
        (ret \<lparr>dn_job_id = job_id, dn_facts_version = lj_facts_version job + 1, dn_action = RA_WAIT,
           dn_reason = ''snapshot_contention'', dn_dispatch_id = None,
           dn_wake_at = Some (in_seconds now secs), dn_owner = None, dn_epoch = None\<rparr>)))))"

section \<open>Reconciling\<close>

text \<open>What happens outside: what the run status provider answers at each attempt, and what the other
  processes do between the snapshot and the commit.\<close>

record surroundings =
  su_provider :: "nat \<Rightarrow> run_lookup \<Rightarrow> argent_error + run_observation"
  su_others :: "nat \<Rightarrow> loop_state \<Rightarrow> loop_state"

definition observe_dispatch ::
  "(run_lookup \<Rightarrow> argent_error + run_observation) \<Rightarrow> snapshot \<Rightarrow> argent_error + run_observation option" where
  "observe_dispatch provider sn = (case sn_active_dispatch sn of
     None \<Rightarrow> Inr None
   | Some d \<Rightarrow> (case guarded_observe (build_lookup d) (provider (build_lookup d)) of
       Inl err \<Rightarrow> Inl err | Inr ob \<Rightarrow> Inr (Some ob)))"

definition others_act :: "(loop_state \<Rightarrow> loop_state) \<Rightarrow> unit loopact" where
  "others_act f s = (Inr (), f s)"

text \<open>\<open>reconcile\<close>, with the number of attempts left.\<close>

fun reconcile_loop ::
  "nat \<Rightarrow> env \<Rightarrow> surroundings \<Rightarrow> (string \<times> int) option \<Rightarrow> timestamp \<Rightarrow> string \<Rightarrow>
   reconcile_decision loopact" where
  "reconcile_loop 0 E X holder now job_id = backoff_decision holder now job_id"
| "reconcile_loop (Suc n) E X holder now job_id =
     fetch (\<lambda>s. Option.bind (job_row job_id s) (\<lambda>job. facts_of E job s)) NotFound (\<lambda>snap.
     liftR (observe_dispatch (su_provider X n) snap) (\<lambda>obs.
     andThen (others_act (su_others X n))
     (bindA (commit E holder now job_id snap obs) (\<lambda>answer. case answer of
        Some d \<Rightarrow> ret d
      | None \<Rightarrow> reconcile_loop n E X holder now job_id))))"

definition reconcile ::
  "env \<Rightarrow> surroundings \<Rightarrow> (string \<times> int) option \<Rightarrow> timestamp \<Rightarrow> string \<Rightarrow> reconcile_decision loopact" where
  "reconcile = reconcile_loop (Suc MAX_SNAPSHOT_RETRIES)"

section \<open>Errors that stick, and bounded backoffs\<close>

definition sticky_error :: "string \<Rightarrow> timestamp \<Rightarrow> loop_job \<Rightarrow> loop_job" where
  "sticky_error error_code now job = job\<lparr>lj_status := ''ERROR'', lj_recovery_state := ''PERSISTENT_ERROR'',
     lj_last_error_code := Some error_code, lj_next_action := ''NONE'', lj_next_wake := None,
     lj_updated_at := now, lj_facts_version := lj_facts_version job + 1\<rparr>"

definition persist_error ::
  "(string \<times> int) option \<Rightarrow> timestamp \<Rightarrow> string \<Rightarrow> string \<Rightarrow> unit loopact" where
  "persist_error holder now job_id error_code = in_transaction
     (look (job_row job_id) (\<lambda>cur. case cur of
        None \<Rightarrow> ret ()
      | Some job \<Rightarrow>
          if lj_terminal job \<noteq> None then ret ()
          else enforce_lease_fence holder now job (write_job job_id (sticky_error error_code now))))"

text \<open>The shared body of \<open>adapter_exception_decision\<close> and \<open>_apply_job_backoff\<close>: the action it
  ends in, and the wake time.\<close>

definition job_backoff ::
  "(string \<times> int) option \<Rightarrow> timestamp \<Rightarrow> string \<Rightarrow> string \<Rightarrow> loop_job \<Rightarrow>
   (reconcile_action \<times> timestamp option) loopact" where
  "job_backoff holder now job_id error_code job =
     enforce_lease_fence holder now job
     (let retry = lj_retry_count job + 1 in
      if retry \<ge> MAX_RUNTIME_UNKNOWN
      then andThen (write_job job_id (\<lambda>j. (sticky_error error_code now j)\<lparr>lj_retry_count := retry\<rparr>))
        (ret (RA_PERSISTENT_ERROR, None))
      else liftR (backoff_seconds retry) (\<lambda>secs. andThen
        (write_job job_id (\<lambda>j. j\<lparr>lj_status := ''BACKOFF'', lj_recovery_state := ''RUNTIME_UNKNOWN'',
           lj_queue_reason := ''RETRY_BACKOFF'', lj_next_eligible := Some (in_seconds now secs),
           lj_owner := None, lj_expires := None, lj_last_error_code := Some error_code,
           lj_next_action := ''WAIT'', lj_next_wake := Some (in_seconds now secs),
           lj_retry_count := retry, lj_updated_at := now, lj_facts_version := lj_facts_version j + 1\<rparr>))
        (ret (RA_WAIT, Some (in_seconds now secs)))))"

definition adapter_exception_decision ::
  "(string \<times> int) option \<Rightarrow> timestamp \<Rightarrow> string \<Rightarrow> string \<Rightarrow> reconcile_decision loopact" where
  "adapter_exception_decision holder now job_id type_name =
     (let error_code = ''adapter_exception:'' @ type_name in
      in_transaction (fetch (job_row job_id) NotFound (\<lambda>job.
        bindA (job_backoff holder now job_id error_code job) (\<lambda>(act, wake).
        ret \<lparr>dn_job_id = job_id, dn_facts_version = lj_facts_version job + 1, dn_action = act,
           dn_reason = error_code, dn_dispatch_id = None, dn_wake_at = wake,
           dn_owner = None, dn_epoch = None\<rparr>))))"

definition apply_job_backoff ::
  "(string \<times> int) option \<Rightarrow> timestamp \<Rightarrow> string \<Rightarrow> string \<Rightarrow> unit loopact" where
  "apply_job_backoff holder now job_id error_code = in_transaction
     (look (job_row job_id) (\<lambda>cur. case cur of
        None \<Rightarrow> ret ()
      | Some job \<Rightarrow> andThen (job_backoff holder now job_id error_code job) (ret ())))"

section \<open>Performing an action\<close>

record action_outcome =
  ao_action :: string
  ao_status :: string
  ao_detail :: "string option"
  ao_dispatch_id :: "string option"

definition outcome :: "reconcile_decision \<Rightarrow> string \<Rightarrow> string option \<Rightarrow> action_outcome" where
  "outcome d status detail = \<lparr>ao_action = reconcile_action_value (dn_action d), ao_status = status,
     ao_detail = detail, ao_dispatch_id = None\<rparr>"

text \<open>\<open>Store.assert_lease_current\<close> at the decision's token.\<close>

definition token_current :: "timestamp \<Rightarrow> reconcile_decision \<Rightarrow> loop_job \<Rightarrow> bool" where
  "token_current now d job \<longleftrightarrow> dn_owner d = None \<or>
     (lj_owner job = dn_owner d \<and> Some (lj_epoch job) = dn_epoch d \<and>
      (case lj_expires job of None \<Rightarrow> False | Some e \<Rightarrow> now < e))"

definition is_argent_error :: "argent_error \<Rightarrow> bool" where
  "is_argent_error err \<longleftrightarrow> err \<in> {InvalidTransition, RoleConflict, PermissionDenied, ForbiddenAction,
     ApprovalError, UntrustedSource, OwnerAuthorityRequired, PrivacyViolation, IdempotencyError, NotFound,
     RolePolicyViolation, OutputValidationError, DispatchError, LeaseError, LeaseFencedError,
     WorktreeConflictError, ModelRegistryError}"

text \<open>The handler of an action is an argument (\<open>None\<close>: there is none); its transactions re-check
  the armed fence, as in the lease machine.\<close>

definition perform_next_safe_action ::
  "(string \<times> int) option \<Rightarrow> timestamp \<Rightarrow>
   (reconcile_action \<Rightarrow> (reconcile_decision \<Rightarrow> loop_job \<Rightarrow> action_outcome loopact) option) \<Rightarrow>
   reconcile_decision \<Rightarrow> action_outcome loopact" where
  "perform_next_safe_action holder now handler d =
     (if dn_action d \<in> {RA_NONE, RA_WAIT} then ret (outcome d ''noop'' None)
      else look (job_row (dn_job_id d)) (\<lambda>row. case row of
        None \<Rightarrow> ret (outcome d ''skipped'' (Some ''job_missing''))
      | Some job \<Rightarrow>
          require (token_current now d job) LeaseFencedError
         (if lj_facts_version job \<noteq> dn_facts_version d
          then ret (outcome d ''skipped'' (Some ''stale_decision''))
          else (case handler (dn_action d) of
            None \<Rightarrow> ret (outcome d ''skipped'' (Some ''no_handler''))
          | Some h \<Rightarrow>
              bindA (catch (bindA (h d job) (\<lambda>r. ret (r, True)))
                (\<lambda>err. if err = LeaseFencedError then None
                  else if err = IdempotencyError then Some (andThen
                    (persist_error holder now (lj_id job)
                      (reconcile_action_value (dn_action d) @ ''_args_hash_mismatch''))
                    (ret ((outcome d ''failed'' (Some ''args_hash_mismatch''))
                       \<lparr>ao_dispatch_id := dn_dispatch_id d\<rparr>, False)))
                  else if is_argent_error err then Some
                    (ret ((outcome d ''failed'' (Some ''error''))\<lparr>ao_dispatch_id := dn_dispatch_id d\<rparr>, False))
                  else None))
              (\<lambda>(r, handled). andThen
                (if handled \<and> ao_status r = ''exhausted''
                 then persist_error holder now (lj_id job) (reconcile_action_value (dn_action d) @ ''_exhausted'')
                 else if handled \<and> ao_status r = ''adapter_exception''
                 then andThen (adapter_exception_decision holder now (lj_id job) (given (ao_detail r) ''None'')) (ret ())
                 else ret ())
                (ret r))))))"

end
