(* ===== verification/Journal_Safety.thy ===== *)
theory Journal_Safety
  imports Supervisor_Journal
begin

text \<open>
  What the journal guarantees, over every sequence of its operations: an action is started at most
  five times, the write intents of the dispatches are a write-once map, and the critical section
  lets a patch set reach the workspace at most once, whatever crashes in between.
\<close>

section \<open>The journal as a machine\<close>

datatype journal_command =
    J_Begin string string string "string option" string timestamp action_hashes
  | J_Apply string string string string string timestamp action_hashes
  | J_Finish string string "string option" timestamp
  | J_Close string string timestamp

text \<open>The answer of a command that begins an action is its key and the outcome.\<close>

primrec journal_exec :: "env \<Rightarrow> journal_command \<Rightarrow> (string \<times> string) option jact" where
  "journal_exec E (J_Begin key atype job d args now h) =
     bindA (begin_action E key atype job d args now h) (\<lambda>ro. ret (Some (key, snd ro)))"
| "journal_exec E (J_Apply key job d canonical args now h) =
     bindA (begin_apply_action E key job d canonical args now h)
       (\<lambda>r. ret (map_option (\<lambda>ro. (key, snd ro)) (snd (snd (snd r)))))"
| "journal_exec E (J_Finish i st err now) = andThen (finish_action i st err now) (ret None)"
| "journal_exec E (J_Close job ending now) = andThen (close_action E job ending now) (ret None)"

fun run_journal :: "env \<Rightarrow> journal_command list \<Rightarrow> journal \<Rightarrow> journal" where
  "run_journal E [] s = s"
| "run_journal E (c # cs) s = run_journal E cs (snd (journal_exec E c s))"

definition started :: "string \<Rightarrow> argent_error + (string \<times> string) option \<Rightarrow> bool" where
  "started key r \<longleftrightarrow> r \<in> {Inr (Some (key, ''new'')), Inr (Some (key, ''retry''))}"

text \<open>How often a run starts the action with a key.\<close>

fun starts :: "env \<Rightarrow> string \<Rightarrow> journal_command list \<Rightarrow> journal \<Rightarrow> nat" where
  "starts E key [] s = 0"
| "starts E key (c # cs) s = (if started key (fst (journal_exec E c s)) then 1 else 0) +
     starts E key cs (snd (journal_exec E c s))"

definition empty_journal :: journal where
  "empty_journal = \<lparr>jn_actions = [], jn_intents = []\<rparr>"

section \<open>The budget of an action\<close>

definition sound :: "journal \<Rightarrow> bool" where
  "sound s \<longleftrightarrow> action_rows_ok (jn_actions s)"

definition budget :: "string \<Rightarrow> journal \<Rightarrow> int" where
  "budget key s = (case get_supervisor_action_by_key key s of
     None \<Rightarrow> 5 | Some a \<Rightarrow> max 0 (5 - aj_attempt_count a))"

lemma wp_write_actions [wp_simps]:
  "wp (write_actions f) Q X s = (if action_rows_ok (f (jn_actions s))
     then Q () (s\<lparr>jn_actions := f (jn_actions s)\<rparr>) else X IntegrityError s)"
  by (simp add: wp_def write_actions_def)

lemma wp_insert_intent [wp_simps]:
  "wp (insert_dispatch_write_intent w) Q X s =
     (if find_row wi_dispatch_id (wi_dispatch_id w) (jn_intents s) = None
      then Q () (s\<lparr>jn_intents := jn_intents s @ [w]\<rparr>) else X IntegrityError s)"
  by (simp add: wp_def insert_dispatch_write_intent_def)

lemma wp_journaled [wp_simps]: "wp (journaled m) Q X s = wp m Q (\<lambda>e _. X e s) s"
  by (simp add: journaled_def wp_simps)

lemma by_key_update:
  assumes "\<And>a. aj_key (f a) = aj_key a"
  shows "get_supervisor_action_by_key key (s\<lparr>jn_actions := update_rows p f (jn_actions s)\<rparr>) =
     map_option (\<lambda>a. if p a then f a else a) (get_supervisor_action_by_key key s)"
  using assms by (simp add: get_supervisor_action_by_key_def find_row_update_rows)

lemma budget_same:
  assumes "\<And>a. aj_key (f a) = aj_key a" "\<And>a. aj_attempt_count (f a) = aj_attempt_count a"
  shows "budget key (s\<lparr>jn_actions := update_rows p f (jn_actions s)\<rparr>) = budget key s"
  using assms by (simp add: budget_def by_key_update split: option.split)

lemma budget_insert:
  "action_rows_ok (jn_actions s @ [a]) \<Longrightarrow>
   budget key (s\<lparr>jn_actions := jn_actions s @ [a]\<rparr>) =
     (if key = aj_key a then max 0 (5 - aj_attempt_count a) else budget key s) \<and>
   (key = aj_key a \<longrightarrow> budget key s = 5)"
  by (auto simp: budget_def get_supervisor_action_by_key_def find_row_append find_row_Cons
      action_rows_ok_def unique_keys_snoc split: option.splits)

lemma budget_restart:
  assumes "sound s" "get_supervisor_action_by_key k s = Some a" "aj_attempt_count a < 5"
  shows "budget key (s\<lparr>jn_actions := update_rows (\<lambda>r. aj_id r = aj_id a) (restarted now h) (jn_actions s)\<rparr>)
     = budget key s - (if key = k then 1 else 0)"
proof -
  have a: "a \<in> set (jn_actions s)" "aj_key a = k"
    using assms(2) by (auto simp: get_supervisor_action_by_key_def dest: find_row_SomeD)
  have same: "r = a" if "get_supervisor_action_by_key key s = Some r" "aj_id r = aj_id a" for r
    using that a assms(1)
    by (auto simp: get_supervisor_action_by_key_def sound_def action_rows_ok_def unique_keys_def
        inj_on_def distinct_map dest!: find_row_SomeD)
  have "0 \<le> aj_attempt_count a"
    using a assms(1) by (auto simp: sound_def action_rows_ok_def list_all_iff)
  then show ?thesis
    using same a assms(2,3)
    by (subst budget_def, subst by_key_update)
      (auto simp: restarted_def budget_def get_supervisor_action_by_key_def
        dest: find_row_SomeD split: option.splits)
qed

lemma budget_begin:
  assumes "sound s"
  shows "wp (begin_action_locked E k atype job d args now h)
     (\<lambda>ro s'. sound s' \<and> jn_intents s' = jn_intents s \<and>
        budget key s' + (if snd ro \<in> {''new'', ''retry''} \<and> key = k then 1 else 0) \<le> budget key s) any_error s"
proof (cases "get_supervisor_action_by_key k s")
  case None
  then show ?thesis
    using budget_insert[of s "new_action_row E k atype job d args now h" key]
    by (auto simp: begin_action_locked_def create_action_def insert_supervisor_action_def wp_simps
        sound_def new_action_row_def)
next
  case (Some a)
  then have st: "aj_status a \<in> set ACTION_STATUSES" "aj_key a = k"
    using assms by (auto simp: sound_def action_rows_ok_def list_all_iff get_supervisor_action_by_key_def
        dest!: find_row_SomeD)
  show ?thesis
    using Some st assms budget_restart[OF assms Some, of key now h]
    by (auto simp: begin_action_locked_def wp_simps update_supervisor_action_def sound_def
        MAX_ACTION_RETRIES_def ACTION_STATUSES_def split: option.split)
qed

lemma budget_step:
  assumes "sound s"
  shows "wp (journal_exec E c) (\<lambda>r s'. sound s' \<and> budget key s' + (if started key (Inr r) then 1 else 0) \<le> budget key s)
     (\<lambda>_ s'. s' = s) s"
proof (cases c)
  case (J_Begin k atype job d args now h)
  show ?thesis unfolding J_Begin journal_exec.simps begin_action_def wp_simps
    by (rule wp_mono[OF budget_begin[OF assms, of E k atype job d args now h key]])
      (auto simp: started_def split: if_splits)
next
  case (J_Apply k job d canonical args now h)
  have intent: "budget key (s'\<lparr>jn_intents := ws\<rparr>) = budget key s'" "sound (s'\<lparr>jn_intents := ws\<rparr>) = sound s'" for s' ws
    by (simp_all add: budget_def get_supervisor_action_by_key_def sound_def)
  show ?thesis unfolding J_Apply journal_exec.simps begin_apply_action_def wp_simps
    by (cases "get_dispatch_write_intent d s")
      (auto simp: wp_simps started_def intent assms
        intro!: wp_mono[OF budget_begin[OF assms, of E k _ job _ args now h key]] split: if_splits)
next
  case (J_Finish i st err now)
  show ?thesis unfolding J_Finish journal_exec.simps finish_action_def update_supervisor_action_def wp_simps
    by (auto simp: started_def budget_same sound_def)
next
  case (J_Close job ending now)
  let ?k = "close_key job ending"
  let ?args = "env_sha256 E (env_dumps E (PDict [(''terminal'', PStr ending)]))"
  let ?row = "(new_action_row E ?k ''CLOSE_JOB'' job None ?args now no_hashes)
     \<lparr>aj_status := ''SUCCEEDED'', aj_finished_at := Some now\<rparr>"
  show ?thesis
    using assms budget_insert[of s ?row key]
    unfolding J_Close journal_exec.simps close_action_def Let_def update_supervisor_action_def
      insert_supervisor_action_def wp_simps
    by (cases "get_supervisor_action_by_key ?k s")
      (auto simp: wp_simps started_def budget_same sound_def new_action_row_def)
qed

lemma starts_budget:
  "sound s \<Longrightarrow> int (starts E key cs s) \<le> budget key s"
proof (induction cs arbitrary: s)
  case Nil
  then show ?case by (simp add: budget_def split: option.split)
next
  case (Cons c cs)
  have "sound (snd (journal_exec E c s)) \<and>
      budget key (snd (journal_exec E c s)) + (if started key (fst (journal_exec E c s)) then 1 else 0) \<le> budget key s"
    using budget_step[OF Cons.prems, of E c key] Cons.prems
    by (auto simp: wp_def started_def split: prod.splits sum.splits)
  with Cons.IH[of "snd (journal_exec E c s)"] show ?case by auto
qed

text \<open>C21: The retries of every action are bounded: however the supervisors begin, finish and close
  actions, after whatever crashes, the action with a given key is started at most five times.\<close>

theorem action_attempts_bounded: "starts E key cs empty_journal \<le> 5"
  using starts_budget[of empty_journal E key cs]
  by (simp add: sound_def empty_journal_def action_rows_ok_def budget_def get_supervisor_action_by_key_def find_row_def)

section \<open>The write intents\<close>

definition intents_of :: "journal \<Rightarrow> string \<Rightarrow> string option" where
  "intents_of s d = map_option wi_canonical_input_hash (get_dispatch_write_intent d s)"

text \<open>The specification: a map in which an entry is made once and never changed.\<close>

inductive once_step :: "(string \<Rightarrow> string option) \<Rightarrow> (string \<Rightarrow> string option) \<Rightarrow> bool" where
  keep: "once_step m m"
| claim: "m d = None \<Longrightarrow> once_step m (m(d \<mapsto> h))"

inductive_simps once_step_simps: "once_step m m'"

lemma keeps_intents:
  "keeps jn_intents (write_actions f)"
  by (simp add: keeps_def write_actions_def)

lemma keeps_intents_begin: "keeps jn_intents (begin_action_locked E k atype job d args now h)"
  unfolding begin_action_locked_def create_action_def update_supervisor_action_def insert_supervisor_action_def
  by (intro keeps_rules keeps_intents)

lemma intents_frame: "jn_intents s' = jn_intents s \<Longrightarrow> intents_of s' = intents_of s"
  by (simp add: intents_of_def get_dispatch_write_intent_def fun_eq_iff)

lemma keeps_journaled: "keeps f m \<Longrightarrow> keeps f (journaled m)"
  by (auto simp: keeps_def journaled_def transact_def split: prod.splits sum.splits) (metis snd_conv)

lemma claim_refines:
  "wp (begin_apply_action E key job d canonical args now h)
     (\<lambda>r s'. intents_of s' = (intents_of s)(d := or_else (intents_of s d) (Some canonical)) \<and>
        intents_of s' d = Some (fst (snd r)) \<and> (fst r \<longleftrightarrow> fst (snd r) \<noteq> canonical))
     (\<lambda>_ s'. s' = s) s"
proof (cases "get_dispatch_write_intent d s")
  case None
  show ?thesis
    unfolding begin_apply_action_def wp_simps None option.simps
    by (rule wp_mono[OF wp_keeps[OF keeps_intents_begin, where E = any_error and Q = "\<lambda>_ s'. jn_intents s' = jn_intents s"]])
      (use None in \<open>auto simp: wp_simps or_else_def intents_of_def
        get_dispatch_write_intent_def find_row_append find_row_Cons fun_eq_iff split: option.splits\<close>)
next
  case (Some w)
  have same: "intents_of s d = Some (wi_canonical_input_hash w)"
    using Some by (simp add: intents_of_def)
  show ?thesis
    unfolding begin_apply_action_def wp_simps Some option.simps
    using same
    by (auto simp: wp_simps or_else_def fun_upd_idem
        intro!: wp_mono[OF wp_keeps[OF keeps_intents_begin, where E = any_error and Q = "\<lambda>_ s'. jn_intents s' = jn_intents s"]]
        dest: intents_frame)
qed

lemma once_frame: "jn_intents s' = jn_intents s \<Longrightarrow> once_step (intents_of s) (intents_of s')"
  using intents_frame[of s' s] once_step.keep[of "intents_of s"] by simp

lemma journal_exec_once: "once_step (intents_of s) (intents_of (snd (journal_exec E c s)))"
proof -
  have "wp (journal_exec E c) (\<lambda>_ s'. once_step (intents_of s) (intents_of s'))
      (\<lambda>_ s'. once_step (intents_of s) (intents_of s')) s"
  proof (cases c)
    case (J_Apply key job d canonical args now h)
    show ?thesis unfolding J_Apply journal_exec.simps wp_simps
      by (rule wp_mono[OF claim_refines])
        (auto simp: or_else_def fun_upd_idem intro: once_step.intros split: option.splits)
  next
    case (J_Begin key atype job d args now h)
    have "keeps jn_intents (journal_exec E c)"
      unfolding J_Begin journal_exec.simps begin_action_def
      by (intro keeps_rules keeps_journaled keeps_intents_begin)
    then show ?thesis by (rule wp_keeps) (erule once_frame)+
  next
    case (J_Finish i st err now)
    have "keeps jn_intents (journal_exec E c)"
      unfolding J_Finish journal_exec.simps finish_action_def update_supervisor_action_def
      by (intro keeps_rules keeps_journaled keeps_intents)
    then show ?thesis by (rule wp_keeps) (erule once_frame)+
  next
    case (J_Close job ending now)
    have "keeps jn_intents (journal_exec E c)"
      unfolding J_Close journal_exec.simps close_action_def update_supervisor_action_def
        insert_supervisor_action_def Let_def
      by (intro keeps_rules keeps_journaled keeps_intents)
    then show ?thesis by (rule wp_keeps) (erule once_frame)+
  qed
  then show ?thesis by (simp add: wp_snd)
qed

lemma once_steps_kept: "once_step\<^sup>*\<^sup>* m m' \<Longrightarrow> m d = Some h \<Longrightarrow> m' d = Some h"
  by (induction rule: rtranclp_induct) (auto simp: once_step_simps split: if_splits)

lemma run_journal_once: "once_step\<^sup>*\<^sup>* (intents_of s) (intents_of (run_journal E cs s))"
proof (induction cs arbitrary: s)
  case (Cons c cs)
  have "once_step (intents_of s) (intents_of (snd (journal_exec E c s)))" by (rule journal_exec_once)
  with Cons.IH show ?case by (auto intro: converse_rtranclp_into_rtranclp)
qed simp

lemma frozen_winner:
  assumes "begin_apply_action E key job d canonical args now h s = (Inr (conflict, winner, aid, ro), s')"
  shows "frozen_write_result_hash d (run_journal E cs s') = Some winner"
proof -
  have "intents_of s' d = Some winner"
    using wp_Inr[OF claim_refines[of E key job d canonical args now h s] assms] by auto
  then have "intents_of (run_journal E cs s') d = Some winner"
    using once_steps_kept[OF run_journal_once] by blast
  then show ?thesis by (auto simp: intents_of_def frozen_write_result_hash_def)
qed

text \<open>C22: The write intents refine a write-once map.  Every run of the journal is a run of the map,
  in which an entry is claimed once and never changed; a controller that begins to apply a result
  is told the entry of its dispatch, and is refused exactly if that is another result's.  So at
  most one result of a dispatch is ever frozen, and its hash stays frozen.\<close>

theorem write_intent_refinement:
  assumes "begin_apply_action E key job d canonical args now h s = (Inr (conflict, winner, aid, ro), s')"
  shows "once_step\<^sup>*\<^sup>* (intents_of s) (intents_of (run_journal E cs s)) \<and>
    intents_of s' = (intents_of s)(d := or_else (intents_of s d) (Some canonical)) \<and>
    (conflict \<longleftrightarrow> winner \<noteq> canonical) \<and>
    frozen_write_result_hash d (run_journal E cs s') = Some winner"
proof -
  have r: "intents_of s' = (intents_of s)(d := or_else (intents_of s d) (Some canonical))"
      "intents_of s' d = Some winner" "conflict \<longleftrightarrow> winner \<noteq> canonical"
    using wp_Inr[OF claim_refines[of E key job d canonical args now h s] assms] by auto
  moreover have "frozen_write_result_hash d (run_journal E cs s') = Some winner"
    using assms by (rule frozen_winner)
  ultimately show ?thesis
    using run_journal_once by auto
qed

definition quiet_env :: env where
  "quiet_env = \<lparr>env_clock = int, env_uuid = (\<lambda>n. replicate (Suc n) CHR ''u''),
     env_sha256 = (\<lambda>t. t), env_dumps = (\<lambda>_. []), env_loads = (\<lambda>_. None), env_str = (\<lambda>_. []),
     env_sql_text = (\<lambda>_. []), env_registry = \<lparr>mr_providers = [], mr_models = []\<rparr>\<rparr>"

lemma write_intent_refinement_witness:
  "\<exists>winner. winner = ''result-1'' \<and>
     frozen_write_result_hash ''d1'' (run_journal quiet_env
       [J_Apply ''k2'' ''job'' ''d1'' ''result-2'' ''args'' 3 no_hashes]
       (snd (begin_apply_action quiet_env ''k1'' ''job'' ''d1'' ''result-1'' ''args'' 2 no_hashes
          empty_journal))) = Some winner"
proof -
  define s' where "s' = snd (begin_apply_action quiet_env ''k1'' ''job'' ''d1'' ''result-1'' ''args'' 2
    no_hashes empty_journal)"
  have "fst (begin_apply_action quiet_env ''k1'' ''job'' ''d1'' ''result-1'' ''args'' 2 no_hashes empty_journal) =
     Inr (False, ''result-1'', ''k1'',
       Some (new_action_row quiet_env ''k1'' ''APPLY_PATCH_SET'' ''job'' (Some ''d1'') ''args'' 2 no_hashes, ''new''))"
    by code_simp
  then have "begin_apply_action quiet_env ''k1'' ''job'' ''d1'' ''result-1'' ''args'' 2 no_hashes empty_journal =
     (Inr (False, ''result-1'', ''k1'',
       Some (new_action_row quiet_env ''k1'' ''APPLY_PATCH_SET'' ''job'' (Some ''d1'') ''args'' 2 no_hashes, ''new'')), s')"
    by (simp add: s'_def prod_eq_iff)
  from write_intent_refinement[OF this] show ?thesis unfolding s'_def[symmetric] by blast
qed

section \<open>Writing the workspace\<close>

text \<open>The life of one write action: visits of the critical section and retries of a failed action,
  which fix the hashes anew (\<open>begin_action\<close> restarts a row only in the status \<open>FAILED\<close>).\<close>

datatype write_event = Visit broker_end timestamp | Retry timestamp action_hashes

primrec write_event_step :: "write_event \<Rightarrow> writing \<Rightarrow> writing" where
  "write_event_step (Visit meets now) s = apply_patch_set_locked meets now s"
| "write_event_step (Retry now h) s =
     (if aj_status (wr_row s) = ''FAILED'' then s\<lparr>wr_row := restarted now h (wr_row s)\<rparr> else s)"

definition writing_ok :: "writing \<Rightarrow> bool" where
  "writing_ok s \<longleftrightarrow> wr_count s \<le> 1 \<and>
     (aj_status (wr_row s) = ''SUCCEEDED'' \<longrightarrow> Some (wr_disk s) = aj_effect_hash (wr_row s)) \<and>
     (wr_count s = 1 \<longrightarrow> aj_status (wr_row s) \<in> {''SUCCEEDED'', ''UNCERTAIN''} \<or>
        aj_status (wr_row s) = ''RUNNING'' \<and> Some (wr_disk s) = aj_effect_hash (wr_row s))"

lemma write_event_step_ok: "writing_ok s \<Longrightarrow> writing_ok (write_event_step e s)"
  by (cases e) (auto simp: writing_ok_def apply_patch_set_locked_def invoke_broker_def
      apply_choice_def finished_def restarted_def split: broker_end.split option.split)

definition write_life :: "env \<Rightarrow> string \<Rightarrow> string \<Rightarrow> string \<Rightarrow> string \<Rightarrow> timestamp \<Rightarrow> action_hashes \<Rightarrow>
  string \<Rightarrow> write_event list \<Rightarrow> writing" where
  "write_life E key job d args now h disk es = fold write_event_step es
     \<lparr>wr_row = new_action_row E key ''APPLY_PATCH_SET'' job (Some d) args now h,
      wr_disk = disk, wr_count = 0\<rparr>"

definition announced :: "writing \<Rightarrow> bool" where
  "announced s \<longleftrightarrow> (aj_status (wr_row s) = ''SUCCEEDED'' \<longrightarrow> Some (wr_disk s) = aj_effect_hash (wr_row s))"

text \<open>C23: However its controllers crash, are refused or retry, the patch set of an action is written
  completely at most once, and an action that is recorded as succeeded leaves the workspace at the
  effect it announced.\<close>

theorem patch_set_written_once:
  "announced (write_life E key job d args now h disk es) \<and>
   wr_count (write_life E key job d args now h disk es) \<le> 1"
proof -
  have "writing_ok (fold write_event_step es s)" if "writing_ok s" for s
    using that by (induction es arbitrary: s) (simp_all add: write_event_step_ok)
  moreover have "writing_ok \<lparr>wr_row = new_action_row E key ''APPLY_PATCH_SET'' job (Some d) args now h,
      wr_disk = disk, wr_count = 0\<rparr>"
    by (simp add: writing_ok_def new_action_row_def)
  ultimately show ?thesis by (simp add: writing_ok_def announced_def write_life_def)
qed

end
