(* ===== verification/Supervisor_Safety.thy ===== *)
theory Supervisor_Safety
  imports Supervisor_Loop Journal_Safety
begin

text \<open>
  What the supervisor's decisions guarantee: a run is spawned only for a dispatch whose spawn was never
  journaled, only the result that was applied is tested, recorded and consumed, every committed
  decision rests on the facts it was committed with, and a job in error is left alone.
\<close>

section \<open>The actions of the branches\<close>

lemmas plan_defs = plan_of_def error_plan_def poll_plan_def step_plan_def missing_plan_def
  bounded_backoff_def after_backoff_def adapter_backoff_def write_hash_mismatch_plan_def
  apply_diverged_plan_def

lemma decide_no_active_actions:
  "pl_action (decide_no_active sn r) \<in> {RA_CLOSE_FAILED, RA_START_ROLE, RA_CREATE_DISPATCH}"
  by (simp add: decide_no_active_def Let_def plan_of_def split: option.split)

lemma decide_gate_actions:
  "decide_gate now sn = Some p \<Longrightarrow> pl_action p \<in> {RA_PERSISTENT_ERROR, RA_PRESENT_OWNER_GATE, RA_WAIT}"
  by (auto simp: decide_gate_def plan_defs split: if_splits option.splits)

lemma bounded_backoff_actions:
  "bounded_backoff now job ad reason = Inr p \<Longrightarrow> pl_action p \<in> {RA_PERSISTENT_ERROR, RA_WAIT}"
  by (auto simp: plan_defs Let_def split: if_splits sum.splits)

lemma missing_plan_actions: "missing_plan now job ad reason = Inr p \<Longrightarrow> pl_action p = RA_WAIT"
  by (auto simp: plan_defs split: sum.splits)

lemma write_preconditions_actions:
  "decide_write_preconditions E now jn sn ob ad = Inr p \<Longrightarrow> pl_action p \<in> {RA_PERSISTENT_ERROR, RA_WAIT,
     RA_APPLY_PATCH_SET, RA_RUN_SANDBOX_TESTS, RA_RECORD_TEST_RESULT, RA_CONSUME_RESULT}"
  by (auto simp: decide_write_preconditions_def apply_diverged_plan_def write_hash_mismatch_plan_def
      error_plan_def step_plan_def plan_of_def dest!: bounded_backoff_actions split: if_splits option.splits)

lemma decide_bound_actions:
  "decide_bound E now jn sn obs role ad = Inr p \<Longrightarrow> pl_action p \<in> {RA_PERSISTENT_ERROR, RA_WAIT,
     RA_APPLY_PATCH_SET, RA_RUN_SANDBOX_TESTS, RA_RECORD_TEST_RESULT, RA_CONSUME_RESULT,
     RA_MARK_RUN_FAILED, RA_CLOSE_BLOCKED}"
  by (auto simp: decide_bound_def adapter_backoff_def poll_plan_def step_plan_def plan_of_def
      dest!: bounded_backoff_actions missing_plan_actions write_preconditions_actions
      split: if_splits option.splits)

text \<open>Every plan that is not about the task or the gate comes from one of the three branches.\<close>

lemma decide_cases:
  assumes "decide E now jn sn obs = Inr p"
    "pl_action p \<notin> {RA_NONE, RA_CLOSE_DONE, RA_CLOSE_FAILED, RA_CLOSE_BLOCKED, RA_PERSISTENT_ERROR,
       RA_WAIT, RA_PRESENT_OWNER_GATE}"
  obtains (no_active) role where "wf_expected_role (sn_frontier sn) = Some role"
      "sn_active_dispatch sn = None" "p = decide_no_active sn role"
  | (unbound) role ad where "wf_expected_role (sn_frontier sn) = Some role"
      "sn_active_dispatch sn = Some ad" "\<not> off_frontier sn role ad" "unbound ad"
      "decide_unbound now jn sn obs role ad = Inr p"
  | (bound) role ad where "wf_expected_role (sn_frontier sn) = Some role"
      "sn_active_dispatch sn = Some ad" "\<not> off_frontier sn role ad" "\<not> unbound ad"
      "decide_bound E now jn sn obs role ad = Inr p"
  using assms decide_gate_actions[of now sn p]
  by (auto simp: decide_def error_plan_def plan_of_def split: if_splits option.splits)

lemma decide_unbound_spawn:
  assumes "decide_unbound now jn sn obs role ad = Inr p" "pl_action p = RA_SPAWN_RUN"
  shows "\<exists>ob. obs = Some ob \<and> ro_status ob = RS_NOT_FOUND \<and> ro_authoritative_not_found ob \<and>
    spawn_action (d_id ad) jn = None \<and> pl_dispatch_id p = Some (d_id ad)"
  using assms
  by (auto simp: decide_unbound_def Let_def adapter_backoff_def poll_plan_def step_plan_def plan_of_def
      error_plan_def dest!: bounded_backoff_actions missing_plan_actions split: if_splits option.splits)

section \<open>Examples\<close>

definition sample_dispatch :: "string \<Rightarrow> role \<Rightarrow> dispatch_status \<Rightarrow> int \<Rightarrow> agent_dispatch" where
  "sample_dispatch did r st pos = \<lparr>d_id = did, d_task_id = ''t'', d_task_run_id = ''tr'', d_role = r,
     d_parent_dispatch_id = None, d_expected_agent_class = ''deepseek'', d_expected_model_class = ''m'',
     d_expected_thinking_tier = ''max'', d_child_session_id = None, d_openclaw_run_id = None,
     d_actual_provider = None, d_actual_model = None, d_thinking_tier = None, d_status = st,
     d_cycle_no = 1, d_position = pos, d_sequence_kind = SEQ_STANDARD, d_attempt_no = 1,
     d_handoff_id = None, d_result = None, d_created_at = 0, d_started_at = None, d_consumed_at = None,
     d_routing_decision_id = None, d_escalation_level = 0, d_routing_reason_code = None,
     d_attempt_outcome = None\<rparr>"

definition sample_projection :: projection where
  "sample_projection = \<lparr>pj_workflow_state = ''IMPLEMENTING'', pj_expected_role = None,
     pj_expected_dispatch_id = None, pj_agent_id = None, pj_session_id = None, pj_run_id = None,
     pj_attempt_no = 0, pj_dispatch_status = None, pj_result_status = ''NOT_OBSERVED'',
     pj_result_consumed = False, pj_current_handoff_id = None, pj_open_findings_count = 0,
     pj_rework_cycle = 1, pj_owner_gate_id = None, pj_gate_status = None, pj_gate_scope = None,
     pj_gate_closed = False\<rparr>"

definition sample_job :: "string \<Rightarrow> loop_job" where
  "sample_job status = \<lparr>lj_id = ''j'', lj_task_id = ''t'', lj_status = status, lj_terminal = None,
     lj_recovery_state = ''NONE'', lj_queue_reason = ''NEW'', lj_owner = Some ''me'', lj_epoch = 1,
     lj_expires = Some 1000, lj_next_eligible = None, lj_next_action = ''NONE'', lj_next_wake = None,
     lj_retry_count = 0, lj_missing_confirmations = 0, lj_owner_prompted_at = None,
     lj_owner_prompted_gate_id = None, lj_last_error_code = None, lj_last_progress_at = 0,
     lj_facts_version = 0, lj_updated_at = 0, lj_projection = sample_projection\<rparr>"

definition sample_task :: task where
  "sample_task = \<lparr>t_id = ''t'', t_project_id = ''p'', t_title = '''', t_state = IMPLEMENTING,
     t_resume_state = None, t_source = '''', t_source_class = TRUSTED, t_created_at = 0, t_updated_at = 0,
     t_idempotency_key = None, t_description = None, t_risk_class = RISK_NORMAL,
     t_external_actions_policy = ALLOWED_WITH_GATE\<rparr>"

definition sample_snap :: "role \<Rightarrow> agent_dispatch \<Rightarrow> snapshot" where
  "sample_snap r d = \<lparr>sn_job = sample_job ''ACTIVE'', sn_task = sample_task,
     sn_frontier = \<lparr>wf_cycle_no = 1, wf_position = d_position d, wf_sequence_kind = SEQ_STANDARD,
       wf_include_reviewer = True, wf_expected_role = Some r\<rparr>,
     sn_active_dispatch = Some d, sn_dispatch_at_frontier = Some d, sn_max_attempt = 1,
     sn_active_role_run = None, sn_gate = None, sn_open_gates_count = 0, sn_open_findings_count = 0,
     sn_latest_handoff_id = None, sn_journal = []\<rparr>"

definition sample_lookup :: run_lookup where
  "sample_lookup = build_lookup (sample_dispatch ''d2'' IMPLEMENTER DS_PENDING 3)"

definition sample_seen :: "run_status \<Rightarrow> run_observation" where
  "sample_seen st = (no_evidence st sample_lookup ''x'' None)\<lparr>ro_authoritative_not_found := True\<rparr>"

section \<open>The spawn of a run\<close>

definition key_kept :: "string \<Rightarrow> journal \<Rightarrow> journal \<Rightarrow> bool" where
  "key_kept k s s' \<longleftrightarrow> (get_supervisor_action_by_key k s \<noteq> None \<longrightarrow> get_supervisor_action_by_key k s' \<noteq> None)"

lemma key_kept_refl [simp]: "reflp (key_kept k)"
  by (simp add: reflp_def key_kept_def)

lemma key_kept_trans [simp]: "transp (key_kept k)"
  by (auto simp: transp_def key_kept_def)

lemma key_kept_statements:
  "steps (key_kept k) (insert_supervisor_action row)"
  "(\<And>a. aj_key (f a) = aj_key a) \<Longrightarrow> steps (key_kept k) (update_supervisor_action i f)"
  "steps (key_kept k) (insert_dispatch_write_intent w)"
  by (auto simp: steps_def key_kept_def insert_supervisor_action_def update_supervisor_action_def
      write_actions_def insert_dispatch_write_intent_def get_supervisor_action_by_key_def
      find_row_append find_row_update_rows split: option.split)

lemma key_kept_journaled: "steps (key_kept k) m \<Longrightarrow> steps (key_kept k) (journaled m)"
  unfolding journaled_def by (rule steps_transact) (simp_all add: key_kept_def)

lemma key_kept_begin: "steps (key_kept k) (begin_action_locked E key atype job d args now h)"
  unfolding begin_action_locked_def create_action_def
  by (intro steps_rules key_kept_statements key_kept_refl key_kept_trans) (simp_all add: restarted_def)

lemma key_kept_exec: "steps (key_kept k) (journal_exec E c)"
  by (cases c; simp only: journal_exec.simps begin_action_def begin_apply_action_def finish_action_def
        close_action_def Let_def)
    (intro steps_rules key_kept_journaled key_kept_begin key_kept_statements key_kept_refl key_kept_trans;
      simp)+

lemma key_kept_run:
  "get_supervisor_action_by_key k s \<noteq> None \<Longrightarrow> get_supervisor_action_by_key k (run_journal E cs s) \<noteq> None"
proof (induction cs arbitrary: s)
  case (Cons c cs)
  have "key_kept k s (snd (journal_exec E c s))" by (rule stepsD[OF key_kept_exec])
  with Cons show ?case by (simp add: key_kept_def)
qed simp

lemma begun_action:
  assumes "begin_action E key atype job d args now h s = (Inr r, s')"
  shows "get_supervisor_action_by_key key s' \<noteq> None"
proof -
  have "wp (begin_action E key atype job d args now h)
      (\<lambda>_ s'. get_supervisor_action_by_key key s' \<noteq> None) any_error s"
    unfolding begin_action_def begin_action_locked_def create_action_def insert_supervisor_action_def
      update_supervisor_action_def wp_simps
    by (auto simp: wp_simps get_supervisor_action_by_key_def find_row_append new_action_row_def
        find_row_Cons find_row_update_rows restarted_def split: option.split)
  from wp_Inr[OF this assms] show ?thesis .
qed

text \<open>C9: Once the spawn of a dispatch is in the journal, no supervisor ever plans it again,
  whatever the journal goes through; and a spawn is planned only for an unbound dispatch whose run was
  authoritatively not found.\<close>

theorem spawn_planned_once:
  assumes "decide E now (run_journal E cs s') sn obs = Inr p" "pl_action p = RA_SPAWN_RUN"
    and "begin_action E (''supervisor:dispatch:'' @ did @ '':spawn'') ''SPAWN_RUN'' job (Some did) args at' h s
      = (Inr begun, s')"
  shows "pl_dispatch_id p \<noteq> Some did \<and>
    (\<exists>ad ob. sn_active_dispatch sn = Some ad \<and> pl_dispatch_id p = Some (d_id ad) \<and> unbound ad \<and>
       obs = Some ob \<and> ro_status ob = RS_NOT_FOUND \<and> ro_authoritative_not_found ob)"
proof -
  have spawned: "spawn_action did (run_journal E cs s') \<noteq> None"
    unfolding spawn_action_def by (rule key_kept_run[OF begun_action[OF assms(3)]])
  have "pl_action p \<notin> {RA_NONE, RA_CLOSE_DONE, RA_CLOSE_FAILED, RA_CLOSE_BLOCKED, RA_PERSISTENT_ERROR,
       RA_WAIT, RA_PRESENT_OWNER_GATE}"
    using assms(2) by simp
  with assms(1) show ?thesis
  proof (cases rule: decide_cases)
    case (no_active role)
    then show ?thesis using decide_no_active_actions[of sn role] assms(2) by auto
  next
    case (unbound role ad)
    then show ?thesis using decide_unbound_spawn[OF unbound(5) assms(2)] spawned by auto
  next
    case (bound role ad)
    then show ?thesis using decide_bound_actions[OF bound(5)] assms(2) by auto
  qed
qed

section \<open>The write pipeline\<close>

lemma pipeline_branch:
  assumes "decide E now jn sn obs = Inr p" "sn_active_dispatch sn = Some ad" "is_write_role (d_role ad)"
    "pl_action p \<in> {RA_RUN_SANDBOX_TESTS, RA_RECORD_TEST_RESULT, RA_CONSUME_RESULT}"
  shows "\<exists>ob. obs = Some ob \<and> ro_status ob = RS_SUCCEEDED \<and>
    decide_write_preconditions E now jn sn ob ad = Inr p"
proof -
  have "pl_action p \<notin> {RA_NONE, RA_CLOSE_DONE, RA_CLOSE_FAILED, RA_CLOSE_BLOCKED, RA_PERSISTENT_ERROR,
       RA_WAIT, RA_PRESENT_OWNER_GATE}"
    using assms(4) by auto
  with assms(1) show ?thesis
proof (cases rule: decide_cases)
  case (no_active role)
  then show ?thesis using assms(2) by simp
next
  case (unbound role a)
  then show ?thesis using assms(2,4)
    by (auto simp: decide_unbound_def Let_def adapter_backoff_def poll_plan_def step_plan_def plan_of_def
      error_plan_def dest!: bounded_backoff_actions missing_plan_actions split: if_splits option.splits)
next
  case (bound role a)
  then have "role = d_role ad" "a = ad" using assms(2) by (auto simp: off_frontier_def)
  with bound assms(3,4) show ?thesis
    by (auto simp: decide_bound_def adapter_backoff_def poll_plan_def step_plan_def plan_of_def
      dest!: bounded_backoff_actions missing_plan_actions split: if_splits option.splits)
qed
qed

lemma pipeline_facts:
  assumes "decide_write_preconditions E now jn sn ob ad = Inr p"
    "pl_action p \<in> {RA_RUN_SANDBOX_TESTS, RA_RECORD_TEST_RESULT, RA_CONSUME_RESULT}"
  shows "action_succeeded (d_id ad) ''APPLY_PATCH_SET'' jn \<and> diverged_apply_intent (d_id ad) jn = None \<and>
    frozen_write_result_hash (d_id ad) jn \<in> {None, Some (canonical_full_result_hash E (ro_result ob))} \<and>
    (pl_action p = RA_RUN_SANDBOX_TESTS \<or> action_succeeded (d_id ad) ''RUN_SANDBOX_TESTS'' jn) \<and>
    (pl_action p \<noteq> RA_CONSUME_RESULT \<or> action_succeeded (d_id ad) ''RECORD_TEST_RESULT'' jn)"
  using assms
  by (auto simp: decide_write_preconditions_def apply_diverged_plan_def write_hash_mismatch_plan_def
      error_plan_def step_plan_def plan_of_def dest!: bounded_backoff_actions split: if_splits option.splits)

text \<open>C10: Only the result that was applied is tested, recorded and consumed: once a write intent of
  a dispatch exists, the next steps of its pipeline are planned only while the run reports exactly the
  frozen result, and each only after the steps before it have succeeded.\<close>

theorem applied_result_consumed:
  assumes "begin_apply_action E key job (d_id ad) canonical args at' h s = (Inr (conflict, winner, aid, ro), s')"
    and "decide E now (run_journal E cs s') sn obs = Inr p" "sn_active_dispatch sn = Some ad"
    and "is_write_role (d_role ad)" "pl_action p \<in> {RA_RUN_SANDBOX_TESTS, RA_RECORD_TEST_RESULT, RA_CONSUME_RESULT}"
  shows "(\<exists>ob. obs = Some ob \<and> ro_status ob = RS_SUCCEEDED \<and> canonical_full_result_hash E (ro_result ob) = winner) \<and>
    action_succeeded (d_id ad) ''APPLY_PATCH_SET'' (run_journal E cs s') \<and>
    (pl_action p = RA_RUN_SANDBOX_TESTS \<or> action_succeeded (d_id ad) ''RUN_SANDBOX_TESTS'' (run_journal E cs s')) \<and>
    (pl_action p \<noteq> RA_CONSUME_RESULT \<or> action_succeeded (d_id ad) ''RECORD_TEST_RESULT'' (run_journal E cs s'))"
proof -
  obtain ob where ob: "obs = Some ob" "ro_status ob = RS_SUCCEEDED"
      "decide_write_preconditions E now (run_journal E cs s') sn ob ad = Inr p"
    using pipeline_branch[OF assms(2-5)] by blast
  have "frozen_write_result_hash (d_id ad) (run_journal E cs s') = Some winner"
    using assms(1) by (rule frozen_winner)
  then show ?thesis using pipeline_facts[OF ob(3) assms(5)] ob(1,2) by auto
qed

section \<open>Decisions and the facts they rest on\<close>

definition committed ::
  "env \<Rightarrow> (string \<times> int) option \<Rightarrow> timestamp \<Rightarrow> string \<Rightarrow> snapshot \<Rightarrow> run_observation option \<Rightarrow>
   loop_state \<Rightarrow> reconcile_decision \<Rightarrow> loop_state \<Rightarrow> loop_job \<Rightarrow> snapshot \<Rightarrow> plan \<Rightarrow> bool" where
  "committed E holder now i snap obs s d s' job latest p \<longleftrightarrow> d = decision_of p job \<and> job_row i s = Some job \<and>
     lease_fence_ok holder now job \<and> facts_of E job s = Some latest \<and>
     snapshot_key latest = snapshot_key snap \<and> decide E now (ls_journal s) latest obs = Inr p \<and>
     s' = snd (write_job i (apply_plan now p (projection_fields (ls_core s) latest obs)) s)"

lemma committedI:
  assumes "job_row i s = Some job" "lease_fence_ok holder now job" "facts_of E job s = Some latest"
    "snapshot_key latest = snapshot_key snap" "decide E now (ls_journal s) latest obs = Inr p"
  shows "\<exists>job' latest' p'. committed E holder now i snap obs s (decision_of p job)
     (snd (write_job i (apply_plan now p (projection_fields (ls_core s) latest obs)) s)) job' latest' p'"
  using assms unfolding committed_def by blast

lemma wp_write_job [wp_simps]:
  "wp (write_job i f) Q X s = Q () (snd (write_job i f s))"
  by (simp add: wp_def write_job_def)

lemma wp_commit:
  "wp (commit E holder now i snap obs) (\<lambda>answer s'. case answer of None \<Rightarrow> s' = s
     | Some d \<Rightarrow> \<exists>job latest p. committed E holder now i snap obs s d s' job latest p) any_error s"
  unfolding commit_def in_transaction_def enforce_lease_fence_def wp_simps
  by (auto simp: wp_simps split: option.split sum.split intro: committedI)

lemma commit_cases:
  assumes "commit E holder now i snap obs s = (Inr answer, s')"
  obtains (retry) "answer = None" "s' = s"
  | (decided) job latest p where "answer = Some (decision_of p job)" "job_row i s = Some job"
      "lease_fence_ok holder now job" "facts_of E job s = Some latest"
      "snapshot_key latest = snapshot_key snap" "decide E now (ls_journal s) latest obs = Inr p"
      "s' = snd (write_job i (apply_plan now p (projection_fields (ls_core s) latest obs)) s)"
  using wp_Inr[OF wp_commit assms] unfolding committed_def by (auto split: option.splits)

lemma same_key_same_dispatch:
  "snapshot_key a = snapshot_key b \<Longrightarrow>
   map_option dispatch_key (sn_active_dispatch a) = map_option dispatch_key (sn_active_dispatch b)"
  by (simp add: snapshot_key_def)

definition decided_on ::
  "env \<Rightarrow> surroundings \<Rightarrow> (string \<times> int) option \<Rightarrow> timestamp \<Rightarrow> string \<Rightarrow> reconcile_decision \<Rightarrow>
   loop_state \<Rightarrow> loop_state \<Rightarrow> bool" where
  "decided_on E X holder now i d s s' \<longleftrightarrow> (\<exists>job latest obs p.
     job_row i s = Some job \<and> lease_fence_ok holder now job \<and> facts_of E job s = Some latest \<and>
     decide E now (ls_journal s) latest obs = Inr p \<and> d = decision_of p job \<and>
     s' = snd (write_job i (apply_plan now p (projection_fields (ls_core s) latest obs)) s) \<and>
     (case sn_active_dispatch latest of
        None \<Rightarrow> obs = None
      | Some ad \<Rightarrow> \<exists>lk k ob. obs = Some ob \<and> guarded_observe lk (su_provider X k lk) = Inr ob \<and>
          lk_dispatch_id lk = d_id ad \<and> lk_agent_id lk = agent_id_of (d_role ad) \<and>
          lk_bound_session_id lk = d_child_session_id ad \<and> lk_bound_run_id lk = d_openclaw_run_id ad))"

lemma reconcile_loop_decided:
  "reconcile_loop n E X holder now i s = (Inr d, s') \<Longrightarrow>
   dn_action d = RA_WAIT \<and> dn_reason d = ''snapshot_contention'' \<or> (\<exists>s1. decided_on E X holder now i d s1 s')"
proof (induction n arbitrary: s)
  case 0
  then show ?case
    by (auto simp: backoff_decision_def in_transaction_def transact_def fetch_def enforce_lease_fence_def
        require_def liftR_def andThen_def bindA_def ret_def write_job_def
        split: option.splits if_splits sum.splits)
next
  case (Suc n)
  from Suc.prems obtain snap obs answer s2 where
    o: "observe_dispatch (su_provider X n) snap = Inr obs" and
    c: "commit E holder now i snap obs (su_others X n s) = (Inr answer, s2)" and
    r: "(case answer of Some d \<Rightarrow> ret d | None \<Rightarrow> reconcile_loop n E X holder now i) s2 = (Inr d, s')"
    by (auto simp: fetch_def liftR_def others_act_def andThen_def bindA_def
        split: option.splits sum.splits prod.splits)
  from c show ?case
  proof (cases rule: commit_cases)
    case retry
    with r Suc.IH show ?thesis by auto
  next
    case (decided job latest p)
    have key: "map_option dispatch_key (sn_active_dispatch snap) = map_option dispatch_key (sn_active_dispatch latest)"
      using same_key_same_dispatch[OF decided(5)] by simp
    have "case sn_active_dispatch latest of
        None \<Rightarrow> obs = None
      | Some ad \<Rightarrow> \<exists>lk k ob. obs = Some ob \<and> guarded_observe lk (su_provider X k lk) = Inr ob \<and>
          lk_dispatch_id lk = d_id ad \<and> lk_agent_id lk = agent_id_of (d_role ad) \<and>
          lk_bound_session_id lk = d_child_session_id ad \<and> lk_bound_run_id lk = d_openclaw_run_id ad"
    proof (cases "sn_active_dispatch latest")
      case None
      with key o show ?thesis by (auto simp: observe_dispatch_def)
    next
      case (Some ad)
      then obtain a where "sn_active_dispatch snap = Some a" "dispatch_key a = dispatch_key ad"
        using key by auto
      with Some o show ?thesis
        by (auto simp: observe_dispatch_def dispatch_key_def build_lookup_def split: sum.splits
            intro!: exI[of _ "build_lookup a"] exI[of _ n])
    qed
    with decided r have "decided_on E X holder now i d (su_others X n s) s'"
      unfolding decided_on_def by (auto simp: ret_def)
    then show ?thesis by blast
  qed
qed

text \<open>C17: Whatever other processes do meanwhile, a decision that \<open>reconcile\<close> returns rests on the facts
  of the very state it is committed to: the lease was held there, the observation was made for the
  dispatch, session and run that are active there, and only the row of the job changes.  Otherwise it is
  the backoff after four lost races.\<close>

theorem reconcile_decides_on_current_facts:
  assumes "reconcile E X holder now i s = (Inr d, s')"
  shows "dn_action d = RA_WAIT \<and> dn_reason d = ''snapshot_contention'' \<or> (\<exists>s1. decided_on E X holder now i d s1 s')"
  using assms unfolding reconcile_def by (rule reconcile_loop_decided)

text \<open>A job that is terminal or in error is left alone: the committed decision is to do
  nothing, the row keeps its state and counters, and performing the decision does nothing.\<close>

theorem sticky_job_inert:
  assumes "commit E holder now i snap obs s = (Inr (Some d), s')" "job_row i s = Some job"
    and "lj_terminal job \<noteq> None \<or> lj_status job = ''ERROR''"
  shows "dn_action d = RA_NONE \<and>
    (\<exists>job'. job_row i s' = Some job' \<and> lj_terminal job' = lj_terminal job \<and> lj_status job' = lj_status job \<and>
       lj_recovery_state job' = lj_recovery_state job \<and> lj_retry_count job' = lj_retry_count job) \<and>
    perform_next_safe_action holder' now' handler d s' = (Inr (outcome d ''noop'' None), s')"
  using assms(1)
proof (cases rule: commit_cases)
  case (decided job' latest p)
  have job: "job' = job" "sn_job latest = job" "lj_id job = i"
    using decided(2,4) assms(2)
    by (auto simp: facts_of_def read_core_facts_def Let_def job_row_def dest: find_row_SomeD split: option.splits)
  have "p = plan_of RA_NONE ''job_terminal'' \<or> p = plan_of RA_NONE ''error_state''"
    using decided(6) assms(3) job by (auto simp: decide_def split: if_splits)
  then have act: "pl_action p = RA_NONE" "pl_status p = None" "pl_recovery_state p = None"
    "pl_retry_count p = None" "pl_terminal p = None"
    by (auto simp: plan_of_def)
  have same_id: "lj_id (apply_plan now p proj j) = lj_id j" for proj j
    by (simp add: apply_plan_def stamped_def ended_def delayed_def planned_def split: option.split)
  have "job_row i s' = Some (apply_plan now p (projection_fields (ls_core s) latest obs) job)"
    using decided(7) assms(2) by (simp add: job_row_def write_job_def find_row_update_same same_id)
  moreover have d: "dn_action d = RA_NONE"
    using decided(1) act(1) by (simp add: decision_of_def)
  ultimately show ?thesis
    using act by (auto simp: apply_plan_def stamped_def ended_def delayed_def planned_def given_def
        perform_next_safe_action_def ret_def)
qed simp


end
