(* ===== verification/Supervisor_Watch.thy ===== *)
theory Supervisor_Watch
  imports Supervisor_Safety
begin

text \<open>
  What the supervisor concludes from what it sees of a run: a run that stays unseen is given up after
  boundedly many observations, and an observation of a finished run rests on rows that carry exactly
  the identity that was asked for.
\<close>

section \<open>A run that is not seen\<close>

definition fruitless :: "run_observation \<Rightarrow> bool" where
  "fruitless ob \<longleftrightarrow> ro_status ob \<in> {RS_NOT_FOUND, RS_UNKNOWN, RS_CONFLICT}"

definition gives_up :: "plan \<Rightarrow> bool" where
  "gives_up p \<longleftrightarrow> pl_action p \<in> {RA_MARK_RUN_FAILED, RA_CLOSE_BLOCKED, RA_PERSISTENT_ERROR}"

text \<open>The decisions on a row of observations, each committed before the next.\<close>

fun watch ::
  "env \<Rightarrow> journal \<Rightarrow> snapshot \<Rightarrow> (timestamp \<times> run_observation \<times> projection) list \<Rightarrow>
   (argent_error + plan) list" where
  "watch E jn sn [] = []"
| "watch E jn sn ((now, ob, proj) # os) = (case decide E now jn sn (Some ob) of
     Inl err \<Rightarrow> [Inl err]
   | Inr p \<Rightarrow> Inr p # watch E jn (sn\<lparr>sn_job := apply_plan now p proj (sn_job sn)\<rparr>) os)"

definition watching :: "snapshot \<Rightarrow> role \<Rightarrow> agent_dispatch \<Rightarrow> bool" where
  "watching sn role ad \<longleftrightarrow> lj_terminal (sn_job sn) = None \<and> lj_status (sn_job sn) \<noteq> ''ERROR'' \<and>
     t_state (sn_task sn) \<notin> {DONE, FAILED, CANCELLED, BLOCKED, OWNER_APPROVAL_REQUIRED} \<and>
     sn_open_gates_count sn \<le> 1 \<and> (\<forall>g. sn_gate sn = Some g \<longrightarrow> \<not> approval_active g) \<and>
     wf_expected_role (sn_frontier sn) = Some role \<and> sn_active_dispatch sn = Some ad \<and>
     \<not> off_frontier sn role ad \<and> \<not> unbound ad"

lemma decide_watching:
  "watching sn role ad \<Longrightarrow> decide E now jn sn obs = decide_bound E now jn sn obs role ad"
  by (auto simp: watching_def decide_def decide_gate_def split: option.split)

definition patience :: "loop_job \<Rightarrow> nat" where
  "patience job = nat (7 - lj_missing_confirmations job) + nat (4 - lj_retry_count job)"

lemma backoff_small: "r < 1024 \<Longrightarrow> \<exists>secs. backoff_seconds r = Inr secs"
  by (simp add: backoff_seconds_def)

lemma missing_plan_Inr:
  "lj_retry_count job < 1024 \<Longrightarrow> \<exists>w. missing_plan now job ad reason = Inr
     ((plan_of RA_WAIT reason)\<lparr>pl_dispatch_id := Some (d_id ad), pl_wake_at := Some w, pl_status := Some ''ACTIVE'',
        pl_recovery_state := Some ''DISCOVERING_RUN'',
        pl_retry_count := Some (lj_retry_count job + 1),
        pl_missing_confirmations := Some (lj_missing_confirmations job + 1)\<rparr>)"
  using backoff_small[of "lj_retry_count job"]
  by (auto simp: missing_plan_def after_backoff_def plan_of_def)

lemma bounded_backoff_Inr:
  "lj_retry_count job + 1 < MAX_RUNTIME_UNKNOWN \<Longrightarrow> \<exists>w. bounded_backoff now job ad reason = Inr
     ((plan_of RA_WAIT reason)\<lparr>pl_dispatch_id := Some (d_id ad), pl_wake_at := Some w, pl_status := Some ''BACKOFF'',
           pl_recovery_state := Some ''RUNTIME_UNKNOWN'', pl_retry_count := Some (lj_retry_count job + 1)\<rparr>)"
  using backoff_small[of "lj_retry_count job + 1"]
  by (auto simp: bounded_backoff_def after_backoff_def plan_of_def MAX_RUNTIME_UNKNOWN_def)

lemma fruitless_step:
  assumes "watching sn role ad" "fruitless ob" "lj_retry_count (sn_job sn) < 1024"
  obtains (gives_up) p where "decide E now jn sn (Some ob) = Inr p" "gives_up p"
  | (waits) p where "decide E now jn sn (Some ob) = Inr p"
      "watching (sn\<lparr>sn_job := apply_plan now p proj (sn_job sn)\<rparr>) role ad"
      "patience (apply_plan now p proj (sn_job sn)) < patience (sn_job sn)"
      "lj_retry_count (apply_plan now p proj (sn_job sn)) = lj_retry_count (sn_job sn) + 1"
proof -
  let ?job = "sn_job sn"
  let ?next = "\<lambda>p. apply_plan now p proj ?job"
  have frame: "watching (sn\<lparr>sn_job := ?next p\<rparr>) role ad"
    if "pl_terminal p = None" "pl_status p = Some st" "st \<noteq> ''ERROR''" for p st
    using assms(1) that by (auto simp: watching_def apply_plan_def stamped_def ended_def delayed_def
        planned_def given_def off_frontier_def)
  show thesis
  proof (cases "ro_status ob = RS_NOT_FOUND")
    case True
    show thesis
    proof (cases "lj_missing_confirmations ?job + 1 \<ge> MISSING_BOUND_RUN_CONFIRMATIONS")
      case True
      with \<open>ro_status ob = RS_NOT_FOUND\<close> show thesis
        by (intro gives_up) (auto simp: decide_watching[OF assms(1)] decide_bound_def gives_up_def
            plan_of_def step_plan_def split: if_splits)
    next
      case False
      obtain w where p: "missing_plan now ?job ad ''bound_run_missing'' = Inr
         ((plan_of RA_WAIT ''bound_run_missing'')\<lparr>pl_dispatch_id := Some (d_id ad), pl_wake_at := Some w,
            pl_status := Some ''ACTIVE'', pl_recovery_state := Some ''DISCOVERING_RUN'',
            pl_retry_count := Some (lj_retry_count ?job + 1),
            pl_missing_confirmations := Some (lj_missing_confirmations ?job + 1)\<rparr>)" (is "_ = Inr ?p")
        using missing_plan_Inr[OF assms(3)] by blast
      show thesis
        by (rule waits[of ?p]; (rule frame)?)
          (use False p True in \<open>auto simp: decide_watching[OF assms(1)] decide_bound_def patience_def
            MISSING_BOUND_RUN_CONFIRMATIONS_def apply_plan_def stamped_def ended_def delayed_def planned_def
            given_def plan_of_def\<close>)
    qed
  next
    case False
    have d: "decide E now jn sn (Some ob) =
        bounded_backoff now ?job ad (''adapter_'' @ str_lower (run_status_value (ro_status ob)))" (is "_ = bounded_backoff _ _ _ ?why")
      using False assms(2) by (auto simp: decide_watching[OF assms(1)] decide_bound_def fruitless_def adapter_backoff_def)
    show thesis
    proof (cases "lj_retry_count ?job + 1 < MAX_RUNTIME_UNKNOWN")
      case True
      obtain w where p: "bounded_backoff now ?job ad ?why = Inr
         ((plan_of RA_WAIT ?why)\<lparr>pl_dispatch_id := Some (d_id ad), pl_wake_at := Some w,
            pl_status := Some ''BACKOFF'', pl_recovery_state := Some ''RUNTIME_UNKNOWN'',
            pl_retry_count := Some (lj_retry_count ?job + 1)\<rparr>)" (is "_ = Inr ?p")
        using bounded_backoff_Inr[OF True] by blast
      show thesis
        by (rule waits[of ?p]; (rule frame)?)
          (use True p d in \<open>auto simp: patience_def MAX_RUNTIME_UNKNOWN_def apply_plan_def stamped_def
            ended_def delayed_def planned_def given_def plan_of_def\<close>)
    next
      case False
      with d show thesis
        by (intro gives_up) (auto simp: bounded_backoff_def error_plan_def plan_of_def gives_up_def)
    qed
  qed
qed

text \<open>C16: A run that is bound and then never seen again (not found, unknown or in conflict, in
  any order) is waited for at most \<open>patience\<close> times, eleven from fresh counters; then the
  supervisor gives up: it marks the run as failed, closes the job as blocked or puts it in error.\<close>

theorem unseen_run_is_given_up:
  assumes "watching sn role ad" "list_all (\<lambda>(now, ob, proj). fruitless ob) os"
    and "patience (sn_job sn) < length os" "lj_retry_count (sn_job sn) + int (length os) \<le> 1024"
  shows "\<exists>p. Inr p \<in> set (watch E jn sn os) \<and> gives_up p"
  using assms
proof (induction os arbitrary: sn)
  case (Cons x os)
  obtain now ob proj where x: "x = (now, ob, proj)" by (cases x)
  have "fruitless ob" "lj_retry_count (sn_job sn) < 1024" using Cons.prems x by auto
  with Cons.prems(1) show ?case
  proof (cases rule: fruitless_step[where E = E and now = now and jn = jn and proj = proj])
    case (waits p)
    have "\<exists>q. Inr q \<in> set (watch E jn (sn\<lparr>sn_job := apply_plan now p proj (sn_job sn)\<rparr>) os) \<and> gives_up q"
      by (rule Cons.IH) (use waits Cons.prems x in simp_all)
    with waits(1) x show ?thesis by auto
  qed (auto simp: x)
qed simp

section \<open>What an observation rests on\<close>

lemma first_conflict_None: "first_conflict f rows = None \<longleftrightarrow> (\<forall>r \<in> set rows. f r = None)"
  by (induction rows) (auto split: option.split)

definition identified :: "run_lookup \<Rightarrow> string \<Rightarrow> json_row \<Rightarrow> bool" where
  "identified lk rid r \<longleftrightarrow> py_get r ''runId'' = PStr rid \<and>
     py_get r ''sessionId'' = PStr (lk_expected_session_label lk) \<and>
     py_get r ''sessionKey'' = PStr (session_key_for (lk_agent_id lk) (lk_dispatch_id lk)) \<and>
     py_get (row_data r) ''agentId'' = PStr (lk_agent_id lk) \<and>
     (lk_expected_provider lk = None \<or> py_get r ''provider'' = PStr (the (lk_expected_provider lk))) \<and>
     (lk_expected_model lk = None \<or> py_get r ''modelId'' = PStr (the (lk_expected_model lk)))"

lemma start_identified:
  "start_conflict lk r = None \<Longrightarrow> identified lk (run_id_of r) r"
  by (auto simp: start_conflict_def identified_def run_id_of_def split: if_splits py.splits)

lemma terminal_identified:
  "terminal_conflict lk rid prov model r = None \<Longrightarrow> identified lk rid r"
  by (auto simp: terminal_conflict_def identified_def split: if_splits)

definition evidence :: "run_lookup \<Rightarrow> run_status \<Rightarrow> string \<Rightarrow> json_row list \<Rightarrow> bool" where
  "evidence lk st rid rows \<longleftrightarrow>
     (\<exists>r \<in> set rows. row_type ''session.started'' r) \<and>
     (\<forall>r \<in> set rows. row_type ''session.started'' r \<or> row_type ''session.ended'' r \<longrightarrow> identified lk rid r) \<and>
     lk_bound_run_id lk \<in> {None, Some rid} \<and>
     lk_bound_session_id lk \<in> {None, Some (session_key_for (lk_agent_id lk) (lk_dispatch_id lk))} \<and>
     (st \<noteq> RS_RUNNING \<longrightarrow> (\<exists>r \<in> set rows. row_type ''session.ended'' r)) \<and>
     (\<forall>r \<in> set rows. row_type ''session.ended'' r \<longrightarrow> terminal_status r = st)"

lemma terminal_verdict_Some:
  "terminal_verdict es = Some (st, t) \<Longrightarrow> (st \<noteq> RS_RUNNING \<longrightarrow> es \<noteq> []) \<and> (\<forall>r \<in> set es. terminal_status r = st)"
  by (auto simp: terminal_verdict_def list_all_iff split: list.splits if_splits)

lemma observe_rows_evidence:
  assumes "observe_rows E W lk rows = Inr ob" "ro_status ob \<notin> {RS_UNKNOWN, RS_CONFLICT}"
  shows "\<exists>rid. ro_run_id ob = Some rid \<and> evidence lk (ro_status ob) rid rows"
proof -
  define st where "st = filter (row_type ''session.started'') rows"
  define en where "en = filter (row_type ''session.ended'') rows"
  define rid where "rid = run_id_of (hd st)"
  have empty: "st \<noteq> []" and first: "first_conflict (start_conflict lk) st = None"
    and bound: "bound_conflict lk st (filter (row_type ''trace.metadata'') rows) = None"
    and ended: "first_conflict (terminal_conflict lk rid (py_get (hd st) ''provider'') (py_get (hd st) ''modelId'')) en = None"
    and verdict: "\<exists>t. terminal_verdict en = Some (ro_status ob, t)"
    and ob: "ro_run_id ob = Some rid"
    using assms
    by (auto simp: observe_rows_def Let_def observed_unknown_def observed_conflict_def no_evidence_def
        st_def en_def rid_def split: if_splits option.splits sum.splits)
  have "identified lk rid r" if "r \<in> set st" for r
    using first bound that start_identified[of lk r]
    by (auto simp: first_conflict_None bound_conflict_def Let_def list_all_iff rid_def split: if_splits)
  moreover have "identified lk rid r" if "r \<in> set en" for r
    using ended that terminal_identified by (auto simp: first_conflict_None)
  moreover have "lk_bound_run_id lk \<in> {None, Some rid}"
      "lk_bound_session_id lk \<in> {None, Some (session_key_for (lk_agent_id lk) (lk_dispatch_id lk))}"
    using bound by (auto simp: bound_conflict_def Let_def rid_def split: if_splits)
  moreover have "\<exists>r \<in> set rows. row_type ''session.started'' r"
    using empty by (auto simp: st_def filter_empty_conv)
  ultimately show ?thesis
    using verdict terminal_verdict_Some ob unfolding evidence_def
    by (fastforce simp: st_def en_def filter_empty_conv)
qed

text \<open>C18: A finished run is reported only on evidence: there is a trajectory that decodes, in
  which every start and every end row carries the run id, the session label and key, the agent and the
  expected provider and model, the run and session are those the dispatch is bound to, and every end
  row says the status that is reported.\<close>

theorem observation_has_evidence:
  assumes "observe E W lk = Inr ob" "ro_status ob \<in> {RS_SUCCEEDED, RS_FAILED, RS_CANCELLED}"
  shows "\<exists>raw rows rid. sf_trajectory W = Some (Some raw) \<and> decode_rows E (split_lines raw) = Inr rows \<and>
    ro_run_id ob = Some rid \<and> evidence lk (ro_status ob) rid rows"
  using assms observe_rows_evidence[of E W lk _ ob]
  by (auto simp: observe_def observed_unknown_def no_evidence_def split: if_splits option.splits sum.splits)







section \<open>Examples\<close>

theorem spawn_planned_once_witness:
  "\<exists>p. decide quiet_env 5 (snd (begin_action quiet_env ''supervisor:dispatch:d1:spawn'' ''SPAWN_RUN'' ''j''
        (Some ''d1'') '''' 1 no_hashes empty_journal))
      (sample_snap IMPLEMENTER (sample_dispatch ''d2'' IMPLEMENTER DS_PENDING 3)) (Some (sample_seen RS_NOT_FOUND)) = Inr p \<and>
     pl_action p = RA_SPAWN_RUN \<and> pl_dispatch_id p \<noteq> Some ''d1''"
proof -
  let ?key = "''supervisor:dispatch:'' @ ''d1'' @ '':spawn''"
  let ?m = "begin_action quiet_env ?key ''SPAWN_RUN'' ''j'' (Some ''d1'') '''' 1 no_hashes empty_journal"
  let ?sn = "sample_snap IMPLEMENTER (sample_dispatch ''d2'' IMPLEMENTER DS_PENDING 3)"
  let ?p = "step_plan RA_SPAWN_RUN ''spawn_run'' (sample_dispatch ''d2'' IMPLEMENTER DS_PENDING 3) ''DISCOVERING_RUN''"
  have m: "?m = (Inr (projr (fst ?m)), snd ?m)" by code_simp
  have d: "decide quiet_env 5 (run_journal quiet_env [] (snd ?m)) ?sn (Some (sample_seen RS_NOT_FOUND)) = Inr ?p"
    by code_simp
  have "pl_action ?p = RA_SPAWN_RUN" by (simp add: step_plan_def plan_of_def)
  with spawn_planned_once[OF d this m] d show ?thesis by simp
qed

definition applied :: journal where
  "applied = snd (begin_apply_action quiet_env ''k1'' ''j'' ''d2'' '''' ''args'' 2 no_hashes empty_journal)"

theorem applied_result_consumed_witness:
  "\<exists>p. decide quiet_env 5 (run_journal quiet_env [J_Finish ''k1'' ''SUCCEEDED'' None 3] applied)
      (sample_snap IMPLEMENTER (sample_dispatch ''d2'' IMPLEMENTER DS_RUNNING 3))
      (Some (sample_seen RS_SUCCEEDED)) = Inr p \<and> pl_action p = RA_RUN_SANDBOX_TESTS \<and>
    action_succeeded ''d2'' ''APPLY_PATCH_SET'' (run_journal quiet_env [J_Finish ''k1'' ''SUCCEEDED'' None 3] applied)"
proof -
  let ?ad = "sample_dispatch ''d2'' IMPLEMENTER DS_RUNNING 3"
  let ?m = "begin_apply_action quiet_env ''k1'' ''j'' (d_id ?ad) '''' ''args'' 2 no_hashes empty_journal"
  let ?p = "step_plan RA_RUN_SANDBOX_TESTS ''run_sandbox_tests'' ?ad ''CONSUMING_RESULT''"
  have id: "d_id ?ad = ''d2''" by (simp add: sample_dispatch_def)
  have m: "?m = (Inr (False, '''', ''k1'', snd (snd (snd (projr (fst ?m))))), applied)"
    unfolding applied_def id by code_simp
  have d: "decide quiet_env 5 (run_journal quiet_env [J_Finish ''k1'' ''SUCCEEDED'' None 3] applied)
      (sample_snap IMPLEMENTER ?ad) (Some (sample_seen RS_SUCCEEDED)) = Inr ?p"
    by code_simp
  have "pl_action ?p = RA_RUN_SANDBOX_TESTS" "sn_active_dispatch (sample_snap IMPLEMENTER ?ad) = Some ?ad"
    "is_write_role (d_role ?ad)"
    by (simp_all add: step_plan_def plan_of_def sample_snap_def sample_dispatch_def is_write_role_def)
  with applied_result_consumed[OF m d, unfolded id] d show ?thesis by auto
qed

theorem unseen_run_is_given_up_witness:
  "\<exists>p. Inr p \<in> set (watch quiet_env empty_journal
      (sample_snap IMPLEMENTER (sample_dispatch ''d2'' IMPLEMENTER DS_RUNNING 3))
      (replicate 12 (0, sample_seen RS_NOT_FOUND, sample_projection))) \<and> gives_up p"
proof -
  have "watching (sample_snap IMPLEMENTER (sample_dispatch ''d2'' IMPLEMENTER DS_RUNNING 3)) IMPLEMENTER
      (sample_dispatch ''d2'' IMPLEMENTER DS_RUNNING 3)"
    by (simp add: watching_def sample_snap_def sample_job_def sample_task_def sample_dispatch_def
        off_frontier_def unbound_def)
  moreover have "fruitless (sample_seen RS_NOT_FOUND)"
    by (simp add: fruitless_def sample_seen_def no_evidence_def)
  ultimately show ?thesis
    by (intro unseen_run_is_given_up)
      (simp_all add: patience_def sample_snap_def sample_job_def list_all_length)
qed

definition sample_state :: "string \<Rightarrow> loop_state" where
  "sample_state status = \<lparr>ls_core = empty_core\<lparr>db_tasks := [sample_task]\<rparr>, ls_journal = empty_journal,
     ls_jobs = [sample_job status]\<rparr>"

definition sample_facts :: "string \<Rightarrow> snapshot" where
  "sample_facts status = the (facts_of quiet_env (sample_job status) (sample_state status))"

theorem reconcile_decides_on_current_facts_witness:
  "\<exists>d s'. reconcile quiet_env \<lparr>su_provider = (\<lambda>_ _. Inl TypeError), su_others = (\<lambda>_ s. s)\<rparr> (Some (''me'', 1)) 5 ''j''
      (sample_state ''ACTIVE'') = (Inr d, s') \<and> dn_action d = RA_START_ROLE \<and>
    (\<exists>s1. decided_on quiet_env \<lparr>su_provider = (\<lambda>_ _. Inl TypeError), su_others = (\<lambda>_ s. s)\<rparr> (Some (''me'', 1)) 5 ''j''
       d s1 s')"
proof -
  let ?r = "reconcile quiet_env \<lparr>su_provider = (\<lambda>_ _. Inl TypeError), su_others = (\<lambda>_ s. s)\<rparr> (Some (''me'', 1)) 5
    ''j'' (sample_state ''ACTIVE'')"
  have r: "?r = (Inr (projr (fst ?r)), snd ?r)" by code_simp
  have a: "dn_action (projr (fst ?r)) = RA_START_ROLE" by code_simp
  have "\<exists>s1. decided_on quiet_env \<lparr>su_provider = (\<lambda>_ _. Inl TypeError), su_others = (\<lambda>_ s. s)\<rparr> (Some (''me'', 1)) 5 ''j''
      (projr (fst ?r)) s1 (snd ?r)"
    using reconcile_decides_on_current_facts[OF r] unfolding a by simp
  with r a show ?thesis by blast
qed

theorem sticky_job_inert_witness:
  "\<exists>d s'. commit quiet_env (Some (''me'', 1)) 5 ''j'' (sample_facts ''ERROR'') None (sample_state ''ERROR'') =
      (Inr (Some d), s') \<and> dn_action d = RA_NONE"
proof -
  let ?r = "commit quiet_env (Some (''me'', 1)) 5 ''j'' (sample_facts ''ERROR'') None (sample_state ''ERROR'')"
  have r: "?r = (Inr (Some (the (projr (fst ?r)))), snd ?r)" by code_simp
  have "job_row ''j'' (sample_state ''ERROR'') = Some (sample_job ''ERROR'')" by code_simp
  moreover have "lj_status (sample_job ''ERROR'') = ''ERROR''" by code_simp
  ultimately show ?thesis using sticky_job_inert[OF r] r by blast
qed

text \<open>A trajectory of two rows.\<close>

definition sample_row :: "string \<Rightarrow> py \<Rightarrow> py" where
  "sample_row ty status = PDict [(''type'', PStr ty), (''sessionId'', PStr ''dispatch-d2''),
     (''runId'', PStr ''r''), (''sessionKey'', PStr ''agent:argent-implementer:explicit:dispatch-d2''),
     (''provider'', PStr ''deepseek''), (''modelId'', PStr ''m''),
     (''data'', PDict [(''agentId'', PStr ''argent-implementer''), (''status'', status)])]"

definition sample_trajectory :: session_files where
  "sample_trajectory = \<lparr>sf_dir_exists = True, sf_trajectory_path = ''t'',
     sf_trajectory = Some (Some [CHR ''s'', CHR 0x0A, CHR ''e'']), sf_active = False, sf_session_name = ''n'',
     sf_session_text = (\<lambda>_. None), sf_parse_iso = (\<lambda>_. None), sf_parse_float = (\<lambda>_. None)\<rparr>"

definition reading_env :: env where
  "reading_env = quiet_env\<lparr>env_loads := (\<lambda>t. if t = ''s'' then Some (sample_row ''session.started'' PNone)
     else if t = ''e'' then Some (sample_row ''session.ended'' (PStr ''success'')) else None)\<rparr>"

theorem observation_has_evidence_witness:
  "\<exists>ob rows. observe reading_env sample_trajectory sample_lookup = Inr ob \<and> ro_status ob = RS_SUCCEEDED \<and>
     evidence sample_lookup RS_SUCCEEDED ''r'' rows"
proof -
  let ?o = "observe reading_env sample_trajectory sample_lookup"
  have o: "?o = Inr (projr ?o)" by code_simp
  have st: "ro_status (projr ?o) = RS_SUCCEEDED" and rid: "ro_run_id (projr ?o) = Some ''r''" by code_simp+
  from observation_has_evidence[OF o] st rid o show ?thesis by auto
qed

end
