(* ===== verification/Spec2Isabelle.thy ===== *)
theory Spec2Isabelle
  imports Router_Demo Core_Authority Core_Integrity Core_Dispatch_Life Core_Properties Outputs Job_State
    Lease_Locks Concurrency Supervisor_Watch
begin

text \<open>
  \<^bold>\<open>The program.\<close>  Argent runs a team of agents (lead, analyst, implementer, QA, reviewer) on
  development tasks.  \<open>src/argent_core/core.py\<close> is the single controller: every change of a task,
  of a role run, of an owner approval or of an agent dispatch is one of its commands, which checks
  who is asking, runs in one SQLite transaction of \<open>store.py\<close>, logs events and replays a command
  with a known idempotency key instead of running it twice.  What the commands may do is decided by
  small pure modules: the transition table, the permission matrix, the action classes, the model
  policy, the workflow sequences, the schema of an agent's output and the privacy filter of events.
  Several supervisors may run beside each other.  Each task has a job; a supervisor works on a job
  only while it holds its lease (an owner, an expiry and an epoch that grows at every claim), and
  \<open>store.py\<close> arbitrates between them by compare-and-set: leases, named action locks, external waits,
  integration candidates, requests to external systems, the recovery of a failed process.

  \<^bold>\<open>How the model is laid out.\<close>  A command is a function of type \<open>core \<Rightarrow> (argent_error + entity) \<times> core\<close>:
  the record \<open>core\<close> holds one list of rows per SQL table and two counters for the calls of the
  clock and of \<open>uuid4\<close>; every \<open>raise\<close> is an \<open>Inl\<close>.  \<open>atomically\<close> is the transaction, which on
  an exception restores everything but the two counters.  What lies outside the repository is the
  record \<open>env\<close>: clock, uuid stream, SHA-256, the json codec, \<open>str\<close> of a non-string and the
  injected model registry.  It is a parameter of every definition and nothing is assumed of it.

  \<^item> \<open>Prelude\<close>: rows and tables (\<open>find_row\<close>, \<open>update_rows\<close>, \<open>unique_keys\<close>), the exception state
    monad, and three ways to reason about it: relations of one step (\<open>steps\<close>), frames (\<open>keeps\<close>)
    and weakest preconditions (\<open>wp\<close>), each with its rules in a named collection.
  \<^item> \<open>Models\<close> (\<open>models.py\<close>), \<open>Runtime\<close> (the environment, Python's string methods,
    \<open>ModelRegistry.validate_identity\<close>), \<open>Events\<close> (\<open>events.py\<close>), \<open>Task_Machine\<close>
    (\<open>state_machine.py\<close>, \<open>recovery.py\<close>), \<open>Workflow\<close> (\<open>workflow.py\<close>), \<open>Policy\<close> (\<open>trust.py\<close>,
    \<open>roles.py\<close>, \<open>gates.py\<close>, \<open>routing.py\<close>), \<open>Outputs\<close> (\<open>outputs.py\<close>), \<open>Job_State\<close>
    (\<open>job_state.py\<close> and \<open>classify_attempt\<close> of \<open>model_router.py\<close>): the pure modules.
  \<^item> \<open>Core_Store\<close>: the tables \<open>core.py\<close> uses, their constraints and unique indexes, and every SQL
    statement as one definition.  \<open>Core_Base\<close>: guards, events, \<open>_apply_transition\<close>,
    \<open>_idempotent\<close>, \<open>_refetch\<close>, the workflow frontier.  \<open>Core_Tasks\<close>, \<open>Core_Gates\<close>,
    \<open>Core_Dispatch\<close>, \<open>Core_Orchestration\<close>: the commands, in the order of \<open>core.py\<close>.
  \<^item> \<open>Core_Machine\<close>: the datatype of all commands, \<open>run_command\<close>, \<open>reachable\<close> databases.

  \<^item> \<open>Lease_Store\<close>, \<open>Lease_Ops\<close>, \<open>Lease_Waits\<close>, \<open>Revision_Rows\<close> (\<open>store.py\<close>): the record \<open>leases\<close>
    holds the tables of the jobs and of what hangs on them, \<open>transaction\<close> is \<open>Store._transaction\<close>
    with the armed action fence, \<open>transition_job\<close> is \<open>_transition_job\<close>, then one definition per
    operation.  \<open>Resource_Recovery\<close>: \<open>resource_failure.py\<close> and \<open>resource_recovery.py\<close>.
  \<^item> \<open>Lease_Machine\<close>: \<open>create_job\<close> and the projection writes of \<open>supervisor.py\<close>, the datatype of all
    lease commands and \<open>run_leases\<close>.  A step is a command of one process together with the fence
    armed in that process, so a list of steps is an interleaving of the supervisors.

  \<^bold>\<open>What is proved.\<close>  \<open>Core_Tables\<close> states what each statement guarantees as the locale
  \<open>statement_relation\<close>, lifts it to every command, and interprets it for the table constraints and
  for the persistence of rows; \<open>Core_Integrity\<close> interprets it again for the foreign keys and the
  privacy of the event log.  \<open>Core_Safety\<close> and \<open>Core_Lifecycle\<close> show that every command, \<open>recover()\<close>
  included, moves every task along the transition table (\<open>Task_Machine\<close> proves the table equal to
  an inductive step relation); \<open>Core_Authority\<close> that no gated action is executed without its own
  untampered, unexpired approval; \<open>Core_Dispatch_Life\<close> that every dispatch follows its status
  machine and only a result of the run it was bound to is consumed, once.  The properties quantify
  over all reachable databases and all further sequences of commands, failing ones included; the
  witnesses run concrete commands from the empty database.
  On the lease side \<open>Lease_Safety\<close> relates the two ends of every command, \<open>Lease_Tables\<close> states
  what the statements guarantee as the locale \<open>lease_statements\<close> and interprets it for the
  constraints of the tables and for what is never lost or undone.  From these, \<open>Lease_Properties\<close>
  shows that a lost lease stays lost, that a stale holder is refused everywhere and what the life of
  a job is; \<open>Lease_Ledgers\<close> the revision compare-and-set, the exactly-once recovery and the action
  fence; \<open>Lease_Locks\<close> mutual exclusion of the locks and that a wait wakes its job once.

  \<^bold>\<open>Bounds.\<close>  Nothing needs fuel: every loop of the modelled code runs over a finite list and is
  structural recursion.  Timestamps and counters are unbounded integers, as in Python and, up to 64
  bits, in SQLite.

  \<^bold>\<open>Not modelled.\<close>  The read-only queries of \<open>core.py\<close> that no command uses, the context snapshot,
  and the modules listed as such in the manifest.  Concurrent writers: SQLite serialises the
  transactions, so a run of the program is a sequence of commands.  The core's commands are modelled
  for a process with no armed action fence; the fence is part of the lease machine.  The lease
  properties that compare times assume that the readings of the clock do not go backwards.
\<close>

end
